(* ===== verification/Antsd_Prelude.thy ===== *)
theory Antsd_Prelude
  imports Main "HOL-Library.Char_ord" "HOL-Library.List_Lexorder" "HOL-Library.Multiset"
begin

text \<open>
  What every component of the model shares: the Go values the daemon computes with (strings as
  byte lists ordered lexicographically, instants and durations in nanoseconds), the few
  functions of the Go standard library the sources call on them, and the generic lemmas about
  lists and sorting the component theories rest on.

  Instants are counted from the zero \<open>time.Time\<close>, so the zero value is the integer \<open>0\<close> and
  \<open>IsZero\<close> is a comparison with it.
\<close>

named_theorems frame \<open>what an operation leaves unchanged\<close>
named_theorems view_simps \<open>definitions of the predicates that read one membership view\<close>

subsection \<open>Instants and durations\<close>

type_synonym time = int
type_synonym duration = int
type_synonym error = string

abbreviation (input) zero_time :: time where
  "zero_time \<equiv> 0"

definition isZero :: "time \<Rightarrow> bool" where
  "isZero t \<longleftrightarrow> t = zero_time"

definition second :: duration where
  "second = 1000000000"

definition minute :: duration where
  "minute = 60 * second"

definition hour :: duration where
  "hour = 60 * minute"

definition max_duration :: duration where
  "max_duration = 2 ^ 63 - 1"

definition min_duration :: duration where
  "min_duration = - (2 ^ 63)"

text \<open>The arithmetic of Go's \<open>int\<close>, 64 bits on every target of the daemon.\<close>

definition wrap_int :: "int \<Rightarrow> int" where
  "wrap_int x = (x + 2 ^ 63) mod 2 ^ 64 - 2 ^ 63"

lemma wrap_int_id: "- (2 ^ 63) \<le> x \<Longrightarrow> x < 2 ^ 63 \<Longrightarrow> wrap_int x = x"
  by (simp add: wrap_int_def)

lemma wrap_int_range: "- (2 ^ 63) \<le> wrap_int x" "wrap_int x < 2 ^ 63"
  by (simp_all add: wrap_int_def)

text \<open>\<open>Time.Sub\<close> saturates at the ends of the 64-bit \<open>Duration\<close>.\<close>

definition time_sub :: "time \<Rightarrow> time \<Rightarrow> duration" where
  "time_sub a b = max min_duration (min max_duration (a - b))"

lemma time_sub_exact [simp]:
  "min_duration \<le> a - b \<Longrightarrow> a - b \<le> max_duration \<Longrightarrow> time_sub a b = a - b"
  by (simp add: time_sub_def)

subsection \<open>Slices\<close>

text \<open>\<open>slices.Index\<close>: the first position of a value, \<open>-1\<close> when it is absent.\<close>

fun slices_Index :: "'a list \<Rightarrow> 'a \<Rightarrow> int" where
  "slices_Index [] v = -1"
| "slices_Index (x # xs) v =
     (if x = v then 0
      else let i = slices_Index xs v in if i < 0 then -1 else i + 1)"

lemma slices_Index_absent: "v \<notin> set xs \<Longrightarrow> slices_Index xs v = -1"
  by (induction xs) (auto simp: Let_def)

lemma slices_Index_nonneg: "v \<in> set xs \<Longrightarrow> 0 \<le> slices_Index xs v"
  by (induction xs) (auto simp: Let_def)

lemma slices_Index_neg_iff: "slices_Index xs v < 0 \<longleftrightarrow> v \<notin> set xs"
  using slices_Index_absent [of v xs] slices_Index_nonneg [of v xs] by force

text \<open>In a sorted slice the position of a value counts the smaller elements.\<close>

lemma slices_Index_sorted:
  fixes v :: "'a::linorder"
  assumes "sorted xs" and "v \<in> set xs"
  shows "slices_Index xs v = int (length (filter (\<lambda>y. y < v) xs))"
  using assms
proof (induction xs)
  case Nil
  then show ?case by simp
next
  case (Cons x xs)
  show ?case
  proof (cases "x = v")
    case True
    with Cons.prems have "filter (\<lambda>y. y < v) (x # xs) = []"
      by (auto simp: filter_empty_conv)
    with True show ?thesis by simp
  next
    case False
    with Cons.prems have "v \<in> set xs" and "x < v" by auto
    with Cons show ?thesis
      using slices_Index_nonneg [of v xs] by (simp add: Let_def)
  qed
qed

lemma filter_sort_length: "length (filter P (sort xs)) = length (filter P xs)"
  by (metis mset_filter mset_sort size_mset)

lemma slices_Index_sort:
  fixes v :: "'a::linorder"
  assumes "v \<in> set xs"
  shows "slices_Index (sort xs) v = int (length (filter (\<lambda>y. y < v) xs))"
  using assms by (simp add: slices_Index_sorted filter_sort_length)

lemma length_filter_less_mono:
  fixes a b :: "'a::linorder"
  assumes "a < b" and "a \<in> set xs"
  shows "length (filter (\<lambda>y. y < a) xs) < length (filter (\<lambda>y. y < b) xs)"
  using assms
proof (induction xs)
  case Nil
  then show ?case by simp
next
  case (Cons x xs)
  have le: "length (filter (\<lambda>y. y < a) ys) \<le> length (filter (\<lambda>y. y < b) ys)" for ys
    using Cons.prems(1) by (induction ys) auto
  show ?case using Cons le [of xs] by auto
qed

subsection \<open>First match and folds over a slice\<close>

text \<open>
  The Go loops that return on the first element of a kind are \<open>find\<close>; those that keep the best
  element so far are folds, whose invariant is a fact about the elements already visited.
\<close>

lemma foldl_invariant:
  assumes "I [] a"
    and "\<And>ys y b. I ys b \<Longrightarrow> I (ys @ [y]) (f b y)"
  shows "I xs (foldl f a xs)"
  using assms by (induction xs rule: rev_induct) auto

lemma filter_eq_take:
  assumes "\<And>x. x \<in> set (take k xs) \<Longrightarrow> P x" and "\<And>x. x \<in> set (drop k xs) \<Longrightarrow> \<not> P x"
  shows "filter P xs = take k xs"
proof -
  have "filter P xs = filter P (take k xs) @ filter P (drop k xs)"
    by (metis append_take_drop_id filter_append)
  also have "\<dots> = take k xs" using assms by (simp add: filter_id_conv filter_empty_conv)
  finally show ?thesis .
qed

lemma length_filter_count_le:
  "(\<And>x. x \<in> set xs \<Longrightarrow> P x \<Longrightarrow> Q x) \<Longrightarrow> length (filter P xs) \<le> length (filter Q xs)"
  by (induction xs) (auto simp: le_SucI)

subsection \<open>Letter case\<close>

definition to_lower :: "char \<Rightarrow> char" where
  "to_lower c =
    (if CHR ''A'' \<le> c \<and> c \<le> CHR ''Z'' then char_of ((of_char c :: nat) + 32) else c)"

text \<open>\<open>strings.ToLower\<close>, on ASCII.\<close>

definition ToLower :: "string \<Rightarrow> string" where
  "ToLower s = map to_lower s"

lemma ToLower_idem [simp]: "ToLower (ToLower s) = ToLower s"
proof -
  have "to_lower (to_lower c) = to_lower c" for c
    by (cases "CHR ''A'' \<le> c \<and> c \<le> CHR ''Z''") (auto simp: to_lower_def less_eq_char_def)
  then show ?thesis by (simp add: ToLower_def)
qed

subsection \<open>Spaces around a text\<close>

text \<open>The characters \<open>bytes.TrimSpace\<close> and \<open>strings.TrimSpace\<close> trim in ASCII; the other spaces of Unicode are left out.\<close>

definition is_space :: "char \<Rightarrow> bool" where
  "is_space c \<longleftrightarrow> c \<in> {CHR 0x09, CHR 0x0A, CHR 0x0B, CHR 0x0C, CHR 0x0D, CHR '' ''}"

definition TrimSpace :: "string \<Rightarrow> string" where
  "TrimSpace s = rev (dropWhile is_space (rev (dropWhile is_space s)))"

lemma TrimSpace_length: "length (TrimSpace s) \<le> length s"
  unfolding TrimSpace_def by (metis length_dropWhile_le length_rev order_trans)

end
