(* ===== verification/Node_State.thy ===== *)
theory Node_State
  imports Antsd_Prelude
begin

text \<open>
  The lifecycle state of a node, \<open>antsd/internal/node/state.go\<close>. \<open>State\<close> is a Go string type: the
  constants are the constructors, and any other string (a tag written by another version of the
  daemon, or a missing tag) is \<open>StateUnknown\<close>. \<open>state_string\<close> is the conversion \<open>string(s)\<close>,
  \<open>state_of\<close> the conversion \<open>node.State(tag)\<close>.
\<close>

datatype node_state =
    StateStarting
  | StateDiscovering
  | StateBootstrapConfirm
  | StateBootstrapWaiting
  | StateBootstrapInstallInit
  | StateBootstrapInstallServer
  | StateBootstrapInstallAgent
  | StateBootstrapFailed
  | StateJoiningWaiting
  | StateJoiningCleanup
  | StateJoiningAgent
  | StateJoiningFailed
  | StateRejoinCluster
  | StateRejoinFailed
  | StateRescaleCoordinating
  | StateRescalePromoting
  | StateRescaleDemoting
  | StateRescaleFailed
  | StateStableServer
  | StateStableAgent
  | StateUnknown string

fun state_string :: "node_state \<Rightarrow> string" where
  "state_string StateStarting = ''starting''"
| "state_string StateDiscovering = ''fb_discovering''"
| "state_string StateBootstrapConfirm = ''fb_bootstrap_confirm''"
| "state_string StateBootstrapWaiting = ''fb_bootstrap_waiting''"
| "state_string StateBootstrapInstallInit = ''fb_bootstrap_install_init''"
| "state_string StateBootstrapInstallServer = ''fb_bootstrap_install_servers''"
| "state_string StateBootstrapInstallAgent = ''fb_bootstrap_install_agent''"
| "state_string StateBootstrapFailed = ''fb_bootstrap_failed''"
| "state_string StateJoiningWaiting = ''fb_joining_waiting''"
| "state_string StateJoiningCleanup = ''fb_joining_cleanup''"
| "state_string StateJoiningAgent = ''fb_joining_agent''"
| "state_string StateJoiningFailed = ''fb_joining_failed''"
| "state_string StateRejoinCluster = ''rejoin_cluster''"
| "state_string StateRejoinFailed = ''rejoin_failed''"
| "state_string StateRescaleCoordinating = ''rescale_coordinating''"
| "state_string StateRescalePromoting = ''rescale_promoting''"
| "state_string StateRescaleDemoting = ''rescale_demoting''"
| "state_string StateRescaleFailed = ''rescale_failed''"
| "state_string StateStableServer = ''stable_server''"
| "state_string StateStableAgent = ''stable_agent''"
| "state_string (StateUnknown s) = s"

definition known_states :: "node_state list" where
  "known_states =
    [StateStarting, StateDiscovering, StateBootstrapConfirm, StateBootstrapWaiting,
     StateBootstrapInstallInit, StateBootstrapInstallServer, StateBootstrapInstallAgent,
     StateBootstrapFailed, StateJoiningWaiting, StateJoiningCleanup, StateJoiningAgent,
     StateJoiningFailed, StateRejoinCluster, StateRejoinFailed, StateRescaleCoordinating,
     StateRescalePromoting, StateRescaleDemoting, StateRescaleFailed, StateStableServer,
     StateStableAgent]"

definition state_of :: "string \<Rightarrow> node_state" where
  "state_of tag =
    (case find (\<lambda>s. state_string s = tag) known_states of
       Some s \<Rightarrow> s
     | None \<Rightarrow> StateUnknown tag)"

text \<open>A constant of the source, as opposed to some other string.\<close>

definition is_known :: "node_state \<Rightarrow> bool" where
  "is_known s \<longleftrightarrow> s \<in> set known_states"

fun IsFirstBoot :: "node_state \<Rightarrow> bool" where
  "IsFirstBoot StateDiscovering = True"
| "IsFirstBoot StateBootstrapConfirm = True"
| "IsFirstBoot StateBootstrapWaiting = True"
| "IsFirstBoot StateBootstrapInstallInit = True"
| "IsFirstBoot StateBootstrapInstallServer = True"
| "IsFirstBoot StateBootstrapInstallAgent = True"
| "IsFirstBoot StateBootstrapFailed = True"
| "IsFirstBoot StateJoiningWaiting = True"
| "IsFirstBoot StateJoiningCleanup = True"
| "IsFirstBoot StateJoiningAgent = True"
| "IsFirstBoot StateJoiningFailed = True"
| "IsFirstBoot _ = False"

fun InCluster :: "node_state \<Rightarrow> bool" where
  "InCluster StateStableServer = True"
| "InCluster StateStableAgent = True"
| "InCluster StateRejoinCluster = True"
| "InCluster StateRejoinFailed = True"
| "InCluster StateRescaleCoordinating = True"
| "InCluster StateRescalePromoting = True"
| "InCluster StateRescaleDemoting = True"
| "InCluster StateRescaleFailed = True"
| "InCluster _ = False"

subsection \<open>Tags and states\<close>

lemma state_string_state_of [simp]: "state_string (state_of tag) = tag"
  by (auto simp: state_of_def find_Some_iff split: option.split)

lemma state_of_known: "is_known s \<Longrightarrow> state_of (state_string s) = s"
  by (cases s) (simp_all add: is_known_def known_states_def state_of_def)

lemma is_known_simps [simp]:
  "is_known StateStarting" "is_known StateDiscovering" "is_known StateBootstrapConfirm"
  "is_known StateBootstrapWaiting" "is_known StateBootstrapInstallInit"
  "is_known StateBootstrapInstallServer" "is_known StateBootstrapInstallAgent"
  "is_known StateBootstrapFailed" "is_known StateJoiningWaiting" "is_known StateJoiningCleanup"
  "is_known StateJoiningAgent" "is_known StateJoiningFailed" "is_known StateRejoinCluster"
  "is_known StateRejoinFailed" "is_known StateRescaleCoordinating"
  "is_known StateRescalePromoting" "is_known StateRescaleDemoting" "is_known StateRescaleFailed"
  "is_known StateStableServer" "is_known StateStableAgent" "\<not> is_known (StateUnknown t)"
  by (simp_all add: is_known_def known_states_def)

lemma is_known_iff: "is_known s \<longleftrightarrow> (\<forall>t. s \<noteq> StateUnknown t)"
  by (cases s) auto

lemma tag_eq_iff: "is_known s \<Longrightarrow> tag = state_string s \<longleftrightarrow> state_of tag = s"
  using state_of_known state_string_state_of by metis

lemma known_state_of_first_boot: "IsFirstBoot s \<Longrightarrow> is_known s"
  by (cases s) auto

lemma known_state_of_in_cluster: "InCluster s \<Longrightarrow> is_known s"
  by (cases s) auto

lemma in_cluster_not_first_boot: "InCluster s \<Longrightarrow> \<not> IsFirstBoot s"
  by (cases s) auto

text \<open>
  Reading back the Serf tag a node wrote gives the state it was in, for every state of the
  program, and the two predicates the other nodes apply to it never both hold: a member is
  either still on its first boot or already in a cluster, \<open>starting\<close> and foreign tags being
  neither.
\<close>

theorem state_tag_faithful:
  "state_string (state_of tag) = tag \<and>
   (is_known s \<longrightarrow> state_of (state_string s) = s \<and>
     (IsFirstBoot s \<longleftrightarrow> \<not> InCluster s \<and> s \<noteq> StateStarting)) \<and>
   (\<not> is_known (state_of tag) \<longrightarrow> \<not> IsFirstBoot (state_of tag) \<and> \<not> InCluster (state_of tag))"
proof (intro conjI impI)
  assume "is_known s"
  then show "state_of (state_string s) = s" by (rule state_of_known)
next
  assume "is_known s"
  then show "IsFirstBoot s \<longleftrightarrow> \<not> InCluster s \<and> s \<noteq> StateStarting" by (cases s) simp_all
qed (auto dest: known_state_of_first_boot known_state_of_in_cluster)

theorem state_tag_faithful_witness:
  "state_of (state_string StateJoiningCleanup) = StateJoiningCleanup \<and>
   IsFirstBoot StateJoiningCleanup \<and> \<not> is_known (state_of ''something-else'') \<and>
   \<not> InCluster (state_of ''something-else'')"
proof -
  have "\<not> is_known (state_of ''something-else'')"
    by (simp add: state_of_def known_states_def)
  then show ?thesis
    using state_tag_faithful [where s = StateJoiningCleanup and tag = "''something-else''"]
    by simp
qed

end
