(* ===== verification/Membership.thy ===== *)
theory Membership
  imports Node_State
begin

text \<open>
  The membership data the daemon's parts exchange: \<open>Member\<close>, \<open>Tag\<close> and \<open>Snapshot\<close> of
  \<open>antsd/internal/admin/server.go\<close>. A Go map of tags is an association list whose keys are
  distinct (\<open>wf_tags\<close>); reading a missing key gives the empty string, as in Go.
\<close>

record member =
  Name :: string
  IP :: string
  Status :: string
  Tags :: "(string \<times> string) list"

record tag =
  Key :: string
  Value :: string

record Snapshot =
  CollectedAt :: time
  NodeName :: string
  Available :: bool
  Members :: "member list"

definition emptyMember :: member where
  "emptyMember = \<lparr>Name = '''', IP = '''', Status = '''', Tags = []\<rparr>"

definition tag_get :: "(string \<times> string) list \<Rightarrow> string \<Rightarrow> string" where
  "tag_get tags k = (case map_of tags k of Some v \<Rightarrow> v | None \<Rightarrow> '''')"

definition wf_tags :: "(string \<times> string) list \<Rightarrow> bool" where
  "wf_tags tags \<longleftrightarrow> distinct (map fst tags)"

text \<open>The key of the lifecycle tag, \<open>stateTag\<close>.\<close>

definition stateTag :: string where
  "stateTag = ''state''"

definition OtherTags :: "member \<Rightarrow> tag list" where
  "OtherTags m =
    sort_key Key (map (\<lambda>(key, value). \<lparr>Key = key, Value = value\<rparr>)
      (filter (\<lambda>(key, value). key \<noteq> stateTag) (Tags m)))"

text \<open>The lifecycle state a member advertises, \<open>node.State(member.Tags["state"])\<close>.\<close>

definition member_state :: "member \<Rightarrow> node_state" where
  "member_state m = state_of (tag_get (Tags m) ''state'')"

lemma emptyMember_simps [simp]:
  "Name emptyMember = ''''" "IP emptyMember = ''''" "Status emptyMember = ''''" "Tags emptyMember = []"
  by (simp_all add: emptyMember_def)

lemma member_state_tag_iff:
  "is_known s \<Longrightarrow> tag_get (Tags m) ''state'' = state_string s \<longleftrightarrow> member_state m = s"
  by (simp add: member_state_def tag_eq_iff)

lemma set_OtherTags:
  "set (OtherTags m) = {\<lparr>Key = k, Value = v\<rparr> |k v. (k, v) \<in> set (Tags m) \<and> k \<noteq> stateTag}"
  by (auto simp: OtherTags_def)

lemma sorted_OtherTags: "sorted (map Key (OtherTags m))"
  by (simp add: OtherTags_def)

lemma distinct_map_sort_key: "distinct (map k (sort_key k xs)) \<longleftrightarrow> distinct (map k xs)"
proof -
  have "mset (map k (sort_key k xs)) = mset (map k xs)" by simp
  then show ?thesis by (rule mset_eq_imp_distinct_iff)
qed

lemma distinct_OtherTags:
  assumes "wf_tags (Tags m)"
  shows "distinct (map Key (OtherTags m))"
  using assms
  by (simp add: OtherTags_def wf_tags_def distinct_map_sort_key distinct_map_filter comp_def
      case_prod_beta)

end
