(* ===== verification/Node_Role.thy ===== *)
theory Node_Role
  imports Node_State
begin

text \<open>
  The K3s role of a node and the election, \<open>antsd/internal/node/role.go\<close>. \<open>Role\<close> is a Go string
  type, so a role read from a payload or from a file may be any string: \<open>RoleOther\<close>, whose
  empty instance is the zero value. The size of the control plane and the rank are computed on
  \<open>int\<close>.
\<close>

datatype role = RoleServer | RoleAgent | RoleOther string

fun role_string :: "role \<Rightarrow> string" where
  "role_string RoleServer = ''server''"
| "role_string RoleAgent = ''agent''"
| "role_string (RoleOther s) = s"

definition role_of :: "string \<Rightarrow> role" where
  "role_of s =
    (if s = ''server'' then RoleServer else if s = ''agent'' then RoleAgent else RoleOther s)"

abbreviation noRole :: role where
  "noRole \<equiv> RoleOther ''''"

definition MaxServers :: int where
  "MaxServers = 7"

definition DesiredServerCount :: "int \<Rightarrow> int" where
  "DesiredServerCount population =
    (if population \<le> 0 then 0
     else let count = min population MaxServers in
       if count mod 2 = 0 then count - 1 else count)"

definition StableState :: "role \<Rightarrow> node_state" where
  "StableState r = (if r = RoleServer then StateStableServer else StateStableAgent)"

definition Other :: "role \<Rightarrow> role" where
  "Other r = (if r = RoleServer then RoleAgent else RoleServer)"

datatype rank_error = NotInMemberList string "string list"

definition Rank :: "string list \<Rightarrow> string \<Rightarrow> rank_error + int" where
  "Rank names self =
    (let sorted = sort names;
         rank = slices_Index sorted self in
     if rank < 0 then Inl (NotInMemberList self sorted) else Inr rank)"

definition RoleForRank :: "int \<Rightarrow> int \<Rightarrow> role" where
  "RoleForRank rank population = (if rank < DesiredServerCount population then RoleServer else RoleAgent)"

lemma role_string_role_of [simp]: "role_string (role_of s) = s"
  by (simp add: role_of_def)

lemma StableState_known [simp]: "is_known (StableState r)"
  by (simp add: StableState_def)

lemma StableState_cases: "StableState r = StateStableServer \<or> StableState r = StateStableAgent"
  by (simp add: StableState_def)

lemma StableState_Other: "StableState (Other r) \<noteq> StableState r"
  by (cases r) (simp_all add: StableState_def Other_def)

subsection \<open>The size of the control plane\<close>

lemma DesiredServerCount_bounds:
  "0 \<le> DesiredServerCount n" "DesiredServerCount n \<le> MaxServers"
  "0 < n \<Longrightarrow> DesiredServerCount n \<le> n" "0 < n \<Longrightarrow> 1 \<le> DesiredServerCount n"
  by (auto simp: DesiredServerCount_def MaxServers_def Let_def min_def)

lemma DesiredServerCount_odd: "0 < n \<Longrightarrow> odd (DesiredServerCount n)"
  by (simp add: DesiredServerCount_def Let_def even_iff_mod_2_eq_zero [symmetric])

lemma DesiredServerCount_greatest:
  assumes "0 < n" and "odd k" and "k \<le> n" and "k \<le> MaxServers"
  shows "k \<le> DesiredServerCount n"
proof -
  have "k \<le> min n MaxServers" using assms by simp
  moreover have "k \<noteq> min n MaxServers" if "even (min n MaxServers)"
    using that assms(2) by auto
  ultimately show ?thesis
    using assms(1) by (auto simp: DesiredServerCount_def Let_def even_iff_mod_2_eq_zero)
qed

lemma DesiredServerCount_mono: "m \<le> n \<Longrightarrow> DesiredServerCount m \<le> DesiredServerCount n"
proof (cases "0 < m")
  case True
  assume "m \<le> n"
  with True show ?thesis
    using DesiredServerCount_greatest [of n "DesiredServerCount m"] DesiredServerCount_odd [OF True]
      DesiredServerCount_bounds [of m] by simp
next
  case False
  then show ?thesis using DesiredServerCount_bounds(1) [of n] by (simp add: DesiredServerCount_def)
qed

lemma DesiredServerCount_step: "DesiredServerCount (n + 1) \<le> DesiredServerCount n + 2"
proof (cases "0 < n")
  case True
  let ?k = "DesiredServerCount (n + 1) - 2"
  have "odd ?k" using True DesiredServerCount_odd [of "n + 1"] by simp
  moreover have "?k \<le> n"
    using DesiredServerCount_bounds(3) [of "n + 1"] True by linarith
  moreover have "?k \<le> MaxServers"
    using DesiredServerCount_bounds(2) [of "n + 1"] by linarith
  ultimately have "?k \<le> DesiredServerCount n" by (rule DesiredServerCount_greatest [OF True])
  then show ?thesis by simp
next
  case False
  then show ?thesis using DesiredServerCount_bounds [of "n + 1"] by (cases "n = 0") (auto simp: DesiredServerCount_def)
qed

subsection \<open>The rank\<close>

lemma Rank_count:
  "Rank names self =
    (if self \<in> set names then Inr (int (length (filter (\<lambda>y. y < self) names)))
     else Inl (NotInMemberList self (sort names)))"
  by (auto simp: Rank_def Let_def slices_Index_neg_iff slices_Index_sort)

lemma Rank_mset_cong:
  assumes "mset xs = mset ys"
  shows "Rank xs self = Rank ys self"
proof -
  have "set xs = set ys" using assms by (rule mset_eq_setD)
  moreover have "sort xs = sort ys"
    using assms by (metis sorted_list_of_multiset_mset)
  moreover have "length (filter P xs) = length (filter P ys)" for P
    using assms by (metis mset_filter size_mset)
  ultimately show ?thesis by (simp add: Rank_count)
qed

lemma Rank_less:
  assumes "Rank names a = Inr i" and "Rank names b = Inr j" and "a < b"
  shows "i < j"
  using assms length_filter_less_mono [of a b names] by (auto simp: Rank_count split: if_splits)

lemma Rank_range: "Rank names a = Inr i \<Longrightarrow> 0 \<le> i \<and> i < int (length names)"
proof -
  assume r: "Rank names a = Inr i"
  then have "a \<in> set names" by (auto simp: Rank_count split: if_splits)
  then have "length (filter (\<lambda>y. y < a) names) < length names"
    by (metis length_filter_less less_irrefl)
  with r show ?thesis by (auto simp: Rank_count split: if_splits)
qed

text \<open>The \<open>k\<close>-th name of the sorted list has rank \<open>k\<close> when the names are distinct.\<close>

lemma filter_less_sorted_nth:
  fixes xs :: "'a::linorder list"
  assumes "sorted xs" and "distinct xs" and "k < length xs"
  shows "length (filter (\<lambda>y. y < xs ! k) xs) = k"
proof -
  have "filter (\<lambda>y. y < xs ! k) xs = take k xs"
  proof (rule filter_eq_take)
    fix y assume "y \<in> set (take k xs)"
    then obtain i where i: "i < k" "y = xs ! i" using assms(3) by (auto simp: in_set_conv_nth)
    with assms have "xs ! i \<le> xs ! k" and "xs ! i \<noteq> xs ! k"
      by (auto simp: sorted_iff_nth_mono nth_eq_iff_index_eq)
    with i show "y < xs ! k" by simp
  next
    fix y assume "y \<in> set (drop k xs)"
    then show "\<not> y < xs ! k"
      using assms(1) by (auto simp: in_set_conv_nth sorted_iff_nth_mono not_less)
  qed
  with assms(3) show ?thesis by simp
qed

lemma Rank_sorted_nth:
  assumes "distinct names" and "k < length names"
  shows "Rank names (sort names ! k) = Inr (int k)"
proof -
  have "sort names ! k \<in> set names" using assms(2) by (metis length_sort nth_mem set_sort)
  moreover have "length (filter (\<lambda>y. y < sort names ! k) names) = k"
    using filter_less_sorted_nth [of "sort names" k] assms by (simp add: filter_sort_length)
  ultimately show ?thesis by (simp add: Rank_count)
qed

text \<open>The names election_role as servers are the first ones of the sorted list.\<close>

definition election_role :: "string list \<Rightarrow> string \<Rightarrow> role option" where
  "election_role names self =
    (case Rank names self of
       Inl _ \<Rightarrow> None
     | Inr rank \<Rightarrow> Some (RoleForRank rank (int (length names))))"

lemma election_nth:
  assumes "distinct names" and "k < length names"
  shows "election_role names (sort names ! k) =
    Some (if int k < DesiredServerCount (int (length names)) then RoleServer else RoleAgent)"
  using assms by (simp add: election_role_def Rank_sorted_nth RoleForRank_def)

lemma election_servers:
  assumes "distinct names"
  shows "filter (\<lambda>n. election_role names n = Some RoleServer) (sort names) =
    take (nat (DesiredServerCount (int (length names)))) (sort names)"
proof -
  let ?d = "nat (DesiredServerCount (int (length names)))" and ?s = "sort names"
  have key: "election_role names (?s ! k) = Some RoleServer \<longleftrightarrow> k < ?d" if "k < length ?s" for k
    using election_nth [OF assms, of k] that by auto
  show ?thesis
    by (rule filter_eq_take) (use key in \<open>auto simp: in_set_conv_nth\<close>)
qed

lemma length_election_servers:
  assumes "distinct names" and "names \<noteq> []"
  shows "int (length (filter (\<lambda>n. election_role names n = Some RoleServer) names)) =
    DesiredServerCount (int (length names))"
proof -
  let ?P = "\<lambda>n. election_role names n = Some RoleServer"
  have "length (filter ?P names) = length (filter ?P (sort names))"
    by (simp only: filter_sort_length)
  also have "\<dots> = length (take (nat (DesiredServerCount (int (length names)))) (sort names))"
    by (simp only: election_servers [OF assms(1)])
  finally show ?thesis
    using DesiredServerCount_bounds(1,3) [of "int (length names)"] assms(2) by simp
qed

text \<open>
  C40: for a population of at least one, the target is the greatest odd number of servers that
  fits both the population and etcd's ceiling of seven; no population asks for none.
\<close>

theorem desired_server_count_greatest_odd:
  "DesiredServerCount n =
    (if n \<le> 0 then 0 else Max {k. odd k \<and> 0 < k \<and> k \<le> n \<and> k \<le> MaxServers})"
proof (cases "n \<le> 0")
  case False
  let ?S = "{k. odd k \<and> 0 < k \<and> k \<le> n \<and> k \<le> MaxServers}"
  have "?S \<subseteq> {0..MaxServers}" by auto
  then have "finite ?S" by (rule finite_subset) simp
  moreover have "DesiredServerCount n \<in> ?S"
    using False DesiredServerCount_bounds [of n] DesiredServerCount_odd [of n] by simp
  moreover have "k \<le> DesiredServerCount n" if "k \<in> ?S" for k
    using that False DesiredServerCount_greatest [of n k] by simp
  ultimately have "Max ?S = DesiredServerCount n" by (intro Max_eqI)
  with False show ?thesis by simp
qed (simp add: DesiredServerCount_def)

text \<open>
  C1: the leaderless election. When every machine ranks the same names, whatever order its own
  member list has, the machines agree on every role, the number of machines that take the server
  role is exactly the target of that population, the servers are the lowest names, and exactly
  one machine, the lowest name, has rank 0 and initializes the cluster.
\<close>

theorem election_agreement:
  assumes "distinct names" and "names \<noteq> []"
  shows "(\<forall>view self. mset view = mset names \<longrightarrow> election_role view self = election_role names self) \<and>
    int (length (filter (\<lambda>n. election_role names n = Some RoleServer) names)) =
      DesiredServerCount (int (length names)) \<and>
    filter (\<lambda>n. election_role names n = Some RoleServer) (sort names) =
      take (nat (DesiredServerCount (int (length names)))) (sort names) \<and>
    {n. Rank names n = Inr 0} = {hd (sort names)}"
proof (intro conjI allI impI)
  fix view :: "string list" and self
  assume eq: "mset view = mset names"
  then have "length view = length names" by (metis size_mset)
  then show "election_role view self = election_role names self"
    by (simp add: election_role_def Rank_mset_cong [OF eq] split: sum.split)
next
  let ?h = "hd (sort names)"
  have h: "?h = sort names ! 0" using assms(2) by (metis hd_conv_nth length_0_conv length_sort)
  have zero: "Rank names ?h = Inr 0"
    using Rank_sorted_nth [OF assms(1), of 0] assms(2) h by simp
  moreover have "n = ?h" if n: "Rank names n = Inr 0" for n
  proof (rule ccontr)
    assume "n \<noteq> ?h"
    then consider "n < ?h" | "?h < n" by fastforce
    then show False using Rank_less [OF n zero] Rank_less [OF zero n] by cases auto
  qed
  ultimately show "{n. Rank names n = Inr 0} = {?h}" by blast
qed (use assms length_election_servers election_servers in blast)+

theorem election_agreement_witness:
  "int (length (filter (\<lambda>n. election_role [''ants-03'', ''ants-01'', ''ants-04'', ''ants-02''] n
      = Some RoleServer) [''ants-03'', ''ants-01'', ''ants-04'', ''ants-02''])) = 3 \<and>
   {n. Rank [''ants-03'', ''ants-01'', ''ants-04'', ''ants-02''] n = Inr 0} = {''ants-01''}"
proof -
  let ?N = "[''ants-03'', ''ants-01'', ''ants-04'', ''ants-02'']"
  have "distinct ?N" and "?N \<noteq> []" by simp_all
  note e = election_agreement [OF this, THEN conjunct2]
  have "DesiredServerCount (int (length ?N)) = 3" and "hd (sort ?N) = ''ants-01''" by code_simp+
  then show ?thesis
    using e [THEN conjunct1] e [THEN conjunct2, THEN conjunct2] by (simp only:)
qed

end
