(* ===== verification/Cluster_View.thy ===== *)
theory Cluster_View
  imports Membership Node_Role
begin

text \<open>
  The readings of one Serf membership observation, \<open>antsd/internal/cluster/view.go\<close>: who is
  alive, who is a server, who coordinates, who is converted and who has been gone too long. Every
  definition is a function of the observation alone; the run loop builds one observation per turn
  and decides everything from it. A Go function with two results returns a pair.
\<close>

record clusterView =
  snapshot :: Snapshot

abbreviation members :: "clusterView \<Rightarrow> member list" where
  "members v \<equiv> Members (snapshot v)"

definition memberStatusAlive :: string where
  "memberStatusAlive = ''alive''"

definition memberStatusFailed :: string where
  "memberStatusFailed = ''failed''"

definition isMemberAliveOrFailed :: "member \<Rightarrow> bool" where
  "isMemberAliveOrFailed member \<longleftrightarrow>
    Status member = memberStatusAlive \<or> Status member = memberStatusFailed"

fun isNodeAK3sServer :: "node_state \<Rightarrow> bool" where
  "isNodeAK3sServer StateStableServer = True"
| "isNodeAK3sServer StateBootstrapInstallInit = True"
| "isNodeAK3sServer StateBootstrapInstallServer = True"
| "isNodeAK3sServer StateRescaleCoordinating = True"
| "isNodeAK3sServer StateRescalePromoting = True"
| "isNodeAK3sServer _ = False"

fun isNodeChangingEtcdMembership :: "node_state \<Rightarrow> bool" where
  "isNodeChangingEtcdMembership StateBootstrapInstallInit = True"
| "isNodeChangingEtcdMembership StateBootstrapInstallServer = True"
| "isNodeChangingEtcdMembership StateRejoinCluster = True"
| "isNodeChangingEtcdMembership StateRescaleCoordinating = True"
| "isNodeChangingEtcdMembership StateRescalePromoting = True"
| "isNodeChangingEtcdMembership StateRescaleDemoting = True"
| "isNodeChangingEtcdMembership _ = False"

definition aliveMemberNames :: "clusterView \<Rightarrow> string list" where
  "aliveMemberNames v = map Name (filter (\<lambda>m. Status m = memberStatusAlive) (members v))"

text \<open>The test of both extremum loops: alive, with this state in its tag.\<close>

definition aliveIn :: "node_state \<Rightarrow> member \<Rightarrow> bool" where
  "aliveIn state m \<longleftrightarrow>
    Status m = memberStatusAlive \<and> tag_get (Tags m) ''state'' = state_string state"

definition lowestNamedAliveMemberIn :: "clusterView \<Rightarrow> node_state \<Rightarrow> member \<times> bool" where
  "lowestNamedAliveMemberIn v state =
    (let target = foldl
       (\<lambda>target m.
          if \<not> aliveIn state m then target
          else if Name target = '''' \<or> Name m < Name target then m else target)
       emptyMember (members v)
     in (target, Name target \<noteq> ''''))"

definition highestNamedAliveMemberIn :: "clusterView \<Rightarrow> node_state \<Rightarrow> member \<times> bool" where
  "highestNamedAliveMemberIn v state =
    (let target = foldl
       (\<lambda>target m.
          if \<not> aliveIn state m then target
          else if Name target = '''' \<or> Name target < Name m then m else target)
       emptyMember (members v)
     in (target, Name target \<noteq> ''''))"

definition findK3sJoinTarget :: "clusterView \<Rightarrow> member \<times> bool" where
  "findK3sJoinTarget v = lowestNamedAliveMemberIn v StateStableServer"

definition findExistingK3sClusterMember :: "clusterView \<Rightarrow> member \<times> bool" where
  "findExistingK3sClusterMember v =
    (case find (\<lambda>m. isMemberAliveOrFailed m \<and> InCluster (member_state m)) (members v) of
       Some m \<Rightarrow> (m, True)
     | None \<Rightarrow> (emptyMember, False))"

definition isVirginMember :: "clusterView \<Rightarrow> string \<Rightarrow> bool" where
  "isVirginMember v name =
    (case find (\<lambda>m. Name m = name) (members v) of
       Some m \<Rightarrow> Status m = memberStatusAlive \<and> IsFirstBoot (member_state m)
     | None \<Rightarrow> False)"

definition stableServerCount :: "clusterView \<Rightarrow> int" where
  "stableServerCount v = int (length (filter (aliveIn StateStableServer) (members v)))"

definition population :: "clusterView \<Rightarrow> int" where
  "population v = int (length (filter isMemberAliveOrFailed (members v)))"

definition desiredServerCount :: "clusterView \<Rightarrow> int" where
  "desiredServerCount v = DesiredServerCount (population v)"

definition k3sServerCount :: "clusterView \<Rightarrow> int" where
  "k3sServerCount v = int (length
    (filter (\<lambda>m. isMemberAliveOrFailed m \<and> isNodeAK3sServer (member_state m)) (members v)))"

definition needsAnotherK3sServer :: "clusterView \<Rightarrow> bool" where
  "needsAnotherK3sServer v \<longleftrightarrow> k3sServerCount v < desiredServerCount v"

definition hasTooManyK3sServers :: "clusterView \<Rightarrow> bool" where
  "hasTooManyK3sServers v \<longleftrightarrow> k3sServerCount v > desiredServerCount v"

definition isEtcdMembershipChanging :: "clusterView \<Rightarrow> bool" where
  "isEtcdMembershipChanging v \<longleftrightarrow>
    list_ex (\<lambda>m. Status m = memberStatusAlive \<and> isNodeChangingEtcdMembership (member_state m))
      (members v)"

definition isRescaleCoordinator :: "clusterView \<Rightarrow> string \<Rightarrow> bool" where
  "isRescaleCoordinator v self =
    (case lowestNamedAliveMemberIn v StateStableServer of
       (elected, found) \<Rightarrow> found \<and> Name elected = self)"

definition findPromotionTarget :: "clusterView \<Rightarrow> member \<times> bool" where
  "findPromotionTarget v = lowestNamedAliveMemberIn v StateStableAgent"

definition findDemotionTarget :: "clusterView \<Rightarrow> member \<times> bool" where
  "findDemotionTarget v = highestNamedAliveMemberIn v StateStableServer"

definition failedMembersNames :: "clusterView \<Rightarrow> string list" where
  "failedMembersNames v = map Name (filter (\<lambda>m. Status m = memberStatusFailed) (members v))"

text \<open>The instant the grace period of a failed member ends; an unseen failure starts now.\<close>

definition failure_deadline ::
  "(string \<rightharpoonup> time) \<Rightarrow> duration \<Rightarrow> time \<Rightarrow> string \<Rightarrow> time" where
  "failure_deadline failedSince grace now name =
    (case failedSince name of Some since \<Rightarrow> since | None \<Rightarrow> now) + grace"

text \<open>One turn of the loop of \<open>durablyFailedMembersNames\<close> over the failed names.\<close>

definition eviction_step ::
  "(string \<Rightarrow> time) \<Rightarrow> time \<Rightarrow> string list \<times> time \<Rightarrow> string \<Rightarrow> string list \<times> time" where
  "eviction_step deadline_of now acc name =
    (case acc of (evictable, nextDeadline) \<Rightarrow>
       let deadline = deadline_of name in
       if \<not> deadline > now then (evictable @ [name], nextDeadline)
       else if isZero nextDeadline \<or> deadline < nextDeadline then (evictable, deadline)
       else (evictable, nextDeadline))"

definition durablyFailedMembersNames ::
  "clusterView \<Rightarrow> (string \<rightharpoonup> time) \<Rightarrow> duration \<Rightarrow> time \<Rightarrow> string list \<times> time" where
  "durablyFailedMembersNames v failedSince grace now =
    (case foldl (eviction_step (failure_deadline failedSince grace now) now) ([], zero_time)
       (failedMembersNames v) of
     (evictable, nextDeadline) \<Rightarrow> (sort evictable, nextDeadline))"

subsection \<open>The extremum loops\<close>

text \<open>A member list as Serf gives it: every member has a name, and one entry per name.\<close>

definition named_view :: "clusterView \<Rightarrow> bool" where
  "named_view v \<longleftrightarrow> '''' \<notin> set (map Name (members v)) \<and> distinct (map Name (members v))"

lemma named_viewD:
  "named_view v \<Longrightarrow> m \<in> set (members v) \<Longrightarrow> Name m \<noteq> ''''"
  by (force simp: named_view_def)

lemma named_view_inj:
  "named_view v \<Longrightarrow> a \<in> set (members v) \<Longrightarrow> b \<in> set (members v) \<Longrightarrow> Name a = Name b \<Longrightarrow> a = b"
  by (auto simp: named_view_def distinct_map dest: inj_onD)

definition best_so_far ::
  "(string \<Rightarrow> string \<Rightarrow> bool) \<Rightarrow> (member \<Rightarrow> bool) \<Rightarrow> member list \<Rightarrow> member \<Rightarrow> bool" where
  "best_so_far lt P xs t \<longleftrightarrow>
    (if Name t = '''' then \<forall>m \<in> set xs. \<not> P m
     else t \<in> set xs \<and> P t \<and> (\<forall>m \<in> set xs. P m \<longrightarrow> \<not> lt (Name m) (Name t)))"

lemma best_so_far_step:
  assumes "best_so_far lt P xs t" and "Name x \<noteq> ''''" and "transp lt" and "irreflp lt"
  shows "best_so_far lt P (xs @ [x])
    (if \<not> P x then t else if Name t = '''' \<or> lt (Name x) (Name t) then x else t)"
proof (cases "P x \<and> Name t \<noteq> '''' \<and> lt (Name x) (Name t)")
  case True
  then have "\<not> lt (Name m) (Name x)" if "m \<in> set xs" "P m" for m
    using assms(1) transpD [OF assms(3)] that by (auto simp: best_so_far_def)
  with True assms show ?thesis by (auto simp: best_so_far_def dest: irreflpD)
next
  case False
  with assms show ?thesis by (auto simp: best_so_far_def dest: irreflpD)
qed

lemma foldl_best_member:
  assumes "\<And>m. m \<in> set xs \<Longrightarrow> Name m \<noteq> ''''" and "transp lt" and "irreflp lt"
  shows "best_so_far lt P xs (foldl (\<lambda>t m. if \<not> P m then t
      else if Name t = '''' \<or> lt (Name m) (Name t) then m else t) emptyMember xs)"
  using assms(1)
proof (induction xs rule: rev_induct)
  case Nil
  show ?case by (simp add: best_so_far_def)
next
  case (snoc x xs)
  then show ?case
    using best_so_far_step [OF _ _ assms(2,3)] by simp
qed

lemma lowest_best:
  assumes "named_view v" and "lowestNamedAliveMemberIn v s = (t, found)"
  shows "best_so_far (<) (aliveIn s) (members v) t \<and> found = (Name t \<noteq> '''')"
proof -
  have "best_so_far (<) (aliveIn s) (members v) (fst (lowestNamedAliveMemberIn v s))"
    unfolding lowestNamedAliveMemberIn_def Let_def fst_conv
    by (rule foldl_best_member [OF named_viewD [OF assms(1)]]) simp_all
  with assms(2) show ?thesis by (auto simp: lowestNamedAliveMemberIn_def Let_def)
qed

lemma highest_best:
  assumes "named_view v" and "highestNamedAliveMemberIn v s = (t, found)"
  shows "best_so_far (>) (aliveIn s) (members v) t \<and> found = (Name t \<noteq> '''')"
proof -
  have "best_so_far (>) (aliveIn s) (members v) (fst (highestNamedAliveMemberIn v s))"
    unfolding highestNamedAliveMemberIn_def Let_def fst_conv
    by (rule foldl_best_member [OF named_viewD [OF assms(1)]]) simp_all
  with assms(2) show ?thesis by (auto simp: highestNamedAliveMemberIn_def Let_def)
qed

lemma lowestNamedAliveMemberIn_found:
  assumes "named_view v" and "lowestNamedAliveMemberIn v s = (t, True)"
  shows "t \<in> set (members v)" "aliveIn s t"
    "\<And>m. m \<in> set (members v) \<Longrightarrow> aliveIn s m \<Longrightarrow> Name t \<le> Name m"
  using lowest_best [OF assms] by (auto simp: best_so_far_def not_less)

lemma lowestNamedAliveMemberIn_none:
  assumes "named_view v" and "lowestNamedAliveMemberIn v s = (t, False)"
    and "m \<in> set (members v)"
  shows "\<not> aliveIn s m"
  using lowest_best [OF assms(1,2)] assms(3) by (simp add: best_so_far_def)

lemma highestNamedAliveMemberIn_found:
  assumes "named_view v" and "highestNamedAliveMemberIn v s = (t, True)"
  shows "t \<in> set (members v)" "aliveIn s t"
    "\<And>m. m \<in> set (members v) \<Longrightarrow> aliveIn s m \<Longrightarrow> Name m \<le> Name t"
  using highest_best [OF assms] by (auto simp: best_so_far_def not_less)

lemma highestNamedAliveMemberIn_none:
  assumes "named_view v" and "highestNamedAliveMemberIn v s = (t, False)"
    and "m \<in> set (members v)"
  shows "\<not> aliveIn s m"
  using highest_best [OF assms(1,2)] assms(3) by (simp add: best_so_far_def)

subsection \<open>The readings\<close>

lemma aliveIn_state: "is_known s \<Longrightarrow> aliveIn s m \<longleftrightarrow> Status m = memberStatusAlive \<and> member_state m = s"
  by (simp add: aliveIn_def member_state_tag_iff)

lemma coordinator_iff:
  assumes "named_view v"
  shows "isRescaleCoordinator v self \<longleftrightarrow>
    (\<exists>m \<in> set (members v). aliveIn StateStableServer m \<and> Name m = self \<and>
      (\<forall>m' \<in> set (members v). aliveIn StateStableServer m' \<longrightarrow> self \<le> Name m'))"
proof -
  obtain t found where t: "lowestNamedAliveMemberIn v StateStableServer = (t, found)"
    by fastforce
  show ?thesis
  proof (cases found)
    case True
    with t lowestNamedAliveMemberIn_found [OF assms, of StateStableServer t]
    have "t \<in> set (members v)" "aliveIn StateStableServer t"
      "\<And>m. m \<in> set (members v) \<Longrightarrow> aliveIn StateStableServer m \<Longrightarrow> Name t \<le> Name m"
      by auto
    with True t show ?thesis
      by (auto simp: isRescaleCoordinator_def intro: antisym)
  next
    case False
    with t show ?thesis
      using lowestNamedAliveMemberIn_none [OF assms, of StateStableServer t]
      by (auto simp: isRescaleCoordinator_def)
  qed
qed

lemma coordinator_alive_stable:
  assumes "named_view v" and "isRescaleCoordinator v self"
  obtains m where "m \<in> set (members v)" "aliveIn StateStableServer m" "Name m = self"
  using assms coordinator_iff by auto

text \<open>
  C7: there is at most one coordinator, whoever evaluates the view: nodes that agree on which stable
  servers are alive agree on it, one of them holds the turn as soon as there is one, and it is itself
  an alive stable server of the view.
\<close>

theorem one_coordinator:
  assumes "named_view v" and "named_view v'"
    and "Name ` {m \<in> set (members v). aliveIn StateStableServer m} = Name ` {m \<in> set (members v'). aliveIn StateStableServer m}"
  shows "(isRescaleCoordinator v a \<and> isRescaleCoordinator v' b \<longrightarrow> a = b)
    \<and> (\<forall>a. isRescaleCoordinator v a \<longrightarrow> a \<in> Name ` {m \<in> set (members v). aliveIn StateStableServer m})
    \<and> ((\<exists>a. isRescaleCoordinator v a) \<longleftrightarrow> (\<exists>m \<in> set (members v). aliveIn StateStableServer m))"
proof (intro conjI impI allI)
  let ?S = "Name ` {m \<in> set (members v). aliveIn StateStableServer m}"
  have least: "isRescaleCoordinator v x \<longleftrightarrow> x \<in> ?S \<and> (\<forall>y \<in> ?S. x \<le> y)" for x
    by (auto simp: coordinator_iff [OF assms(1)])
  have least': "isRescaleCoordinator v' x \<longleftrightarrow> x \<in> ?S \<and> (\<forall>y \<in> ?S. x \<le> y)" for x
    unfolding assms(3) by (auto simp: coordinator_iff [OF assms(2)])
  show "a = b" if "isRescaleCoordinator v a \<and> isRescaleCoordinator v' b"
    using that least [of a] least' [of b] by (auto intro: antisym)
  show "x \<in> ?S" if "isRescaleCoordinator v x" for x using that least by blast
  show "(\<exists>a. isRescaleCoordinator v a) \<longleftrightarrow> (\<exists>m \<in> set (members v). aliveIn StateStableServer m)"
  proof
    assume "\<exists>m \<in> set (members v). aliveIn StateStableServer m"
    then have "finite ?S" "?S \<noteq> {}" by auto
    then have "Min ?S \<in> ?S \<and> (\<forall>y \<in> ?S. Min ?S \<le> y)" by (meson Min_in Min_le)
    then show "\<exists>a. isRescaleCoordinator v a" using least by blast
  qed (use least in blast)
qed

definition two_servers :: clusterView where
  "two_servers = \<lparr>snapshot = \<lparr>CollectedAt = 0, NodeName = ''b'', Available = True, Members =
     [\<lparr>Name = ''a'', IP = ''1'', Status = ''alive'', Tags = [(''state'', ''stable_server'')]\<rparr>,
      \<lparr>Name = ''b'', IP = ''2'', Status = ''alive'', Tags = [(''state'', ''stable_server'')]\<rparr>]\<rparr>\<rparr>"

theorem one_coordinator_witness:
  "isRescaleCoordinator two_servers ''a'' \<and> \<not> isRescaleCoordinator two_servers ''b''"
proof -
  have "named_view two_servers" by (simp add: named_view_def two_servers_def)
  moreover have "isRescaleCoordinator two_servers ''a''" by code_simp
  ultimately show ?thesis using one_coordinator [of two_servers two_servers "''a''" "''b''"] by auto
qed

lemma find_named:
  assumes v: "named_view v" and m: "m \<in> set (members v)"
  shows "find (\<lambda>x. Name x = Name m) (members v) = Some m"
proof (cases "find (\<lambda>x. Name x = Name m) (members v)")
  case None
  with m show ?thesis by (auto simp: find_None_iff)
next
  case (Some k)
  then have "k \<in> set (members v)" and "Name k = Name m" by (auto simp: find_Some_iff)
  then have "k = m" by (rule named_view_inj [OF v _ m])
  with Some show ?thesis by simp
qed

lemma isVirginMember_iff:
  assumes "named_view v"
  shows "isVirginMember v name \<longleftrightarrow>
    (\<exists>m \<in> set (members v). Name m = name \<and> Status m = memberStatusAlive \<and>
      IsFirstBoot (member_state m))" (is "_ \<longleftrightarrow> ?R")
proof
  assume "isVirginMember v name"
  then show ?R by (auto simp: isVirginMember_def find_Some_iff split: option.splits)
next
  assume ?R
  then obtain m where "m \<in> set (members v)" "Name m = name" "Status m = memberStatusAlive"
    "IsFirstBoot (member_state m)" by blast
  then show "isVirginMember v name"
    using find_named [OF assms, of m] by (simp add: isVirginMember_def)
qed

lemma findExisting_True:
  "findExistingK3sClusterMember v = (m, True) \<Longrightarrow>
    m \<in> set (members v) \<and> isMemberAliveOrFailed m \<and> InCluster (member_state m)"
  by (auto simp: findExistingK3sClusterMember_def find_Some_iff split: option.splits)

lemma findExisting_False:
  "findExistingK3sClusterMember v = (t, False) \<Longrightarrow> m \<in> set (members v) \<Longrightarrow>
    isMemberAliveOrFailed m \<Longrightarrow> \<not> InCluster (member_state m)"
  by (auto simp: findExistingK3sClusterMember_def find_None_iff split: option.splits)

lemma k3sServerCount_nonneg: "0 \<le> k3sServerCount v" "0 \<le> population v"
  by (simp_all add: k3sServerCount_def population_def)

lemma k3sServerCount_le_population: "k3sServerCount v \<le> population v"
  by (auto simp: k3sServerCount_def population_def intro!: length_filter_count_le)

lemma stableServerCount_le_k3sServerCount: "stableServerCount v \<le> k3sServerCount v"
  by (auto simp: stableServerCount_def k3sServerCount_def aliveIn_state isMemberAliveOrFailed_def
      intro!: length_filter_count_le)

lemma set_failedMembersNames:
  "n \<in> set (failedMembersNames v) \<longleftrightarrow> (\<exists>m \<in> set (members v). Name m = n \<and> Status m = memberStatusFailed)"
  by (auto simp: failedMembersNames_def)

lemma failed_not_alive: "memberStatusFailed \<noteq> memberStatusAlive"
  by (simp add: memberStatusFailed_def memberStatusAlive_def)

subsection \<open>The eviction clock\<close>

definition eviction_split ::
  "(string \<Rightarrow> time) \<Rightarrow> time \<Rightarrow> string list \<Rightarrow> string list \<times> time \<Rightarrow> bool" where
  "eviction_split dl now names r \<longleftrightarrow>
    fst r = filter (\<lambda>n. dl n \<le> now) names \<and>
    (if \<exists>n \<in> set names. now < dl n
     then snd r \<in> dl ` set names \<and> now < snd r \<and> (\<forall>n \<in> set names. now < dl n \<longrightarrow> snd r \<le> dl n)
     else snd r = zero_time)"

lemma eviction_split_step:
  assumes "0 \<le> now" and "eviction_split dl now names r"
  shows "eviction_split dl now (names @ [n]) (eviction_step dl now r n)"
proof -
  obtain ev nd where r: "r = (ev, nd)" by fastforce
  have "nd = 0 \<longleftrightarrow> \<not> (\<exists>n \<in> set names. now < dl n)"
    using assms by (auto simp: r eviction_split_def split: if_splits)
  with assms show ?thesis
    by (auto simp: r eviction_split_def eviction_step_def isZero_def Let_def split: if_splits)
qed

lemma foldl_eviction_split:
  assumes "0 \<le> now"
  shows "eviction_split dl now names (foldl (eviction_step dl now) ([], zero_time) names)"
  by (induction names rule: rev_induct)
    (simp_all add: eviction_split_step [OF assms], simp add: eviction_split_def)

lemma durablyFailedMembersNames_spec:
  assumes "0 \<le> now" and "durablyFailedMembersNames v failedSince grace now = (evictable, next_dl)"
  defines "dl \<equiv> failure_deadline failedSince grace now"
  shows "evictable = sort (filter (\<lambda>n. dl n \<le> now) (failedMembersNames v))"
    and "next_dl = zero_time \<longleftrightarrow> \<not> (\<exists>n \<in> set (failedMembersNames v). now < dl n)"
    and "next_dl \<noteq> zero_time \<Longrightarrow> next_dl \<in> dl ` set (failedMembersNames v) \<and> now < next_dl"
    and "n \<in> set (failedMembersNames v) \<Longrightarrow> now < dl n \<Longrightarrow> next_dl \<le> dl n"
  using foldl_eviction_split [OF assms(1), of dl "failedMembersNames v"] assms(1,2)
  by (auto simp: durablyFailedMembersNames_def eviction_split_def dl_def
      split: prod.splits if_splits)

end
