(* ===== verification/Node_Name.thy ===== *)
theory Node_Name
  imports Antsd_Prelude "HOL-Library.Word"
begin

unbundle bit_operations_syntax

text \<open>
  The node name, \<open>antsd/internal/config/nodename.go\<close>: its validation against the RFC 1123 label
  pattern and its derivation from a MAC address. The regular expression is a term of a small
  regular-expression type matched by derivatives, so that what the pattern accepts is a theorem.
  The machine (its interfaces and its sysfs tree) is an argument.
\<close>

subsection \<open>Regular expressions\<close>

datatype rx = Nothing | Eps | Class "char \<Rightarrow> bool" | Seq rx rx | Alt rx rx | Many rx

fun nullable :: "rx \<Rightarrow> bool" where
  "nullable Nothing = False"
| "nullable Eps = True"
| "nullable (Class p) = False"
| "nullable (Seq r s) = (nullable r \<and> nullable s)"
| "nullable (Alt r s) = (nullable r \<or> nullable s)"
| "nullable (Many r) = True"

fun deriv :: "char \<Rightarrow> rx \<Rightarrow> rx" where
  "deriv c Nothing = Nothing"
| "deriv c Eps = Nothing"
| "deriv c (Class p) = (if p c then Eps else Nothing)"
| "deriv c (Seq r s) =
     (if nullable r then Alt (Seq (deriv c r) s) (deriv c s) else Seq (deriv c r) s)"
| "deriv c (Alt r s) = Alt (deriv c r) (deriv c s)"
| "deriv c (Many r) = Seq (deriv c r) (Many r)"

fun MatchString :: "rx \<Rightarrow> string \<Rightarrow> bool" where
  "MatchString r [] = nullable r"
| "MatchString r (c # cs) = MatchString (deriv c r) cs"

lemma match_Nothing [simp]: "\<not> MatchString Nothing cs"
  by (induction cs) auto

lemma match_Eps [simp]: "MatchString Eps cs \<longleftrightarrow> cs = []"
  by (cases cs) auto

lemma match_Alt [simp]: "MatchString (Alt r s) cs \<longleftrightarrow> MatchString r cs \<or> MatchString s cs"
  by (induction cs arbitrary: r s) auto

lemma match_Class [simp]: "MatchString (Class p) cs \<longleftrightarrow> (\<exists>c. cs = [c] \<and> p c)"
  by (cases cs) auto

lemma ex_Cons_append:
  "(\<exists>u w. c # cs = u @ w \<and> A u \<and> B w) \<longleftrightarrow>
    A [] \<and> B (c # cs) \<or> (\<exists>u w. cs = u @ w \<and> A (c # u) \<and> B w)"
proof
  assume "\<exists>u w. c # cs = u @ w \<and> A u \<and> B w"
  then obtain u w where *: "c # cs = u @ w" "A u" "B w" by blast
  then show "A [] \<and> B (c # cs) \<or> (\<exists>u w. cs = u @ w \<and> A (c # u) \<and> B w)"
    by (cases u) auto
next
  assume "A [] \<and> B (c # cs) \<or> (\<exists>u w. cs = u @ w \<and> A (c # u) \<and> B w)"
  then show "\<exists>u w. c # cs = u @ w \<and> A u \<and> B w"
    by (metis append_Cons append_Nil)
qed

lemma match_Seq:
  "MatchString (Seq r s) cs \<longleftrightarrow> (\<exists>u w. cs = u @ w \<and> MatchString r u \<and> MatchString s w)"
proof (induction cs arbitrary: r)
  case Nil
  then show ?case by simp
next
  case (Cons c cs)
  show ?case by (simp add: ex_Cons_append Cons) blast
qed

lemma match_Many_Class: "MatchString (Many (Class p)) cs \<longleftrightarrow> (\<forall>c \<in> set cs. p c)"
  by (induction cs) (auto simp: match_Seq)

subsection \<open>Validation\<close>

definition nodeNamePrefix :: string where
  "nodeNamePrefix = ''ants-''"

definition nodeNameMaxLength :: int where
  "nodeNameMaxLength = 63"

definition sysfsNetDir :: string where
  "sysfsNetDir = ''/sys/class/net''"

definition alnum :: "char \<Rightarrow> bool" where
  "alnum c \<longleftrightarrow> (CHR ''a'' \<le> c \<and> c \<le> CHR ''z'') \<or> (CHR ''0'' \<le> c \<and> c \<le> CHR ''9'')"

definition alnum_dash :: "char \<Rightarrow> bool" where
  "alnum_dash c \<longleftrightarrow> c = CHR ''-'' \<or> alnum c"

text \<open>\<open>^[a-z0-9]([-a-z0-9]*[a-z0-9])?$\<close>; without the \<open>m\<close> flag \<open>$\<close> is the end of the text.\<close>

definition nodeNamePattern :: rx where
  "nodeNamePattern = Seq (Class alnum) (Alt (Seq (Many (Class alnum_dash)) (Class alnum)) Eps)"

datatype name_error = NameEmpty | NameTooLong int | NameNotALabel string

definition validateNodeName :: "string \<Rightarrow> name_error + unit" where
  "validateNodeName name =
    (if name = '''' then Inl NameEmpty
     else if int (length name) > nodeNameMaxLength then Inl (NameTooLong (int (length name)))
     else if \<not> MatchString nodeNamePattern name then Inl (NameNotALabel name)
     else Inr ())"

lemma nodeNamePattern_Nil: "\<not> MatchString nodeNamePattern []"
  by (simp add: nodeNamePattern_def)

lemma nodeNamePattern_Cons:
  "MatchString nodeNamePattern (c # cs) \<longleftrightarrow>
    alnum c \<and> (cs = [] \<or> (\<exists>ds d. cs = ds @ [d] \<and> (\<forall>x \<in> set ds. alnum_dash x) \<and> alnum d))"
  by (auto simp: nodeNamePattern_def match_Seq match_Many_Class)

lemma nodeNamePattern_iff:
  "MatchString nodeNamePattern name \<longleftrightarrow>
    name \<noteq> [] \<and> (\<forall>c \<in> set name. alnum_dash c) \<and> alnum (hd name) \<and> alnum (last name)"
proof (cases name)
  case Nil
  with nodeNamePattern_Nil show ?thesis by (simp del: MatchString.simps)
next
  case (Cons c cs)
  then show ?thesis
    by (cases cs rule: rev_cases)
      (auto simp del: MatchString.simps simp add: nodeNamePattern_Cons alnum_dash_def)
qed

lemma validateNodeName_ok:
  "validateNodeName name = Inr () \<longleftrightarrow> length name \<le> 63 \<and> MatchString nodeNamePattern name"
  by (auto simp: validateNodeName_def nodeNameMaxLength_def nodeNamePattern_iff)

subsection \<open>Derivation\<close>

text \<open>\<open>net.Interface\<close>, the fields the derivation reads; \<open>FlagLoopback\<close> is \<open>1 << 2\<close>.\<close>

record interface =
  ifName :: string
  ifFlags :: "64 word"
  HardwareAddr :: "8 word list"

definition FlagLoopback :: "64 word" where
  "FlagLoopback = 4"

datatype derive_error = ListInterfaces error | NoPhysicalInterface

text \<open>\<open>stat_ok\<close> tells which paths \<open>os.Stat\<close> answers without an error.\<close>

definition isPhysicalInterface :: "(string \<Rightarrow> bool) \<Rightarrow> string \<Rightarrow> bool" where
  "isPhysicalInterface stat_ok name =
    (if \<not> stat_ok sysfsNetDir then True
     else stat_ok (sysfsNetDir @ ''/'' @ name @ ''/device''))"

definition hex_digit :: "nat \<Rightarrow> char" where
  "hex_digit n = ''0123456789abcdef'' ! n"

text \<open>\<open>%02x\<close> on one byte.\<close>

definition hex2 :: "8 word \<Rightarrow> string" where
  "hex2 b = [hex_digit (unat b div 16), hex_digit (unat b mod 16)]"

definition interface_name :: "8 word list \<Rightarrow> string" where
  "interface_name mac =
    nodeNamePrefix @ hex2 (mac ! (length mac - 3)) @ hex2 (mac ! (length mac - 2))
      @ hex2 (mac ! (length mac - 1))"

definition defaultNodeName ::
  "(error + interface list) \<Rightarrow> (string \<Rightarrow> bool) \<Rightarrow> derive_error + string" where
  "defaultNodeName interfaces stat_ok =
    (case interfaces of
       Inl err \<Rightarrow> Inl (ListInterfaces err)
     | Inr ifaces \<Rightarrow>
         (case find (\<lambda>iface.
              \<not> (ifFlags iface AND FlagLoopback \<noteq> 0 \<or> length (HardwareAddr iface) < 3)
              \<and> isPhysicalInterface stat_ok (ifName iface))
            (sort_key ifName ifaces) of
            Some iface \<Rightarrow> Inr (interface_name (HardwareAddr iface))
          | None \<Rightarrow> Inl NoPhysicalInterface))"

lemma alnum_hex_digit: "n < 16 \<Longrightarrow> alnum (hex_digit n)"
proof -
  have "\<forall>c \<in> set ''0123456789abcdef''. alnum c" by (simp add: alnum_def)
  moreover assume "n < 16"
  then have "hex_digit n \<in> set ''0123456789abcdef''" unfolding hex_digit_def by (intro nth_mem) simp
  ultimately show ?thesis by blast
qed

lemma hex2_alnum: "c \<in> set (hex2 b) \<Longrightarrow> alnum c"
proof -
  have "unat b < 256" using unsigned_less [of b, where ?'a = nat] by simp
  then have "unat b div 16 < 16" "unat b mod 16 < 16" by auto
  moreover assume "c \<in> set (hex2 b)"
  ultimately show ?thesis by (auto simp: hex2_def alnum_hex_digit)
qed

lemma interface_name_valid: "validateNodeName (interface_name mac) = Inr ()"
proof -
  have last: "last (interface_name mac) = last (hex2 (mac ! (length mac - 1)))"
    by (simp add: interface_name_def hex2_def)
  have dash: "alnum_dash c" if "c \<in> set (interface_name mac)" for c
    using that hex2_alnum
    by (auto simp: interface_name_def nodeNamePrefix_def alnum_dash_def alnum_def)
  have "alnum (hd (interface_name mac))"
    by (simp add: interface_name_def nodeNamePrefix_def alnum_def)
  moreover have "alnum (last (interface_name mac))"
    unfolding last by (rule hex2_alnum [of _ "mac ! (length mac - 1)"]) (simp add: hex2_def)
  moreover have "length (interface_name mac) = 11"
    by (simp add: interface_name_def nodeNamePrefix_def hex2_def)
  ultimately show ?thesis
    using dash by (auto simp: validateNodeName_ok nodeNamePattern_iff)
qed

end
