(* ===== verification/Config.thy ===== *)
theory Config
  imports Node_Name Node_Role
begin

text \<open>
  The runtime configuration, \<open>antsd/internal/config/config.go\<close>: the \<open>Config\<close> struct, its
  validation, the environment fallbacks, the log level and the rendering written to the log.
  \<open>net.ParseIP\<close>, \<open>time.ParseDuration\<close> and the rendering of a \<open>Duration\<close> are arguments.
\<close>

record config =
  NodeNameC :: string
  SerfBindAddr :: string
  SerfBindPort :: int
  HTTPPort :: int
  StateFilePath :: string
  K3sInstaller :: string
  K3sToken :: string
  K3sFakeInstalledRole :: string
  RescaleEnabled :: bool
  EvictionGrace :: duration
  RescaleSettleDelay :: duration
  LogLevel :: string

definition InstallerExec :: string where
  "InstallerExec = ''exec''"

definition InstallerFake :: string where
  "InstallerFake = ''fake''"

datatype config_error =
    CNodeName name_error
  | CBindAddr string
  | CBindPort int
  | CHTTPPort int
  | CStateFile
  | CInstaller string
  | CTokenRequired
  | CEvictionGrace duration
  | CSettleDelay duration
  | CFakeRoleNotFake
  | CFakeRole string

text \<open>\<open>parse_ip s\<close> tells whether \<open>net.ParseIP(s)\<close> is not nil.\<close>

definition validate :: "(string \<Rightarrow> bool) \<Rightarrow> config \<Rightarrow> config_error + unit" where
  "validate parse_ip c =
    (case validateNodeName (NodeNameC c) of
       Inl err \<Rightarrow> Inl (CNodeName err)
     | Inr _ \<Rightarrow>
       if \<not> parse_ip (SerfBindAddr c) then Inl (CBindAddr (SerfBindAddr c))
       else if SerfBindPort c \<le> 0 \<or> SerfBindPort c > 65535 then Inl (CBindPort (SerfBindPort c))
       else if HTTPPort c \<le> 0 \<or> HTTPPort c > 65535 then Inl (CHTTPPort (HTTPPort c))
       else if StateFilePath c = '''' then Inl CStateFile
       else if K3sInstaller c \<noteq> InstallerExec \<and> K3sInstaller c \<noteq> InstallerFake
         then Inl (CInstaller (K3sInstaller c))
       else if K3sInstaller c = InstallerExec \<and> K3sToken c = '''' then Inl CTokenRequired
       else if EvictionGrace c \<le> 0 then Inl (CEvictionGrace (EvictionGrace c))
       else if RescaleSettleDelay c \<le> 0 then Inl (CSettleDelay (RescaleSettleDelay c))
       else if K3sFakeInstalledRole c \<noteq> '''' then
         (if K3sInstaller c \<noteq> InstallerFake then Inl CFakeRoleNotFake
          else let role = role_of (K3sFakeInstalledRole c) in
            if role \<noteq> RoleServer \<and> role \<noteq> RoleAgent then Inl (CFakeRole (K3sFakeInstalledRole c))
            else Inr ())
       else Inr ())"

subsection \<open>Environment fallbacks\<close>

text \<open>\<open>getenv\<close> is \<open>os.Getenv\<close>: an unset variable reads as the empty string.\<close>

definition envOr :: "(string \<Rightarrow> string) \<Rightarrow> string \<Rightarrow> string \<Rightarrow> string" where
  "envOr getenv key fallback = (let v = getenv key in if v \<noteq> '''' then v else fallback)"

definition is_digit :: "char \<Rightarrow> bool" where
  "is_digit c \<longleftrightarrow> CHR ''0'' \<le> c \<and> c \<le> CHR ''9''"

definition digit_value :: "char \<Rightarrow> int" where
  "digit_value c = int (of_char c :: nat) - 48"

fun decimal_value :: "int \<Rightarrow> string \<Rightarrow> int" where
  "decimal_value acc [] = acc"
| "decimal_value acc (c # cs) = decimal_value (10 * acc + digit_value c) cs"

text \<open>
  \<open>fmt.Sscanf(v, "%d", &i)\<close> on an \<open>int\<close>: leading spaces, an optional sign, the longest run of
  digits; what follows is not read. An overflow of 64 bits is an error.
\<close>

definition sscanf_d :: "string \<Rightarrow> int option" where
  "sscanf_d v =
    (let v = dropWhile (\<lambda>c. c = CHR '' '' \<or> c = CHR 0x09 \<or> c = CHR 0x0D) v;
         neg = (v \<noteq> [] \<and> hd v = CHR ''-'');
         v = (if v \<noteq> [] \<and> (hd v = CHR ''-'' \<or> hd v = CHR ''+'') then tl v else v);
         ds = takeWhile is_digit v;
         n = (if neg then - decimal_value 0 ds else decimal_value 0 ds)
     in if ds = [] \<or> n < - (2 ^ 63) \<or> n \<ge> 2 ^ 63 then None else Some n)"

definition envOrInt :: "(string \<Rightarrow> string) \<Rightarrow> string \<Rightarrow> int \<Rightarrow> int" where
  "envOrInt getenv key fallback =
    (let v = getenv key in
     if v \<noteq> '''' then (case sscanf_d v of Some i \<Rightarrow> i | None \<Rightarrow> fallback) else fallback)"

text \<open>\<open>strconv.ParseBool\<close>.\<close>

definition ParseBool :: "string \<Rightarrow> bool option" where
  "ParseBool s =
    (if s \<in> {''1'', ''t'', ''T'', ''true'', ''TRUE'', ''True''} then Some True
     else if s \<in> {''0'', ''f'', ''F'', ''false'', ''FALSE'', ''False''} then Some False
     else None)"

definition envOrBool :: "(string \<Rightarrow> string) \<Rightarrow> string \<Rightarrow> bool \<Rightarrow> bool" where
  "envOrBool getenv key fallback =
    (let v = getenv key in
     if v \<noteq> '''' then (case ParseBool v of Some b \<Rightarrow> b | None \<Rightarrow> fallback) else fallback)"

definition envOrDuration ::
  "(string \<Rightarrow> duration option) \<Rightarrow> (string \<Rightarrow> string) \<Rightarrow> string \<Rightarrow> duration \<Rightarrow> duration" where
  "envOrDuration parse_duration getenv key fallback =
    (let v = getenv key in
     if v \<noteq> '''' then (case parse_duration v of Some d \<Rightarrow> d | None \<Rightarrow> fallback) else fallback)"

subsection \<open>Log level and rendering\<close>

datatype level = LevelDebug | LevelInfo | LevelWarn | LevelError

fun level_value :: "level \<Rightarrow> int" where
  "level_value LevelDebug = -4"
| "level_value LevelInfo = 0"
| "level_value LevelWarn = 4"
| "level_value LevelError = 8"

lemma level_value_inj: "level_value a = level_value b \<Longrightarrow> a = b"
  by (cases a; cases b) simp_all

text \<open>\<open>slog.Level\<close> is an integer type; levels compare by their value.\<close>

instantiation level :: linorder
begin

definition less_eq_level :: "level \<Rightarrow> level \<Rightarrow> bool" where
  "a \<le> b \<longleftrightarrow> level_value a \<le> level_value b"

definition less_level :: "level \<Rightarrow> level \<Rightarrow> bool" where
  "a < b \<longleftrightarrow> level_value a < level_value b"

instance
  by standard (auto simp: less_eq_level_def less_level_def dest: level_value_inj)

end

definition GetLogLevel :: "config \<Rightarrow> level" where
  "GetLogLevel c =
    (let l = ToLower (LogLevel c) in
     if l = ''debug'' then LevelDebug
     else if l = ''info'' then LevelInfo
     else if l = ''warn'' \<or> l = ''warning'' then LevelWarn
     else if l = ''error'' then LevelError
     else LevelInfo)"

definition show_bool :: "bool \<Rightarrow> string" where
  "show_bool b = (if b then ''true'' else ''false'')"

text \<open>\<open>show_int\<close> and \<open>show_duration\<close> are the verbs \<open>%d\<close> and \<open>%s\<close> of the format.\<close>

definition config_String ::
  "(int \<Rightarrow> string) \<Rightarrow> (duration \<Rightarrow> string) \<Rightarrow> config \<Rightarrow> string" where
  "config_String show_int show_duration c =
    (let tokenInfo = (if K3sToken c \<noteq> '''' then ''set'' else ''UNSET'') in
     ''Config{NodeName: '' @ NodeNameC c @ '', SerfBindAddr: '' @ SerfBindAddr c
       @ '', SerfBindPort: '' @ show_int (SerfBindPort c)
       @ '', HTTPPort: '' @ show_int (HTTPPort c)
       @ '', StateFilePath: '' @ StateFilePath c
       @ '', K3sInstaller: '' @ K3sInstaller c @ '', K3sToken: '' @ tokenInfo
       @ '', RescaleEnabled: '' @ show_bool (RescaleEnabled c)
       @ '', EvictionGrace: '' @ show_duration (EvictionGrace c)
       @ '', RescaleSettleDelay: '' @ show_duration (RescaleSettleDelay c)
       @ '', LogLevel: '' @ LogLevel c @ ''}'')"

lemma validate_ok:
  "validate parse_ip c = Inr () \<longleftrightarrow>
    validateNodeName (NodeNameC c) = Inr () \<and> parse_ip (SerfBindAddr c) \<and>
    0 < SerfBindPort c \<and> SerfBindPort c \<le> 65535 \<and> 0 < HTTPPort c \<and> HTTPPort c \<le> 65535 \<and>
    StateFilePath c \<noteq> '''' \<and> (K3sInstaller c = InstallerExec \<or> K3sInstaller c = InstallerFake) \<and>
    (K3sInstaller c = InstallerExec \<longrightarrow> K3sToken c \<noteq> '''') \<and>
    0 < EvictionGrace c \<and> 0 < RescaleSettleDelay c \<and>
    (K3sFakeInstalledRole c \<noteq> '''' \<longrightarrow>
      K3sInstaller c = InstallerFake \<and> K3sFakeInstalledRole c \<in> {''server'', ''agent''})"
  by (auto simp: validate_def role_of_def Let_def not_le not_less split: sum.splits if_splits)

lemma config_String_token:
  "(K3sToken c = '''') = (t = '''') \<Longrightarrow>
    config_String show_int show_duration (c\<lparr>K3sToken := t\<rparr>) = config_String show_int show_duration c"
  by (simp add: config_String_def)

subsection \<open>Load\<close>

definition defaultSerfBindAddr :: string where
  "defaultSerfBindAddr = ''0.0.0.0''"

definition defaultSerfBindPort :: int where
  "defaultSerfBindPort = 7946"

definition defaultHTTPPort :: int where
  "defaultHTTPPort = 9000"

definition defaultStateFile :: string where
  "defaultStateFile = ''/var/lib/antsd/state.json''"

definition defaultLogLevel :: string where
  "defaultLogLevel = ''debug''"

definition defaultRescaleEnabled :: bool where
  "defaultRescaleEnabled = True"

definition defaultEvictionGrace :: duration where
  "defaultEvictionGrace = 12 * hour"

definition defaultRescaleSettleDelay :: duration where
  "defaultRescaleSettleDelay = 30 * second"

text \<open>
  The flags of a command line that \<open>flag.Parse\<close> accepted, each with its last value if it was given.
  On a command line it does not accept, \<open>flag.Parse\<close> ends the process.
\<close>

record flags =
  fNodeName :: "string option"
  fSerfBindAddr :: "string option"
  fSerfBindPort :: "int option"
  fHTTPPort :: "int option"
  fStateFile :: "string option"
  fK3sInstaller :: "string option"
  fK3sToken :: "string option"
  fK3sFakeInstalledRole :: "string option"
  fRescaleEnabled :: "bool option"
  fEvictionGrace :: "duration option"
  fRescaleSettleDelay :: "duration option"
  fLogLevel :: "string option"

definition flag_or :: "'a option \<Rightarrow> 'a \<Rightarrow> 'a" where
  "flag_or f d = (case f of Some v \<Rightarrow> v | None \<Rightarrow> d)"

datatype startup_error = CannotDeriveName derive_error | InvalidConfiguration config_error

record platform =
  parseIP :: "string \<Rightarrow> bool"
  parseDuration :: "string \<Rightarrow> duration option"
  getenv :: "string \<Rightarrow> string"
  interfaces :: "error + interface list"
  statOk :: "string \<Rightarrow> bool"

definition derived_name :: "platform \<Rightarrow> string" where
  "derived_name p = (case defaultNodeName (interfaces p) (statOk p) of Inl err \<Rightarrow> '''' | Inr name \<Rightarrow> name)"

definition loaded :: "platform \<Rightarrow> flags \<Rightarrow> config" where
  "loaded p f =
    \<lparr>NodeNameC = flag_or (fNodeName f) (envOr (getenv p) ''ANTSD_NODE_NAME'' (derived_name p)),
     SerfBindAddr = flag_or (fSerfBindAddr f) (envOr (getenv p) ''ANTSD_SERF_BIND_ADDR'' defaultSerfBindAddr),
     SerfBindPort = flag_or (fSerfBindPort f) (envOrInt (getenv p) ''ANTSD_SERF_BIND_PORT'' defaultSerfBindPort),
     HTTPPort = flag_or (fHTTPPort f) (envOrInt (getenv p) ''ANTSD_HTTP_PORT'' defaultHTTPPort),
     StateFilePath = flag_or (fStateFile f) (envOr (getenv p) ''ANTSD_STATE_FILE'' defaultStateFile),
     K3sInstaller = flag_or (fK3sInstaller f) (envOr (getenv p) ''ANTSD_K3S_INSTALLER'' InstallerExec),
     K3sToken = flag_or (fK3sToken f) (envOr (getenv p) ''ANTSD_K3S_TOKEN'' ''''),
     K3sFakeInstalledRole =
       flag_or (fK3sFakeInstalledRole f) (envOr (getenv p) ''ANTSD_K3S_FAKE_INSTALLED_ROLE'' ''''),
     RescaleEnabled = flag_or (fRescaleEnabled f) (envOrBool (getenv p) ''ANTSD_RESCALE_ENABLED'' defaultRescaleEnabled),
     EvictionGrace = flag_or (fEvictionGrace f)
       (envOrDuration (parseDuration p) (getenv p) ''ANTSD_RESCALE_EVICTION_GRACE'' defaultEvictionGrace),
     RescaleSettleDelay = flag_or (fRescaleSettleDelay f)
       (envOrDuration (parseDuration p) (getenv p) ''ANTSD_RESCALE_SETTLE_DELAY'' defaultRescaleSettleDelay),
     LogLevel = flag_or (fLogLevel f) (envOr (getenv p) ''ANTSD_LOG_LEVEL'' defaultLogLevel)\<rparr>"

definition Load_config :: "platform \<Rightarrow> flags \<Rightarrow> startup_error + config" where
  "Load_config p f =
    (let c = loaded p f; derived = defaultNodeName (interfaces p) (statOk p) in
     case (NodeNameC c, derived) of
       ('''', Inl err) \<Rightarrow> Inl (CannotDeriveName err)
     | _ \<Rightarrow> (case validate (parseIP p) c of Inl err \<Rightarrow> Inl (InvalidConfiguration err) | Inr _ \<Rightarrow> Inr c))"

lemma defaultNodeName_valid:
  "defaultNodeName ifs ok = Inr name \<Longrightarrow> validateNodeName name = Inr ()"
  by (auto simp: defaultNodeName_def interface_name_valid split: sum.splits option.splits)

text \<open>
  C32: the daemon starts only with a configuration that is safe to run: a Kubernetes label as the
  node name, ports in range, a state file, a token when K3s is really installed, delays that are
  positive; each value is the one of its flag, else of its variable, else the default. On a machine
  with a network card the name never makes the start fail unless one was given.
\<close>

theorem load_validates:
  "(\<forall>c. Load_config p f = Inr c \<longrightarrow> c = loaded p f
      \<and> length (NodeNameC c) \<le> 63 \<and> MatchString nodeNamePattern (NodeNameC c)
      \<and> SerfBindPort c \<in> {1..65535} \<and> HTTPPort c \<in> {1..65535} \<and> StateFilePath c \<noteq> ''''
      \<and> K3sInstaller c \<in> {InstallerExec, InstallerFake} \<and> (K3sInstaller c = InstallerExec \<longrightarrow> K3sToken c \<noteq> '''')
      \<and> 0 < EvictionGrace c \<and> 0 < RescaleSettleDelay c
      \<and> (K3sFakeInstalledRole c = '''' \<or> K3sInstaller c = InstallerFake \<and> role_of (K3sFakeInstalledRole c) \<in> {RoleServer, RoleAgent}))
   \<and> (fNodeName f = None \<longrightarrow> getenv p ''ANTSD_NODE_NAME'' = '''' \<longrightarrow>
      (case defaultNodeName (interfaces p) (statOk p) of
         Inl err \<Rightarrow> Load_config p f = Inl (CannotDeriveName err)
       | Inr name \<Rightarrow> NodeNameC (loaded p f) = name \<and> (\<nexists>err. Load_config p f = Inl (InvalidConfiguration (CNodeName err)))))"
proof (intro conjI allI impI)
  fix c
  assume "Load_config p f = Inr c"
  then have c: "c = loaded p f" and v: "validate (parseIP p) c = Inr ()"
    by (auto simp: Load_config_def Let_def split: list.splits sum.splits)
  show "c = loaded p f" by fact
  note v = v [unfolded validate_ok validateNodeName_ok]
  show "length (NodeNameC c) \<le> 63" "MatchString nodeNamePattern (NodeNameC c)"
    "SerfBindPort c \<in> {1..65535}" "HTTPPort c \<in> {1..65535}" "StateFilePath c \<noteq> ''''"
    "K3sInstaller c \<in> {InstallerExec, InstallerFake}" "K3sInstaller c = InstallerExec \<Longrightarrow> K3sToken c \<noteq> ''''"
    "0 < EvictionGrace c" "0 < RescaleSettleDelay c"
    using v by auto
  show "K3sFakeInstalledRole c = '''' \<or> K3sInstaller c = InstallerFake \<and> role_of (K3sFakeInstalledRole c) \<in> {RoleServer, RoleAgent}"
    using v by (auto simp: role_of_def)
next
  assume none: "fNodeName f = None" "getenv p ''ANTSD_NODE_NAME'' = ''''"
  then have name: "NodeNameC (loaded p f) = derived_name p" by (simp add: loaded_def flag_or_def envOr_def)
  show "case defaultNodeName (interfaces p) (statOk p) of
         Inl err \<Rightarrow> Load_config p f = Inl (CannotDeriveName err)
       | Inr name \<Rightarrow> NodeNameC (loaded p f) = name \<and> (\<nexists>err. Load_config p f = Inl (InvalidConfiguration (CNodeName err)))"
  proof (cases "defaultNodeName (interfaces p) (statOk p)")
    case (Inl err)
    then show ?thesis using name by (simp add: Load_config_def derived_name_def)
  next
    case (Inr n)
    then have "validateNodeName (NodeNameC (loaded p f)) = Inr ()"
      using name defaultNodeName_valid [OF Inr] by (simp add: derived_name_def)
    then have "validate (parseIP p) (loaded p f) \<noteq> Inl (CNodeName err)" for err
      by (auto simp: validate_def Let_def split: if_splits)
    then show ?thesis
      using Inr name by (auto simp: Load_config_def derived_name_def Let_def split: list.splits sum.splits)
  qed
qed

definition demo_platform :: platform where
  "demo_platform = \<lparr>parseIP = \<lambda>s. s = ''0.0.0.0'', parseDuration = \<lambda>s. None,
    getenv = \<lambda>k. if k = ''ANTSD_K3S_TOKEN'' then ''secret'' else if k = ''ANTSD_HTTP_PORT'' then ''9001'' else '''',
    interfaces = Inr [\<lparr>ifName = ''eth0'', ifFlags = 0, HardwareAddr = [2, 66, 172, 17, 0, 10]\<rparr>], statOk = \<lambda>q. True\<rparr>"

definition no_flags :: flags where
  "no_flags = \<lparr>fNodeName = None, fSerfBindAddr = None, fSerfBindPort = None, fHTTPPort = None, fStateFile = None,
    fK3sInstaller = None, fK3sToken = None, fK3sFakeInstalledRole = None, fRescaleEnabled = None,
    fEvictionGrace = None, fRescaleSettleDelay = None, fLogLevel = None\<rparr>"

theorem load_validates_witness:
  "\<exists>c. Load_config demo_platform no_flags = Inr c \<and> NodeNameC c = ''ants-11000a'' \<and> HTTPPort c = 9001
    \<and> MatchString nodeNamePattern (NodeNameC c)"
proof -
  have ok: "case_sum (\<lambda>e. False) (\<lambda>c. NodeNameC c = ''ants-11000a'' \<and> HTTPPort c = 9001) (Load_config demo_platform no_flags)"
    by code_simp
  then obtain c where "Load_config demo_platform no_flags = Inr c" by (cases "Load_config demo_platform no_flags") auto
  with ok load_validates [of demo_platform no_flags] show ?thesis by auto
qed

end
