(* ===== verification/Payloads.thy ===== *)
theory Payloads
  imports Node_Role
begin

text \<open>
  The payloads of the Serf user events, \<open>rescaleOrder\<close> (\<open>cluster/rescale.go\<close>) and \<open>forgetOrder\<close>
  (\<open>cluster/forget.go\<close>), with \<open>json.Marshal\<close> and \<open>json.Unmarshal\<close> on these two structs. A
  payload is the JSON document its bytes hold (\<open>Doc\<close>), bytes that are no JSON document
  (\<open>NotJson\<close>), or absent (\<open>NoPayload\<close>, a nil slice, which \<open>Unmarshal\<close> refuses). Decoding follows
  the library: fields are matched up to letter case, unknown fields are skipped, a repeated field
  is overwritten, a missing or null field keeps its zero value, a value of another type is an
  error.
\<close>

datatype json =
    JNull
  | JBool bool
  | JNumber int
  | JString string
  | JArray "json list"
  | JObject "(string \<times> json) list"

datatype payload = NoPayload | Doc json | NotJson

record rescaleOrder =
  Target :: string
  RoleO :: role
  JoinIP :: string

record forgetOrder =
  NameO :: string

definition noOrder :: rescaleOrder where
  "noOrder = \<lparr>Target = '''', RoleO = noRole, JoinIP = ''''\<rparr>"

definition noForget :: forgetOrder where
  "noForget = \<lparr>NameO = ''''\<rparr>"

text \<open>One string field of a struct: the new value, \<open>None\<close> on a value of another type.\<close>

fun string_field :: "json \<Rightarrow> string \<Rightarrow> string option" where
  "string_field JNull old = Some old"
| "string_field (JString s) old = Some s"
| "string_field _ old = None"

definition forget_field :: "forgetOrder \<Rightarrow> string \<times> json \<Rightarrow> forgetOrder option" where
  "forget_field order kv =
    (case kv of (k, v) \<Rightarrow>
       if ToLower k = ''name'' then map_option (\<lambda>s. order\<lparr>NameO := s\<rparr>) (string_field v (NameO order))
       else Some order)"

definition order_field :: "rescaleOrder \<Rightarrow> string \<times> json \<Rightarrow> rescaleOrder option" where
  "order_field order kv =
    (case kv of (k, v) \<Rightarrow>
       if ToLower k = ''target'' then map_option (\<lambda>s. order\<lparr>Target := s\<rparr>) (string_field v (Target order))
       else if ToLower k = ''role''
         then map_option (\<lambda>s. order\<lparr>RoleO := role_of s\<rparr>) (string_field v (role_string (RoleO order)))
       else if ToLower k = ''join_ip'' then map_option (\<lambda>s. order\<lparr>JoinIP := s\<rparr>) (string_field v (JoinIP order))
       else Some order)"

fun decode_fields :: "('a \<Rightarrow> string \<times> json \<Rightarrow> 'a option) \<Rightarrow> 'a \<Rightarrow> (string \<times> json) list \<Rightarrow> 'a option" where
  "decode_fields f a [] = Some a"
| "decode_fields f a (kv # kvs) =
     (case f a kv of None \<Rightarrow> None | Some b \<Rightarrow> decode_fields f b kvs)"

fun unmarshal_struct :: "('a \<Rightarrow> string \<times> json \<Rightarrow> 'a option) \<Rightarrow> 'a \<Rightarrow> payload \<Rightarrow> 'a option" where
  "unmarshal_struct f zero (Doc (JObject kvs)) = decode_fields f zero kvs"
| "unmarshal_struct f zero (Doc JNull) = Some zero"
| "unmarshal_struct f zero _ = None"

definition marshalForget :: "forgetOrder \<Rightarrow> payload" where
  "marshalForget order = Doc (JObject [(''name'', JString (NameO order))])"

definition unmarshalForget :: "payload \<Rightarrow> forgetOrder option" where
  "unmarshalForget p = unmarshal_struct forget_field noForget p"

definition marshalOrder :: "rescaleOrder \<Rightarrow> payload" where
  "marshalOrder order =
    Doc (JObject [(''target'', JString (Target order)),
      (''role'', JString (role_string (RoleO order))), (''join_ip'', JString (JoinIP order))])"

definition unmarshalOrder :: "payload \<Rightarrow> rescaleOrder option" where
  "unmarshalOrder p = unmarshal_struct order_field noOrder p"

lemma ToLower_fields [simp]:
  "ToLower ''name'' = ''name''" "ToLower ''target'' = ''target''" "ToLower ''role'' = ''role''"
  "ToLower ''join_ip'' = ''join_ip''"
  by (simp_all add: ToLower_def to_lower_def)

lemma unmarshalForget_marshal [simp]: "unmarshalForget (marshalForget order) = Some order"
  by (simp add: unmarshalForget_def marshalForget_def forget_field_def noForget_def)

text \<open>A role whose string is one of the two constants reads back as that constant.\<close>

definition canonical_role :: "role \<Rightarrow> bool" where
  "canonical_role r \<longleftrightarrow> role_of (role_string r) = r"

lemma canonical_role_simps [simp]: "canonical_role RoleServer" "canonical_role RoleAgent"
  by (simp_all add: canonical_role_def role_of_def)

lemma unmarshalOrder_marshal [simp]:
  "canonical_role (RoleO order) \<Longrightarrow> unmarshalOrder (marshalOrder order) = Some order"
  by (simp add: unmarshalOrder_def marshalOrder_def order_field_def noOrder_def canonical_role_def)

lemma unmarshalForget_nil [simp]: "unmarshalForget NoPayload = None" "unmarshalForget NotJson = None"
  by (simp_all add: unmarshalForget_def)

text \<open>
  The orders survive the broadcast: the receiver decodes what the sender encoded, whatever the
  names and addresses, and a payload that is absent or no JSON is refused. A forget order read as a
  conversion order designates no machine.
\<close>

theorem orders_survive_broadcast:
  "unmarshalForget (marshalForget ask) = Some ask
    \<and> (canonical_role (RoleO ord) \<longleftrightarrow> unmarshalOrder (marshalOrder ord) = Some ord)
    \<and> map_option Target (unmarshalOrder (marshalOrder ord)) = Some (Target ord)
    \<and> map_option Target (unmarshalOrder (marshalForget ask)) = Some ''''
    \<and> (p \<in> {NoPayload, NotJson} \<longrightarrow> unmarshalForget p = None \<and> unmarshalOrder p = None)"
proof -
  have "unmarshalOrder (marshalOrder ord) = Some (ord\<lparr>RoleO := role_of (role_string (RoleO ord))\<rparr>)"
    by (simp add: unmarshalOrder_def marshalOrder_def order_field_def noOrder_def)
  moreover have "RoleO (ord\<lparr>RoleO := r\<rparr>) = r" for r by simp
  ultimately have "canonical_role (RoleO ord) \<longleftrightarrow> unmarshalOrder (marshalOrder ord) = Some ord"
    by (metis canonical_role_def option.inject rescaleOrder.surjective rescaleOrder.update_convs(2))
  moreover have "map_option Target (unmarshalOrder (marshalOrder ord)) = Some (Target ord)"
      "map_option Target (unmarshalOrder (marshalForget ask)) = Some ''''"
      "p \<in> {NoPayload, NotJson} \<Longrightarrow> unmarshalForget p = None \<and> unmarshalOrder p = None"
    by (auto simp: unmarshalOrder_def marshalOrder_def marshalForget_def order_field_def noOrder_def)
  ultimately show ?thesis by simp
qed

theorem orders_survive_broadcast_witness:
  "unmarshalOrder NotJson = None
    \<and> unmarshalOrder (marshalOrder \<lparr>Target = ''ants03'', RoleO = RoleAgent, JoinIP = ''10.0.0.1''\<rparr>)
        = Some \<lparr>Target = ''ants03'', RoleO = RoleAgent, JoinIP = ''10.0.0.1''\<rparr>"
  using orders_survive_broadcast [of _ "\<lparr>Target = ''ants03'', RoleO = RoleAgent, JoinIP = ''10.0.0.1''\<rparr>" NotJson]
  by simp

end
