(* ===== verification/Persist.thy ===== *)
theory Persist
  imports Payloads
begin

text \<open>
  The state a node keeps on disk between two boots, \<open>antsd/internal/node/persist.go\<close>. The file
  system is a map from paths to contents (the JSON document a file holds). Each system call of
  \<open>Save\<close> may fail: \<open>save_env\<close> says which ones do, and names the temporary file. \<open>Save\<close> returns
  every content of the file system from its start to its return, the last one first, so that a
  process that dies in the middle of it is covered. The RFC 3339 text of an instant is a pair of
  functions \<open>time_text\<close>/\<open>text_time\<close>.
\<close>

record PersistedState =
  NodeNameP :: string
  RoleP :: role
  BootCount :: int
  FirstBootCompletedAt :: time
  RoleChangedAt :: time

definition noState :: PersistedState where
  "noState = \<lparr>NodeNameP = '''', RoleP = noRole, BootCount = 0,
    FirstBootCompletedAt = zero_time, RoleChangedAt = zero_time\<rparr>"

subsection \<open>JSON\<close>

definition marshalState :: "(time \<Rightarrow> string option) \<Rightarrow> PersistedState \<Rightarrow> payload option" where
  "marshalState time_text s =
    (case (time_text (FirstBootCompletedAt s), time_text (RoleChangedAt s)) of
       (Some first, Some changed) \<Rightarrow>
         Some (Doc (JObject [(''node_name'', JString (NodeNameP s)),
           (''role'', JString (role_string (RoleP s))), (''boot_count'', JNumber (BootCount s)),
           (''first_boot_completed_at'', JString first), (''role_changed_at'', JString changed)]))
     | _ \<Rightarrow> None)"

fun int_field :: "json \<Rightarrow> int \<Rightarrow> int option" where
  "int_field JNull old = Some old"
| "int_field (JNumber n) old = (if - (2 ^ 63) \<le> n \<and> n < 2 ^ 63 then Some n else None)"
| "int_field _ old = None"

fun time_field :: "(string \<Rightarrow> time option) \<Rightarrow> json \<Rightarrow> time \<Rightarrow> time option" where
  "time_field text_time JNull old = Some old"
| "time_field text_time (JString s) old = text_time s"
| "time_field text_time _ old = None"

definition state_field ::
  "(string \<Rightarrow> time option) \<Rightarrow> PersistedState \<Rightarrow> string \<times> json \<Rightarrow> PersistedState option" where
  "state_field text_time st kv =
    (case kv of (k, v) \<Rightarrow>
       let k = ToLower k in
       if k = ''node_name'' then map_option (\<lambda>s. st\<lparr>NodeNameP := s\<rparr>) (string_field v (NodeNameP st))
       else if k = ''role''
         then map_option (\<lambda>s. st\<lparr>RoleP := role_of s\<rparr>) (string_field v (role_string (RoleP st)))
       else if k = ''boot_count'' then map_option (\<lambda>n. st\<lparr>BootCount := n\<rparr>) (int_field v (BootCount st))
       else if k = ''first_boot_completed_at''
         then map_option (\<lambda>t. st\<lparr>FirstBootCompletedAt := t\<rparr>) (time_field text_time v (FirstBootCompletedAt st))
       else if k = ''role_changed_at''
         then map_option (\<lambda>t. st\<lparr>RoleChangedAt := t\<rparr>) (time_field text_time v (RoleChangedAt st))
       else Some st)"

definition unmarshalState :: "(string \<Rightarrow> time option) \<Rightarrow> payload \<Rightarrow> PersistedState option" where
  "unmarshalState text_time p = unmarshal_struct (state_field text_time) noState p"

subsection \<open>Save\<close>

type_synonym fs = "string \<rightharpoonup> payload"

record save_env =
  mkdir_error :: "error option"
  create_error :: "error option"
  tmp_name :: string
  write_error :: "error option"
  close_error :: "error option"
  rename_error :: "error option"
  remove_works :: bool

datatype save_error = SMarshal | SMkdir error | SCreate error | SWrite error | SClose error | SRename error

definition remove_tmp :: "save_env \<Rightarrow> fs \<Rightarrow> fs" where
  "remove_tmp e f = (if remove_works e then f(tmp_name e := None) else f)"

definition Save ::
  "(time \<Rightarrow> string option) \<Rightarrow> save_env \<Rightarrow> PersistedState \<Rightarrow> string \<Rightarrow> fs
    \<Rightarrow> save_error option \<times> fs list" where
  "Save time_text e s path f0 =
    (case marshalState time_text s of
       None \<Rightarrow> (Some SMarshal, [f0])
     | Some data \<Rightarrow>
       case mkdir_error e of Some err \<Rightarrow> (Some (SMkdir err), [f0]) | None \<Rightarrow>
       case create_error e of Some err \<Rightarrow> (Some (SCreate err), [f0]) | None \<Rightarrow>
       let f1 = f0(tmp_name e \<mapsto> NotJson) in
       case write_error e of
         Some err \<Rightarrow> (Some (SWrite err), [remove_tmp e f1, f1, f0])
       | None \<Rightarrow>
       let f2 = f1(tmp_name e \<mapsto> data) in
       case close_error e of
         Some err \<Rightarrow> (Some (SClose err), [remove_tmp e f2, f2, f1, f0])
       | None \<Rightarrow>
       case rename_error e of
         Some err \<Rightarrow> (Some (SRename err), [remove_tmp e f2, f2, f1, f0])
       | None \<Rightarrow> (None, [f2(tmp_name e := None, path \<mapsto> data), f2, f1, f0]))"

subsection \<open>Load\<close>

datatype invalid_reason = EmptyNodeName | UnknownRole role

datatype load_error = LNotExist | LRead error | LParse | LInvalid invalid_reason

definition validateState :: "PersistedState \<Rightarrow> invalid_reason + unit" where
  "validateState s =
    (if NodeNameP s = '''' then Inl EmptyNodeName
     else if RoleP s \<noteq> RoleServer \<and> RoleP s \<noteq> RoleAgent then Inl (UnknownRole (RoleP s))
     else Inr ())"

text \<open>\<open>read_error\<close>: an error of \<open>os.ReadFile\<close> other than a missing file.\<close>

definition Load ::
  "(string \<Rightarrow> time option) \<Rightarrow> error option \<Rightarrow> string \<Rightarrow> fs \<Rightarrow> load_error + PersistedState" where
  "Load text_time read_error path f =
    (case f path of
       None \<Rightarrow> Inl LNotExist
     | Some data \<Rightarrow>
       (case read_error of
          Some err \<Rightarrow> Inl (LRead err)
        | None \<Rightarrow>
          (case unmarshalState text_time data of
             None \<Rightarrow> Inl LParse
           | Some st \<Rightarrow>
             (case validateState st of Inl r \<Rightarrow> Inl (LInvalid r) | Inr _ \<Rightarrow> Inr st))))"

lemma ToLower_state_fields [simp]:
  "ToLower ''node_name'' = ''node_name''" "ToLower ''boot_count'' = ''boot_count''"
  "ToLower ''first_boot_completed_at'' = ''first_boot_completed_at''"
  "ToLower ''role_changed_at'' = ''role_changed_at''"
  by (simp_all add: ToLower_def to_lower_def)

lemma unmarshalState_marshal:
  assumes "marshalState time_text s = Some data" and "canonical_role (RoleP s)"
    and "- (2 ^ 63) \<le> BootCount s" and "BootCount s < 2 ^ 63"
    and "\<And>t x. time_text t = Some x \<Longrightarrow> text_time x = Some t"
  shows "unmarshalState text_time data = Some s"
  using assms
  by (auto simp: marshalState_def unmarshalState_def state_field_def noState_def canonical_role_def
      Let_def split: option.splits)

lemma validateState_ok:
  "validateState s = Inr () \<longleftrightarrow> NodeNameP s \<noteq> '''' \<and> (RoleP s = RoleServer \<or> RoleP s = RoleAgent)"
  by (simp add: validateState_def)

lemma Load_ok:
  "Load text_time read_error path f = Inr s \<Longrightarrow>
    NodeNameP s \<noteq> '''' \<and> (RoleP s = RoleServer \<or> RoleP s = RoleAgent)"
  by (auto simp: Load_def validateState_def split: option.splits sum.splits if_splits)

lemma Save_path:
  assumes "tmp_name e \<noteq> path" and "Save time_text e s path f = (err, fs)" and "g \<in> set fs"
  shows "g path = f path \<or> (\<exists>data. marshalState time_text s = Some data \<and> g path = Some data)"
  using assms
  by (auto simp: Save_def Let_def remove_tmp_def split: option.splits)

lemma Save_None:
  assumes "Save time_text e s path f = (None, fs)"
  obtains data where "marshalState time_text s = Some data" "hd fs path = Some data"
    "tmp_name e \<noteq> path \<Longrightarrow> hd fs = f(tmp_name e := None, path \<mapsto> data)"
  using assms by (auto simp: Save_def Let_def split: option.splits)

text \<open>
  C23: saving is atomic and what is saved reads back. In every state of the file system that a save
  goes through, so in whatever a crash leaves, loading gives what it gave before or the new state;
  after a save that succeeded it gives the new state, after one that failed what it gave before.
\<close>

theorem save_load:
  assumes "tmp_name e \<noteq> path" and "validateState s = Inr ()"
    and "- (2 ^ 63) \<le> BootCount s" and "BootCount s < 2 ^ 63"
    and "\<And>t x. time_text t = Some x \<Longrightarrow> text_time x = Some t"
    and "Save time_text e s path f = (err, fs)"
  shows "(\<forall>g \<in> set fs. Load text_time None path g \<in> {Load text_time None path f, Inr s})
    \<and> (if err = None then Load text_time None path (hd fs) = Inr s
       else Load text_time None path (hd fs) = Load text_time None path f)"
proof -
  have role: "canonical_role (RoleP s)" using assms(2) by (auto simp: validateState_ok)
  have new: "Load text_time None path g = Inr s" if "g path = Some data" "marshalState time_text s = Some data" for g data
    using unmarshalState_marshal [OF that(2) role assms(3,4,5)] that(1) assms(2) by (simp add: Load_def)
  have old: "Load text_time None path g = Load text_time None path f" if "g path = f path" for g
    using that by (simp add: Load_def)
  have "Load text_time None path (hd fs) = Inr s" if "err = None"
  proof -
    have "Save time_text e s path f = (None, fs)" using assms(6) that by simp
    then show ?thesis by (rule Save_None) (rule new)
  qed
  moreover have "hd fs path = f path" if "err \<noteq> None"
    using assms(1,6) that by (auto simp: Save_def Let_def remove_tmp_def split: option.splits)
  moreover have "Load text_time None path g \<in> {Load text_time None path f, Inr s}" if "g \<in> set fs" for g
  proof (cases "g path = f path")
    case True
    then show ?thesis using old [of g] by simp
  next
    case False
    with Save_path [OF assms(1,6) that] obtain data where "marshalState time_text s = Some data" "g path = Some data"
      by (elim disjE exE conjE) simp_all
    then show ?thesis using new [of g data] by simp
  qed
  ultimately show ?thesis using old [of "hd fs"] by simp
qed

definition demo_save_env :: save_env where
  "demo_save_env = \<lparr>mkdir_error = None, create_error = None, tmp_name = ''state.json.tmp-1'', write_error = None,
    close_error = None, rename_error = None, remove_works = True\<rparr>"

definition saved_server :: PersistedState where
  "saved_server = \<lparr>NodeNameP = ''ants01'', RoleP = RoleServer, BootCount = 1, FirstBootCompletedAt = 5, RoleChangedAt = 0\<rparr>"

text \<open>A text of instants that reads back, for the example.\<close>

definition unary_text :: "time \<Rightarrow> string option" where
  "unary_text t = (if 0 \<le> t then Some (replicate (nat t) CHR ''I'') else None)"

theorem save_load_witness:
  "\<exists>fs. Save unary_text demo_save_env saved_server ''state.json'' Map.empty = (None, fs)
    \<and> Load (\<lambda>x. Some (int (length x))) None ''state.json'' (hd fs) = Inr saved_server"
proof -
  obtain err fs where r: "Save unary_text demo_save_env saved_server ''state.json'' Map.empty = (err, fs)" by fastforce
  then have "err = None"
    by (auto simp: Save_def demo_save_env_def marshalState_def unary_text_def saved_server_def Let_def)
  moreover have "tmp_name demo_save_env \<noteq> ''state.json''" "validateState saved_server = Inr ()"
      "- (2 ^ 63) \<le> BootCount saved_server" "BootCount saved_server < 2 ^ 63"
    by (simp_all add: demo_save_env_def saved_server_def validateState_def)
  moreover have "(\<lambda>x. Some (int (length x))) x = Some t" if "unary_text t = Some x" for t x
    using that by (auto simp: unary_text_def split: if_splits)
  ultimately show ?thesis using save_load [OF _ _ _ _ _ r, of "\<lambda>x. Some (int (length x))"] r by auto
qed

end
