(* ===== verification/Manager.thy ===== *)
theory Manager
  imports Cluster_View Config Persist
begin

text \<open>
  The state of the orchestrator, \<open>antsd/internal/cluster/manager.go\<close>, and the steps every workflow
  is made of.

  The outside world (the Serf agent behind \<open>serfAPI\<close>, the clock, the disk) is a \<open>world\<close>: for each
  call the manager makes, a function from the calls made so far to the answer. \<open>m_calls\<close> is that
  history, newest first. Every call extends it, reads included, so two calls never share a
  history and a \<open>world\<close> can give any sequence of answers; a statement about all worlds is a
  statement about all runs. Log records are not part of the model, so an error that is only logged
  is not an argument.

  Goroutines and timers are started by a call (\<open>IoStartOp\<close>, \<open>IoProbe\<close>, \<open>IoAfterFunc\<close>) and named by
  its position in the history; they come back as commands, see theory \<open>Run_Loop\<close>.
\<close>

subsection \<open>Calls and answers\<close>

text \<open>The wake-up a timer submits: the command its function sends.\<close>

datatype timer_kind = WakeBootstrapWait | WakeJoinWait | WakeForgetRetry | WakeRescaleCheck

text \<open>The cluster-side work of one coordination round.\<close>

datatype round_work = EvictNodes "string list" | PrepareConversion string | EraseNode string

text \<open>The K3s operations the workflows run in the background, one constructor per closure.\<close>

datatype k3s_op =
    OpInstallInit
  | OpInstallServer string
  | OpInstallAgent string
  | OpEnsureNotInstalled
  | OpRejoin role
  | OpRound round_work
  | OpConvert rescaleOrder

text \<open>The errors of the user actions; the first two wrap \<open>admin.ErrConflict\<close>.\<close>

datatype action_error =
    StateConflict string node_state
  | AlreadyInCluster member
  | BroadcastFailed error

fun is_conflict :: "action_error \<Rightarrow> bool" where
  "is_conflict (StateConflict action s) = True"
| "is_conflict (AlreadyInCluster m) = True"
| "is_conflict (BroadcastFailed err) = False"

datatype io =
    IoNow
  | IoSnapshot
  | IoLocalIP
  | IoLoad
  | IoSetState node_state
  | IoSend string payload
  | IoRemoveFailed string
  | IoSave PersistedState
  | IoAfterFunc nat timer_kind duration
  | IoStop nat
  | IoStartOp nat k3s_op
  | IoProbe nat string
  | IoReply nat "action_error option"
  | IoPanic

type_synonym history = "io list"

record world =
  wNow :: "history \<Rightarrow> time"
  wSnapshot :: "history \<Rightarrow> Snapshot"
  wLocalIP :: "history \<Rightarrow> string"
  wLoad :: "history \<Rightarrow> load_error + PersistedState"
  wSendUserEvent :: "history \<Rightarrow> string \<Rightarrow> payload \<Rightarrow> error option"
  wRemoveFailedNode :: "history \<Rightarrow> string \<Rightarrow> error option"

subsection \<open>The manager\<close>

record bootstrapProgress =
  bTimer :: "nat option"
  bRole :: role
  bRank :: int
  totalAliveMembers :: int
  bMembers :: "string list"

record joiningProgress =
  jTimer :: "nat option"
  settled :: bool
  cleaned :: bool
  forgetAttempts :: int

record rescaleProgress =
  failedSince :: "string \<rightharpoonup> time"
  imbalanceControlPlaneSince :: time
  retryNotBefore :: time
  rTimer :: "nat option"
  order :: rescaleOrder
  evicting :: "string list"
  cleaning :: string

record manager =
  m_config :: config
  m_state :: node_state
  m_stateView :: node_state
  m_bootstrapWaitDelay :: duration
  m_joinWaitDelay :: duration
  m_forgetRetryInterval :: duration
  m_rejoinTimeout :: duration
  m_evictionGrace :: duration
  m_rescaleSettleDelay :: duration
  m_bootstrap :: bootstrapProgress
  m_joining :: joiningProgress
  m_rescale :: rescaleProgress
  m_persistedState :: "PersistedState option"
  m_calls :: history

datatype command =
    CmdRequestBootstrap nat
  | CmdConfirmBootstrap nat
  | CmdCancelBootstrap nat
  | CmdBootstrapWaitExpired
  | CmdJoinWaitExpired
  | CmdForgetRetry
  | CmdForgetProbed string bool
  | CmdRescaleCheck
  | CmdK3sOperationSucceeded
  | CmdK3sOperationFailed error

definition bootstrapWaitDelay :: duration where
  "bootstrapWaitDelay = 10 * second"

definition joinWaitDelay :: duration where
  "joinWaitDelay = 10 * second"

definition forgetRetryInterval :: duration where
  "forgetRetryInterval = 15 * second"

definition rejoinTimeout :: duration where
  "rejoinTimeout = 10 * minute"

definition noBootstrap :: bootstrapProgress where
  "noBootstrap = \<lparr>bTimer = None, bRole = noRole, bRank = 0, totalAliveMembers = 0, bMembers = []\<rparr>"

definition noJoining :: joiningProgress where
  "noJoining = \<lparr>jTimer = None, settled = False, cleaned = False, forgetAttempts = 0\<rparr>"

definition noRescale :: rescaleProgress where
  "noRescale = \<lparr>failedSince = Map.empty, imbalanceControlPlaneSince = zero_time,
    retryNotBefore = zero_time, rTimer = None, order = noOrder, evicting = [], cleaning = ''''\<rparr>"

definition newManager :: "config \<Rightarrow> manager" where
  "newManager conf =
    \<lparr>m_config = conf, m_state = StateStarting, m_stateView = StateStarting,
     m_bootstrapWaitDelay = bootstrapWaitDelay, m_joinWaitDelay = joinWaitDelay,
     m_forgetRetryInterval = forgetRetryInterval, m_rejoinTimeout = rejoinTimeout,
     m_evictionGrace = EvictionGrace conf, m_rescaleSettleDelay = RescaleSettleDelay conf,
     m_bootstrap = noBootstrap, m_joining = noJoining, m_rescale = noRescale,
     m_persistedState = None, m_calls = []\<rparr>"

abbreviation selfName :: "manager \<Rightarrow> string" where
  "selfName m \<equiv> NodeNameC (m_config m)"

subsection \<open>Calls\<close>

definition emit :: "io \<Rightarrow> manager \<Rightarrow> manager" where
  "emit e m = m\<lparr>m_calls := e # m_calls m\<rparr>"

definition now :: "world \<Rightarrow> manager \<Rightarrow> time \<times> manager" where
  "now w m = (wNow w (m_calls m), emit IoNow m)"

definition observeCluster :: "world \<Rightarrow> manager \<Rightarrow> clusterView \<times> manager" where
  "observeCluster w m = (\<lparr>snapshot = wSnapshot w (m_calls m)\<rparr>, emit IoSnapshot m)"

definition LocalIP :: "world \<Rightarrow> manager \<Rightarrow> string \<times> manager" where
  "LocalIP w m = (wLocalIP w (m_calls m), emit IoLocalIP m)"

definition SendUserEvent :: "world \<Rightarrow> string \<Rightarrow> payload \<Rightarrow> manager \<Rightarrow> error option \<times> manager" where
  "SendUserEvent w name payload m =
    (wSendUserEvent w (m_calls m) name payload, emit (IoSend name payload) m)"

definition RemoveFailedNode :: "world \<Rightarrow> string \<Rightarrow> manager \<Rightarrow> error option \<times> manager" where
  "RemoveFailedNode w name m = (wRemoveFailedNode w (m_calls m) name, emit (IoRemoveFailed name) m)"

text \<open>\<open>time.AfterFunc\<close> returns the new timer, \<open>Stop\<close> takes one.\<close>

definition AfterFunc :: "timer_kind \<Rightarrow> duration \<Rightarrow> manager \<Rightarrow> nat \<times> manager" where
  "AfterFunc wake d m = (length (m_calls m), emit (IoAfterFunc (length (m_calls m)) wake d) m)"

definition stop_timer :: "nat option \<Rightarrow> manager \<Rightarrow> manager" where
  "stop_timer t m = (case t of None \<Rightarrow> m | Some i \<Rightarrow> emit (IoStop i) m)"

definition startK3sOperation :: "k3s_op \<Rightarrow> manager \<Rightarrow> manager" where
  "startK3sOperation op m = emit (IoStartOp (length (m_calls m)) op) m"

definition panic :: "manager \<Rightarrow> manager" where
  "panic m = emit IoPanic m"

subsection \<open>Steps shared by the workflows\<close>

definition transition :: "node_state \<Rightarrow> manager \<Rightarrow> manager" where
  "transition to m = emit (IoSetState to) (m\<lparr>m_state := to, m_stateView := to\<rparr>)"

definition becomeStable :: "PersistedState \<Rightarrow> manager \<Rightarrow> manager" where
  "becomeStable st m =
    transition (StableState (RoleP st)) ((emit (IoSave st) m)\<lparr>m_persistedState := Some st\<rparr>)"

text \<open>\<open>State\<close> of the controller interface reads the mirror of the state.\<close>

definition StateC :: "manager \<Rightarrow> string" where
  "StateC m = state_string (m_stateView m)"

definition bootstrap_stopTimer :: "manager \<Rightarrow> manager" where
  "bootstrap_stopTimer m =
    (stop_timer (bTimer (m_bootstrap m)) m)\<lparr>m_bootstrap := (m_bootstrap m)\<lparr>bTimer := None\<rparr>\<rparr>"

definition isCohortMember :: "bootstrapProgress \<Rightarrow> string \<Rightarrow> bool" where
  "isCohortMember b name \<longleftrightarrow> List.member (bMembers b) name"

definition bootstrap_reset :: "manager \<Rightarrow> manager" where
  "bootstrap_reset m = (bootstrap_stopTimer m)\<lparr>m_bootstrap := noBootstrap\<rparr>"

definition joining_stopTimer :: "manager \<Rightarrow> manager" where
  "joining_stopTimer m =
    (stop_timer (jTimer (m_joining m)) m)\<lparr>m_joining := (m_joining m)\<lparr>jTimer := None\<rparr>\<rparr>"

definition rescale_stopTimer :: "manager \<Rightarrow> manager" where
  "rescale_stopTimer m =
    (stop_timer (rTimer (m_rescale m)) m)\<lparr>m_rescale := (m_rescale m)\<lparr>rTimer := None\<rparr>\<rparr>"

definition buildFirstBootState :: "world \<Rightarrow> role \<Rightarrow> manager \<Rightarrow> PersistedState \<times> manager" where
  "buildFirstBootState w r m =
    (case now w m of (t, m) \<Rightarrow>
       (\<lparr>NodeNameP = selfName m, RoleP = r, BootCount = 1, FirstBootCompletedAt = t,
         RoleChangedAt = zero_time\<rparr>, m))"

end
