(* ===== verification/Bootstrap.thy ===== *)
theory Bootstrap
  imports Manager
begin

text \<open>
  The bootstrap path of the first boot, \<open>antsd/internal/cluster/bootstrap.go\<close>: the user actions,
  the two user events, the role computation and the installations it starts. A handler takes the
  world, the membership view when the code passes one, and the manager; the user actions also
  return their error.
\<close>

definition eventBootstrapRequested :: string where
  "eventBootstrapRequested = ''antsd:bootstrap-requested''"

definition eventBootstrapStart :: string where
  "eventBootstrapStart = ''antsd:bootstrap-start''"

definition failBootstrap :: "manager \<Rightarrow> manager" where
  "failBootstrap m = transition StateBootstrapFailed (bootstrap_stopTimer m)"

definition onRequestBootstrap :: "world \<Rightarrow> manager \<Rightarrow> action_error option \<times> manager" where
  "onRequestBootstrap w m =
    (if m_state m \<noteq> StateDiscovering then (Some (StateConflict ''request bootstrap'' (m_state m)), m)
     else
       case observeCluster w m of (view, m) \<Rightarrow>
       case findExistingK3sClusterMember view of (member, found) \<Rightarrow>
         if found then (Some (AlreadyInCluster member), m)
         else (None, transition StateBootstrapConfirm m))"

definition onCancelBootstrap :: "manager \<Rightarrow> action_error option \<times> manager" where
  "onCancelBootstrap m =
    (if m_state m \<noteq> StateBootstrapConfirm then (Some (StateConflict ''cancel bootstrap'' (m_state m)), m)
     else (None, transition StateDiscovering m))"

definition onConfirmBootstrap :: "world \<Rightarrow> manager \<Rightarrow> action_error option \<times> manager" where
  "onConfirmBootstrap w m =
    (if m_state m \<noteq> StateBootstrapConfirm then (Some (StateConflict ''confirm bootstrap'' (m_state m)), m)
     else
       case SendUserEvent w eventBootstrapRequested NoPayload m of (result, m) \<Rightarrow>
         (case result of Some err \<Rightarrow> (Some (BroadcastFailed err), m) | None \<Rightarrow> (None, m)))"

definition onBootstrapRequested :: "manager \<Rightarrow> manager" where
  "onBootstrapRequested m =
    (if m_state m \<noteq> StateDiscovering \<and> m_state m \<noteq> StateBootstrapConfirm then m
     else
       let m = transition StateBootstrapWaiting m in
       case AfterFunc WakeBootstrapWait (m_bootstrapWaitDelay m) m of (t, m) \<Rightarrow>
         m\<lparr>m_bootstrap := (m_bootstrap m)\<lparr>bTimer := Some t\<rparr>\<rparr>)"

definition onBootstrapWaitExpired :: "world \<Rightarrow> manager \<Rightarrow> manager" where
  "onBootstrapWaitExpired w m =
    (if m_state m \<noteq> StateBootstrapWaiting then m
     else
       case SendUserEvent w eventBootstrapStart NoPayload m of (result, m) \<Rightarrow>
         (case result of Some err \<Rightarrow> failBootstrap m | None \<Rightarrow> m))"

definition maybeInstallServer :: "clusterView \<Rightarrow> manager \<Rightarrow> manager" where
  "maybeInstallServer view m =
    (if m_state m \<noteq> StateBootstrapWaiting \<or> bRole (m_bootstrap m) \<noteq> RoleServer then m
     else if stableServerCount view < bRank (m_bootstrap m) then m
     else
       case findK3sJoinTarget view of (target, found) \<Rightarrow>
         if \<not> found then m
         else startK3sOperation (OpInstallServer (IP target))
           (transition StateBootstrapInstallServer m))"

definition maybeInstallAgent :: "clusterView \<Rightarrow> manager \<Rightarrow> manager" where
  "maybeInstallAgent view m =
    (if m_state m \<noteq> StateBootstrapWaiting \<or> bRole (m_bootstrap m) \<noteq> RoleAgent then m
     else if stableServerCount view < DesiredServerCount (totalAliveMembers (m_bootstrap m)) then m
     else
       case findK3sJoinTarget view of (target, found) \<Rightarrow>
         if \<not> found then m
         else startK3sOperation (OpInstallAgent (IP target))
           (transition StateBootstrapInstallAgent m))"

definition onBootstrapStart :: "world \<Rightarrow> manager \<Rightarrow> manager" where
  "onBootstrapStart w m =
    (if m_state m \<noteq> StateBootstrapWaiting then m
     else
       let m = bootstrap_stopTimer m in
       case observeCluster w m of (view, m) \<Rightarrow>
       let names = aliveMemberNames view in
       case Rank names (selfName m) of
         Inl err \<Rightarrow> failBootstrap m
       | Inr rank \<Rightarrow>
         let m = m\<lparr>m_bootstrap := (m_bootstrap m)\<lparr>bMembers := names,
                    totalAliveMembers := int (length names), bRank := rank,
                    bRole := RoleForRank rank (int (length names))\<rparr>\<rparr> in
         if rank = 0 then
           (case findExistingK3sClusterMember view of (member, found) \<Rightarrow>
              if found then failBootstrap m
              else startK3sOperation OpInstallInit (transition StateBootstrapInstallInit m))
         else maybeInstallAgent view (maybeInstallServer view m))"

definition onBootstrapInstallSucceeded :: "world \<Rightarrow> manager \<Rightarrow> manager" where
  "onBootstrapInstallSucceeded w m =
    (case m_state m of
       StateBootstrapInstallInit \<Rightarrow>
         (case buildFirstBootState w RoleServer m of (st, m) \<Rightarrow> becomeStable st m)
     | StateBootstrapInstallServer \<Rightarrow>
         (case buildFirstBootState w RoleServer m of (st, m) \<Rightarrow> becomeStable st m)
     | StateBootstrapInstallAgent \<Rightarrow>
         (case buildFirstBootState w RoleAgent m of (st, m) \<Rightarrow> becomeStable st m)
     | _ \<Rightarrow> m)"

end
