(* ===== verification/Rejoin.thy ===== *)
theory Rejoin
  imports Manager
begin

text \<open>
  The rejoin workflow, \<open>antsd/internal/cluster/rejoin.go\<close>, and \<open>chooseInitialState\<close> of
  \<open>manager.go\<close>, which selects between it and the first boot. Dereferencing a nil persisted state
  is a Go panic.
\<close>

definition failRejoin :: "manager \<Rightarrow> manager" where
  "failRejoin m = transition StateRejoinFailed m"

definition startRejoin :: "manager \<Rightarrow> manager" where
  "startRejoin m =
    (case m_persistedState m of
       None \<Rightarrow> panic m
     | Some persisted \<Rightarrow>
       if NodeNameP persisted \<noteq> selfName m then failRejoin m
       else startK3sOperation (OpRejoin (RoleP persisted)) (transition StateRejoinCluster m))"

definition onRejoinReady :: "manager \<Rightarrow> manager" where
  "onRejoinReady m =
    (case m_persistedState m of
       None \<Rightarrow> panic m
     | Some persisted \<Rightarrow> becomeStable (persisted\<lparr>BootCount := wrap_int (BootCount persisted + 1)\<rparr>) m)"

definition chooseInitialState :: "world \<Rightarrow> manager \<Rightarrow> manager" where
  "chooseInitialState w m =
    (let loaded = wLoad w (m_calls m); m = emit IoLoad m in
     case loaded of
       Inl LNotExist \<Rightarrow> transition StateDiscovering m
     | Inl _ \<Rightarrow> transition StateRejoinFailed m
     | Inr persisted \<Rightarrow> startRejoin (m\<lparr>m_persistedState := Some persisted\<rparr>))"

end
