(* ===== verification/Joining.thy ===== *)
theory Joining
  imports Manager
begin

text \<open>
  The joining path of the first boot, \<open>antsd/internal/cluster/joining.go\<close>, with \<open>startForgetMe\<close> of
  \<open>forget.go\<close>, which it calls before installing anything.
\<close>

definition failJoining :: "manager \<Rightarrow> manager" where
  "failJoining m = transition StateJoiningFailed (joining_stopTimer m)"

definition startForgetMe :: "manager \<Rightarrow> manager" where
  "startForgetMe m = startK3sOperation OpEnsureNotInstalled (transition StateJoiningCleanup m)"

definition joinAsAgent :: "string \<Rightarrow> manager \<Rightarrow> manager" where
  "joinAsAgent serverIP m =
    startK3sOperation (OpInstallAgent serverIP) (transition StateJoiningAgent m)"

definition maybeStartJoiningPath :: "clusterView \<Rightarrow> manager \<Rightarrow> manager" where
  "maybeStartJoiningPath view m =
    (if m_state m \<noteq> StateDiscovering \<and> m_state m \<noteq> StateBootstrapConfirm
        \<and> m_state m \<noteq> StateBootstrapWaiting then m
     else
       case findK3sJoinTarget view of (target, found) \<Rightarrow>
         if \<not> found \<or> isCohortMember (m_bootstrap m) (Name target) then m
         else
           let m = transition StateJoiningWaiting (bootstrap_reset m) in
           case AfterFunc WakeJoinWait (m_joinWaitDelay m) m of (t, m) \<Rightarrow>
             m\<lparr>m_joining := (m_joining m)\<lparr>jTimer := Some t\<rparr>\<rparr>)"

definition maybeJoinCluster :: "clusterView \<Rightarrow> manager \<Rightarrow> manager" where
  "maybeJoinCluster view m =
    (if m_state m \<noteq> StateJoiningWaiting \<or> \<not> settled (m_joining m) then m
     else
       case findK3sJoinTarget view of (target, found) \<Rightarrow>
         if \<not> found then m
         else if \<not> cleaned (m_joining m) then startForgetMe m
         else joinAsAgent (IP target) m)"

definition onJoinWaitExpired :: "world \<Rightarrow> manager \<Rightarrow> manager" where
  "onJoinWaitExpired w m =
    (if m_state m \<noteq> StateJoiningWaiting then m
     else
       let m = joining_stopTimer (m\<lparr>m_joining := (m_joining m)\<lparr>settled := True\<rparr>\<rparr>) in
       case observeCluster w m of (view, m) \<Rightarrow> maybeJoinCluster view m)"

definition onJoiningInstallSucceeded :: "world \<Rightarrow> manager \<Rightarrow> manager" where
  "onJoiningInstallSucceeded w m =
    (if m_state m = StateJoiningAgent then
       (case buildFirstBootState w RoleAgent m of (st, m) \<Rightarrow> becomeStable st m)
     else m)"

end
