(* ===== verification/Rescale.thy ===== *)
theory Rescale
  imports Manager
begin

text \<open>
  The rescaling workflow, \<open>antsd/internal/cluster/rescale.go\<close>: the failure clock, the evaluation
  run on every event (\<open>maybeRescale\<close>), the coordination rounds and the conversion of the designated
  machine. The completion of a round is in theory \<open>Forget\<close>, because a round may be one of the
  forget-me protocol.
\<close>

definition rescaleConvertTimeout :: duration where
  "rescaleConvertTimeout = 10 * minute"

definition rescaleCoordinationTimeout :: duration where
  "rescaleCoordinationTimeout = 5 * minute"

definition quorumProbeTimeout :: duration where
  "quorumProbeTimeout = 20 * second"

definition eventRescaleConvert :: string where
  "eventRescaleConvert = ''antsd:rescale-convert''"

subsection \<open>Progress\<close>

definition armTimer :: "time \<Rightarrow> time \<Rightarrow> manager \<Rightarrow> manager" where
  "armTimer deadline t m =
    (let m = rescale_stopTimer m in
     if isZero deadline then m
     else
       case AfterFunc WakeRescaleCheck (max (time_sub deadline t) 0) m of (i, m) \<Rightarrow>
         m\<lparr>m_rescale := (m_rescale m)\<lparr>rTimer := Some i\<rparr>\<rparr>)"

definition trackFailures :: "clusterView \<Rightarrow> time \<Rightarrow> rescaleProgress \<Rightarrow> rescaleProgress" where
  "trackFailures view t r =
    (let failed = failedMembersNames view;
         since = foldl (\<lambda>since name. if since name = None then since(name \<mapsto> t) else since)
           (failedSince r) failed
     in r\<lparr>failedSince := (\<lambda>name. if List.member failed name then since name else None)\<rparr>)"

definition forget :: "manager \<Rightarrow> manager" where
  "forget m =
    (let m = rescale_stopTimer m in
     m\<lparr>m_rescale := (m_rescale m)\<lparr>imbalanceControlPlaneSince := zero_time,
       retryNotBefore := zero_time, order := noOrder, evicting := [], cleaning := ''''\<rparr>\<rparr>)"

definition resetProgress :: "manager \<Rightarrow> manager" where
  "resetProgress m =
    (let m = rescale_stopTimer m in
     m\<lparr>m_rescale := (m_rescale m)\<lparr>order := noOrder, evicting := [], cleaning := ''''\<rparr>\<rparr>)"

definition earliest :: "time \<Rightarrow> time \<Rightarrow> time" where
  "earliest a b = (if isZero a then b else if isZero b then a else if b < a then b else a)"

definition scheduleRescaleCheck :: "time \<Rightarrow> time \<Rightarrow> manager \<Rightarrow> manager" where
  "scheduleRescaleCheck deadline t m = armTimer deadline t m"

definition trackImbalance :: "clusterView \<Rightarrow> time \<Rightarrow> manager \<Rightarrow> (bool \<times> time) \<times> manager" where
  "trackImbalance view t m =
    (if k3sServerCount view = desiredServerCount view then
       ((False, zero_time), m\<lparr>m_rescale := (m_rescale m)\<lparr>imbalanceControlPlaneSince := zero_time\<rparr>\<rparr>)
     else
       let since = (if isZero (imbalanceControlPlaneSince (m_rescale m)) then t
                    else imbalanceControlPlaneSince (m_rescale m));
           m = m\<lparr>m_rescale := (m_rescale m)\<lparr>imbalanceControlPlaneSince := since\<rparr>\<rparr>;
           deadline = since + m_rescaleSettleDelay m
       in ((\<not> deadline > t, deadline), m))"

subsection \<open>Rounds\<close>

definition startCoordinationRound :: "round_work \<Rightarrow> manager \<Rightarrow> manager" where
  "startCoordinationRound work m =
    startK3sOperation (OpRound work) (transition StateRescaleCoordinating m)"

definition startEviction :: "string list \<Rightarrow> manager \<Rightarrow> manager" where
  "startEviction names m =
    (let m = resetProgress m;
         m = m\<lparr>m_rescale := (m_rescale m)\<lparr>evicting := names\<rparr>\<rparr>
     in startCoordinationRound (EvictNodes names) m)"

definition chooseConversionTarget :: "clusterView \<Rightarrow> string \<Rightarrow> (member \<times> role) option" where
  "chooseConversionTarget view self =
    (if needsAnotherK3sServer view then
       (case findPromotionTarget view of (target, found) \<Rightarrow>
          if \<not> found then None else Some (target, RoleServer))
     else if hasTooManyK3sServers view then
       (case findDemotionTarget view of (target, found) \<Rightarrow>
          if \<not> found then None
          else if Name target = self then None
          else Some (target, RoleAgent))
     else None)"

definition startConversion :: "world \<Rightarrow> clusterView \<Rightarrow> manager \<Rightarrow> bool \<times> manager" where
  "startConversion w view m =
    (case chooseConversionTarget view (selfName m) of
       None \<Rightarrow> (False, m)
     | Some (target, r) \<Rightarrow>
       let m = resetProgress m;
           m = m\<lparr>m_rescale := (m_rescale m)\<lparr>imbalanceControlPlaneSince := zero_time\<rparr>\<rparr>
       in case LocalIP w m of (ip, m) \<Rightarrow>
          let m = m\<lparr>m_rescale := (m_rescale m)\<lparr>order :=
                \<lparr>Target = Name target, RoleO = r, JoinIP = ip\<rparr>\<rparr>\<rparr>
          in (True, startCoordinationRound (PrepareConversion (Name target)) m))"

definition maybeRescale :: "world \<Rightarrow> clusterView \<Rightarrow> manager \<Rightarrow> manager" where
  "maybeRescale w view m =
    (if \<not> RescaleEnabled (m_config m) then m
     else
       case now w m of (t, m) \<Rightarrow>
       let m = m\<lparr>m_rescale := trackFailures view t (m_rescale m)\<rparr> in
       if m_state m \<noteq> StateStableServer then m
       else if \<not> isRescaleCoordinator view (selfName m) then forget m
       else if t < retryNotBefore (m_rescale m) then m
       else if isEtcdMembershipChanging view then rescale_stopTimer m
       else
         case durablyFailedMembersNames view (failedSince (m_rescale m)) (m_evictionGrace m) t of
           (evictable, nextEvictionDeadline) \<Rightarrow>
         if evictable \<noteq> [] then startEviction evictable m
         else
           case trackImbalance view t m of ((isSettled, imbalanceDeadline), m) \<Rightarrow>
           if isSettled then
             (case startConversion w view m of (started, m) \<Rightarrow>
                if started then m
                else scheduleRescaleCheck
                  (earliest nextEvictionDeadline (t + m_rescaleSettleDelay m)) t m)
           else scheduleRescaleCheck (earliest nextEvictionDeadline imbalanceDeadline) t m)"

definition abandonCoordination :: "world \<Rightarrow> manager \<Rightarrow> manager" where
  "abandonCoordination w m =
    (let m = m\<lparr>m_rescale := (m_rescale m)\<lparr>order := noOrder, evicting := [], cleaning := '''',
           imbalanceControlPlaneSince := zero_time\<rparr>\<rparr>;
         m = transition StateStableServer m
     in case now w m of (t, m) \<Rightarrow>
        let m = m\<lparr>m_rescale := (m_rescale m)\<lparr>retryNotBefore := t + m_rescaleSettleDelay m\<rparr>\<rparr>
        in scheduleRescaleCheck (retryNotBefore (m_rescale m)) t m)"

text \<open>The loop of \<open>finishEviction\<close> over the evicted names.\<close>

fun erase_evicted :: "world \<Rightarrow> string list \<Rightarrow> manager \<Rightarrow> manager" where
  "erase_evicted w [] m = m"
| "erase_evicted w (name # names) m =
     (case RemoveFailedNode w name m of (result, m) \<Rightarrow>
        case result of
          Some err \<Rightarrow> erase_evicted w names m
        | None \<Rightarrow>
            erase_evicted w names
              (m\<lparr>m_rescale := (m_rescale m)\<lparr>failedSince := (failedSince (m_rescale m))(name := None)\<rparr>\<rparr>))"

definition finishEviction :: "world \<Rightarrow> manager \<Rightarrow> manager" where
  "finishEviction w m =
    (let m = erase_evicted w (evicting (m_rescale m)) m;
         m = m\<lparr>m_rescale := (m_rescale m)\<lparr>evicting := []\<rparr>\<rparr>;
         m = transition StateStableServer m
     in case observeCluster w m of (view, m) \<Rightarrow> maybeRescale w view m)"

definition onRescaleCheck :: "world \<Rightarrow> manager \<Rightarrow> manager" where
  "onRescaleCheck w m = (case observeCluster w m of (view, m) \<Rightarrow> maybeRescale w view m)"

subsection \<open>The designated machine\<close>

definition failRescale :: "manager \<Rightarrow> manager" where
  "failRescale m =
    (let m = rescale_stopTimer m;
         m = m\<lparr>m_rescale := (m_rescale m)\<lparr>order := noOrder\<rparr>\<rparr>
     in transition StateRescaleFailed m)"

definition onRescaleConvert :: "payload \<Rightarrow> manager \<Rightarrow> manager" where
  "onRescaleConvert p m =
    (case unmarshalOrder p of
       None \<Rightarrow> m
     | Some ord \<Rightarrow>
       if Target ord \<noteq> selfName m then m
       else if m_state m \<noteq> StableState (Other (RoleO ord)) then m
       else if m_persistedState m = None then m
       else if JoinIP ord = '''' then m
       else
         let m = m\<lparr>m_rescale := (m_rescale m)\<lparr>order := ord\<rparr>\<rparr>;
             m = (if RoleO ord = RoleServer then transition StateRescalePromoting m
                  else transition StateRescaleDemoting m)
         in startK3sOperation (OpConvert ord) m)"

definition onRescaleConverted :: "world \<Rightarrow> manager \<Rightarrow> manager" where
  "onRescaleConverted w m =
    (case m_persistedState m of
       None \<Rightarrow> panic m
     | Some persisted \<Rightarrow>
       case now w m of (t, m) \<Rightarrow>
       let updated = persisted\<lparr>RoleP := RoleO (order (m_rescale m)), RoleChangedAt := t\<rparr>;
           m = m\<lparr>m_rescale := (m_rescale m)\<lparr>order := noOrder\<rparr>\<rparr>
       in becomeStable updated m)"

end
