(* ===== verification/Forget.thy ===== *)
theory Forget
  imports Joining Rescale
begin

text \<open>
  The forget-me protocol, \<open>antsd/internal/cluster/forget.go\<close>: the requests of the joiner, the
  confirmation it waits for, and the coordinator that looks a name up and erases it; then the
  completion of a coordination round of \<open>rescale.go\<close>, whichever of the three kinds it is.
\<close>

definition eventForgetMe :: string where
  "eventForgetMe = ''antsd:forget-me''"

definition eventForgotten :: string where
  "eventForgotten = ''antsd:forgotten''"

definition forgetProbeTimeout :: duration where
  "forgetProbeTimeout = 30 * second"

subsection \<open>Joiner side\<close>

definition sendForgetMe :: "world \<Rightarrow> manager \<Rightarrow> manager" where
  "sendForgetMe w m =
    (let m = m\<lparr>m_joining := (m_joining m)\<lparr>forgetAttempts := forgetAttempts (m_joining m) + 1\<rparr>\<rparr>
     in case SendUserEvent w eventForgetMe (marshalForget \<lparr>NameO = selfName m\<rparr>) m of (result, m) \<Rightarrow>
        let m = joining_stopTimer m in
        case AfterFunc WakeForgetRetry (m_forgetRetryInterval m) m of (t, m) \<Rightarrow>
          m\<lparr>m_joining := (m_joining m)\<lparr>jTimer := Some t\<rparr>\<rparr>)"

definition onJoiningCleanupChecked :: "world \<Rightarrow> manager \<Rightarrow> manager" where
  "onJoiningCleanupChecked w m =
    sendForgetMe w (m\<lparr>m_joining := (m_joining m)\<lparr>forgetAttempts := 0\<rparr>\<rparr>)"

definition onForgetRetry :: "world \<Rightarrow> manager \<Rightarrow> manager" where
  "onForgetRetry w m = (if m_state m \<noteq> StateJoiningCleanup then m else sendForgetMe w m)"

definition onForgotten :: "world \<Rightarrow> payload \<Rightarrow> manager \<Rightarrow> manager" where
  "onForgotten w p m =
    (case unmarshalForget p of
       None \<Rightarrow> m
     | Some ord \<Rightarrow>
       if NameO ord \<noteq> selfName m \<or> m_state m \<noteq> StateJoiningCleanup then m
       else
         let m = joining_stopTimer m;
             m = m\<lparr>m_joining := (m_joining m)\<lparr>cleaned := True\<rparr>\<rparr>;
             m = transition StateJoiningWaiting m
         in case observeCluster w m of (view, m) \<Rightarrow> maybeJoinCluster view m)"

subsection \<open>Coordinator side\<close>

definition canForget :: "clusterView \<Rightarrow> string \<Rightarrow> manager \<Rightarrow> bool" where
  "canForget view name m \<longleftrightarrow>
    (if m_state m \<noteq> StateStableServer then False
     else if \<not> isRescaleCoordinator view (selfName m) then False
     else if \<not> isVirginMember view name then False
     else True)"

definition onForgetMe :: "world \<Rightarrow> payload \<Rightarrow> manager \<Rightarrow> manager" where
  "onForgetMe w p m =
    (case unmarshalForget p of
       None \<Rightarrow> m
     | Some ord \<Rightarrow>
       case observeCluster w m of (view, m) \<Rightarrow>
         if \<not> canForget view (NameO ord) m then m
         else emit (IoProbe (length (m_calls m)) (NameO ord)) m)"

definition confirmForgotten :: "world \<Rightarrow> string \<Rightarrow> manager \<Rightarrow> manager" where
  "confirmForgotten w name m =
    (case SendUserEvent w eventForgotten (marshalForget \<lparr>NameO = name\<rparr>) m of (result, m) \<Rightarrow> m)"

definition onForgetProbed :: "world \<Rightarrow> string \<Rightarrow> bool \<Rightarrow> manager \<Rightarrow> manager" where
  "onForgetProbed w name found m =
    (case observeCluster w m of (view, m) \<Rightarrow>
       if \<not> canForget view name m then m
       else if \<not> found then confirmForgotten w name m
       else if isEtcdMembershipChanging view then m
       else
         let m = resetProgress m;
             m = m\<lparr>m_rescale := (m_rescale m)\<lparr>cleaning := name\<rparr>\<rparr>
         in startCoordinationRound (EraseNode name) m)"

definition finishForgetting :: "world \<Rightarrow> manager \<Rightarrow> manager" where
  "finishForgetting w m =
    (let name = cleaning (m_rescale m);
         m = m\<lparr>m_rescale := (m_rescale m)\<lparr>cleaning := ''''\<rparr>\<rparr>;
         m = transition StateStableServer m;
         m = confirmForgotten w name m
     in case observeCluster w m of (view, m) \<Rightarrow> maybeRescale w view m)"

subsection \<open>The end of a coordination round\<close>

text \<open>Encoding an order never fails: its fields are strings.\<close>

definition onRescaleCoordinationDone :: "world \<Rightarrow> manager \<Rightarrow> manager" where
  "onRescaleCoordinationDone w m =
    (if cleaning (m_rescale m) \<noteq> '''' then finishForgetting w m
     else if Target (order (m_rescale m)) = '''' then finishEviction w m
     else
       let ord = order (m_rescale m);
           m = m\<lparr>m_rescale := (m_rescale m)\<lparr>order := noOrder\<rparr>\<rparr>
       in case SendUserEvent w eventRescaleConvert (marshalOrder ord) m of (result, m) \<Rightarrow>
          (case result of
             Some err \<Rightarrow> abandonCoordination w m
           | None \<Rightarrow>
             let m = transition StateStableServer m in
             case now w m of (t, m) \<Rightarrow>
               scheduleRescaleCheck (t + m_rescaleSettleDelay m) t m))"

end
