(* ===== verification/Dispatch.thy ===== *)
theory Dispatch
  imports Bootstrap Rejoin Forget
begin

text \<open>
  The dispatch of one turn of the run loop, \<open>antsd/internal/cluster/manager.go\<close>: commands, results
  of K3s operations, Serf events. An event is \<open>serfnode.Event\<close>; its type is the one of
  \<open>serfnode.go\<close>.
\<close>

datatype EventType =
    EventMemberJoin
  | EventMemberLeave
  | EventMemberFailed
  | EventMemberUpdate
  | EventMemberReap
  | EventUser
  | EventQuery

record Event =
  Type :: EventType
  NodeIP :: string
  EName :: string
  ETags :: "(string \<times> string) list"
  Payload :: payload

definition onK3sOperationSucceeded :: "world \<Rightarrow> manager \<Rightarrow> manager" where
  "onK3sOperationSucceeded w m =
    (case m_state m of
       StateBootstrapInstallInit \<Rightarrow> onBootstrapInstallSucceeded w m
     | StateBootstrapInstallServer \<Rightarrow> onBootstrapInstallSucceeded w m
     | StateBootstrapInstallAgent \<Rightarrow> onBootstrapInstallSucceeded w m
     | StateJoiningCleanup \<Rightarrow> onJoiningCleanupChecked w m
     | StateJoiningAgent \<Rightarrow> onJoiningInstallSucceeded w m
     | StateRejoinCluster \<Rightarrow> onRejoinReady m
     | StateRescaleCoordinating \<Rightarrow> onRescaleCoordinationDone w m
     | StateRescalePromoting \<Rightarrow> onRescaleConverted w m
     | StateRescaleDemoting \<Rightarrow> onRescaleConverted w m
     | _ \<Rightarrow> m)"

definition onK3sOperationFailed :: "world \<Rightarrow> manager \<Rightarrow> manager" where
  "onK3sOperationFailed w m =
    (case m_state m of
       StateBootstrapInstallInit \<Rightarrow> failBootstrap m
     | StateBootstrapInstallServer \<Rightarrow> failBootstrap m
     | StateBootstrapInstallAgent \<Rightarrow> failBootstrap m
     | StateJoiningCleanup \<Rightarrow> failJoining m
     | StateJoiningAgent \<Rightarrow> failJoining m
     | StateRejoinCluster \<Rightarrow> failRejoin m
     | StateRescaleCoordinating \<Rightarrow> abandonCoordination w m
     | StateRescalePromoting \<Rightarrow> failRescale m
     | StateRescaleDemoting \<Rightarrow> failRescale m
     | _ \<Rightarrow> m)"

definition reply :: "nat \<Rightarrow> action_error option \<times> manager \<Rightarrow> manager" where
  "reply ch r = (case r of (err, m) \<Rightarrow> emit (IoReply ch err) m)"

fun handleCommand :: "world \<Rightarrow> command \<Rightarrow> manager \<Rightarrow> manager" where
  "handleCommand w (CmdRequestBootstrap ch) m = reply ch (onRequestBootstrap w m)"
| "handleCommand w (CmdConfirmBootstrap ch) m = reply ch (onConfirmBootstrap w m)"
| "handleCommand w (CmdCancelBootstrap ch) m = reply ch (onCancelBootstrap m)"
| "handleCommand w CmdBootstrapWaitExpired m = onBootstrapWaitExpired w m"
| "handleCommand w CmdJoinWaitExpired m = onJoinWaitExpired w m"
| "handleCommand w CmdForgetRetry m = onForgetRetry w m"
| "handleCommand w (CmdForgetProbed name found) m = onForgetProbed w name found m"
| "handleCommand w CmdRescaleCheck m = onRescaleCheck w m"
| "handleCommand w CmdK3sOperationSucceeded m = onK3sOperationSucceeded w m"
| "handleCommand w (CmdK3sOperationFailed err) m = onK3sOperationFailed w m"

definition handleUserEvent :: "world \<Rightarrow> Event \<Rightarrow> manager \<Rightarrow> manager" where
  "handleUserEvent w e m =
    (if EName e = eventBootstrapRequested then onBootstrapRequested m
     else if EName e = eventBootstrapStart then onBootstrapStart w m
     else if EName e = eventRescaleConvert then onRescaleConvert (Payload e) m
     else if EName e = eventForgetMe then onForgetMe w (Payload e) m
     else if EName e = eventForgotten then onForgotten w (Payload e) m
     else m)"

definition handleSerfEvent :: "world \<Rightarrow> Event \<Rightarrow> manager \<Rightarrow> manager" where
  "handleSerfEvent w e m =
    (if Type e = EventUser then handleUserEvent w e m
     else
       case observeCluster w m of (view, m) \<Rightarrow>
         maybeRescale w view (maybeInstallAgent view (maybeInstallServer view
           (maybeJoinCluster view (maybeStartJoiningPath view m)))))"

end
