(* ===== verification/Lifecycle.thy ===== *)
theory Lifecycle
  imports Dispatch
begin

text \<open>
  The abstract lifecycle of a node and the invariant that ties the manager to it.
  \<open>successors\<close> is the state machine of the design documents (\<open>docs/logics/bootstrap.md\<close>,
  \<open>docs/logics/rescaling.md\<close>): the states a node may go to from each state. The manager implements
  it when every \<open>IoSetState\<close> of its history is a step of that machine (\<open>path_ok\<close>).
  \<open>wf_manager\<close> adds what the code keeps true between the fields of the manager; every handler
  preserves it, one lemma each, collected in \<open>wf_rules\<close>.
\<close>

named_theorems wf_rules \<open>the handlers preserve the invariant of the manager\<close>

subsection \<open>The abstract machine\<close>

fun successors :: "node_state \<Rightarrow> node_state list" where
  "successors StateStarting = [StateDiscovering, StateRejoinCluster, StateRejoinFailed]"
| "successors StateDiscovering = [StateBootstrapConfirm, StateBootstrapWaiting, StateJoiningWaiting]"
| "successors StateBootstrapConfirm = [StateDiscovering, StateBootstrapWaiting, StateJoiningWaiting]"
| "successors StateBootstrapWaiting =
     [StateBootstrapInstallInit, StateBootstrapInstallServer, StateBootstrapInstallAgent,
      StateBootstrapFailed, StateJoiningWaiting]"
| "successors StateBootstrapInstallInit = [StateStableServer, StateBootstrapFailed]"
| "successors StateBootstrapInstallServer = [StateStableServer, StateBootstrapFailed]"
| "successors StateBootstrapInstallAgent = [StateStableAgent, StateBootstrapFailed]"
| "successors StateJoiningWaiting = [StateJoiningCleanup, StateJoiningAgent]"
| "successors StateJoiningCleanup = [StateJoiningWaiting, StateJoiningFailed]"
| "successors StateJoiningAgent = [StateStableAgent, StateJoiningFailed]"
| "successors StateRejoinCluster = [StateStableServer, StateStableAgent, StateRejoinFailed]"
| "successors StateStableServer = [StateRescaleCoordinating, StateRescaleDemoting]"
| "successors StateStableAgent = [StateRescalePromoting]"
| "successors StateRescaleCoordinating = [StateStableServer]"
| "successors StateRescalePromoting = [StateStableServer, StateRescaleFailed]"
| "successors StateRescaleDemoting = [StateStableAgent, StateRescaleFailed]"
| "successors _ = []"

definition is_terminal :: "node_state \<Rightarrow> bool" where
  "is_terminal s \<longleftrightarrow>
    s \<in> {StateBootstrapFailed, StateJoiningFailed, StateRejoinFailed, StateRescaleFailed}"

lemma terminal_no_successor: "is_terminal s \<Longrightarrow> successors s = []"
  by (auto simp: is_terminal_def)

lemma successors_known: "t \<in> set (successors s) \<Longrightarrow> is_known t"
  by (cases s) auto

text \<open>A node that entered a cluster never goes back to the first boot.\<close>

lemma in_cluster_closed: "InCluster s \<Longrightarrow> t \<in> set (successors s) \<Longrightarrow> InCluster t"
  by (cases s) auto

subsection \<open>Histories\<close>

fun current :: "history \<Rightarrow> node_state" where
  "current [] = StateStarting"
| "current (IoSetState s # h) = s"
| "current (_ # h) = current h"

text \<open>The states a history sets are a path of the machine, and no step of it panicked.\<close>

fun path_ok :: "history \<Rightarrow> bool" where
  "path_ok [] = True"
| "path_ok (IoSetState s # h) = (s \<in> set (successors (current h)) \<and> path_ok h)"
| "path_ok (IoPanic # h) = False"
| "path_ok (_ # h) = path_ok h"

fun visited :: "history \<Rightarrow> node_state list" where
  "visited [] = [StateStarting]"
| "visited (IoSetState s # h) = s # visited h"
| "visited (_ # h) = visited h"

lemma hd_visited [simp]: "hd (visited h) = current h" "visited h \<noteq> []"
  by (induction h rule: visited.induct) auto

lemma path_ok_no_panic: "path_ok h \<Longrightarrow> IoPanic \<notin> set h"
  by (induction h rule: path_ok.induct) auto

lemma path_ok_successively:
  "path_ok h \<Longrightarrow> successively (\<lambda>t s. t \<in> set (successors s)) (visited h)"
  by (induction h rule: path_ok.induct) (auto simp: successively_Cons)

subsection \<open>The invariant\<close>

text \<open>What is on disk agrees with the state: the role a stable node holds is the persisted one.\<close>

fun role_ok :: "node_state \<Rightarrow> string \<Rightarrow> PersistedState option \<Rightarrow> bool" where
  "role_ok StateRejoinCluster self p = (\<exists>q. p = Some q \<and> NodeNameP q = self)"
| "role_ok StateStableServer self p = (\<exists>q. p = Some q \<and> RoleP q = RoleServer \<and> NodeNameP q = self)"
| "role_ok StateRescaleCoordinating self p =
     (\<exists>q. p = Some q \<and> RoleP q = RoleServer \<and> NodeNameP q = self)"
| "role_ok StateRescaleDemoting self p = (\<exists>q. p = Some q \<and> RoleP q = RoleServer \<and> NodeNameP q = self)"
| "role_ok StateStableAgent self p = (\<exists>q. p = Some q \<and> RoleP q \<noteq> RoleServer \<and> NodeNameP q = self)"
| "role_ok StateRescalePromoting self p =
     (\<exists>q. p = Some q \<and> RoleP q \<noteq> RoleServer \<and> NodeNameP q = self)"
| "role_ok s self p = (IsFirstBoot s \<longrightarrow> p = None)"

text \<open>The round in progress is of exactly one kind; outside a round and a conversion none is set.\<close>

definition no_round :: "rescaleProgress \<Rightarrow> bool" where
  "no_round r \<longleftrightarrow> order r = noOrder \<and> evicting r = [] \<and> cleaning r = ''''"

fun round_ok :: "node_state \<Rightarrow> rescaleProgress \<Rightarrow> bool" where
  "round_ok StateRescaleCoordinating r =
     (order r = noOrder \<and> evicting r \<noteq> [] \<and> cleaning r = '''' \<or>
      Target (order r) \<noteq> '''' \<and> RoleO (order r) \<in> {RoleServer, RoleAgent} \<and> evicting r = [] \<and> cleaning r = '''' \<or>
      order r = noOrder \<and> evicting r = [] \<and> cleaning r \<noteq> '''')"
| "round_ok StateRescalePromoting r =
     (RoleO (order r) = RoleServer \<and> evicting r = [] \<and> cleaning r = '''')"
| "round_ok StateRescaleDemoting r =
     (RoleO (order r) \<noteq> RoleServer \<and> evicting r = [] \<and> cleaning r = '''')"
| "round_ok s r = no_round r"

text \<open>An agent that joins an existing cluster waited, and its name was confirmed free.\<close>

fun join_ok :: "node_state \<Rightarrow> joiningProgress \<Rightarrow> bool" where
  "join_ok StateJoiningCleanup j = settled j"
| "join_ok StateJoiningAgent j = (settled j \<and> cleaned j)"
| "join_ok s j = True"

definition wf_manager :: "manager \<Rightarrow> bool" where
  "wf_manager m \<longleftrightarrow>
    current (m_calls m) = m_state m \<and> path_ok (m_calls m) \<and> m_stateView m = m_state m \<and>
    role_ok (m_state m) (selfName m) (m_persistedState m) \<and>
    round_ok (m_state m) (m_rescale m) \<and> join_ok (m_state m) (m_joining m)"

text \<open>Serf names its members, once each.\<close>

definition named_world :: "world \<Rightarrow> bool" where
  "named_world w \<longleftrightarrow> (\<forall>h. named_view \<lparr>snapshot = wSnapshot w h\<rparr>)"

lemma stop_timer_eq:
  "stop_timer t m =
    m\<lparr>m_calls := (case t of None \<Rightarrow> m_calls m | Some i \<Rightarrow> IoStop i # m_calls m)\<rparr>"
  by (simp add: stop_timer_def emit_def split: option.split)

lemma current_stop [simp]:
  "current (case t of None \<Rightarrow> h | Some i \<Rightarrow> IoStop i # h) = current h"
  "path_ok (case t of None \<Rightarrow> h | Some i \<Rightarrow> IoStop i # h) = path_ok h"
  by (simp_all split: option.split)

lemmas call_defs = emit_def now_def observeCluster_def LocalIP_def SendUserEvent_def
  RemoveFailedNode_def AfterFunc_def startK3sOperation_def transition_def stop_timer_eq
  bootstrap_stopTimer_def joining_stopTimer_def rescale_stopTimer_def

lemmas rescale_step_defs = armTimer_def scheduleRescaleCheck_def resetProgress_def forget_def
  startCoordinationRound_def

end
