(* ===== verification/Manager_Invariant.thy ===== *)
theory Manager_Invariant
  imports Lifecycle
begin

text \<open>
  Every handler of the run loop preserves \<open>wf_manager\<close>: one lemma per handler, in the order of the
  component theories, then the three dispatchers.
\<close>

subsection \<open>Bootstrap\<close>

lemma wf_emit_observe [simp]: "wf_manager (emit IoSnapshot m) = wf_manager m"
  "wf_manager (emit IoNow m) = wf_manager m" "wf_manager (emit IoLoad m) = wf_manager m"
  "wf_manager (emit (IoReply i r) m) = wf_manager m" "wf_manager (emit (IoProbe i n) m) = wf_manager m"
  "wf_manager (emit (IoSend e p) m) = wf_manager m"
  by (simp_all add: wf_manager_def emit_def)

lemma wf_failBootstrap [wf_rules]:
  "wf_manager m \<Longrightarrow> StateBootstrapFailed \<in> set (successors (m_state m)) \<Longrightarrow> wf_manager (failBootstrap m)"
  by (cases "m_state m") (simp_all add: wf_manager_def failBootstrap_def call_defs)

lemma wf_onRequestBootstrap [wf_rules]:
  "wf_manager m \<Longrightarrow> wf_manager (snd (onRequestBootstrap w m))"
  by (auto simp: wf_manager_def onRequestBootstrap_def call_defs split: prod.split)

lemma wf_onCancelBootstrap [wf_rules]: "wf_manager m \<Longrightarrow> wf_manager (snd (onCancelBootstrap m))"
  by (auto simp: wf_manager_def onCancelBootstrap_def call_defs)

lemma wf_onConfirmBootstrap [wf_rules]:
  "wf_manager m \<Longrightarrow> wf_manager (snd (onConfirmBootstrap w m))"
  by (auto simp: wf_manager_def onConfirmBootstrap_def call_defs split: option.split)

lemma wf_onBootstrapRequested [wf_rules]:
  "wf_manager m \<Longrightarrow> wf_manager (onBootstrapRequested m)"
  by (auto simp: wf_manager_def onBootstrapRequested_def call_defs Let_def)

lemma wf_onBootstrapWaitExpired [wf_rules]:
  "wf_manager m \<Longrightarrow> wf_manager (onBootstrapWaitExpired w m)"
  by (auto simp: wf_manager_def onBootstrapWaitExpired_def failBootstrap_def call_defs split: option.split)

lemma wf_maybeInstallServer [wf_rules]:
  "wf_manager m \<Longrightarrow> wf_manager (maybeInstallServer view m)"
  by (auto simp: wf_manager_def maybeInstallServer_def call_defs split: prod.split)

lemma wf_maybeInstallAgent [wf_rules]:
  "wf_manager m \<Longrightarrow> wf_manager (maybeInstallAgent view m)"
  by (auto simp: wf_manager_def maybeInstallAgent_def call_defs split: prod.split)

lemma wf_bootstrap_stopTimer [wf_rules]: "wf_manager m \<Longrightarrow> wf_manager (bootstrap_stopTimer m)"
  by (simp add: wf_manager_def call_defs)

lemma wf_set_bootstrap [simp]: "wf_manager (m\<lparr>m_bootstrap := b\<rparr>) = wf_manager m"
  by (simp add: wf_manager_def)

lemma wf_onBootstrapStart [wf_rules]:
  assumes "wf_manager m"
  shows "wf_manager (onBootstrapStart w m)"
proof (cases "m_state m = StateBootstrapWaiting")
  case True
  define m1 where "m1 = emit IoSnapshot (bootstrap_stopTimer m)"
  have "wf_manager m1" using assms by (simp add: m1_def wf_rules)
  moreover have "m_state m1 = StateBootstrapWaiting" using True by (simp add: m1_def call_defs)
  ultimately have "wf_manager (m1\<lparr>m_bootstrap := b\<rparr>)"
      "wf_manager (failBootstrap m1)" "wf_manager (failBootstrap (m1\<lparr>m_bootstrap := b\<rparr>))"
      "wf_manager (startK3sOperation OpInstallInit (transition StateBootstrapInstallInit (m1\<lparr>m_bootstrap := b\<rparr>)))" for b
    by (simp_all add: wf_failBootstrap) (simp add: wf_manager_def call_defs)
  then show ?thesis
    using assms True unfolding onBootstrapStart_def Let_def
    by (auto simp: m1_def observeCluster_def wf_rules split: sum.split prod.split)
qed (use assms in \<open>simp add: onBootstrapStart_def\<close>)

lemma wf_becomeStable:
  assumes "wf_manager m" and "StableState (RoleP st) \<in> set (successors (m_state m))"
    and "NodeNameP st = selfName m" and "no_round (m_rescale m)"
  shows "wf_manager (becomeStable st m)"
  using assms
  by (auto simp: wf_manager_def becomeStable_def call_defs StableState_def)

lemma wf_onBootstrapInstallSucceeded [wf_rules]:
  "wf_manager m \<Longrightarrow> wf_manager (onBootstrapInstallSucceeded w m)"
  by (cases "m_state m")
    (simp_all add: wf_manager_def onBootstrapInstallSucceeded_def buildFirstBootState_def
      becomeStable_def call_defs StableState_def)

subsection \<open>Joining and rejoin\<close>

lemma wf_failJoining [wf_rules]:
  "wf_manager m \<Longrightarrow> StateJoiningFailed \<in> set (successors (m_state m)) \<Longrightarrow> wf_manager (failJoining m)"
  by (cases "m_state m") (simp_all add: wf_manager_def failJoining_def call_defs)

lemma wf_maybeStartJoiningPath [wf_rules]:
  "wf_manager m \<Longrightarrow> wf_manager (maybeStartJoiningPath view m)"
  by (auto simp: wf_manager_def maybeStartJoiningPath_def bootstrap_reset_def call_defs Let_def
      split: prod.split)

lemma wf_maybeJoinCluster [wf_rules]:
  "wf_manager m \<Longrightarrow> wf_manager (maybeJoinCluster view m)"
  by (auto simp: wf_manager_def maybeJoinCluster_def startForgetMe_def joinAsAgent_def call_defs
      split: prod.split)

lemma wf_onJoinWaitExpired [wf_rules]:
  "wf_manager m \<Longrightarrow> wf_manager (onJoinWaitExpired w m)"
  by (auto simp: onJoinWaitExpired_def Let_def observeCluster_def intro!: wf_maybeJoinCluster)
    (simp add: wf_manager_def call_defs)

lemma wf_onJoiningInstallSucceeded [wf_rules]:
  "wf_manager m \<Longrightarrow> wf_manager (onJoiningInstallSucceeded w m)"
  by (auto simp: wf_manager_def onJoiningInstallSucceeded_def buildFirstBootState_def
      becomeStable_def call_defs StableState_def)

lemma wf_failRejoin [wf_rules]:
  "wf_manager m \<Longrightarrow> StateRejoinFailed \<in> set (successors (m_state m)) \<Longrightarrow> wf_manager (failRejoin m)"
  by (cases "m_state m") (simp_all add: wf_manager_def failRejoin_def call_defs)

lemma wf_onRejoinReady [wf_rules]:
  "wf_manager m \<Longrightarrow> m_state m = StateRejoinCluster \<Longrightarrow> wf_manager (onRejoinReady m)"
  by (auto simp: wf_manager_def onRejoinReady_def becomeStable_def call_defs StableState_def
      split: option.split)

lemma wf_newManager: "wf_manager (newManager conf)"
  by (simp add: wf_manager_def newManager_def no_round_def noRescale_def)

lemma wf_chooseInitialState:
  "wf_manager m \<Longrightarrow> m_state m = StateStarting \<Longrightarrow> m_persistedState m = None \<Longrightarrow>
    wf_manager (chooseInitialState w m)"
  by (auto simp: wf_manager_def chooseInitialState_def startRejoin_def failRejoin_def call_defs Let_def
      split: sum.split load_error.split)

subsection \<open>Rescaling\<close>

text \<open>Only the three fields of the round matter to the invariant.\<close>

lemma wf_rescale_cong:
  assumes "wf_manager m" and "order r = order (m_rescale m)"
    and "evicting r = evicting (m_rescale m)" and "cleaning r = cleaning (m_rescale m)"
  shows "wf_manager (m\<lparr>m_rescale := r\<rparr>)"
  using assms by (cases "m_state m") (simp_all add: wf_manager_def no_round_def)

lemma trackFailures_round [simp]:
  "order (trackFailures view t r) = order r" "evicting (trackFailures view t r) = evicting r"
  "cleaning (trackFailures view t r) = cleaning r" "retryNotBefore (trackFailures view t r) = retryNotBefore r"
  "imbalanceControlPlaneSince (trackFailures view t r) = imbalanceControlPlaneSince r"
  "rTimer (trackFailures view t r) = rTimer r"
  by (simp_all add: trackFailures_def Let_def)

lemma wf_rescale_stopTimer [wf_rules]: "wf_manager m \<Longrightarrow> wf_manager (rescale_stopTimer m)"
  by (cases "m_state m") (simp_all add: wf_manager_def call_defs no_round_def)

lemma wf_scheduleRescaleCheck [wf_rules]:
  "wf_manager m \<Longrightarrow> wf_manager (scheduleRescaleCheck deadline t m)"
  by (cases "m_state m")
    (simp_all add: wf_manager_def scheduleRescaleCheck_def armTimer_def call_defs no_round_def Let_def)

lemma wf_forget [wf_rules]:
  "wf_manager m \<Longrightarrow> m_state m = StateStableServer \<Longrightarrow> wf_manager (forget m)"
  by (simp add: wf_manager_def forget_def call_defs no_round_def Let_def)

lemma wf_startEviction:
  "wf_manager m \<Longrightarrow> m_state m = StateStableServer \<Longrightarrow> names \<noteq> [] \<Longrightarrow> wf_manager (startEviction names m)"
  by (simp add: wf_manager_def startEviction_def rescale_step_defs call_defs no_round_def Let_def)

lemma wf_trackImbalance:
  assumes "wf_manager m" and "trackImbalance view t m = (r, m')"
  shows "wf_manager m' \<and> m_state m' = m_state m \<and> selfName m' = selfName m"
  using assms by (auto simp: trackImbalance_def Let_def split: if_splits intro!: wf_rescale_cong)

lemma chooseConversionTarget_named:
  "chooseConversionTarget view self = Some (target, r) \<Longrightarrow> Name target \<noteq> '''' \<and> r \<in> {RoleServer, RoleAgent}"
  by (auto simp: chooseConversionTarget_def findPromotionTarget_def findDemotionTarget_def
      lowestNamedAliveMemberIn_def highestNamedAliveMemberIn_def Let_def split: if_splits prod.splits)

lemma wf_startConversion:
  assumes "wf_manager m" and "m_state m = StateStableServer"
    and "startConversion w view m = (started, m')"
  shows "wf_manager m' \<and> (\<not> started \<longrightarrow> m' = m)"
  using assms chooseConversionTarget_named [of view "selfName m"]
  by (auto simp: wf_manager_def startConversion_def rescale_step_defs call_defs no_round_def Let_def
      split: option.splits)

lemma wf_maybeRescale [wf_rules]:
  assumes "wf_manager m"
  shows "wf_manager (maybeRescale w view m)"
proof -
  define t where "t = wNow w (m_calls m)"
  define m1 where "m1 = (emit IoNow m)\<lparr>m_rescale := trackFailures view t (m_rescale (emit IoNow m))\<rparr>"
  have m1: "wf_manager m1"
    unfolding m1_def using wf_emit_observe(2) [of m] assms by (intro wf_rescale_cong) simp_all
  have now: "now w m = (t, emit IoNow m)" by (simp add: now_def t_def)
  have "wf_manager (case trackImbalance view t m1 of ((isSettled, imbalanceDeadline), m) \<Rightarrow>
           if isSettled then
             (case startConversion w view m of (started, m) \<Rightarrow>
                if started then m
                else scheduleRescaleCheck
                  (earliest nextEvictionDeadline (t + m_rescaleSettleDelay m)) t m)
           else scheduleRescaleCheck (earliest nextEvictionDeadline imbalanceDeadline) t m)"
    if "m_state m1 = StateStableServer" for nextEvictionDeadline
  proof -
    obtain isSettled dl m2 where ti: "trackImbalance view t m1 = ((isSettled, dl), m2)"
      by (metis prod.exhaust)
    obtain started m3 where sc: "startConversion w view m2 = (started, m3)" by fastforce
    note wf_trackImbalance [OF m1 ti]
    moreover from this have "wf_manager m3" using wf_startConversion [OF _ _ sc] that by simp
    ultimately show ?thesis by (simp add: ti sc wf_scheduleRescaleCheck)
  qed
  note tail = this
  obtain evictable due where ev: "durablyFailedMembersNames view (failedSince (m_rescale m1))
      (m_evictionGrace m1) t = (evictable, due)" by fastforce
  have st: "m_state (emit IoNow m) = m_state m1" by (simp add: m1_def)
  show ?thesis
    using m1 assms tail [of due]
    by (cases "m_state m1 = StateStableServer")
      (simp_all add: maybeRescale_def now Let_def m1_def [symmetric] ev st wf_rules wf_startEviction)
qed

lemma wf_abandonCoordination [wf_rules]:
  "wf_manager m \<Longrightarrow> m_state m = StateRescaleCoordinating \<Longrightarrow> wf_manager (abandonCoordination w m)"
  unfolding abandonCoordination_def Let_def
  by (auto simp: now_def intro!: wf_scheduleRescaleCheck)
    (simp add: wf_manager_def call_defs no_round_def)

lemma erase_evicted_frame:
  "wf_manager m \<Longrightarrow> wf_manager (erase_evicted w names m) \<and> m_state (erase_evicted w names m) = m_state m
    \<and> order (m_rescale (erase_evicted w names m)) = order (m_rescale m)
    \<and> cleaning (m_rescale (erase_evicted w names m)) = cleaning (m_rescale m)"
proof (induction names arbitrary: m)
  case Nil
  then show ?case by simp
next
  case (Cons name names)
  have "wf_manager (emit (IoRemoveFailed name) m)"
    using Cons.prems by (simp add: wf_manager_def call_defs)
  moreover from this have "wf_manager ((emit (IoRemoveFailed name) m)\<lparr>m_rescale :=
      (m_rescale m)\<lparr>failedSince := f\<rparr>\<rparr>)" for f
    by (rule wf_rescale_cong) (simp_all add: emit_def)
  ultimately show ?case
    using Cons.IH by (auto simp: RemoveFailedNode_def emit_def split: option.split)
qed

lemma wf_finishEviction [wf_rules]:
  assumes "wf_manager m" and "m_state m = StateRescaleCoordinating"
    and "order (m_rescale m) = noOrder" and "cleaning (m_rescale m) = ''''"
  shows "wf_manager (finishEviction w m)"
proof -
  define m1 where "m1 = erase_evicted w (evicting (m_rescale m)) m"
  have "wf_manager m1 \<and> m_state m1 = StateRescaleCoordinating \<and> order (m_rescale m1) = noOrder
      \<and> cleaning (m_rescale m1) = ''''"
    using erase_evicted_frame [OF assms(1)] assms by (simp add: m1_def)
  then have "wf_manager (transition StateStableServer (m1\<lparr>m_rescale := (m_rescale m1)\<lparr>evicting := []\<rparr>\<rparr>))"
    by (auto simp: wf_manager_def call_defs no_round_def)
  then show ?thesis
    by (simp add: finishEviction_def Let_def m1_def [symmetric] observeCluster_def wf_rules)
qed

lemma wf_onRescaleCheck [wf_rules]: "wf_manager m \<Longrightarrow> wf_manager (onRescaleCheck w m)"
  by (simp add: onRescaleCheck_def observeCluster_def wf_rules)

lemma wf_failRescale [wf_rules]:
  "wf_manager m \<Longrightarrow> m_state m \<in> {StateRescalePromoting, StateRescaleDemoting} \<Longrightarrow> wf_manager (failRescale m)"
  by (auto simp: wf_manager_def failRescale_def call_defs no_round_def Let_def)

lemma wf_onRescaleConvert [wf_rules]: "wf_manager m \<Longrightarrow> wf_manager (onRescaleConvert p m)"
  by (auto simp: wf_manager_def onRescaleConvert_def call_defs no_round_def Let_def StableState_def
      Other_def split: option.split)

lemma wf_onRescaleConverted [wf_rules]:
  "wf_manager m \<Longrightarrow> m_state m \<in> {StateRescalePromoting, StateRescaleDemoting} \<Longrightarrow>
    wf_manager (onRescaleConverted w m)"
  by (auto simp: wf_manager_def onRescaleConverted_def becomeStable_def call_defs no_round_def Let_def
      StableState_def split: option.split)

subsection \<open>The forget-me protocol and the end of a round\<close>

lemma wf_set_joining:
  "wf_manager m \<Longrightarrow> m_state m \<notin> {StateJoiningCleanup, StateJoiningAgent} \<Longrightarrow> wf_manager (m\<lparr>m_joining := j\<rparr>)"
  by (cases "m_state m") (simp_all add: wf_manager_def)

lemma wf_sendForgetMe [wf_rules]: "wf_manager m \<Longrightarrow> wf_manager (sendForgetMe w m)"
  by (cases "m_state m") (simp_all add: wf_manager_def sendForgetMe_def call_defs Let_def)

lemma wf_onJoiningCleanupChecked [wf_rules]:
  "wf_manager m \<Longrightarrow> wf_manager (onJoiningCleanupChecked w m)"
  unfolding onJoiningCleanupChecked_def
  by (rule wf_sendForgetMe) (cases "m_state m", simp_all add: wf_manager_def)

lemma wf_onForgetRetry [wf_rules]: "wf_manager m \<Longrightarrow> wf_manager (onForgetRetry w m)"
  by (simp add: onForgetRetry_def wf_rules)

lemma wf_onForgotten [wf_rules]:
  assumes "wf_manager m"
  shows "wf_manager (onForgotten w p m)"
proof -
  have "wf_manager (transition StateJoiningWaiting
      ((joining_stopTimer m)\<lparr>m_joining := (m_joining (joining_stopTimer m))\<lparr>cleaned := True\<rparr>\<rparr>))"
    if "m_state m = StateJoiningCleanup"
    using assms that by (simp add: wf_manager_def call_defs)
  then show ?thesis
    using assms by (auto simp: onForgotten_def Let_def observeCluster_def wf_rules split: option.split)
qed

lemma wf_onForgetMe [wf_rules]: "wf_manager m \<Longrightarrow> wf_manager (onForgetMe w p m)"
  by (simp add: onForgetMe_def observeCluster_def split: option.split)

lemma wf_confirmForgotten [wf_rules]: "wf_manager m \<Longrightarrow> wf_manager (confirmForgotten w name m)"
  by (simp add: confirmForgotten_def SendUserEvent_def)

lemma canForget_named:
  "canForget view name m \<Longrightarrow> named_view view \<Longrightarrow> name \<noteq> '''' \<and> m_state m = StateStableServer"
  by (auto simp: canForget_def isVirginMember_iff dest: named_viewD split: if_splits)

lemma wf_onForgetProbed [wf_rules]:
  assumes "wf_manager m" and "named_world w"
  shows "wf_manager (onForgetProbed w name found m)"
proof -
  define view where "view = \<lparr>snapshot = wSnapshot w (m_calls m)\<rparr>"
  have view: "named_view view" using assms(2) by (simp add: named_world_def view_def)
  have "wf_manager (startCoordinationRound (EraseNode name)
      ((resetProgress m1)\<lparr>m_rescale := (m_rescale (resetProgress m1))\<lparr>cleaning := name\<rparr>\<rparr>))"
    if "wf_manager m1" "m_state m1 = StateStableServer" "name \<noteq> ''''" for m1
    using that by (simp add: wf_manager_def rescale_step_defs call_defs no_round_def Let_def)
  then show ?thesis
    using assms(1) canForget_named [OF _ view]
    by (auto simp: onForgetProbed_def observeCluster_def view_def [symmetric] Let_def wf_rules)
qed

lemma wf_finishForgetting [wf_rules]:
  assumes "wf_manager m" and "m_state m = StateRescaleCoordinating"
    and "order (m_rescale m) = noOrder" and "evicting (m_rescale m) = []"
  shows "wf_manager (finishForgetting w m)"
proof -
  have "wf_manager (transition StateStableServer (m\<lparr>m_rescale := (m_rescale m)\<lparr>cleaning := ''''\<rparr>\<rparr>))"
    using assms by (simp add: wf_manager_def call_defs no_round_def)
  then show ?thesis
    by (simp add: finishForgetting_def Let_def observeCluster_def wf_rules)
qed

lemma wf_onRescaleCoordinationDone [wf_rules]:
  assumes "wf_manager m" and "m_state m = StateRescaleCoordinating"
  shows "wf_manager (onRescaleCoordinationDone w m)"
proof (cases "cleaning (m_rescale m) = '''' \<and> Target (order (m_rescale m)) \<noteq> ''''")
  case True
  define m1 where "m1 = emit (IoSend eventRescaleConvert (marshalOrder (order (m_rescale m))))
      (m\<lparr>m_rescale := (m_rescale m)\<lparr>order := noOrder\<rparr>\<rparr>)"
  have ab: "wf_manager (abandonCoordination w m1)"
    using assms True unfolding abandonCoordination_def Let_def
    by (auto simp: m1_def now_def intro!: wf_scheduleRescaleCheck)
      (simp add: wf_manager_def call_defs no_round_def)
  have "wf_manager (emit IoNow (transition StateStableServer m1))"
    using assms True by (auto simp: m1_def wf_manager_def call_defs no_round_def noOrder_def)
  then show ?thesis
    using True ab
    by (simp add: onRescaleCoordinationDone_def Let_def SendUserEvent_def now_def m1_def [symmetric]
        wf_rules split: option.split)
next
  case False
  then show ?thesis
    using assms
    by (auto simp: onRescaleCoordinationDone_def wf_manager_def [of m] noOrder_def
        intro!: wf_finishForgetting wf_finishEviction assms)
qed

subsection \<open>The dispatchers\<close>

lemma wf_onK3sOperationSucceeded [wf_rules]:
  "wf_manager m \<Longrightarrow> wf_manager (onK3sOperationSucceeded w m)"
  by (cases "m_state m") (simp_all add: onK3sOperationSucceeded_def wf_rules)

lemma wf_onK3sOperationFailed [wf_rules]:
  "wf_manager m \<Longrightarrow> wf_manager (onK3sOperationFailed w m)"
  by (cases "m_state m") (simp_all add: onK3sOperationFailed_def wf_rules)

lemma wf_reply [wf_rules]: "wf_manager (snd r) \<Longrightarrow> wf_manager (reply ch r)"
  by (cases r) (simp add: reply_def)

lemma wf_handleCommand [wf_rules]:
  "wf_manager m \<Longrightarrow> named_world w \<Longrightarrow> wf_manager (handleCommand w c m)"
  by (cases c) (simp_all add: wf_rules)

lemma wf_handleUserEvent [wf_rules]: "wf_manager m \<Longrightarrow> wf_manager (handleUserEvent w e m)"
  by (simp add: handleUserEvent_def wf_rules)

lemma wf_handleSerfEvent [wf_rules]: "wf_manager m \<Longrightarrow> wf_manager (handleSerfEvent w e m)"
  by (simp add: handleSerfEvent_def observeCluster_def wf_rules)

end
