(* ===== verification/Run_Loop.thy ===== *)
theory Run_Loop
  imports Manager_Invariant
begin

text \<open>
  The run loop of \<open>antsd/internal/cluster/manager.go\<close> with everything that runs beside it: the two
  channels it reads, the goroutines of the K3s operations and lookups, the timers, the users of the
  admin interface. A state of the system holds the manager, the content of the channels, the
  commands of the goroutines that are waiting to submit, and what came back already. One action is
  one atomic step of one of those goroutines, so every interleaving is a list of actions.
\<close>

subsection \<open>The system\<close>

text \<open>The buffers of \<open>make(chan command, 16)\<close> and, in \<open>serfnode.go\<close>, \<open>make(chan Event, 64)\<close>.\<close>

definition commandsCap :: nat where
  "commandsCap = 16"

definition eventChCap :: nat where
  "eventChCap = 64"

record sys =
  sMgr :: manager
  sEvents :: "Event list"
  sCommands :: "command list"
  sBlocked :: "command list"
  sFired :: "nat list"
  sResults :: "(nat \<times> error option) list"
  sProbed :: "nat list"
  sReply :: nat
  sDown :: bool

text \<open>\<open>dispatch\<close> of \<open>serfnode.go\<close>: an event that finds the channel full is dropped.\<close>

definition dispatch :: "Event \<Rightarrow> Event list \<Rightarrow> Event list" where
  "dispatch e ch = (if length ch < eventChCap then ch @ [e] else ch)"

fun wake_command :: "timer_kind \<Rightarrow> command" where
  "wake_command WakeBootstrapWait = CmdBootstrapWaitExpired"
| "wake_command WakeJoinWait = CmdJoinWaitExpired"
| "wake_command WakeForgetRetry = CmdForgetRetry"
| "wake_command WakeRescaleCheck = CmdRescaleCheck"

fun result_command :: "error option \<Rightarrow> command" where
  "result_command None = CmdK3sOperationSucceeded"
| "result_command (Some err) = CmdK3sOperationFailed err"

datatype user_action = RequestBootstrap | ConfirmBootstrap | CancelBootstrap

fun action_command :: "user_action \<Rightarrow> nat \<Rightarrow> command" where
  "action_command RequestBootstrap ch = CmdRequestBootstrap ch"
| "action_command ConfirmBootstrap ch = CmdConfirmBootstrap ch"
| "action_command CancelBootstrap ch = CmdCancelBootstrap ch"

text \<open>
  The actions: Serf reports an event; the loop takes an event or a command; a timer fires; a K3s
  operation returns; a lookup answers (\<open>None\<close> when it failed); a user presses a button; a goroutine
  gets its command into the channel; antsd shuts down.
\<close>

datatype action =
    Arrive Event
  | TakeEvent
  | TakeCommand
  | Fire nat timer_kind
  | OpReturns nat "error option"
  | ProbeReturns nat string "bool option"
  | UserActs user_action
  | Submit nat
  | Shutdown

text \<open>A timer that was stopped before it fired does not fire.\<close>

definition timer_pending :: "sys \<Rightarrow> nat \<Rightarrow> timer_kind \<Rightarrow> bool" where
  "timer_pending s i k \<longleftrightarrow>
    list_ex (\<lambda>e. case e of IoAfterFunc j k' d \<Rightarrow> j = i \<and> k' = k | _ \<Rightarrow> False) (m_calls (sMgr s)) \<and>
    \<not> List.member (m_calls (sMgr s)) (IoStop i) \<and> \<not> List.member (sFired s) i"

definition op_running :: "sys \<Rightarrow> nat \<Rightarrow> bool" where
  "op_running s i \<longleftrightarrow>
    list_ex (\<lambda>e. case e of IoStartOp j op \<Rightarrow> j = i | _ \<Rightarrow> False) (m_calls (sMgr s)) \<and>
    \<not> List.member (map fst (sResults s)) i"

definition probe_running :: "sys \<Rightarrow> nat \<Rightarrow> string \<Rightarrow> bool" where
  "probe_running s i name \<longleftrightarrow>
    List.member (m_calls (sMgr s)) (IoProbe i name) \<and> \<not> List.member (sProbed s) i"

fun enabled :: "sys \<Rightarrow> action \<Rightarrow> bool" where
  "enabled s (Arrive e) = (\<not> sDown s)"
| "enabled s TakeEvent = (\<not> sDown s \<and> sEvents s \<noteq> [])"
| "enabled s TakeCommand = (\<not> sDown s \<and> sCommands s \<noteq> [])"
| "enabled s (Fire i k) = (\<not> sDown s \<and> timer_pending s i k)"
| "enabled s (OpReturns i err) = (\<not> sDown s \<and> op_running s i)"
| "enabled s (ProbeReturns i name found) = (\<not> sDown s \<and> probe_running s i name)"
| "enabled s (UserActs a) = (\<not> sDown s)"
| "enabled s (Submit n) =
     (\<not> sDown s \<and> n < length (sBlocked s) \<and> length (sCommands s) < commandsCap)"
| "enabled s Shutdown = (\<not> sDown s)"

definition shutdown :: "manager \<Rightarrow> manager" where
  "shutdown m = rescale_stopTimer (joining_stopTimer (bootstrap_stopTimer m))"

fun perform :: "world \<Rightarrow> action \<Rightarrow> sys \<Rightarrow> sys" where
  "perform w (Arrive e) s = s\<lparr>sEvents := dispatch e (sEvents s)\<rparr>"
| "perform w TakeEvent s =
     s\<lparr>sMgr := handleSerfEvent w (hd (sEvents s)) (sMgr s), sEvents := tl (sEvents s)\<rparr>"
| "perform w TakeCommand s =
     s\<lparr>sMgr := handleCommand w (hd (sCommands s)) (sMgr s), sCommands := tl (sCommands s)\<rparr>"
| "perform w (Fire i k) s = s\<lparr>sBlocked := sBlocked s @ [wake_command k], sFired := i # sFired s\<rparr>"
| "perform w (OpReturns i err) s =
     s\<lparr>sBlocked := sBlocked s @ [result_command err], sResults := (i, err) # sResults s\<rparr>"
| "perform w (ProbeReturns i name found) s =
     s\<lparr>sBlocked := sBlocked s @ (case found of None \<Rightarrow> [] | Some b \<Rightarrow> [CmdForgetProbed name b]),
       sProbed := i # sProbed s\<rparr>"
| "perform w (UserActs a) s =
     s\<lparr>sBlocked := sBlocked s @ [action_command a (sReply s)], sReply := sReply s + 1\<rparr>"
| "perform w (Submit n) s =
     s\<lparr>sCommands := sCommands s @ [sBlocked s ! n],
       sBlocked := take n (sBlocked s) @ drop (Suc n) (sBlocked s)\<rparr>"
| "perform w Shutdown s = s\<lparr>sMgr := shutdown (sMgr s), sDown := True\<rparr>"

definition Run_start :: "world \<Rightarrow> config \<Rightarrow> sys" where
  "Run_start w conf =
    \<lparr>sMgr = chooseInitialState w (newManager conf), sEvents = [], sCommands = [], sBlocked = [],
     sFired = [], sResults = [], sProbed = [], sReply = 0, sDown = False\<rparr>"

text \<open>\<open>ok\<close> restricts the actions of a run; \<open>reachable\<close> is without restriction.\<close>

inductive reachable_by :: "(sys \<Rightarrow> action \<Rightarrow> bool) \<Rightarrow> world \<Rightarrow> config \<Rightarrow> sys \<Rightarrow> bool"
  for ok :: "sys \<Rightarrow> action \<Rightarrow> bool" and w :: world and conf :: config where
  start: "reachable_by ok w conf (Run_start w conf)"
| act: "reachable_by ok w conf s \<Longrightarrow> enabled s a \<Longrightarrow> ok s a \<Longrightarrow>
    reachable_by ok w conf (perform w a s)"

abbreviation reachable :: "world \<Rightarrow> config \<Rightarrow> sys \<Rightarrow> bool" where
  "reachable \<equiv> reachable_by (\<lambda>s a. True)"

text \<open>The run of a list of actions; \<open>None\<close> when one of them is not enabled or not allowed.\<close>

fun run_by :: "(sys \<Rightarrow> action \<Rightarrow> bool) \<Rightarrow> world \<Rightarrow> action list \<Rightarrow> sys \<Rightarrow> sys option" where
  "run_by ok w [] s = Some s"
| "run_by ok w (a # as) s = (if enabled s a \<and> ok s a then run_by ok w as (perform w a s) else None)"

abbreviation run :: "world \<Rightarrow> action list \<Rightarrow> sys \<Rightarrow> sys option" where
  "run \<equiv> run_by (\<lambda>s a. True)"

lemma reachable_by_mono: "reachable_by ok w conf s \<Longrightarrow> reachable w conf s"
  by (induction rule: reachable_by.induct) (auto intro: reachable_by.intros)

lemma run_by_reachable:
  "reachable_by ok w conf s \<Longrightarrow> run_by ok w as s = Some s' \<Longrightarrow> reachable_by ok w conf s'"
  by (induction as arbitrary: s) (auto split: if_splits intro: reachable_by.act)

lemma run_from_start:
  "run_by ok w as (Run_start w conf) = Some s \<Longrightarrow> reachable_by ok w conf s"
  by (rule run_by_reachable [OF reachable_by.start])

subsection \<open>Invariants of the loop\<close>

text \<open>
  An invariant of the system under runs restricted by \<open>ok\<close>. A property of the manager that each of
  the three entry points of the loop keeps is one, because nothing else writes the manager.
\<close>

locale run_invariant =
  fixes ok :: "sys \<Rightarrow> action \<Rightarrow> bool" and w :: world and conf :: config and J :: "sys \<Rightarrow> bool"
  assumes J_start: "J (Run_start w conf)"
    and J_act: "J s \<Longrightarrow> enabled s a \<Longrightarrow> ok s a \<Longrightarrow> J (perform w a s)"
begin

lemma J_reachable: "reachable_by ok w conf s \<Longrightarrow> J s"
  by (induction rule: reachable_by.induct) (simp_all add: J_start J_act)

end

locale loop_invariant =
  fixes w :: world and conf :: config and inv :: "manager \<Rightarrow> bool"
  assumes inv_start: "inv (chooseInitialState w (newManager conf))"
    and inv_event: "inv m \<Longrightarrow> inv (handleSerfEvent w e m)"
    and inv_command: "inv m \<Longrightarrow> inv (handleCommand w c m)"
    and inv_shutdown: "inv m \<Longrightarrow> inv (shutdown m)"
begin

lemma inv_perform: "inv (sMgr s) \<Longrightarrow> inv (sMgr (perform w a s))"
  by (cases a) (simp_all add: inv_event inv_command inv_shutdown)

end

sublocale loop_invariant \<subseteq> loop: run_invariant ok w conf "\<lambda>s. inv (sMgr s)" for ok
  by unfold_locales (simp_all add: Run_start_def inv_start inv_perform)

lemma wf_shutdown: "wf_manager m \<Longrightarrow> wf_manager (shutdown m)"
  by (simp add: shutdown_def wf_rules)
    (cases "m_state m"; simp add: wf_manager_def call_defs no_round_def)

lemma wf_Run_start: "wf_manager (chooseInitialState w (newManager conf))"
  using wf_chooseInitialState [OF wf_newManager] by (simp add: newManager_def)

interpretation wf: loop_invariant w conf "\<lambda>m. named_world w \<longrightarrow> wf_manager m" for w conf
  by unfold_locales (auto simp: wf_Run_start wf_shutdown wf_rules)

subsection \<open>What every run keeps\<close>

lemma reachable_wf: "reachable_by ok w conf s \<Longrightarrow> named_world w \<Longrightarrow> wf_manager (sMgr s)"
  using wf.loop.J_reachable by blast

end
