(* ===== verification/Single_Flight.thy ===== *)
theory Single_Flight
  imports Run_Loop "HOL-Library.Sublist" "HOL-Library.Multiset"
begin

text \<open>
  The background K3s operations of the run loop. The loop does not say which operation an answer
  belongs to: it takes the answer as the one of the operation its state waits for. That is sound as
  long as at most one operation is outstanding, and it is the one the state started. Each handler is
  shown to start an operation exactly when it enters a working state (\<open>idle_step\<close>,
  \<open>result_step\<close>); the invariant of the system follows.
\<close>

named_theorems flight_rules \<open>what the handlers do to the background operations\<close>

subsection \<open>The operations a history started\<close>

fun round_of :: "io \<Rightarrow> round_work option" where
  "round_of (IoStartOp i (OpRound work)) = Some work"
| "round_of _ = None"

fun ops :: "history \<Rightarrow> (nat \<times> k3s_op) list" where
  "ops [] = []"
| "ops (IoStartOp i op # h) = (i, op) # ops h"
| "ops (_ # h) = ops h"

text \<open>An operation is named by its position in the history.\<close>

fun stamped :: "history \<Rightarrow> bool" where
  "stamped [] = True"
| "stamped (IoStartOp i op # h) = (i = length h \<and> stamped h)"
| "stamped (_ # h) = stamped h"

lemma stamped_bound: "stamped h \<Longrightarrow> (i, op) \<in> set (ops h) \<Longrightarrow> i < length h"
  by (induction h rule: stamped.induct) auto

lemma distinct_ops: "stamped h \<Longrightarrow> distinct (map fst (ops h))"
  by (induction h rule: stamped.induct) (auto dest: stamped_bound)

lemma ops_stop [simp]:
  "ops (case t of None \<Rightarrow> h | Some i \<Rightarrow> IoStop i # h) = ops h"
  "stamped (case t of None \<Rightarrow> h | Some i \<Rightarrow> IoStop i # h) = stamped h"
  by (simp_all split: option.split)

lemma ops_member: "(i, op) \<in> set (ops h) \<longleftrightarrow> IoStartOp i op \<in> set h"
  by (induction h rule: ops.induct) auto

subsection \<open>Working states\<close>

definition busy :: "node_state \<Rightarrow> bool" where
  "busy s \<longleftrightarrow> s \<in> {StateBootstrapInstallInit, StateBootstrapInstallServer, StateBootstrapInstallAgent,
     StateJoiningCleanup, StateJoiningAgent, StateRejoinCluster, StateRescaleCoordinating,
     StateRescalePromoting, StateRescaleDemoting}"

text \<open>The operation a working state waits for.\<close>

fun op_matches :: "node_state \<Rightarrow> PersistedState option \<Rightarrow> rescaleProgress \<Rightarrow> k3s_op \<Rightarrow> bool" where
  "op_matches StateBootstrapInstallInit p r op = (op = OpInstallInit)"
| "op_matches StateBootstrapInstallServer p r op = (\<exists>ip. op = OpInstallServer ip)"
| "op_matches StateBootstrapInstallAgent p r op = (\<exists>ip. op = OpInstallAgent ip)"
| "op_matches StateJoiningAgent p r op = (\<exists>ip. op = OpInstallAgent ip)"
| "op_matches StateJoiningCleanup p r op = (op = OpEnsureNotInstalled)"
| "op_matches StateRejoinCluster p r op = (\<exists>q. p = Some q \<and> op = OpRejoin (RoleP q))"
| "op_matches StateRescaleCoordinating p r op =
     (op = OpRound (if cleaning r \<noteq> '''' then EraseNode (cleaning r)
        else if Target (order r) \<noteq> '''' then PrepareConversion (Target (order r))
        else EvictNodes (evicting r)))"
| "op_matches StateRescalePromoting p r op = (op = OpConvert (order r))"
| "op_matches StateRescaleDemoting p r op = (op = OpConvert (order r))"
| "op_matches s p r op = False"

text \<open>The states of a node that runs K3s in its persisted role, and the role an operation gives.\<close>

definition holds_role :: "node_state \<Rightarrow> bool" where
  "holds_role s \<longleftrightarrow> s \<in> {StateStableServer, StateStableAgent, StateRescaleCoordinating,
     StateRescalePromoting, StateRescaleDemoting}"

fun op_role :: "k3s_op \<Rightarrow> role option" where
  "op_role OpInstallInit = Some RoleServer"
| "op_role (OpInstallServer ip) = Some RoleServer"
| "op_role (OpInstallAgent ip) = Some RoleAgent"
| "op_role (OpRejoin r) = Some r"
| "op_role (OpConvert ord) = Some (RoleO ord)"
| "op_role _ = None"

subsection \<open>What a handler does to the operations\<close>

definition same_work :: "manager \<Rightarrow> manager \<Rightarrow> bool" where
  "same_work m m' \<longleftrightarrow>
    m_state m' = m_state m \<and> ops (m_calls m') = ops (m_calls m) \<and>
    m_persistedState m' = m_persistedState m \<and> order (m_rescale m') = order (m_rescale m) \<and>
    evicting (m_rescale m') = evicting (m_rescale m) \<and> cleaning (m_rescale m') = cleaning (m_rescale m)"

definition started_work :: "manager \<Rightarrow> manager \<Rightarrow> bool" where
  "started_work m m' \<longleftrightarrow> busy (m_state m') \<and>
    (\<exists>i op. ops (m_calls m') = (i, op) # ops (m_calls m) \<and> length (m_calls m) \<le> i \<and>
       op_matches (m_state m') (m_persistedState m') (m_rescale m') op)"

definition no_work :: "manager \<Rightarrow> manager \<Rightarrow> bool" where
  "no_work m m' \<longleftrightarrow> \<not> busy (m_state m') \<and> ops (m_calls m') = ops (m_calls m)"

definition keeps_history :: "manager \<Rightarrow> manager \<Rightarrow> bool" where
  "keeps_history m m' \<longleftrightarrow>
    suffix (m_calls m) (m_calls m') \<and> (stamped (m_calls m) \<longrightarrow> stamped (m_calls m'))"

definition keeps_role :: "manager \<Rightarrow> manager \<Rightarrow> bool" where
  "keeps_role m m' \<longleftrightarrow> (holds_role (m_state m') \<longrightarrow>
    holds_role (m_state m) \<and> m_persistedState m' = m_persistedState m)"

text \<open>A handler that is not given the answer of an operation.\<close>

definition idle_step :: "manager \<Rightarrow> manager \<Rightarrow> bool" where
  "idle_step m m' \<longleftrightarrow> keeps_history m m' \<and> keeps_role m m' \<and>
    (if busy (m_state m) then same_work m m' else no_work m m' \<or> started_work m m')"

lemma idle_step_refl [simp]: "idle_step m m"
  by (simp add: idle_step_def keeps_history_def keeps_role_def same_work_def no_work_def)

lemma idle_step_trans:
  assumes "idle_step m m1" and "idle_step m1 m2"
  shows "idle_step m m2"
proof -
  have "length (m_calls m) \<le> length (m_calls m1)"
    using assms(1) by (auto simp: idle_step_def keeps_history_def suffix_def)
  moreover have "op_matches s p (m_rescale m1) op = op_matches s p (m_rescale m2) op"
    if "same_work m1 m2" for s p op
    using that by (cases s) (simp_all add: same_work_def)
  moreover have "keeps_history m m2"
    using assms by (auto simp: idle_step_def keeps_history_def intro: suffix_order.trans)
  moreover have "keeps_role m m2" using assms by (auto simp: idle_step_def keeps_role_def)
  ultimately show ?thesis
    using assms by (auto simp: idle_step_def same_work_def no_work_def started_work_def split: if_splits)
qed

lemmas flight_defs = idle_step_def keeps_history_def keeps_role_def same_work_def no_work_def
  started_work_def busy_def holds_role_def

lemma suffix_stop [simp]:
  "suffix xs ys \<Longrightarrow> suffix xs (case t of None \<Rightarrow> ys | Some i \<Rightarrow> IoStop i # ys)"
  "length xs \<le> length (case t of None \<Rightarrow> xs | Some i \<Rightarrow> IoStop i # xs)"
  "length xs \<le> Suc (length (case t of None \<Rightarrow> xs | Some i \<Rightarrow> IoStop i # xs))"
  "length xs \<le> Suc (Suc (length (case t of None \<Rightarrow> xs | Some i \<Rightarrow> IoStop i # xs)))"
  by (simp_all add: suffix_ConsI split: option.split)

lemmas step_simps = suffix_ConsI flight_defs call_defs

lemma idle_emit [flight_rules]:
  "idle_step m (emit IoSnapshot m)" "idle_step m (emit IoNow m)" "idle_step m (emit (IoSend e p) m)"
  "idle_step m (emit (IoProbe i n) m)" "idle_step m (emit (IoReply i r) m)"
  by (simp_all add: step_simps)

lemma idle_emit_then:
  "idle_step (emit IoSnapshot m) m' \<Longrightarrow> idle_step m m'"
  "idle_step (emit IoNow m) m' \<Longrightarrow> idle_step m m'"
  using idle_emit(1,2) idle_step_trans by blast+

subsection \<open>The handlers that no operation answers\<close>

lemma idle_onRequestBootstrap [flight_rules]: "idle_step m (snd (onRequestBootstrap w m))"
  by (auto simp: onRequestBootstrap_def step_simps split: prod.split)

lemma idle_onCancelBootstrap [flight_rules]: "idle_step m (snd (onCancelBootstrap m))"
  by (auto simp: onCancelBootstrap_def step_simps)

lemma idle_onConfirmBootstrap [flight_rules]: "idle_step m (snd (onConfirmBootstrap w m))"
  by (auto simp: onConfirmBootstrap_def step_simps split: option.split)

lemma idle_onBootstrapRequested [flight_rules]: "idle_step m (onBootstrapRequested m)"
  by (auto simp: onBootstrapRequested_def step_simps Let_def)

lemma idle_onBootstrapWaitExpired [flight_rules]: "idle_step m (onBootstrapWaitExpired w m)"
  by (auto simp: onBootstrapWaitExpired_def failBootstrap_def step_simps split: option.split)

lemma idle_maybeInstallServer [flight_rules]: "idle_step m (maybeInstallServer view m)"
  by (auto simp: maybeInstallServer_def step_simps split: prod.split)

lemma idle_maybeInstallAgent [flight_rules]: "idle_step m (maybeInstallAgent view m)"
  by (auto simp: maybeInstallAgent_def step_simps split: prod.split)

lemma idle_maybeStartJoiningPath [flight_rules]: "idle_step m (maybeStartJoiningPath view m)"
  by (auto simp: maybeStartJoiningPath_def bootstrap_reset_def step_simps Let_def split: prod.split)

lemma idle_maybeJoinCluster [flight_rules]: "idle_step m (maybeJoinCluster view m)"
  by (auto simp: maybeJoinCluster_def startForgetMe_def joinAsAgent_def step_simps split: prod.split)

lemma idle_onForgetMe [flight_rules]: "idle_step m (onForgetMe w p m)"
  by (auto simp: onForgetMe_def step_simps split: option.split)

lemma idle_sendForgetMe [flight_rules]: "idle_step m (sendForgetMe w m)"
  by (simp add: sendForgetMe_def step_simps Let_def)

lemma idle_onForgetRetry [flight_rules]: "idle_step m (onForgetRetry w m)"
  by (simp add: onForgetRetry_def idle_sendForgetMe)

lemma idle_confirmForgotten [flight_rules]: "idle_step m (confirmForgotten w name m)"
  by (simp add: confirmForgotten_def SendUserEvent_def idle_emit)

lemma idle_onRescaleConvert [flight_rules]: "idle_step m (onRescaleConvert p m)"
  by (auto simp: onRescaleConvert_def step_simps Let_def StableState_def Other_def split: option.split)

lemma idle_onJoinWaitExpired [flight_rules]: "idle_step m (onJoinWaitExpired w m)"
proof -
  define m1 where "m1 = joining_stopTimer (m\<lparr>m_joining := (m_joining m)\<lparr>settled := True\<rparr>\<rparr>)"
  have "idle_step m m1" by (simp add: m1_def step_simps)
  moreover have "idle_step m1 (emit IoSnapshot m1)" by (rule idle_emit)
  moreover have "idle_step (emit IoSnapshot m1) (maybeJoinCluster view (emit IoSnapshot m1))" for view
    by (rule idle_maybeJoinCluster)
  ultimately have "idle_step m (maybeJoinCluster view (emit IoSnapshot m1))" for view
    by (blast intro: idle_step_trans)
  then show ?thesis by (simp add: onJoinWaitExpired_def Let_def m1_def observeCluster_def)
qed

lemma idle_onBootstrapStart [flight_rules]: "idle_step m (onBootstrapStart w m)"
proof (cases "m_state m = StateBootstrapWaiting")
  case True
  define m1 where "m1 = emit IoSnapshot (bootstrap_stopTimer m)"
  define m2 where "m2 = (\<lambda>b. m1\<lparr>m_bootstrap := b\<rparr>)"
  have m2: "idle_step m (m2 b)" for b by (simp add: m2_def m1_def step_simps)
  have install: "idle_step m (maybeInstallAgent view (maybeInstallServer view (m2 b)))" for view b
    by (rule idle_step_trans [OF idle_step_trans [OF m2 idle_maybeInstallServer] idle_maybeInstallAgent])
  have fail: "idle_step m (failBootstrap m1)" "idle_step m (failBootstrap (m2 b))"
    and init: "idle_step m (startK3sOperation OpInstallInit (transition StateBootstrapInstallInit (m2 b)))"
    for b using True by (simp_all add: m2_def m1_def failBootstrap_def step_simps)
  show ?thesis
    using True install fail init unfolding onBootstrapStart_def Let_def
    by (auto simp: m1_def [symmetric] m2_def observeCluster_def split: sum.split prod.split)
qed (simp add: onBootstrapStart_def)

subsection \<open>Rescaling\<close>

lemma idle_rescale_stopTimer [flight_rules]: "idle_step m (rescale_stopTimer m)"
  by (simp add: step_simps)

lemma idle_scheduleRescaleCheck [flight_rules]: "idle_step m (scheduleRescaleCheck deadline t m)"
  by (simp add: scheduleRescaleCheck_def armTimer_def step_simps Let_def)

lemma idle_forget [flight_rules]: "\<not> busy (m_state m) \<Longrightarrow> idle_step m (forget m)"
  by (simp add: forget_def step_simps Let_def)

lemma idle_startEviction [flight_rules]:
  "m_state m = StateStableServer \<Longrightarrow> idle_step m (startEviction names m)"
  by (simp add: startEviction_def startCoordinationRound_def resetProgress_def noOrder_def
      step_simps Let_def)

lemma idle_trackImbalance:
  "trackImbalance view t m = (r, m') \<Longrightarrow> idle_step m m' \<and> m_state m' = m_state m"
  by (auto simp: trackImbalance_def Let_def flight_defs split: if_splits)

lemma idle_startConversion:
  assumes "m_state m = StateStableServer" and "startConversion w view m = (started, m')"
  shows "idle_step m m' \<and> (\<not> started \<longrightarrow> m' = m)"
  using assms chooseConversionTarget_named [of view "selfName m"]
  by (auto simp: startConversion_def startCoordinationRound_def resetProgress_def step_simps Let_def
      split: option.splits)

lemma idle_maybeRescale [flight_rules]: "idle_step m (maybeRescale w view m)"
proof -
  define t where "t = wNow w (m_calls m)"
  define m1 where "m1 = (emit IoNow m)\<lparr>m_rescale := trackFailures view t (m_rescale (emit IoNow m))\<rparr>"
  have m1: "idle_step m m1" by (simp add: m1_def step_simps)
  have now: "now w m = (t, emit IoNow m)" by (simp add: now_def t_def)
  obtain evictable due where ev: "durablyFailedMembersNames view (failedSince (m_rescale m1))
      (m_evictionGrace m1) t = (evictable, due)" by fastforce
  obtain isSettled dl m2 where ti: "trackImbalance view t m1 = ((isSettled, dl), m2)"
    by (metis prod.exhaust)
  obtain started m3 where sc: "startConversion w view m2 = (started, m3)" by fastforce
  have st: "m_state (emit IoNow m) = m_state m1" by (simp add: m1_def)
  have tail: "idle_step m1 m2" "idle_step m1 m3" "idle_step m1 (scheduleRescaleCheck d t m2)"
      "idle_step m1 (scheduleRescaleCheck d t m3)"
    if "m_state m1 = StateStableServer" for d
    using idle_trackImbalance [OF ti] idle_startConversion [OF _ sc] that
      idle_scheduleRescaleCheck idle_step_trans by metis+
  show ?thesis
  proof (cases "m_state m1 = StateStableServer")
    case True
    have "idle_step m m'" if "idle_step m1 m'" for m' using idle_step_trans [OF m1 that] .
    then show ?thesis
      using True m1 tail
      by (simp add: maybeRescale_def now Let_def m1_def [symmetric] ev ti sc st idle_startEviction
          idle_forget idle_rescale_stopTimer busy_def)
  qed (use m1 in \<open>simp add: maybeRescale_def now Let_def m1_def [symmetric] st\<close>)
qed

lemma idle_onRescaleCheck [flight_rules]: "idle_step m (onRescaleCheck w m)"
  by (simp add: onRescaleCheck_def observeCluster_def)
    (rule idle_step_trans [OF idle_emit(1) idle_maybeRescale])

lemma idle_onForgetProbed [flight_rules]:
  assumes "named_world w"
  shows "idle_step m (onForgetProbed w name found m)"
proof -
  define view where "view = \<lparr>snapshot = wSnapshot w (m_calls m)\<rparr>"
  have view: "named_view view" using assms by (simp add: named_world_def view_def)
  have "idle_step m1 (startCoordinationRound (EraseNode name)
      ((resetProgress m1)\<lparr>m_rescale := (m_rescale (resetProgress m1))\<lparr>cleaning := name\<rparr>\<rparr>))"
    if "m_state m1 = StateStableServer" "name \<noteq> ''''" for m1
    using that by (simp add: startCoordinationRound_def resetProgress_def step_simps Let_def)
  then have "idle_step (emit IoSnapshot m) (snd (view, onForgetProbed w name found m))"
    using canForget_named [OF _ view, of name "emit IoSnapshot m"] idle_confirmForgotten
    by (simp add: onForgetProbed_def observeCluster_def view_def [symmetric] Let_def)
  then show ?thesis by (auto dest: idle_emit_then)
qed

subsection \<open>The answers of the operations\<close>

text \<open>
  A handler that is given the answer of the operation its state waits for: it leaves the working
  states, or enters one again with a new operation. The checked name of a joiner is the exception:
  it then waits for an event, and no operation runs.
\<close>

definition result_step :: "manager \<Rightarrow> manager \<Rightarrow> bool" where
  "result_step m m' \<longleftrightarrow> keeps_history m m' \<and>
    (no_work m m' \<or> started_work m m' \<or> m_state m = StateJoiningCleanup \<and> same_work m m')"

text \<open>The role a successful operation leaves the node with.\<close>

definition gives_role :: "manager \<Rightarrow> manager \<Rightarrow> bool" where
  "gives_role m m' \<longleftrightarrow> (holds_role (m_state m') \<longrightarrow>
    holds_role (m_state m) \<and> m_persistedState m' = m_persistedState m \<or>
    (\<forall>op. op_matches (m_state m) (m_persistedState m) (m_rescale m) op \<longrightarrow>
       op_role op = map_option RoleP (m_persistedState m')))"

lemma result_step_trans:
  assumes "result_step m m1" and "\<not> busy (m_state m1)" and "idle_step m1 m2"
  shows "result_step m m2"
proof -
  have "length (m_calls m) \<le> length (m_calls m1)"
    using assms(1) by (auto simp: result_step_def keeps_history_def suffix_def)
  moreover have "keeps_history m m2"
    using assms by (auto simp: result_step_def idle_step_def keeps_history_def intro: suffix_order.trans)
  moreover have "ops (m_calls m1) = ops (m_calls m)"
    using assms(1,2) by (auto simp: result_step_def no_work_def started_work_def same_work_def busy_def)
  moreover have "no_work m1 m2 \<or> started_work m1 m2" using assms(2,3) by (simp add: idle_step_def)
  ultimately have "no_work m m2 \<or> started_work m m2"
    unfolding no_work_def started_work_def by fastforce
  then show ?thesis using \<open>keeps_history m m2\<close> unfolding result_step_def by blast
qed

lemma keeps_role_trans: "keeps_role m m1 \<Longrightarrow> idle_step m1 m2 \<Longrightarrow> keeps_role m m2"
  by (auto simp: keeps_role_def idle_step_def)

lemma keeps_gives: "keeps_role m m' \<Longrightarrow> gives_role m m'"
  by (auto simp: keeps_role_def gives_role_def)

lemmas result_simps = result_step_def gives_role_def step_simps

lemma result_bootstrap:
  assumes "m_state m \<in> {StateBootstrapInstallInit, StateBootstrapInstallServer, StateBootstrapInstallAgent}"
  shows "result_step m (onBootstrapInstallSucceeded w m) \<and> gives_role m (onBootstrapInstallSucceeded w m)"
    and "result_step m (failBootstrap m) \<and> keeps_role m (failBootstrap m)"
  using assms
  by (auto simp: onBootstrapInstallSucceeded_def failBootstrap_def buildFirstBootState_def
      becomeStable_def StableState_def result_simps)

lemma result_joining:
  assumes "m_state m = StateJoiningAgent"
  shows "result_step m (onJoiningInstallSucceeded w m) \<and> gives_role m (onJoiningInstallSucceeded w m)"
  using assms
  by (auto simp: onJoiningInstallSucceeded_def buildFirstBootState_def becomeStable_def
      StableState_def result_simps)

lemma result_failJoining:
  "m_state m \<in> {StateJoiningCleanup, StateJoiningAgent} \<Longrightarrow> result_step m (failJoining m) \<and> keeps_role m (failJoining m)"
  by (auto simp: failJoining_def result_simps)

lemma result_cleanup:
  assumes "m_state m = StateJoiningCleanup"
  shows "result_step m (onJoiningCleanupChecked w m) \<and> keeps_role m (onJoiningCleanupChecked w m)"
  using assms by (simp add: onJoiningCleanupChecked_def sendForgetMe_def result_simps Let_def)

lemma result_rejoin:
  assumes "wf_manager m" and "m_state m = StateRejoinCluster"
  shows "result_step m (onRejoinReady m) \<and> gives_role m (onRejoinReady m)"
    and "result_step m (failRejoin m) \<and> keeps_role m (failRejoin m)"
  using assms
  by (auto simp: onRejoinReady_def failRejoin_def becomeStable_def StableState_def result_simps
      wf_manager_def split: if_splits)

lemma result_rescaled:
  assumes "wf_manager m" and "m_state m \<in> {StateRescalePromoting, StateRescaleDemoting}"
  shows "result_step m (onRescaleConverted w m) \<and> gives_role m (onRescaleConverted w m)"
    and "result_step m (failRescale m) \<and> keeps_role m (failRescale m)"
  using assms
  by (auto simp: onRescaleConverted_def failRescale_def becomeStable_def StableState_def result_simps
      wf_manager_def Let_def)

lemma result_abandon:
  assumes "m_state m = StateRescaleCoordinating"
  shows "result_step m (abandonCoordination w m) \<and> keeps_role m (abandonCoordination w m)"
  using assms
  by (simp add: abandonCoordination_def scheduleRescaleCheck_def armTimer_def result_simps Let_def)

lemma erase_evicted_flight:
  "same_work m (erase_evicted w names m) \<and> keeps_history m (erase_evicted w names m)"
proof (induction names arbitrary: m)
  case Nil
  then show ?case by (simp add: flight_defs)
next
  case (Cons name names)
  define m1 where "m1 = (\<lambda>f. (emit (IoRemoveFailed name) m)\<lparr>m_rescale := (m_rescale m)\<lparr>failedSince := f\<rparr>\<rparr>)"
  have step: "same_work m (emit (IoRemoveFailed name) m) \<and> keeps_history m (emit (IoRemoveFailed name) m)"
      "same_work m (m1 f) \<and> keeps_history m (m1 f)" for f
    by (simp_all add: m1_def step_simps)
  have trans: "same_work m m'' \<and> keeps_history m m''"
    if "same_work m m' \<and> keeps_history m m'" "same_work m' m'' \<and> keeps_history m' m''" for m' m''
    using that by (auto simp: same_work_def keeps_history_def intro: suffix_order.trans)
  show ?case
    using trans [OF step(1) Cons.IH] trans [OF step(2) Cons.IH]
    by (simp add: RemoveFailedNode_def m1_def split: option.split) (simp add: emit_def)
qed

text \<open>A round that ends: the node is stable again, then looks at the cluster.\<close>

lemma result_end_round:
  assumes "result_step m m1 \<and> keeps_role m m1" and "m_state m1 = StateStableServer"
  shows "result_step m (maybeRescale w view (emit IoSnapshot m1))
      \<and> keeps_role m (maybeRescale w view (emit IoSnapshot m1))"
proof -
  have "idle_step m1 (maybeRescale w view (emit IoSnapshot m1))"
    by (rule idle_step_trans [OF idle_emit(1) idle_maybeRescale])
  moreover have "\<not> busy (m_state m1)" using assms(2) by (simp add: busy_def)
  ultimately show ?thesis using assms(1) result_step_trans keeps_role_trans by blast
qed

lemma result_finishEviction:
  assumes "m_state m = StateRescaleCoordinating"
  shows "result_step m (finishEviction w m) \<and> keeps_role m (finishEviction w m)"
proof -
  define m1 where "m1 = erase_evicted w (evicting (m_rescale m)) m"
  define m2 where "m2 = transition StateStableServer (m1\<lparr>m_rescale := (m_rescale m1)\<lparr>evicting := []\<rparr>\<rparr>)"
  have "same_work m m1 \<and> keeps_history m m1" unfolding m1_def by (rule erase_evicted_flight)
  then have "result_step m m2 \<and> keeps_role m m2"
    using assms by (auto simp: m2_def result_simps)
  from result_end_round [OF this] show ?thesis
    by (simp add: finishEviction_def Let_def m1_def [symmetric] m2_def [symmetric] observeCluster_def)
      (simp add: m2_def call_defs)
qed

lemma result_finishForgetting:
  assumes "m_state m = StateRescaleCoordinating"
  shows "result_step m (finishForgetting w m) \<and> keeps_role m (finishForgetting w m)"
proof -
  define m2 where "m2 = confirmForgotten w (cleaning (m_rescale m))
    (transition StateStableServer (m\<lparr>m_rescale := (m_rescale m)\<lparr>cleaning := ''''\<rparr>\<rparr>))"
  have "result_step m m2 \<and> keeps_role m m2"
    using assms by (simp add: m2_def confirmForgotten_def result_simps)
  from result_end_round [OF this] show ?thesis
    by (simp add: finishForgetting_def Let_def m2_def [symmetric] observeCluster_def)
      (simp add: m2_def call_defs confirmForgotten_def)
qed

lemma result_onRescaleCoordinationDone:
  assumes "m_state m = StateRescaleCoordinating"
  shows "result_step m (onRescaleCoordinationDone w m) \<and> keeps_role m (onRescaleCoordinationDone w m)"
proof (cases "cleaning (m_rescale m) = '''' \<and> Target (order (m_rescale m)) \<noteq> ''''")
  case True
  then show ?thesis
    using assms
    by (simp add: onRescaleCoordinationDone_def abandonCoordination_def scheduleRescaleCheck_def
        armTimer_def result_simps Let_def split: option.split)
next
  case False
  then show ?thesis
    using assms result_finishForgetting result_finishEviction
    by (auto simp: onRescaleCoordinationDone_def)
qed

subsection \<open>The dispatchers\<close>

lemma result_onK3sOperationSucceeded:
  assumes "wf_manager m" and "busy (m_state m)"
  shows "result_step m (onK3sOperationSucceeded w m) \<and> gives_role m (onK3sOperationSucceeded w m)"
  using assms result_bootstrap(1) [of m w] result_cleanup [of m w] result_joining [of m w]
    result_rejoin(1) [of m] result_onRescaleCoordinationDone [of m w] result_rescaled(1) [of m w]
  by (cases "m_state m") (simp_all add: onK3sOperationSucceeded_def busy_def keeps_gives)

lemma result_onK3sOperationFailed:
  assumes "wf_manager m" and "busy (m_state m)"
  shows "result_step m (onK3sOperationFailed w m) \<and> keeps_role m (onK3sOperationFailed w m)"
  using assms result_bootstrap(2) [of m] result_failJoining [of m] result_rejoin(2) [of m]
    result_abandon [of m w] result_rescaled(2) [of m]
  by (cases "m_state m") (simp_all add: onK3sOperationFailed_def busy_def)

fun is_result :: "command \<Rightarrow> bool" where
  "is_result CmdK3sOperationSucceeded = True"
| "is_result (CmdK3sOperationFailed err) = True"
| "is_result _ = False"

lemma idle_reply: "idle_step m (snd r) \<Longrightarrow> idle_step m (reply ch r)"
  by (cases r) (auto simp: reply_def intro: idle_step_trans idle_emit(5))

lemma idle_handleCommand:
  "named_world w \<Longrightarrow> \<not> is_result c \<Longrightarrow> idle_step m (handleCommand w c m)"
  by (cases c) (simp_all add: flight_rules idle_reply)

text \<open>The one event that ends a working state is the confirmation of the forget-me protocol.\<close>

definition is_forgotten :: "Event \<Rightarrow> bool" where
  "is_forgotten e \<longleftrightarrow> Type e = EventUser \<and> EName e = eventForgotten"

lemma idle_handleSerfEvent:
  assumes "is_forgotten e \<longrightarrow> m_state m \<noteq> StateJoiningCleanup"
  shows "idle_step m (handleSerfEvent w e m)"
proof -
  have "idle_step m (handleUserEvent w e m)" if "Type e = EventUser"
    using assms that by (simp add: handleUserEvent_def flight_rules is_forgotten_def)
      (auto simp: onForgotten_def split: option.split)
  moreover have "idle_step m (maybeRescale w view (maybeInstallAgent view (maybeInstallServer view
      (maybeJoinCluster view (maybeStartJoiningPath view (emit IoSnapshot m))))))" for view
    by (intro idle_step_trans [OF _ idle_maybeRescale] idle_step_trans [OF _ idle_maybeInstallAgent]
        idle_step_trans [OF _ idle_maybeInstallServer] idle_step_trans [OF _ idle_maybeJoinCluster]
        idle_step_trans [OF _ idle_maybeStartJoiningPath] idle_emit(1))
  ultimately show ?thesis by (simp add: handleSerfEvent_def observeCluster_def)
qed

lemma result_onForgotten:
  assumes "m_state m = StateJoiningCleanup"
  shows "result_step m (onForgotten w p m) \<and> keeps_role m (onForgotten w p m)"
proof -
  define m1 where "m1 = transition StateJoiningWaiting
    ((joining_stopTimer m)\<lparr>m_joining := (m_joining (joining_stopTimer m))\<lparr>cleaned := True\<rparr>\<rparr>)"
  have "result_step m m1 \<and> keeps_role m m1" "\<not> busy (m_state m1)"
    using assms by (simp_all add: m1_def result_simps)
  moreover have "idle_step m1 (maybeJoinCluster view (emit IoSnapshot m1))" for view
    by (rule idle_step_trans [OF idle_emit(1) idle_maybeJoinCluster])
  ultimately have "result_step m (maybeJoinCluster view (emit IoSnapshot m1))
      \<and> keeps_role m (maybeJoinCluster view (emit IoSnapshot m1))" for view
    using result_step_trans keeps_role_trans by blast
  moreover have "result_step m m \<and> keeps_role m m"
    using assms by (simp add: result_simps)
  ultimately show ?thesis
    by (auto simp: onForgotten_def Let_def observeCluster_def m1_def split: option.split)
qed

subsection \<open>The invariant of the system\<close>

definition outstanding :: "sys \<Rightarrow> (nat \<times> k3s_op) list" where
  "outstanding s = filter (\<lambda>(i, op). i \<notin> fst ` set (sResults s)) (ops (m_calls (sMgr s)))"

definition answers :: "sys \<Rightarrow> command multiset" where
  "answers s = filter_mset is_result (mset (sCommands s) + mset (sBlocked s))"

text \<open>
  The runs in which no confirmation of the forget-me protocol is taken while the check of
  \<open>startForgetMe\<close> is still outstanding. Without that restriction the statement is false, see
  \<open>stale_confirmation_skips_install\<close>.
\<close>

definition orderly :: "sys \<Rightarrow> action \<Rightarrow> bool" where
  "orderly s a \<longleftrightarrow> a = TakeEvent \<longrightarrow> is_forgotten (hd (sEvents s)) \<longrightarrow>
    m_state (sMgr s) \<noteq> StateJoiningCleanup \<or> outstanding s = [] \<and> answers s = {#}"

text \<open>A role is supported by an operation that gives it and that returned without error.\<close>

definition supported :: "sys \<Rightarrow> bool" where
  "supported s \<longleftrightarrow> (\<exists>i op. (i, op) \<in> set (ops (m_calls (sMgr s))) \<and> (i, None) \<in> set (sResults s) \<and>
    op_role op = map_option RoleP (m_persistedState (sMgr s)))"

definition flight_ok :: "sys \<Rightarrow> bool" where
  "flight_ok s \<longleftrightarrow>
    stamped (m_calls (sMgr s)) \<and>
    fst ` set (sResults s) \<subseteq> fst ` set (ops (m_calls (sMgr s))) \<and>
    length (outstanding s) + size (answers s) \<le> (if busy (m_state (sMgr s)) then 1 else 0) \<and>
    (busy (m_state (sMgr s)) \<longrightarrow>
       (length (outstanding s) + size (answers s) = 1 \<or> m_state (sMgr s) = StateJoiningCleanup) \<and>
       (\<exists>i op rest. ops (m_calls (sMgr s)) = (i, op) # rest \<and>
          op_matches (m_state (sMgr s)) (m_persistedState (sMgr s)) (m_rescale (sMgr s)) op \<and>
          set (outstanding s) \<subseteq> {(i, op)} \<and>
          (\<forall>c \<in># answers s. \<exists>r. c = result_command r \<and> (i, r) \<in> set (sResults s)))) \<and>
    (holds_role (m_state (sMgr s)) \<longrightarrow> supported s)"

lemma flight_ok_cong:
  assumes "flight_ok s" and "sMgr s' = sMgr s" and "answers s' = answers s" and "sResults s' = sResults s"
  shows "flight_ok s'"
  using assms by (simp add: flight_ok_def outstanding_def supported_def)

lemma outstanding_started:
  assumes "started_work m m'" and "stamped (m_calls m)" and "fst ` set R \<subseteq> fst ` set (ops (m_calls m))"
  obtains i op where "ops (m_calls m') = (i, op) # ops (m_calls m)" and "i \<notin> fst ` set R"
    and "op_matches (m_state m') (m_persistedState m') (m_rescale m') op"
proof -
  obtain i op where i: "ops (m_calls m') = (i, op) # ops (m_calls m)" "length (m_calls m) \<le> i"
      "op_matches (m_state m') (m_persistedState m') (m_rescale m') op"
    using assms(1) by (auto simp: started_work_def)
  have "i \<notin> fst ` set (ops (m_calls m))"
    using stamped_bound [OF assms(2)] i(2) by fastforce
  then show thesis using assms(3) i that by blast
qed

lemma holds_role_flags: "busy s \<Longrightarrow> \<not> holds_role s \<or> s \<in> {StateRescaleCoordinating,
    StateRescalePromoting, StateRescaleDemoting}"
  by (auto simp: busy_def holds_role_def)

text \<open>No operation outstanding: a handler that enters a working state starts the only one.\<close>

lemma ops_suffix: "suffix h h' \<Longrightarrow> (i, op) \<in> set (ops h) \<Longrightarrow> (i, op) \<in> set (ops h')"
  by (auto simp: suffix_def ops_member)

lemma flight_settled:
  assumes "stamped (m_calls (sMgr s))"
    and "fst ` set (sResults s) \<subseteq> fst ` set (ops (m_calls (sMgr s)))"
    and "m_state (sMgr s) = StateJoiningCleanup \<Longrightarrow> flight_ok s"
    and "outstanding s = []" and "answers s = {#}" and "keeps_history (sMgr s) m'"
    and "no_work (sMgr s) m' \<or> started_work (sMgr s) m' \<or> m_state (sMgr s) = StateJoiningCleanup \<and> same_work (sMgr s) m'"
    and "holds_role (m_state m') \<longrightarrow> supported (s\<lparr>sMgr := m'\<rparr>)"
  shows "flight_ok (s\<lparr>sMgr := m'\<rparr>)"
proof -
  have st: "stamped (m_calls m')" "stamped (m_calls (sMgr s))"
    and R: "fst ` set (sResults s) \<subseteq> fst ` set (ops (m_calls (sMgr s)))"
    using assms(1,2,6) by (auto simp: keeps_history_def)
  have old: "outstanding s = filter (\<lambda>(i, op). i \<notin> fst ` set (sResults s)) (ops (m_calls (sMgr s)))"
    by (simp add: outstanding_def)
  have an: "answers (s\<lparr>sMgr := m'\<rparr>) = {#}" using assms(5) by (simp add: answers_def)
  consider "no_work (sMgr s) m'" | "started_work (sMgr s) m'"
    | "m_state (sMgr s) = StateJoiningCleanup" "same_work (sMgr s) m'" using assms(7) by blast
  then show ?thesis
  proof cases
    case 1
    then show ?thesis using st R old an assms(4,8) by (simp add: flight_ok_def no_work_def outstanding_def)
  next
    case 2
    then obtain i op where i: "ops (m_calls m') = (i, op) # ops (m_calls (sMgr s))"
        "i \<notin> fst ` set (sResults s)"
        "op_matches (m_state m') (m_persistedState m') (m_rescale m') op"
      using outstanding_started st(2) R by metis
    then have "outstanding (s\<lparr>sMgr := m'\<rparr>) = [(i, op)]"
      using assms(4) old by (simp add: outstanding_def)
    then show ?thesis using 2 st R i an assms(8) by (auto simp: flight_ok_def started_work_def)
  next
    case 3
    then have "outstanding (s\<lparr>sMgr := m'\<rparr>) = []"
      using assms(4) old by (simp add: outstanding_def same_work_def)
    then show ?thesis
      using 3 st R an assms(3,8) by (auto simp: flight_ok_def same_work_def busy_def)
  qed
qed

lemma supported_mono:
  "supported s \<Longrightarrow> keeps_history (sMgr s) m' \<Longrightarrow> m_persistedState m' = m_persistedState (sMgr s) \<Longrightarrow>
    supported (s\<lparr>sMgr := m'\<rparr>)"
  unfolding supported_def keeps_history_def using ops_suffix by fastforce

lemma flight_idle:
  assumes "flight_ok s" and "idle_step (sMgr s) m'"
  shows "flight_ok (s\<lparr>sMgr := m'\<rparr>)"
proof -
  have sup: "holds_role (m_state m') \<longrightarrow> supported (s\<lparr>sMgr := m'\<rparr>)"
    using assms supported_mono by (auto simp: flight_ok_def idle_step_def keeps_role_def)
  show ?thesis
  proof (cases "busy (m_state (sMgr s))")
    case True
    then have same: "same_work (sMgr s) m'" and "stamped (m_calls m')"
      using assms by (auto simp: idle_step_def flight_ok_def keeps_history_def)
    moreover from same have "outstanding (s\<lparr>sMgr := m'\<rparr>) = outstanding s"
      by (simp add: outstanding_def same_work_def)
    moreover have "answers (s\<lparr>sMgr := m'\<rparr>) = answers s" by (simp add: answers_def)
    moreover from same have "op_matches (m_state m') (m_persistedState m') (m_rescale m') op =
        op_matches (m_state (sMgr s)) (m_persistedState (sMgr s)) (m_rescale (sMgr s)) op" for op
      by (cases "m_state (sMgr s)") (simp_all add: same_work_def)
    ultimately show ?thesis using assms(1) sup by (auto simp: flight_ok_def same_work_def)
  next
    case False
    then have "outstanding s = []" "answers s = {#}" using assms(1) by (simp_all add: flight_ok_def)
    with assms sup False show ?thesis by (intro flight_settled) (auto simp: idle_step_def flight_ok_def)
  qed
qed

lemma op_running_iff:
  "op_running s i \<longleftrightarrow> i \<in> fst ` set (ops (m_calls (sMgr s))) \<and> i \<notin> fst ` set (sResults s)"
proof -
  have "list_ex (\<lambda>e. case e of IoStartOp j op \<Rightarrow> j = i | _ \<Rightarrow> False) h \<longleftrightarrow> i \<in> fst ` set (ops h)" for h
    by (induction h rule: ops.induct) auto
  then show ?thesis by (simp add: op_running_def)
qed

lemma flight_returns:
  assumes "flight_ok s" and "op_running s i"
  shows "flight_ok (perform w (OpReturns i r) s)"
proof -
  let ?s = "perform w (OpReturns i r) s"
  have mem: "i \<in> fst ` set (ops (m_calls (sMgr s)))" and fresh: "i \<notin> fst ` set (sResults s)"
    using assms(2) by (simp_all add: op_running_iff)
  then have out: "outstanding s \<noteq> []" by (force simp: outstanding_def filter_empty_conv)
  then have busy: "busy (m_state (sMgr s))"
    and one: "length (outstanding s) + size (answers s) \<le> 1"
    using assms(1) by (auto simp: flight_ok_def split: if_splits)
  from one out have an: "answers s = {#}" by (cases "outstanding s") auto
  obtain j op rest where h: "ops (m_calls (sMgr s)) = (j, op) # rest"
      "op_matches (m_state (sMgr s)) (m_persistedState (sMgr s)) (m_rescale (sMgr s)) op"
      "set (outstanding s) \<subseteq> {(j, op)}"
    using assms(1) busy unfolding flight_ok_def by blast
  have in_out: "(k, o') \<in> set (outstanding s) \<longleftrightarrow>
      (k, o') \<in> set (ops (m_calls (sMgr s))) \<and> k \<notin> fst ` set (sResults s)" for k o'
    by (auto simp: outstanding_def)
  have "j = i" using mem fresh h(3) in_out by fastforce
  have "set (outstanding ?s) \<subseteq> {}"
    using h(3) \<open>j = i\<close> by (auto simp: outstanding_def)
  then have "outstanding ?s = []" by simp
  moreover have "answers ?s = {#result_command r#}"
    using an by (cases r) (simp_all add: answers_def)
  moreover have "supported s \<Longrightarrow> supported ?s" by (auto simp: supported_def)
  moreover have "sMgr ?s = sMgr s" "sResults ?s = (i, r) # sResults s" by simp_all
  ultimately show ?thesis
    using assms(1) busy h(1,2) mem \<open>j = i\<close> unfolding flight_ok_def by simp blast
qed

lemma flight_answer:
  assumes "flight_ok s" and "wf_manager (sMgr s)" and "sCommands s = c # cs" and "is_result c"
  shows "flight_ok (s\<lparr>sMgr := handleCommand w c (sMgr s), sCommands := cs\<rparr>)"
proof -
  let ?m = "handleCommand w c (sMgr s)" and ?s = "s\<lparr>sCommands := cs\<rparr>"
  have an: "answers s = add_mset c (answers ?s)" using assms(3,4) by (simp add: answers_def)
  have out: "outstanding ?s = outstanding s" by (simp add: outstanding_def)
  have busy: "busy (m_state (sMgr s))" and none: "outstanding s = []" "answers ?s = {#}"
    using assms(1) an by (auto simp: flight_ok_def split: if_splits)
  obtain i op rest r where h: "ops (m_calls (sMgr s)) = (i, op) # rest"
      "op_matches (m_state (sMgr s)) (m_persistedState (sMgr s)) (m_rescale (sMgr s)) op"
      "c = result_command r" "(i, r) \<in> set (sResults s)"
    using assms(1) busy an by (auto simp: flight_ok_def)
  have sup: "supported s \<longleftrightarrow> supported ?s" by (simp add: supported_def)
  have "result_step (sMgr s) ?m \<and> (holds_role (m_state ?m) \<longrightarrow> supported (?s\<lparr>sMgr := ?m\<rparr>))"
  proof (cases r)
    case None
    then have m: "?m = onK3sOperationSucceeded w (sMgr s)" using h(3) by simp
    have step: "result_step (sMgr s) ?m" "gives_role (sMgr s) ?m"
      using result_onK3sOperationSucceeded [OF assms(2) busy] m by simp_all
    have "supported (?s\<lparr>sMgr := ?m\<rparr>)" if "op_role op = map_option RoleP (m_persistedState ?m)"
      using that h(1,4) None step(1) ops_suffix [of "m_calls (sMgr s)" "m_calls ?m" i op]
      unfolding supported_def result_step_def keeps_history_def by auto
    then show ?thesis
      using step h(2) assms(1) sup supported_mono [of ?s ?m]
      by (auto simp: gives_role_def flight_ok_def result_step_def)
  next
    case (Some err)
    then have m: "?m = onK3sOperationFailed w (sMgr s)" using h(3) by simp
    then show ?thesis
      using result_onK3sOperationFailed [OF assms(2) busy] assms(1) sup supported_mono [of ?s ?m]
      by (auto simp: keeps_role_def flight_ok_def result_step_def)
  qed
  moreover have "flight_ok ?s" if "m_state (sMgr s) = StateJoiningCleanup"
    using that assms(1) busy none out h sup by (auto simp: flight_ok_def)
  moreover have "s\<lparr>sMgr := ?m, sCommands := cs\<rparr> = ?s\<lparr>sMgr := ?m\<rparr>" by simp
  ultimately show ?thesis
    using assms(1) none out
    by (simp only:) (rule flight_settled; auto simp: result_step_def flight_ok_def)
qed

lemma flight_start: "flight_ok (Run_start w conf)"
proof -
  have "idle_step (newManager conf) (chooseInitialState w (newManager conf))"
    by (auto simp: chooseInitialState_def startRejoin_def failRejoin_def newManager_def step_simps Let_def
        panic_def split: sum.split load_error.split option.split)
  moreover have "flight_ok (Run_start w conf\<lparr>sMgr := newManager conf\<rparr>)"
    by (simp add: flight_ok_def Run_start_def newManager_def outstanding_def answers_def busy_def holds_role_def)
  ultimately show ?thesis using flight_idle by (fastforce simp: Run_start_def)
qed

lemma mset_remove_nth: "n < length xs \<Longrightarrow> add_mset (xs ! n) (mset (take n xs) + mset (drop (Suc n) xs)) = mset xs"
  by (metis id_take_nth_drop mset.simps(2) mset_append union_mset_add_mset_right)

lemma flight_act:
  assumes "flight_ok s" and "wf_manager (sMgr s)" and "named_world w" and "enabled s a" and "orderly s a"
  shows "flight_ok (perform w a s)"
proof (cases a)
  case TakeEvent
  have "flight_ok (s\<lparr>sMgr := handleSerfEvent w (hd (sEvents s)) (sMgr s)\<rparr>)"
  proof (cases "is_forgotten (hd (sEvents s)) \<and> m_state (sMgr s) = StateJoiningCleanup")
    case True
    then have m: "handleSerfEvent w (hd (sEvents s)) (sMgr s) = onForgotten w (Payload (hd (sEvents s))) (sMgr s)"
      by (simp add: handleSerfEvent_def handleUserEvent_def is_forgotten_def eventForgotten_def
          eventBootstrapRequested_def eventBootstrapStart_def eventRescaleConvert_def eventForgetMe_def)
    have "result_step (sMgr s) (onForgotten w p (sMgr s)) \<and> keeps_role (sMgr s) (onForgotten w p (sMgr s))" for p
      using True by (intro result_onForgotten) simp
    moreover have "outstanding s = []" "answers s = {#}" using assms(5) TakeEvent True by (auto simp: orderly_def)
    ultimately show ?thesis
      using assms(1) True unfolding m
      by (intro flight_settled) (auto simp: result_step_def flight_ok_def keeps_role_def holds_role_def)
  next
    case False
    then show ?thesis using flight_idle [OF assms(1) idle_handleSerfEvent] by blast
  qed
  then show ?thesis by (rule flight_ok_cong) (simp_all add: TakeEvent answers_def)
next
  case TakeCommand
  then obtain c cs where q: "sCommands s = c # cs" using assms(4) by (cases "sCommands s") auto
  show ?thesis
  proof (cases "is_result c")
    case True
    then show ?thesis using flight_answer [OF assms(1,2) q] TakeCommand q by simp
  next
    case False
    have "flight_ok (s\<lparr>sMgr := handleCommand w c (sMgr s)\<rparr>)"
      using flight_idle [OF assms(1) idle_handleCommand [OF assms(3) False]] .
    then show ?thesis by (rule flight_ok_cong) (use TakeCommand q False in \<open>simp_all add: answers_def\<close>)
  qed
next
  case (OpReturns i r)
  then show ?thesis using flight_returns [OF assms(1)] assms(4) by simp
next
  case (Submit n)
  then have "mset (sCommands (perform w a s)) + mset (sBlocked (perform w a s))
      = mset (sCommands s) + mset (sBlocked s)"
    using assms(4) mset_remove_nth [of n "sBlocked s"] by simp
  then have "answers (perform w a s) = answers s" unfolding answers_def by (simp only:)
  then show ?thesis using flight_ok_cong [OF assms(1)] Submit by simp
next
  case (Fire i k)
  then show ?thesis using flight_ok_cong [OF assms(1)] by (cases k) (simp_all add: answers_def)
next
  case (UserActs u)
  then show ?thesis using flight_ok_cong [OF assms(1)] by (cases u) (simp_all add: answers_def)
next
  case Shutdown
  have "idle_step (sMgr s) (shutdown (sMgr s))" by (simp add: shutdown_def step_simps)
  from flight_idle [OF assms(1) this] show ?thesis
    by (rule flight_ok_cong) (simp_all add: Shutdown answers_def)
qed (use flight_ok_cong [OF assms(1)] in \<open>simp_all add: answers_def split: option.split\<close>)

interpretation flight: run_invariant orderly w conf
  "\<lambda>s. named_world w \<longrightarrow> flight_ok s \<and> wf_manager (sMgr s)" for w conf
proof unfold_locales
  fix s a
  assume "named_world w \<longrightarrow> flight_ok s \<and> wf_manager (sMgr s)" "enabled s a" "orderly s a"
  then show "named_world w \<longrightarrow> flight_ok (perform w a s) \<and> wf_manager (sMgr (perform w a s))"
    using flight_act [of s w a] wf.inv_perform [of w s a] by blast
qed (use flight_start in \<open>simp add: Run_start_def wf_Run_start\<close>)

subsection \<open>Results\<close>

lemma orderly_flight:
  "reachable_by orderly w conf s \<Longrightarrow> named_world w \<Longrightarrow> flight_ok s"
  using flight.J_reachable by blast

end
