(* ===== verification/Scenario.thy ===== *)
theory Scenario
  imports Run_Loop
begin

text \<open>
  Concrete clusters, worlds and configurations, on which the properties of the other theories are
  exercised. A node tells its members apart by name; the world answers every call in the same way,
  with a clock that moves by one second per call.
\<close>

definition peer :: "string \<Rightarrow> string \<Rightarrow> string \<Rightarrow> node_state \<Rightarrow> member" where
  "peer name ip status s = \<lparr>Name = name, IP = ip, Status = status, Tags = [(''state'', state_string s)]\<rparr>"

definition view_of :: "member list \<Rightarrow> clusterView" where
  "view_of ms = \<lparr>snapshot = \<lparr>CollectedAt = 1, NodeName = ''ants01'', Available = True, Members = ms\<rparr>\<rparr>"

definition epoch :: time where
  "epoch = 1000 * hour"

definition steady_world :: "member list \<Rightarrow> world" where
  "steady_world ms =
    \<lparr>wNow = \<lambda>h. epoch + int (length h) * second,
     wSnapshot = \<lambda>h. snapshot (view_of ms),
     wLocalIP = \<lambda>h. ''10.0.0.1'',
     wLoad = \<lambda>h. Inl LNotExist,
     wSendUserEvent = \<lambda>h name p. None,
     wRemoveFailedNode = \<lambda>h name. None\<rparr>"

definition demo_config :: "string \<Rightarrow> config" where
  "demo_config name =
    \<lparr>NodeNameC = name, SerfBindAddr = ''0.0.0.0'', SerfBindPort = 7946, HTTPPort = 8080,
     StateFilePath = ''/var/lib/antsd/state.json'', K3sInstaller = InstallerFake, K3sToken = '''',
     K3sFakeInstalledRole = '''', RescaleEnabled = True, EvictionGrace = 60 * second,
     RescaleSettleDelay = 30 * second, LogLevel = ''info''\<rparr>"

definition user_event :: "string \<Rightarrow> payload \<Rightarrow> Event" where
  "user_event name p = \<lparr>Type = EventUser, NodeIP = '''', EName = name, ETags = [], Payload = p\<rparr>"

definition member_event :: Event where
  "member_event = \<lparr>Type = EventMemberUpdate, NodeIP = '''', EName = '''', ETags = [], Payload = NoPayload\<rparr>"

lemma named_steady: "named_view (view_of ms) \<Longrightarrow> named_world (steady_world ms)"
  by (simp add: named_world_def steady_world_def view_of_def)

text \<open>The state a list of actions reaches, read off by evaluation.\<close>

lemma run_some:
  assumes "map_option f (run_by ok w as (Run_start w conf)) = Some v"
  obtains s where "reachable_by ok w conf s" and "f s = v"
  using assms that run_from_start [of ok w as conf]
  by (cases "run_by ok w as (Run_start w conf)") simp_all

subsection \<open>A machine that joins a running cluster\<close>

definition running_cluster :: "member list" where
  "running_cluster =
    [peer ''ants01'' ''10.0.0.1'' memberStatusAlive StateStableServer,
     peer ''ants02'' ''10.0.0.2'' memberStatusAlive StateDiscovering]"

definition joiner_world :: world where
  "joiner_world = steady_world running_cluster"

lemma named_joiner [simp]: "named_world joiner_world"
  unfolding joiner_world_def
  by (rule named_steady) (simp add: named_view_def running_cluster_def view_of_def peer_def)

text \<open>
  The join of \<open>ants02\<close>: it sees a stable server, waits, has its name checked and forgotten, installs
  the agent. The numbers are the positions of the calls in its history.
\<close>

definition forgotten_event :: Event where
  "forgotten_event = user_event ''antsd:forgotten'' (marshalForget \<lparr>NameO = ''ants02''\<rparr>)"

definition wait_actions :: "action list" where
  "wait_actions = [Arrive member_event, TakeEvent, Fire 4 WakeJoinWait, Submit 0, TakeCommand]"

definition join_actions :: "action list" where
  "join_actions = wait_actions @
    [OpReturns 9 None, Submit 0, TakeCommand, Arrive forgotten_event, TakeEvent,
     OpReturns 16 None, Submit 0, TakeCommand]"

text \<open>The same machine whose agent installation fails.\<close>

definition failed_join_actions :: "action list" where
  "failed_join_actions = wait_actions @
    [OpReturns 9 None, Submit 0, TakeCommand, Arrive forgotten_event, TakeEvent,
     OpReturns 16 (Some ''timeout''), Submit 0, TakeCommand]"

text \<open>The same machine when a confirmation asked for by an earlier boot arrives during the check.\<close>

definition stale_actions :: "action list" where
  "stale_actions = wait_actions @
    [Arrive forgotten_event, TakeEvent, OpReturns 9 None, Submit 0, TakeCommand]"

definition joiner_start :: sys where
  "joiner_start = Run_start joiner_world (demo_config ''ants02'')"

subsection \<open>A coordinator and its cluster\<close>

definition degraded_cluster :: "member list" where
  "degraded_cluster =
    [peer ''ants01'' ''10.0.0.1'' memberStatusAlive StateStableServer,
     peer ''ants02'' ''10.0.0.2'' memberStatusAlive StateStableServer,
     peer ''ants03'' ''10.0.0.3'' memberStatusFailed StateStableServer]"

definition server_state :: PersistedState where
  "server_state = \<lparr>NodeNameP = ''ants01'', RoleP = RoleServer, BootCount = 1,
    FirstBootCompletedAt = 1, RoleChangedAt = zero_time\<rparr>"

definition stable_manager :: manager where
  "stable_manager = (newManager (demo_config ''ants01''))
    \<lparr>m_state := StateStableServer, m_stateView := StateStableServer, m_persistedState := Some server_state\<rparr>"

text \<open>\<open>ants01\<close> in the middle of the eviction of \<open>ants03\<close>, failed for a day.\<close>

definition evicting_manager :: manager where
  "evicting_manager = stable_manager
    \<lparr>m_state := StateRescaleCoordinating, m_stateView := StateRescaleCoordinating,
     m_calls := [IoStartOp 1 (OpRound (EvictNodes [''ants03''])), IoSetState StateRescaleCoordinating],
     m_rescale := noRescale\<lparr>failedSince := [''ants03'' \<mapsto> epoch - 24 * hour], evicting := [''ants03'']\<rparr>\<rparr>"

end
