(* ===== verification/Rebalancing.thy ===== *)
theory Rebalancing
  imports Scenario "HOL-Library.AList"
begin

text \<open>
  The conversions of the rescaling workflow as a whole. On a cluster whose machines are all alive
  and stable, each conversion chosen by \<open>chooseConversionTarget\<close> moves the number of K3s servers one
  step towards its target, so the cluster is balanced after exactly as many conversions as it was
  off. \<open>converted\<close> is the view once the designated machine is stable in its new role.
\<close>

definition with_state :: "node_state \<Rightarrow> member \<Rightarrow> member" where
  "with_state s m = m\<lparr>Tags := AList.update ''state'' (state_string s) (Tags m)\<rparr>"

definition converted :: "clusterView \<Rightarrow> string \<Rightarrow> role \<Rightarrow> clusterView" where
  "converted v target r =
    \<lparr>snapshot = (snapshot v)\<lparr>Members :=
      map (\<lambda>m. if Name m = target then with_state (StableState r) m else m) (members v)\<rparr>\<rparr>"

definition coordinator :: "clusterView \<Rightarrow> string" where
  "coordinator v = Name (fst (lowestNamedAliveMemberIn v StateStableServer))"

fun rebalance :: "nat \<Rightarrow> clusterView \<Rightarrow> clusterView" where
  "rebalance 0 v = v"
| "rebalance (Suc n) v =
    (case chooseConversionTarget v (coordinator v) of
       None \<Rightarrow> v
     | Some (target, r) \<Rightarrow> rebalance n (converted v (Name target) r))"

definition settled_view :: "clusterView \<Rightarrow> bool" where
  "settled_view v \<longleftrightarrow> named_view v \<and>
    (\<forall>m \<in> set (members v). Status m = memberStatusAlive \<and>
       (member_state m = StateStableServer \<or> member_state m = StateStableAgent)) \<and>
    (\<exists>m \<in> set (members v). member_state m = StateStableServer)"

definition imbalance :: "clusterView \<Rightarrow> nat" where
  "imbalance v = nat \<bar>k3sServerCount v - desiredServerCount v\<bar>"

lemma member_state_with_state [simp]: "is_known s \<Longrightarrow> member_state (with_state s m) = s"
  by (simp add: member_state_def with_state_def tag_get_def AList.update_conv' state_of_known)

lemma with_state_simps [simp]:
  "Name (with_state s m) = Name m" "Status (with_state s m) = Status m"
  by (simp_all add: with_state_def)

lemma stable_state_known [simp]: "is_known (StableState r)"
  by (simp add: StableState_def)

text \<open>In a settled view every count is a count of tags.\<close>

lemma settled_counts:
  assumes "settled_view v"
  shows "population v = int (length (members v))"
    and "k3sServerCount v = int (length (filter (\<lambda>m. member_state m = StateStableServer) (members v)))"
proof -
  have "filter isMemberAliveOrFailed (members v) = members v"
    using assms by (auto simp: settled_view_def isMemberAliveOrFailed_def intro: filter_True)
  then show "population v = int (length (members v))" by (simp add: population_def)
  have "filter (\<lambda>m. isMemberAliveOrFailed m \<and> isNodeAK3sServer (member_state m)) (members v)
      = filter (\<lambda>m. member_state m = StateStableServer) (members v)"
    using assms by (intro filter_cong) (auto simp: settled_view_def isMemberAliveOrFailed_def)
  then show "k3sServerCount v = int (length (filter (\<lambda>m. member_state m = StateStableServer) (members v)))"
    by (simp add: k3sServerCount_def)
qed

lemma settled_coordinator:
  assumes "settled_view v"
  obtains c where "c \<in> set (members v)" "Name c = coordinator v" "member_state c = StateStableServer"
    "isRescaleCoordinator v (coordinator v)"
proof -
  obtain t found where t: "lowestNamedAliveMemberIn v StateStableServer = (t, found)" by fastforce
  have "\<exists>m \<in> set (members v). aliveIn StateStableServer m"
    using assms by (auto simp: settled_view_def aliveIn_state)
  then have "found"
    using lowestNamedAliveMemberIn_none [of v StateStableServer t] t assms
    by (cases found) (auto simp: settled_view_def)
  then show thesis
    using lowestNamedAliveMemberIn_found [of v StateStableServer t] t assms that
    by (auto simp: settled_view_def coordinator_def aliveIn_state isRescaleCoordinator_def)
qed

text \<open>Replacing one member of a list of distinct names.\<close>

lemma count_replaced:
  assumes "distinct (map Name ms)" and "t \<in> set ms"
  shows "length (filter P (map (\<lambda>m. if Name m = Name t then f m else m) ms)) + (if P t then 1 else 0)
    = length (filter P ms) + (if P (f t) then 1 else 0)"
  using assms
proof (induction ms)
  case (Cons m ms)
  show ?case
  proof (cases "m = t")
    case True
    then have "map (\<lambda>m. if Name m = Name t then f m else m) ms = ms"
      using Cons.prems(1) True by (intro map_idI) (auto simp: image_iff)
    with True show ?thesis by simp
  next
    case False
    then have "Name m \<noteq> Name t" using Cons.prems by force
    then show ?thesis using Cons False by auto
  qed
qed simp

lemma settled_converted:
  assumes "settled_view v" and "t \<in> set (members v)"
    and "\<exists>m \<in> set (members v). Name m \<noteq> Name t \<and> member_state m = StateStableServer"
  shows "settled_view (converted v (Name t) r)"
  using assms
  by (auto simp: settled_view_def converted_def named_view_def StableState_def comp_def if_distrib
      cong: map_cong if_cong)

lemma converted_population:
  "settled_view v \<Longrightarrow> settled_view (converted v n r) \<Longrightarrow>
    desiredServerCount (converted v n r) = desiredServerCount v"
  by (simp add: desiredServerCount_def settled_counts(1)) (simp add: converted_def)

lemma converted_count:
  assumes "settled_view v" and "settled_view (converted v (Name t) r)" and "t \<in> set (members v)"
  shows "k3sServerCount (converted v (Name t) r) + (if member_state t = StateStableServer then 1 else 0)
    = k3sServerCount v + (if r = RoleServer then 1 else 0)"
proof -
  have "distinct (map Name (members v))" using assms(1) by (simp add: settled_view_def named_view_def)
  from count_replaced [OF this assms(3), of "\<lambda>m. member_state m = StateStableServer" "with_state (StableState r)"]
  show ?thesis
    unfolding settled_counts(2) [OF assms(1)] settled_counts(2) [OF assms(2)]
    by (auto simp: converted_def StableState_def split: if_splits)
qed

subsection \<open>One conversion\<close>

lemma desired_bounds: "settled_view v \<Longrightarrow> 1 \<le> desiredServerCount v \<and> desiredServerCount v \<le> population v"
proof -
  assume v: "settled_view v"
  then have "1 \<le> population v" by (cases "members v") (auto simp: settled_counts(1) settled_view_def)
  then show ?thesis
    by (cases "population v = 1")
      (auto simp: desiredServerCount_def DesiredServerCount_def MaxServers_def Let_def)
qed

lemma promotion_step:
  assumes "settled_view v" and "needsAnotherK3sServer v"
  obtains t where "chooseConversionTarget v (coordinator v) = Some (t, RoleServer)"
    "t \<in> set (members v)" "member_state t = StateStableAgent"
proof -
  obtain t found where t: "findPromotionTarget v = (t, found)" by fastforce
  have "length (filter (\<lambda>m. member_state m = StateStableServer) (members v)) < length (members v)"
    using assms desired_bounds [OF assms(1)] settled_counts [OF assms(1)]
    by (simp add: needsAnotherK3sServer_def)
  then have "filter (\<lambda>m. member_state m = StateStableServer) (members v) \<noteq> members v" by fastforce
  then obtain m where m: "m \<in> set (members v)" "member_state m \<noteq> StateStableServer"
    by (auto simp: filter_id_conv)
  then have alive: "aliveIn StateStableAgent m"
    using assms(1) by (auto simp: settled_view_def aliveIn_state)
  then have "found"
    using m(1)
      lowestNamedAliveMemberIn_none [of v StateStableAgent t m] t assms(1)
    by (cases found) (auto simp: settled_view_def findPromotionTarget_def)
  then show thesis
    using lowestNamedAliveMemberIn_found [of v StateStableAgent t] t assms that
    by (auto simp: settled_view_def findPromotionTarget_def chooseConversionTarget_def aliveIn_state)
qed

lemma demotion_step:
  assumes "settled_view v" and "hasTooManyK3sServers v"
  obtains t where "chooseConversionTarget v (coordinator v) = Some (t, RoleAgent)"
    "t \<in> set (members v)" "member_state t = StateStableServer" "Name t \<noteq> coordinator v"
proof -
  let ?S = "filter (\<lambda>m. member_state m = StateStableServer) (members v)"
  obtain c where c: "c \<in> set (members v)" "Name c = coordinator v" "member_state c = StateStableServer"
      "isRescaleCoordinator v (coordinator v)"
    using settled_coordinator [OF assms(1)] .
  have two: "2 \<le> length ?S"
    using assms desired_bounds [OF assms(1)] settled_counts(2) [OF assms(1)]
    by (simp add: hasTooManyK3sServers_def)
  have "\<not> set ?S \<subseteq> {c}"
  proof
    assume "set ?S \<subseteq> {c}"
    moreover have "distinct ?S" using assms(1) by (auto simp: settled_view_def named_view_def distinct_map)
    ultimately have "length ?S \<le> 1"
      using distinct_card [of ?S] card_mono [of "{c}" "set ?S"] by simp
    with two show False by simp
  qed
  then obtain m where m: "m \<in> set (members v)" "member_state m = StateStableServer" "m \<noteq> c" by auto
  then have "Name m \<noteq> Name c"
    using named_view_inj [of v m c] assms(1) c(1) by (auto simp: settled_view_def)
  obtain t found where t: "findDemotionTarget v = (t, found)" by fastforce
  have alive: "aliveIn StateStableServer m" "aliveIn StateStableServer c" "named_view v"
    using assms(1) m c by (auto simp: settled_view_def aliveIn_state)
  then have "found"
    using highestNamedAliveMemberIn_none [of v StateStableServer t m] t m(1)
    by (cases found) (auto simp: findDemotionTarget_def)
  then have h: "t \<in> set (members v)" "aliveIn StateStableServer t" "Name m \<le> Name t"
    using highestNamedAliveMemberIn_found [of v StateStableServer t] t alive m(1)
    by (auto simp: findDemotionTarget_def)
  have "coordinator v \<le> Name m"
    using coordinator_iff [OF alive(3), of "coordinator v"] c(4) m(1) alive(1) by auto
  then have "Name t \<noteq> coordinator v" using h(3) \<open>Name m \<noteq> Name c\<close> c(2) by auto
  then show thesis
    using that h t \<open>found\<close> assms(2)
    by (auto simp: chooseConversionTarget_def aliveIn_state needsAnotherK3sServer_def
        hasTooManyK3sServers_def)
qed

lemma conversion_step:
  assumes "settled_view v" and "imbalance v = Suc n"
  obtains t r where "chooseConversionTarget v (coordinator v) = Some (t, r)"
    "settled_view (converted v (Name t) r)" "imbalance (converted v (Name t) r) = n"
    "desiredServerCount (converted v (Name t) r) = desiredServerCount v"
proof -
  obtain c where c: "c \<in> set (members v)" "Name c = coordinator v" "member_state c = StateStableServer"
    using settled_coordinator [OF assms(1)] .
  have "needsAnotherK3sServer v \<or> hasTooManyK3sServers v"
    using assms(2) by (auto simp: imbalance_def needsAnotherK3sServer_def hasTooManyK3sServers_def)
  then show thesis
  proof
    assume n: "needsAnotherK3sServer v"
    obtain t where t: "chooseConversionTarget v (coordinator v) = Some (t, RoleServer)"
        "t \<in> set (members v)" "member_state t = StateStableAgent"
      using promotion_step [OF assms(1) n] .
    have "Name c \<noteq> Name t" using named_view_inj [of v c t] assms(1) c t by (auto simp: settled_view_def)
    then have s: "settled_view (converted v (Name t) RoleServer)"
      using settled_converted [OF assms(1) t(2)] c by blast
    moreover have "k3sServerCount (converted v (Name t) RoleServer) = k3sServerCount v + 1"
      using converted_count [OF assms(1) s t(2)] t(3) by simp
    moreover note converted_population [OF assms(1) s]
    ultimately show thesis
      using that [OF t(1)] assms(2) n by (simp add: imbalance_def needsAnotherK3sServer_def)
  next
    assume n: "hasTooManyK3sServers v"
    obtain t where t: "chooseConversionTarget v (coordinator v) = Some (t, RoleAgent)"
        "t \<in> set (members v)" "member_state t = StateStableServer" "Name t \<noteq> coordinator v"
      using demotion_step [OF assms(1) n] .
    have s: "settled_view (converted v (Name t) RoleAgent)"
      using settled_converted [OF assms(1) t(2)] c t(4) by metis
    moreover have "k3sServerCount (converted v (Name t) RoleAgent) = k3sServerCount v - 1"
      using converted_count [OF assms(1) s t(2)] t(3) by simp
    moreover note converted_population [OF assms(1) s]
    ultimately show thesis
      using that [OF t(1)] assms(2) n by (simp add: imbalance_def hasTooManyK3sServers_def)
  qed
qed

text \<open>
  C13: the rescaling workflow converges. From any cluster of stable machines that still has a server,
  the conversions the coordinator chooses bring the number of servers to its target in exactly as
  many steps as it is off, the coordinator never demotes itself, and a balanced cluster is left alone.
\<close>

theorem rebalancing_converges:
  assumes "settled_view v"
  shows "settled_view (rebalance (imbalance v) v)
    \<and> k3sServerCount (rebalance (imbalance v) v) = desiredServerCount v
    \<and> chooseConversionTarget (rebalance (imbalance v) v) (coordinator (rebalance (imbalance v) v)) = None
    \<and> (\<forall>k < imbalance v. \<exists>t r. chooseConversionTarget (rebalance k v) (coordinator (rebalance k v)) = Some (t, r)
         \<and> (r = RoleAgent \<longrightarrow> Name t \<noteq> coordinator (rebalance k v)))"
  using assms
proof (induction "imbalance v" arbitrary: v)
  case 0
  then show ?case
    by (auto simp: imbalance_def chooseConversionTarget_def needsAnotherK3sServer_def hasTooManyK3sServers_def)
next
  case (Suc n)
  obtain t r where t: "chooseConversionTarget v (coordinator v) = Some (t, r)"
      "settled_view (converted v (Name t) r)" "imbalance (converted v (Name t) r) = n"
      "desiredServerCount (converted v (Name t) r) = desiredServerCount v"
    using conversion_step [OF Suc.prems Suc.hyps(2) [symmetric]] by metis
  have step: "rebalance (Suc k) v = rebalance k (converted v (Name t) r)" for k
    by (simp add: t(1))
  have self: "r = RoleAgent \<longrightarrow> Name t \<noteq> coordinator v"
    using t(1) by (auto simp: chooseConversionTarget_def split: if_splits prod.splits)
  note IH = Suc.hyps(1) [OF t(3) [symmetric] t(2), unfolded t(3,4)]
  have n: "imbalance v = Suc n" using Suc.hyps(2) by simp
  have each: "\<exists>t r. chooseConversionTarget (rebalance k v) (coordinator (rebalance k v)) = Some (t, r)
         \<and> (r = RoleAgent \<longrightarrow> Name t \<noteq> coordinator (rebalance k v))" if "k < Suc n" for k
  proof (cases k)
    case 0
    with t(1) self show ?thesis by simp
  next
    case (Suc j)
    with IH that show ?thesis by (simp only: step)
  qed
  have "rebalance (imbalance v) v = rebalance n (converted v (Name t) r)" by (simp only: n step)
  with IH each show ?case by (simp only: n) blast
qed

definition lone_server :: clusterView where
  "lone_server = view_of
    [peer ''ants01'' ''10.0.0.1'' memberStatusAlive StateStableAgent,
     peer ''ants02'' ''10.0.0.2'' memberStatusAlive StateStableServer,
     peer ''ants03'' ''10.0.0.3'' memberStatusAlive StateStableAgent]"

theorem rebalancing_converges_witness:
  "imbalance lone_server = 2 \<and> k3sServerCount (rebalance 2 lone_server) = 3
    \<and> chooseConversionTarget (rebalance 2 lone_server) (coordinator (rebalance 2 lone_server)) = None"
proof -
  have "settled_view lone_server" and "imbalance lone_server = 2" and "desiredServerCount lone_server = 3"
    by code_simp+
  with rebalancing_converges [of lone_server] show ?thesis by simp
qed

end
