(* ===== verification/Rescale_Rounds.thy ===== *)
theory Rescale_Rounds
  imports Single_Flight Rebalancing
begin

text \<open>
  When a coordination round starts, and on whom: the guards of \<open>maybeRescale\<close>, the failure clock
  behind an eviction, the choice of a conversion, and what happens after a round that failed.
\<close>

subsection \<open>The guards of a round\<close>

definition view_at :: "world \<Rightarrow> manager \<Rightarrow> clusterView" where
  "view_at w m = \<lparr>snapshot = wSnapshot w (m_calls m)\<rparr>"

lemma emit_fields:
  "m_state (emit e m) = m_state m" "m_rescale (emit e m) = m_rescale m" "m_config (emit e m) = m_config m"
  "m_rescaleSettleDelay (emit e m) = m_rescaleSettleDelay m"
  "m_evictionGrace (emit e m) = m_evictionGrace m"
  by (simp_all add: emit_def)

text \<open>The three reasons for the evaluation to stay where it is.\<close>

lemma maybeRescale_idle:
  assumes "\<not> (RescaleEnabled (m_config m) \<and> m_state m = StateStableServer
      \<and> isRescaleCoordinator view (selfName m) \<and> retryNotBefore (m_rescale m) \<le> wNow w (m_calls m)
      \<and> \<not> isEtcdMembershipChanging view)"
  shows "m_state (maybeRescale w view m) = m_state m"
  using assms
  by (auto simp: maybeRescale_def call_defs forget_def Let_def)

lemma startEviction_fields:
  "m_state (startEviction names m) = StateRescaleCoordinating"
  "evicting (m_rescale (startEviction names m)) = names"
  "order (m_rescale (startEviction names m)) = noOrder"
  "cleaning (m_rescale (startEviction names m)) = ''''"
  by (simp_all add: startEviction_def rescale_step_defs call_defs Let_def)

lemma startConversion_fields:
  assumes "startConversion w view m = (True, m')"
  obtains target r where "chooseConversionTarget view (selfName m) = Some (target, r)"
    "m_state m' = StateRescaleCoordinating" "evicting (m_rescale m') = []" "cleaning (m_rescale m') = ''''"
    "Target (order (m_rescale m')) = Name target" "RoleO (order (m_rescale m')) = r"
  using assms
  by (auto simp: startConversion_def rescale_step_defs call_defs Let_def split: option.splits)

lemma scheduleRescaleCheck_state [simp]:
  "m_state (scheduleRescaleCheck d t m) = m_state m"
  by (simp add: scheduleRescaleCheck_def armTimer_def call_defs Let_def)

lemma trackImbalance_settled:
  assumes "trackImbalance view t m = ((True, dl), m')"
  shows "k3sServerCount view \<noteq> desiredServerCount view"
    and "imbalanceControlPlaneSince (m_rescale m') + m_rescaleSettleDelay m \<le> t"
    and "imbalanceControlPlaneSince (m_rescale m') =
      (if isZero (imbalanceControlPlaneSince (m_rescale m)) then t else imbalanceControlPlaneSince (m_rescale m))"
    and "m_config m' = m_config m" and "m_state m' = m_state m"
  using assms by (auto simp: trackImbalance_def Let_def split: if_splits)

lemma maybeRescale_round:
  assumes "m_state (maybeRescale w view m) \<noteq> m_state m"
  defines "t \<equiv> wNow w (m_calls m)" and "m' \<equiv> maybeRescale w view m"
  obtains (evict) due where
      "durablyFailedMembersNames view (failedSince (trackFailures view t (m_rescale m))) (m_evictionGrace m) t
        = (evicting (m_rescale m'), due)"
      "evicting (m_rescale m') \<noteq> []" "m_state m' = StateRescaleCoordinating"
  | (convert) target r where
      "chooseConversionTarget view (selfName m) = Some (target, r)"
      "k3sServerCount view \<noteq> desiredServerCount view"
      "\<not> isZero (imbalanceControlPlaneSince (m_rescale m)) \<longrightarrow>
        imbalanceControlPlaneSince (m_rescale m) + m_rescaleSettleDelay m \<le> t"
      "Target (order (m_rescale m')) = Name target" "RoleO (order (m_rescale m')) = r"
      "evicting (m_rescale m') = []" "m_state m' = StateRescaleCoordinating"
proof -
  define m1 where "m1 = (emit IoNow m)\<lparr>m_rescale := trackFailures view t (m_rescale m)\<rparr>"
  have m1: "m_state m1 = m_state m" "m_rescale m1 = trackFailures view t (m_rescale m)"
      "m_evictionGrace m1 = m_evictionGrace m" "m_rescaleSettleDelay m1 = m_rescaleSettleDelay m"
      "m_config m1 = m_config m"
    by (simp_all add: m1_def emit_def)
  have now: "now w m = (t, emit IoNow m)" by (simp add: now_def t_def)
  have g: "RescaleEnabled (m_config m)" "m_state m = StateStableServer"
      "isRescaleCoordinator view (selfName m)" "\<not> t < retryNotBefore (m_rescale m)"
      "\<not> isEtcdMembershipChanging view"
    using maybeRescale_idle [of m view w] assms(1) by (auto simp: t_def)
  obtain ev due where ev: "durablyFailedMembersNames view (failedSince (m_rescale m1))
      (m_evictionGrace m1) t = (ev, due)" by fastforce
  obtain isSettled dl m2 where ti: "trackImbalance view t m1 = ((isSettled, dl), m2)"
    by (metis prod.exhaust)
  obtain started m3 where sc: "startConversion w view m2 = (started, m3)" by fastforce
  have m'_eq: "m' = (if ev \<noteq> [] then startEviction ev m1
      else if isSettled then if started then m3
        else scheduleRescaleCheck (earliest due (t + m_rescaleSettleDelay m3)) t m3
      else scheduleRescaleCheck (earliest due dl) t m2)"
    using g ev ti sc
    by (simp add: m'_def maybeRescale_def now Let_def emit_fields m1_def [symmetric] m1)
  show thesis
  proof (cases "ev = []")
    case False
    then show thesis using evict [of due] ev m'_eq by (simp add: startEviction_fields m1)
  next
    case True
    have st: "m_state m2 = m_state m1" using idle_trackImbalance [OF ti] by simp
    have "m_state m3 = m_state m2" if "\<not> started"
      using idle_startConversion [OF _ sc] that st m1(1) g(2) by simp
    then have conv: "isSettled" "started" "m' = m3"
      using m'_eq True assms(1) st m1 unfolding m'_def by (auto split: if_splits)
    obtain target r where "chooseConversionTarget view (selfName m2) = Some (target, r)"
        "m_state m' = StateRescaleCoordinating" "evicting (m_rescale m') = []"
        "Target (order (m_rescale m')) = Name target" "RoleO (order (m_rescale m')) = r"
      using startConversion_fields [of w view m2 m3] sc conv by metis
    then show thesis
      using convert [of target r] trackImbalance_settled [of view t m1 dl m2] ti conv(1) m1
      by (simp split: if_splits)
  qed
qed

text \<open>
  A round starts only when rescaling is enabled, the node is an idle stable server, it is the
  coordinator of the view, no member of the view changes the etcd membership, and the hold-back of an
  abandoned round is over. The round then either evicts machines or prepares exactly one conversion,
  and in the second case the number of servers is off and was off for the settle delay.
\<close>

theorem round_guarded:
  assumes "m_state (maybeRescale w view m) \<noteq> m_state m"
  defines "m' \<equiv> maybeRescale w view m"
  shows "RescaleEnabled (m_config m) \<and> m_state m = StateStableServer \<and> isRescaleCoordinator view (selfName m)
    \<and> \<not> isEtcdMembershipChanging view \<and> retryNotBefore (m_rescale m) \<le> wNow w (m_calls m)
    \<and> m_state m' = StateRescaleCoordinating
    \<and> (evicting (m_rescale m') \<noteq> [] \<or>
       (\<exists>target r. chooseConversionTarget view (selfName m) = Some (target, r)
          \<and> Target (order (m_rescale m')) = Name target \<and> RoleO (order (m_rescale m')) = r
          \<and> k3sServerCount view \<noteq> desiredServerCount view))"
proof -
  have "RescaleEnabled (m_config m) \<and> m_state m = StateStableServer \<and> isRescaleCoordinator view (selfName m)
    \<and> \<not> isEtcdMembershipChanging view \<and> retryNotBefore (m_rescale m) \<le> wNow w (m_calls m)"
    using maybeRescale_idle [of m view w] assms(1) by auto
  moreover from assms(1) have "m_state m' = StateRescaleCoordinating
    \<and> (evicting (m_rescale m') \<noteq> [] \<or>
       (\<exists>target r. chooseConversionTarget view (selfName m) = Some (target, r)
          \<and> Target (order (m_rescale m')) = Name target \<and> RoleO (order (m_rescale m')) = r
          \<and> k3sServerCount view \<noteq> desiredServerCount view))"
    by (cases rule: maybeRescale_round) (auto simp: m'_def)
  ultimately show ?thesis by blast
qed

text \<open>The observation that makes \<open>ants01\<close> evict \<open>ants03\<close>.\<close>

definition watching_manager :: manager where
  "watching_manager = stable_manager
    \<lparr>m_rescale := noRescale\<lparr>failedSince := [''ants03'' \<mapsto> epoch - 24 * hour]\<rparr>\<rparr>"

theorem round_guarded_witness:
  "m_state (maybeRescale (steady_world degraded_cluster) (view_of degraded_cluster) watching_manager)
      = StateRescaleCoordinating
    \<and> isRescaleCoordinator (view_of degraded_cluster) (selfName watching_manager)
    \<and> \<not> isEtcdMembershipChanging (view_of degraded_cluster)"
proof -
  have "m_state (maybeRescale (steady_world degraded_cluster) (view_of degraded_cluster) watching_manager)
      \<noteq> m_state watching_manager"
    by code_simp
  from round_guarded [OF this] show ?thesis by blast
qed

subsection \<open>The failure clock\<close>

definition observe_all :: "(clusterView \<times> time) list \<Rightarrow> rescaleProgress \<Rightarrow> rescaleProgress" where
  "observe_all obs r = foldl (\<lambda>r (view, t). trackFailures view t r) r obs"

lemma trackFailures_clock:
  "failedSince (trackFailures view t r) n =
    (if n \<in> set (failedMembersNames view)
     then Some (case failedSince r n of Some since \<Rightarrow> since | None \<Rightarrow> t) else None)"
proof -
  have "foldl (\<lambda>since name. if since name = None then since(name \<mapsto> t) else since) f ns n =
      (if n \<in> set ns then Some (case f n of Some since \<Rightarrow> since | None \<Rightarrow> t) else f n)" for f ns
    by (induction ns arbitrary: f) (auto split: option.splits)
  then show ?thesis by (simp add: trackFailures_def Let_def)
qed

lemma observe_all_clock:
  "failedSince (observe_all obs noRescale) n = Some since \<Longrightarrow>
    \<exists>k < length obs. snd (obs ! k) = since \<and>
      (\<forall>j. k \<le> j \<longrightarrow> j < length obs \<longrightarrow> n \<in> set (failedMembersNames (fst (obs ! j)))) \<and>
      (k = 0 \<or> n \<notin> set (failedMembersNames (fst (obs ! (k - 1)))))"
proof (induction obs arbitrary: since rule: rev_induct)
  case Nil
  then show ?case by (simp add: observe_all_def noRescale_def)
next
  case (snoc o' obs)
  obtain view t where o': "o' = (view, t)" by fastforce
  let ?r = "observe_all obs noRescale"
  have step: "failedSince (trackFailures view t ?r) n = Some since"
    using snoc.prems by (simp add: observe_all_def o')
  show ?case
  proof (cases "failedSince ?r n")
    case None
    have "n \<notin> set (failedMembersNames (fst (obs ! (length obs - 1))))" if "obs \<noteq> []"
    proof -
      obtain obs' o'' where "obs = obs' @ [o'']" using \<open>obs \<noteq> []\<close> by (cases obs rule: rev_cases) auto
      with None show ?thesis
        by (cases o'') (auto simp: observe_all_def trackFailures_clock split: if_splits)
    qed
    with None step show ?thesis
      by (cases "obs = []"; intro exI [of _ "length obs"])
        (auto simp: trackFailures_clock o' nth_append less_Suc_eq_le split: if_splits)
  next
    case (Some since')
    with step have "since' = since" and last: "n \<in> set (failedMembersNames view)"
      by (auto simp: trackFailures_clock split: if_splits)
    with snoc.IH [of since] Some obtain k where k: "k < length obs" "snd (obs ! k) = since"
        "\<forall>j. k \<le> j \<longrightarrow> j < length obs \<longrightarrow> n \<in> set (failedMembersNames (fst (obs ! j)))"
        "k = 0 \<or> n \<notin> set (failedMembersNames (fst (obs ! (k - 1))))"
      by auto
    then show ?thesis
      using last by (intro exI [of _ k]) (auto simp: nth_append o' less_Suc_eq)
  qed
qed

lemma observe_all_failed:
  "obs \<noteq> [] \<Longrightarrow> failedSince (observe_all obs noRescale) n = None \<longleftrightarrow>
    n \<notin> set (failedMembersNames (fst (last obs)))"
  by (cases obs rule: rev_cases) (auto simp: observe_all_def trackFailures_clock split: prod.splits)


definition flapping :: "(clusterView \<times> time) list" where
  "flapping =
    [(view_of [peer ''ants02'' ''10.0.0.2'' memberStatusFailed StateStableAgent,
               peer ''ants03'' ''10.0.0.3'' memberStatusFailed StateStableServer], 100),
     (view_of [peer ''ants02'' ''10.0.0.2'' memberStatusAlive StateStableAgent,
               peer ''ants03'' ''10.0.0.3'' memberStatusFailed StateStableServer], 150),
     (view_of [peer ''ants02'' ''10.0.0.2'' memberStatusFailed StateStableAgent,
               peer ''ants03'' ''10.0.0.3'' memberStatusFailed StateStableServer], 160)]"


subsection \<open>After a failed round\<close>



text \<open>The same cluster where Serf refuses to erase the evicted machine.\<close>

definition stubborn_world :: world where
  "stubborn_world = (steady_world degraded_cluster)\<lparr>wRemoveFailedNode := \<lambda>h name. Some ''not failed''\<rparr>"


subsection \<open>The designated machine\<close>

text \<open>
  A conversion order is obeyed exactly by the machine it names, when this machine is stable in
  the opposite role, has a persisted state and is given the address of a server; the conversion then
  runs in the state of its direction. Any other order changes nothing.
\<close>

theorem conversion_order_obeyed:
  "onRescaleConvert p m =
    (case unmarshalOrder p of
       None \<Rightarrow> m
     | Some ord \<Rightarrow>
       if Target ord = selfName m \<and> m_state m = StableState (Other (RoleO ord))
          \<and> m_persistedState m \<noteq> None \<and> JoinIP ord \<noteq> ''''
       then startK3sOperation (OpConvert ord)
         (transition (if m_state m = StateStableAgent then StateRescalePromoting else StateRescaleDemoting)
           (m\<lparr>m_rescale := (m_rescale m)\<lparr>order := ord\<rparr>\<rparr>))
       else m)"
  by (auto simp: onRescaleConvert_def StableState_def Other_def Let_def split: option.split)


end
