(* ===== verification/Bootstrap_Order.thy ===== *)
theory Bootstrap_Order
  imports Single_Flight Scenario
begin

text \<open>
  The order of the installations of a bootstrap: who may initialise the cluster, which machine
  installs on which view of its cohort, and what a second start signal does.
\<close>

subsection \<open>The first server\<close>

definition start_view :: "world \<Rightarrow> manager \<Rightarrow> clusterView" where
  "start_view w m = \<lparr>snapshot = wSnapshot w (m_calls (bootstrap_stopTimer m))\<rparr>"

lemma step_states:
  "m_state (transition s m) = s" "m_state (emit e m) = m_state m"
  "m_state (startK3sOperation op m) = m_state m" "m_state (failBootstrap m) = StateBootstrapFailed"
  by (simp_all add: failBootstrap_def call_defs)

lemma maybeInstall_not_init:
  "m_state (maybeInstallAgent view (maybeInstallServer view m)) = StateBootstrapInstallInit \<Longrightarrow>
    m_state m = StateBootstrapInstallInit"
  by (auto simp: maybeInstallAgent_def maybeInstallServer_def call_defs split: if_splits prod.splits)

lemma Rank_zero: "Rank names self = Inr 0 \<Longrightarrow> self \<in> set names \<and> (\<forall>n \<in> set names. self \<le> n)"
  by (auto simp: Rank_count filter_empty_conv not_less split: if_splits)

text \<open>
  C15: a machine initialises a new cluster only from \<open>fb_bootstrap_waiting\<close>, when it has the lowest
  name of the machines it sees alive, and when no machine it sees, alive or failed, is in a cluster.
\<close>

theorem n0_guard:
  assumes "m_state (onBootstrapStart w m) = StateBootstrapInstallInit"
    and "m_state m \<noteq> StateBootstrapInstallInit"
  shows "m_state m = StateBootstrapWaiting
    \<and> selfName m \<in> set (aliveMemberNames (start_view w m))
    \<and> (\<forall>n \<in> set (aliveMemberNames (start_view w m)). selfName m \<le> n)
    \<and> (\<forall>k \<in> set (members (start_view w m)). isMemberAliveOrFailed k \<longrightarrow> \<not> InCluster (member_state k))"
proof -
  have waiting: "m_state m = StateBootstrapWaiting"
    using assms by (auto simp: onBootstrapStart_def split: if_splits)
  define m1 where "m1 = emit IoSnapshot (bootstrap_stopTimer m)"
  have m1: "m_state m1 = StateBootstrapWaiting" "selfName m1 = selfName m"
    using waiting by (simp_all add: m1_def call_defs)
  define names where "names = aliveMemberNames (start_view w m)"
  obtain member found where f: "findExistingK3sClusterMember (start_view w m) = (member, found)" by fastforce
  have obs: "observeCluster w (bootstrap_stopTimer m) = (start_view w m, m1)"
    by (simp add: observeCluster_def start_view_def m1_def)
  note unfold_start = onBootstrapStart_def Let_def obs names_def [symmetric] m1(2) waiting f
  have "Rank names (selfName m) = Inr 0"
  proof (cases "Rank names (selfName m)")
    case (Inl err)
    then have "m_state (onBootstrapStart w m) = StateBootstrapFailed"
      by (simp add: unfold_start step_states)
    with assms(1) show ?thesis by simp
  next
    case (Inr rank)
    have "rank = 0"
    proof (rule ccontr)
      assume "rank \<noteq> 0"
      define b where "b = (m_bootstrap m1)\<lparr>bMembers := names, totalAliveMembers := int (length names),
        bRank := rank, bRole := RoleForRank rank (int (length names))\<rparr>"
      have "onBootstrapStart w m =
          maybeInstallAgent (start_view w m) (maybeInstallServer (start_view w m) (m1\<lparr>m_bootstrap := b\<rparr>))"
        using Inr \<open>rank \<noteq> 0\<close>
        by (simp add: b_def onBootstrapStart_def Let_def obs names_def [symmetric] m1(2) waiting)
      with maybeInstall_not_init [of "start_view w m" "m1\<lparr>m_bootstrap := b\<rparr>"] m1(1) assms(1)
      show False by simp
    qed
    with Inr show ?thesis by simp
  qed
  moreover from this have "\<not> found"
    using assms(1) by (cases found) (simp_all add: unfold_start step_states)
  ultimately show ?thesis
    using Rank_zero [of names "selfName m"] findExisting_False [of "start_view w m" member] f waiting
    by (auto simp: names_def)
qed

definition fresh_cluster :: "member list" where
  "fresh_cluster =
    [peer ''ants01'' ''10.0.0.1'' memberStatusAlive StateBootstrapWaiting,
     peer ''ants02'' ''10.0.0.2'' memberStatusAlive StateBootstrapWaiting,
     peer ''ants03'' ''10.0.0.3'' memberStatusAlive StateBootstrapWaiting]"

definition waiting_manager :: "string \<Rightarrow> manager" where
  "waiting_manager name = (newManager (demo_config name))
    \<lparr>m_state := StateBootstrapWaiting, m_stateView := StateBootstrapWaiting\<rparr>"

theorem n0_guard_witness:
  "m_state (onBootstrapStart (steady_world fresh_cluster) (waiting_manager ''ants01'')) = StateBootstrapInstallInit
    \<and> ''ants01'' \<in> set (aliveMemberNames (start_view (steady_world fresh_cluster) (waiting_manager ''ants01'')))
    \<and> m_state (onBootstrapStart (steady_world fresh_cluster) (waiting_manager ''ants02'')) = StateBootstrapWaiting"
proof -
  have a: "m_state (onBootstrapStart (steady_world fresh_cluster) (waiting_manager ''ants01'')) = StateBootstrapInstallInit"
    and b: "m_state (waiting_manager ''ants01'') \<noteq> StateBootstrapInstallInit"
    and c: "selfName (waiting_manager ''ants01'') = ''ants01''"
    and d: "m_state (onBootstrapStart (steady_world fresh_cluster) (waiting_manager ''ants02'')) = StateBootstrapWaiting"
    by code_simp+
  from n0_guard [OF a b] a c d show ?thesis by simp
qed

subsection \<open>The other servers and the agents\<close>

text \<open>A cohort as every member sees it once its \<open>k\<close> first machines are stable servers.\<close>

definition cohort_view :: "(string \<Rightarrow> string) \<Rightarrow> string list \<Rightarrow> nat \<Rightarrow> clusterView" where
  "cohort_view ip names k =
    view_of (map (\<lambda>i. peer (sort names ! i) (ip (sort names ! i)) memberStatusAlive
        (if i < k then StateStableServer else StateBootstrapWaiting)) [0..<length names])"

text \<open>A machine of the cohort that computed its role and waits for its turn.\<close>

definition waits_for_turn :: "string list \<Rightarrow> nat \<Rightarrow> manager \<Rightarrow> bool" where
  "waits_for_turn names r m \<longleftrightarrow>
    m_state m = StateBootstrapWaiting \<and> Rank names (selfName m) = Inr (int r) \<and>
    bRank (m_bootstrap m) = int r \<and> bRole (m_bootstrap m) = RoleForRank (int r) (int (length names)) \<and>
    totalAliveMembers (m_bootstrap m) = int (length names)"

definition take_turn :: "clusterView \<Rightarrow> manager \<Rightarrow> manager" where
  "take_turn view m = maybeInstallAgent view (maybeInstallServer view m)"

lemma cohort_alive:
  "aliveIn StateStableServer (peer name ip memberStatusAlive (if i < k then StateStableServer else StateBootstrapWaiting))
    \<longleftrightarrow> i < k"
  by (simp add: aliveIn_def peer_def tag_get_def)

lemma cohort_count:
  assumes "k \<le> length names"
  shows "stableServerCount (cohort_view ip names k) = int k"
proof -
  have "filter (\<lambda>i. i < k) [0..<length names] = [0..<k]"
    using upt_add_eq_append [of 0 k "length names - k"] assms by simp
  then show ?thesis
    by (simp add: stableServerCount_def cohort_view_def view_of_def filter_map comp_def cohort_alive)
qed

lemma cohort_named:
  assumes "distinct names" and "'''' \<notin> set names"
  shows "named_view (cohort_view ip names k)"
proof -
  have "map Name (members (cohort_view ip names k)) = sort names"
    by (simp add: cohort_view_def view_of_def peer_def comp_def) (metis length_sort map_nth)
  with assms show ?thesis by (simp add: named_view_def)
qed

lemma cohort_join_target:
  assumes "distinct names" and "'''' \<notin> set names" and "1 \<le> k" and "k \<le> length names"
  shows "findK3sJoinTarget (cohort_view ip names k) =
    (peer (sort names ! 0) (ip (sort names ! 0)) memberStatusAlive StateStableServer, True)"
proof -
  let ?v = "cohort_view ip names k" and ?s = "sort names"
  let ?first = "peer (?s ! 0) (ip (?s ! 0)) memberStatusAlive StateStableServer"
  note nv = cohort_named [OF assms(1,2), of ip k]
  obtain t found where t: "lowestNamedAliveMemberIn ?v StateStableServer = (t, found)" by fastforce
  have first: "?first \<in> set (members ?v)" "aliveIn StateStableServer ?first"
    using assms(3,4) by (auto simp: cohort_view_def view_of_def aliveIn_def peer_def tag_get_def
        image_iff intro!: bexI [of _ 0])
  then have found using lowestNamedAliveMemberIn_none [OF nv, of StateStableServer t] t by (cases found) auto
  with t have f: "lowestNamedAliveMemberIn ?v StateStableServer = (t, True)" by simp
  note low = lowestNamedAliveMemberIn_found [OF nv f]
  have "Name t \<le> ?s ! 0" using low(3) [OF first] by (simp add: peer_def)
  moreover obtain i where "i < length names" "Name t = ?s ! i"
    using low(1) by (auto simp: cohort_view_def view_of_def peer_def)
  then have "?s ! 0 \<le> Name t" by (simp add: sorted_nth_mono)
  ultimately have "Name t = Name ?first" by (simp add: peer_def)
  then have "t = ?first" using named_view_inj [OF nv low(1) first(1)] by simp
  with f show ?thesis by (simp add: findK3sJoinTarget_def)
qed

text \<open>
  C16: the bootstrap makes progress one server at a time. Once the \<open>k\<close> machines with the lowest names
  are stable servers, exactly the next one installs a server as long as servers are missing, and
  when none is missing every remaining machine installs an agent; all of them join the lowest name.
\<close>

theorem bootstrap_in_rank_order:
  assumes "distinct names" and "'''' \<notin> set names" and "waits_for_turn names r m"
    and "1 \<le> k" and "int k \<le> DesiredServerCount (int (length names))" and "k \<le> r" and "r < length names"
  shows "take_turn (cohort_view ip names k) m =
    (if int k < DesiredServerCount (int (length names))
     then (if r = k then startK3sOperation (OpInstallServer (ip (sort names ! 0)))
             (transition StateBootstrapInstallServer m) else m)
     else startK3sOperation (OpInstallAgent (ip (sort names ! 0))) (transition StateBootstrapInstallAgent m))"
proof -
  have "k \<le> length names" using assms(6,7) by simp
  note c = cohort_count [OF this, of ip] cohort_join_target [OF assms(1,2,4) this, of ip]
  have role: "bRole (m_bootstrap m) = RoleServer \<longleftrightarrow> int r < DesiredServerCount (int (length names))"
    "bRole (m_bootstrap m) = RoleAgent \<longleftrightarrow> \<not> int r < DesiredServerCount (int (length names))"
    using assms(3) by (auto simp: waits_for_turn_def RoleForRank_def)
  show ?thesis
    using assms(3,5,6) role
    by (auto simp: take_turn_def maybeInstallServer_def maybeInstallAgent_def waits_for_turn_def c
        peer_def call_defs)
qed

theorem bootstrap_in_rank_order_witness:
  "take_turn (cohort_view (\<lambda>n. n) [''b'', ''a'', ''c''] 1)
     ((waiting_manager ''b'')\<lparr>m_bootstrap := noBootstrap\<lparr>bRank := 1, bRole := RoleServer, totalAliveMembers := 3\<rparr>\<rparr>)
   = startK3sOperation (OpInstallServer ''a'') (transition StateBootstrapInstallServer
      ((waiting_manager ''b'')\<lparr>m_bootstrap := noBootstrap\<lparr>bRank := 1, bRole := RoleServer, totalAliveMembers := 3\<rparr>\<rparr>))"
proof -
  let ?m = "(waiting_manager ''b'')\<lparr>m_bootstrap := noBootstrap\<lparr>bRank := 1, bRole := RoleServer, totalAliveMembers := 3\<rparr>\<rparr>"
  have "waits_for_turn [''b'', ''a'', ''c''] 1 ?m" and "DesiredServerCount (int (length [''b'', ''a'', ''c''])) = 3"
    and "sort [''b'', ''a'', ''c''] ! 0 = ''a''"
    by code_simp+
  then show ?thesis
    using bootstrap_in_rank_order [of "[''b'', ''a'', ''c'']" 1 ?m 1 "\<lambda>n. n"] by simp
qed

subsection \<open>A second start signal\<close>

lemma maybeInstall_bootstrap:
  "m_bootstrap (maybeInstallAgent view (maybeInstallServer view m)) = m_bootstrap m"
  by (auto simp: maybeInstallAgent_def maybeInstallServer_def call_defs split: prod.splits)


text \<open>A third machine that has the start signal twice, the lowest one having gone in between.\<close>

definition thinned_world :: world where
  "thinned_world = (steady_world fresh_cluster)
    \<lparr>wSnapshot := \<lambda>h. snapshot (view_of (if h = [] then fresh_cluster else tl fresh_cluster))\<rparr>"


end
