(* ===== verification/K3s_Installer.thy ===== *)
theory K3s_Installer
  imports Node_Role
begin

text \<open>
  The local K3s installation, \<open>antsd/internal/k3s/installer.go\<close>, with the simulated one of
  \<open>fake.go\<close>. A Go interface is a record of functions over the state of the machine; the laws its
  comments promise to the workflows are the locale \<open>installer_contract\<close>, which each implementation interprets.
  A \<open>context.Context\<close> is the instants at which it is cancelled and expires.
\<close>

subsection \<open>Contexts and errors\<close>

datatype ctx_error = Canceled | DeadlineExceeded

record ctx =
  ctxCanceled :: "time option"
  ctxDeadline :: "time option"

definition Background :: ctx where
  "Background = \<lparr>ctxCanceled = None, ctxDeadline = None\<rparr>"

text \<open>When a context is done, and why; the first of the two events counts.\<close>

definition ctx_done :: "ctx \<Rightarrow> (time \<times> ctx_error) option" where
  "ctx_done c =
    (case (ctxCanceled c, ctxDeadline c) of
       (None, None) \<Rightarrow> None
     | (Some t, None) \<Rightarrow> Some (t, Canceled)
     | (None, Some d) \<Rightarrow> Some (d, DeadlineExceeded)
     | (Some t, Some d) \<Rightarrow> Some (if t \<le> d then (t, Canceled) else (d, DeadlineExceeded)))"

definition ctx_Err :: "ctx \<Rightarrow> time \<Rightarrow> ctx_error option" where
  "ctx_Err c t = (case ctx_done c of None \<Rightarrow> None | Some (d, e) \<Rightarrow> if d \<le> t then Some e else None)"

definition WithTimeout :: "ctx \<Rightarrow> duration \<Rightarrow> time \<Rightarrow> ctx" where
  "WithTimeout c d t =
    c\<lparr>ctxDeadline := Some (case ctxDeadline c of None \<Rightarrow> t + d | Some old \<Rightarrow> min old (t + d))\<rparr>"

lemma WithTimeout_deadline:
  "ctxDeadline (WithTimeout c d t) = Some x \<Longrightarrow> x \<le> t + d"
  by (auto simp: WithTimeout_def split: option.splits)

text \<open>
  The errors of the package and of the operations built on it. \<open>Wrap\<close> is \<open>fmt.Errorf\<close> with \<open>%w\<close>;
  \<open>Opaque\<close> is one that only prints its cause.
\<close>

datatype k3s_error =
    ErrNotInstalled
  | CtxErr ctx_error
  | SysErr error
  | CmdErr error string
  | Ambiguous
  | NotReady string
  | AlreadyInstalled role
  | WrongRole role role
  | LeftBehind "role option"
  | StillKnown string
  | Wrap string k3s_error
  | Opaque string

fun is_ErrNotInstalled :: "k3s_error \<Rightarrow> bool" where
  "is_ErrNotInstalled ErrNotInstalled = True"
| "is_ErrNotInstalled (Wrap s e) = is_ErrNotInstalled e"
| "is_ErrNotInstalled _ = False"

subsection \<open>The interface\<close>

definition apiPort :: string where
  "apiPort = ''6443''"

text \<open>\<open>net.JoinHostPort\<close> puts brackets around a host that contains a colon.\<close>

definition JoinHostPort :: "string \<Rightarrow> string \<Rightarrow> string" where
  "JoinHostPort host port =
    (if list_ex (\<lambda>c. c = CHR '':'') host then ''['' @ host @ '']:'' @ port
     else host @ '':'' @ port)"

definition joinURL :: "string \<Rightarrow> string" where
  "joinURL ip = ''https://'' @ JoinHostPort ip apiPort"

record 's installer =
  iNow :: "'s \<Rightarrow> time"
  InstallServerInit :: "ctx \<Rightarrow> 's \<Rightarrow> k3s_error option \<times> 's"
  InstallServerJoin :: "ctx \<Rightarrow> string \<Rightarrow> 's \<Rightarrow> k3s_error option \<times> 's"
  InstallAgent :: "ctx \<Rightarrow> string \<Rightarrow> 's \<Rightarrow> k3s_error option \<times> 's"
  Convert :: "ctx \<Rightarrow> role \<Rightarrow> string \<Rightarrow> 's \<Rightarrow> k3s_error option \<times> 's"
  WaitServerReady :: "ctx \<Rightarrow> 's \<Rightarrow> k3s_error option \<times> 's"
  WaitAgentReady :: "ctx \<Rightarrow> 's \<Rightarrow> k3s_error option \<times> 's"
  InstalledRole :: "'s \<Rightarrow> (k3s_error + role) \<times> 's"

text \<open>
  What the workflows rely on: looking at the installation and waiting for it do not change it, a
  conversion needs an unambiguous installation, a conversion to the installed role leaves it alone.
  \<open>unit_role\<close> is the installation the machine has, as a specification.
\<close>

locale installer_contract =
  fixes I :: "'s installer" and unit_role :: "'s \<Rightarrow> role set"
  assumes role_reads: "InstalledRole I s = (x, s') \<Longrightarrow> unit_role s' = unit_role s"
    and role_answer: "InstalledRole I s = (Inr role, s') \<Longrightarrow> unit_role s = {role}"
    and role_missing: "InstalledRole I s = (Inl e, s') \<Longrightarrow> is_ErrNotInstalled e \<Longrightarrow> unit_role s = {}"
    and server_wait_reads: "WaitServerReady I c s = (r, s') \<Longrightarrow> unit_role s' = unit_role s"
    and agent_wait_reads: "WaitAgentReady I c s = (r, s') \<Longrightarrow> unit_role s' = unit_role s"
    and convert_needs: "Convert I c to ip s = (None, s') \<Longrightarrow> \<exists>role. unit_role s = {role}"

subsection \<open>The simulated installer\<close>

text \<open>
  The simulated installer with the simulated control plane (theory \<open>K3s_Control\<close>): two objects of the
  code that share the clock. \<open>fTie\<close> resolves the choice of \<open>select\<close> when the context expires at the very instant the simulated
  delay ends; \<open>cDelay\<close> and \<open>known\<close> belong to the control plane.
\<close>

record fake =
  fClock :: time
  Delay :: duration
  fTie :: bool
  fInstalled :: role
  cDelay :: duration
  fKnown :: "string list"

definition fakeInstallDelay :: duration where
  "fakeInstallDelay = 3 * second"

definition NewFakeInstaller :: "time \<Rightarrow> bool \<Rightarrow> fake" where
  "NewFakeInstaller t tie =
    \<lparr>fClock = t, Delay = fakeInstallDelay, fTie = tie, fInstalled = noRole, cDelay = 0, fKnown = []\<rparr>"

definition SetInstalledRole :: "role \<Rightarrow> fake \<Rightarrow> fake" where
  "SetInstalledRole r f = f\<lparr>fInstalled := r\<rparr>"

text \<open>The wait of every simulated operation: the delay, or the end of the context if it is first.\<close>

definition wait_delay :: "duration \<Rightarrow> ctx \<Rightarrow> fake \<Rightarrow> k3s_error option \<times> fake" where
  "wait_delay delay c f =
    (let finish = fClock f + max 0 delay in
     case ctx_done c of
       None \<Rightarrow> (None, f\<lparr>fClock := finish\<rparr>)
     | Some (d, e) \<Rightarrow>
       let d = max d (fClock f) in
       if d < finish \<or> d = finish \<and> fTie f then (Some (CtxErr e), f\<lparr>fClock := d\<rparr>)
       else (None, f\<lparr>fClock := finish\<rparr>))"

definition simulate :: "ctx \<Rightarrow> fake \<Rightarrow> k3s_error option \<times> fake" where
  "simulate c f = wait_delay (Delay f) c f"

definition simulateInstall :: "ctx \<Rightarrow> role \<Rightarrow> fake \<Rightarrow> k3s_error option \<times> fake" where
  "simulateInstall c r f =
    (case simulate c f of
       (Some err, f) \<Rightarrow> (Some err, f)
     | (None, f) \<Rightarrow> (None, SetInstalledRole r f))"

definition fake_InstallServerInit :: "ctx \<Rightarrow> fake \<Rightarrow> k3s_error option \<times> fake" where
  "fake_InstallServerInit c f = simulateInstall c RoleServer f"

definition fake_InstallServerJoin :: "ctx \<Rightarrow> string \<Rightarrow> fake \<Rightarrow> k3s_error option \<times> fake" where
  "fake_InstallServerJoin c serverIP f = simulateInstall c RoleServer f"

definition fake_InstallAgent :: "ctx \<Rightarrow> string \<Rightarrow> fake \<Rightarrow> k3s_error option \<times> fake" where
  "fake_InstallAgent c serverIP f = simulateInstall c RoleAgent f"

definition fake_InstalledRole :: "fake \<Rightarrow> (k3s_error + role) \<times> fake" where
  "fake_InstalledRole f = (if fInstalled f = noRole then (Inl ErrNotInstalled, f) else (Inr (fInstalled f), f))"

definition fake_Convert :: "ctx \<Rightarrow> role \<Rightarrow> string \<Rightarrow> fake \<Rightarrow> k3s_error option \<times> fake" where
  "fake_Convert c to serverIP f =
    (case fake_InstalledRole f of
       (Inl err, f) \<Rightarrow> (Some (Wrap ''fake installer cannot convert this node'' err), f)
     | (Inr _, f) \<Rightarrow> simulateInstall c to f)"

definition fake_WaitServerReady :: "ctx \<Rightarrow> fake \<Rightarrow> k3s_error option \<times> fake" where
  "fake_WaitServerReady c f = simulate c f"

definition fake_WaitAgentReady :: "ctx \<Rightarrow> fake \<Rightarrow> k3s_error option \<times> fake" where
  "fake_WaitAgentReady c f = simulate c f"

definition FakeInstaller :: "fake installer" where
  "FakeInstaller =
    \<lparr>iNow = fClock, InstallServerInit = fake_InstallServerInit, InstallServerJoin = fake_InstallServerJoin,
     InstallAgent = fake_InstallAgent, Convert = fake_Convert, WaitServerReady = fake_WaitServerReady,
     WaitAgentReady = fake_WaitAgentReady, InstalledRole = fake_InstalledRole\<rparr>"

definition fake_role :: "fake \<Rightarrow> role set" where
  "fake_role f = (if fInstalled f = noRole then {} else {fInstalled f})"

lemma wait_delay_keeps:
  "wait_delay delay c f = (r, f') \<Longrightarrow> fInstalled f' = fInstalled f \<and> fKnown f' = fKnown f \<and> fClock f \<le> fClock f'"
  by (auto simp: wait_delay_def Let_def split: option.splits if_splits)

lemma simulate_installed:
  "simulate c f = (r, f') \<Longrightarrow> fInstalled f' = fInstalled f \<and> fKnown f' = fKnown f \<and> fClock f \<le> fClock f'"
  unfolding simulate_def by (rule wait_delay_keeps)

lemma simulateInstall_None:
  "simulateInstall c to f = (None, f') \<Longrightarrow> fInstalled f' = to"
  by (auto simp: simulateInstall_def SetInstalledRole_def split: prod.splits option.splits)

interpretation fake: installer_contract FakeInstaller fake_role
  by unfold_locales
    (auto simp: FakeInstaller_def fake_role_def fake_InstalledRole_def fake_WaitServerReady_def
      fake_WaitAgentReady_def fake_Convert_def dest: simulate_installed split: if_splits prod.splits)

end
