(* ===== verification/Machine.thy ===== *)
theory Machine
  imports K3s_Installer "HOL-Library.AList"
begin

text \<open>
  The machine the daemon runs on, as far as \<open>antsd/internal/k3s/exec.go\<close> and \<open>control_plane.go\<close>
  reach it: the clock, the file system, the commands it runs. The file system is an association
  list from clean absolute paths to nodes; two names of one file share an inode number. The
  commands themselves (the install script, \<open>kubectl\<close>) are not part of the repository: they are
  arguments (\<open>env\<close>), and so are the failures of system calls, one choice per call made. \<open>mHist\<close>
  keeps the past contents of the file system, so a statement about it covers a crash. A write that
  fails stops after \<open>short_write\<close> bytes.
\<close>

datatype fnode = Dir | File nat string nat

fun content :: "fnode \<Rightarrow> string" where
  "content Dir = ''''"
| "content (File ino c mode) = c"

type_synonym files = "(string \<times> fnode) list"

record 'c machine =
  mClock :: time
  mFs :: files
  mHist :: "files list"
  mSys :: nat
  mRan :: "(string \<times> string list) list"
  mCluster :: 'c

text \<open>
  \<open>script path vars\<close> and \<open>kubectl args\<close> give the output, the error of the command, how long it ran
  and what it left behind; \<open>readonly args\<close> is a \<open>kubectl get\<close>. \<open>select_ctx\<close> is the choice of
  \<open>select\<close> when the context and another case are ready at the same instant.
\<close>

record 'c env =
  environ :: "string list"
  fault :: "nat \<Rightarrow> error option"
  tmp_suffix :: "nat \<Rightarrow> string"
  short_write :: "nat \<Rightarrow> nat"
  script :: "string \<Rightarrow> string list \<Rightarrow> ctx \<Rightarrow> 'c machine \<Rightarrow> (string \<times> error option) \<times> nat \<times> files \<times> 'c"
  kubectl_do :: "string list \<Rightarrow> ctx \<Rightarrow> 'c machine \<Rightarrow> (string \<times> error option) \<times> nat \<times> 'c"
  kubectl_get :: "string list \<Rightarrow> ctx \<Rightarrow> 'c machine \<Rightarrow> (string \<times> error option) \<times> nat"
  select_ctx :: "time \<Rightarrow> bool"

subsection \<open>Paths\<close>

definition filepath_Join :: "string \<Rightarrow> string \<Rightarrow> string" where
  "filepath_Join a b = a @ ''/'' @ b"

definition filepath_Base :: "string \<Rightarrow> string" where
  "filepath_Base p = rev (takeWhile (\<lambda>c. c \<noteq> CHR ''/'') (rev p))"

definition filepath_Dir :: "string \<Rightarrow> string" where
  "filepath_Dir p = rev (tl (dropWhile (\<lambda>c. c \<noteq> CHR ''/'') (rev p)))"

subsection \<open>System calls\<close>

datatype sys_error = NotExist | Sys error

definition get :: "string \<Rightarrow> 'c machine \<Rightarrow> fnode option" where
  "get p m = map_of (mFs m) p"

definition set_fs :: "files \<Rightarrow> 'c machine \<Rightarrow> 'c machine" where
  "set_fs fs m = m\<lparr>mFs := fs, mHist := mFs m # mHist m\<rparr>"

text \<open>Every system call first meets its fault, if it has one.\<close>

definition syscall ::
  "'c env \<Rightarrow> ('c machine \<Rightarrow> (sys_error + 'a) \<times> 'c machine) \<Rightarrow> 'c machine \<Rightarrow> (sys_error + 'a) \<times> 'c machine" where
  "syscall e f m =
    (let m' = m\<lparr>mSys := Suc (mSys m)\<rparr> in
     case fault e (mSys m) of Some err \<Rightarrow> (Inl (Sys err), m') | None \<Rightarrow> f m')"

definition os_Stat :: "'c env \<Rightarrow> string \<Rightarrow> 'c machine \<Rightarrow> (sys_error + fnode) \<times> 'c machine" where
  "os_Stat e p = syscall e (\<lambda>m. (case get p m of None \<Rightarrow> Inl NotExist | Some n \<Rightarrow> Inr n, m))"

text \<open>The ancestors of a path, the nearest last, and the path itself.\<close>

definition ancestors :: "string \<Rightarrow> string list" where
  "ancestors p = filter (\<lambda>q. q \<noteq> '''')
    (map (\<lambda>i. take i p) (filter (\<lambda>i. i = length p \<or> p ! i = CHR ''/'') [0..<Suc (length p)]))"

fun mkdirs :: "string list \<Rightarrow> files \<Rightarrow> files option" where
  "mkdirs [] fs = Some fs"
| "mkdirs (p # ps) fs =
     (case map_of fs p of
        None \<Rightarrow> mkdirs ps (AList.update p Dir fs)
      | Some Dir \<Rightarrow> mkdirs ps fs
      | Some (File _ _ _) \<Rightarrow> None)"

definition os_MkdirAll :: "'c env \<Rightarrow> string \<Rightarrow> 'c machine \<Rightarrow> (sys_error + unit) \<times> 'c machine" where
  "os_MkdirAll e p = syscall e (\<lambda>m.
     case mkdirs (ancestors p) (mFs m) of
       None \<Rightarrow> (Inl (Sys ''not a directory''), m)
     | Some fs \<Rightarrow> (Inr (), set_fs fs m))"

definition os_Link :: "'c env \<Rightarrow> string \<Rightarrow> string \<Rightarrow> 'c machine \<Rightarrow> (sys_error + unit) \<times> 'c machine" where
  "os_Link e src dst = syscall e (\<lambda>m.
     case (get src m, get dst m) of
       (Some (File i c mode), None) \<Rightarrow> (Inr (), set_fs (AList.update dst (File i c mode) (mFs m)) m)
     | (None, _) \<Rightarrow> (Inl NotExist, m)
     | _ \<Rightarrow> (Inl (Sys ''link''), m))"

definition chmod_inode :: "nat \<Rightarrow> nat \<Rightarrow> files \<Rightarrow> files" where
  "chmod_inode i mode fs =
    map (\<lambda>(p, n). (p, case n of Dir \<Rightarrow> Dir | File j c old \<Rightarrow> File j c (if j = i then mode else old))) fs"

definition os_Chmod :: "'c env \<Rightarrow> string \<Rightarrow> nat \<Rightarrow> 'c machine \<Rightarrow> (sys_error + unit) \<times> 'c machine" where
  "os_Chmod e p mode = syscall e (\<lambda>m.
     case get p m of
       None \<Rightarrow> (Inl NotExist, m)
     | Some Dir \<Rightarrow> (Inr (), m)
     | Some (File i c old) \<Rightarrow> (Inr (), set_fs (chmod_inode i mode (mFs m)) m))"

definition os_Open :: "'c env \<Rightarrow> string \<Rightarrow> 'c machine \<Rightarrow> (sys_error + string) \<times> 'c machine" where
  "os_Open e p = syscall e (\<lambda>m.
     case get p m of None \<Rightarrow> (Inl NotExist, m) | Some n \<Rightarrow> (Inr (content n), m))"

definition fresh_inode :: "files \<Rightarrow> nat" where
  "fresh_inode fs = Suc (foldr (\<lambda>(p, n) k. case n of Dir \<Rightarrow> k | File i c mode \<Rightarrow> max i k) fs 0)"

text \<open>\<open>os.CreateTemp\<close> retries until the name is new; \<open>tmp_suffix\<close> is the name it ends with.\<close>

definition os_CreateTemp :: "'c env \<Rightarrow> string \<Rightarrow> string \<Rightarrow> 'c machine \<Rightarrow> (sys_error + string) \<times> 'c machine" where
  "os_CreateTemp e dir prefix = syscall e (\<lambda>m.
     let p = filepath_Join dir (prefix @ tmp_suffix e (mSys m)) in
     case get p m of
       None \<Rightarrow> (Inr p, set_fs (AList.update p (File (fresh_inode (mFs m)) '''' 384) (mFs m)) m)
     | Some _ \<Rightarrow> (Inl (Sys ''exists''), m))"

text \<open>A write that fails leaves a prefix of the data in the file.\<close>

definition write_file :: "string \<Rightarrow> string \<Rightarrow> 'c machine \<Rightarrow> 'c machine" where
  "write_file p data m =
    (case get p m of
       Some (File i c mode) \<Rightarrow> set_fs (AList.update p (File i data mode) (mFs m)) m
     | _ \<Rightarrow> m)"

definition io_Copy :: "'c env \<Rightarrow> string \<Rightarrow> string \<Rightarrow> 'c machine \<Rightarrow> (sys_error + unit) \<times> 'c machine" where
  "io_Copy e p data m =
    (let k = mSys m; m = m\<lparr>mSys := Suc (mSys m)\<rparr> in
     case fault e k of
       Some err \<Rightarrow> (Inl (Sys err), write_file p (take (short_write e k) data) m)
     | None \<Rightarrow> (Inr (), write_file p data m))"

definition os_Sync :: "'c env \<Rightarrow> 'c machine \<Rightarrow> (sys_error + unit) \<times> 'c machine" where
  "os_Sync e = syscall e (\<lambda>m. (Inr (), m))"

definition os_Close :: "'c env \<Rightarrow> 'c machine \<Rightarrow> (sys_error + unit) \<times> 'c machine" where
  "os_Close e = syscall e (\<lambda>m. (Inr (), m))"

definition os_Rename :: "'c env \<Rightarrow> string \<Rightarrow> string \<Rightarrow> 'c machine \<Rightarrow> (sys_error + unit) \<times> 'c machine" where
  "os_Rename e src dst = syscall e (\<lambda>m.
     case get src m of
       None \<Rightarrow> (Inl NotExist, m)
     | Some n \<Rightarrow> (Inr (), set_fs (AList.update dst n (AList.delete src (mFs m))) m))"

definition os_Remove :: "'c env \<Rightarrow> string \<Rightarrow> 'c machine \<Rightarrow> (sys_error + unit) \<times> 'c machine" where
  "os_Remove e p = syscall e (\<lambda>m.
     case get p m of
       None \<Rightarrow> (Inl NotExist, m)
     | Some _ \<Rightarrow> (Inr (), set_fs (AList.delete p (mFs m)) m))"

text \<open>\<open>os.ReadDir\<close>: the entries of a directory, sorted by name, with whether each is a directory.\<close>

definition entries :: "string \<Rightarrow> files \<Rightarrow> (string \<times> bool) list" where
  "entries dir fs =
    map (\<lambda>n. (n, map_of fs (filepath_Join dir n) = Some Dir))
      (sort (remdups (map filepath_Base (filter (\<lambda>p. p = filepath_Join dir (filepath_Base p)) (map fst fs)))))"

definition os_ReadDir :: "'c env \<Rightarrow> string \<Rightarrow> 'c machine \<Rightarrow> (sys_error + (string \<times> bool) list) \<times> 'c machine" where
  "os_ReadDir e p = syscall e (\<lambda>m.
     case get p m of
       None \<Rightarrow> (Inl NotExist, m)
     | Some (File _ _ _) \<Rightarrow> (Inl (Sys ''not a directory''), m)
     | Some Dir \<Rightarrow> (Inr (entries p (mFs m)), m))"

subsection \<open>Commands\<close>

text \<open>
  \<open>exec.CommandContext\<close> does not start a command when the context is done already, and a command
  that is killed reports the error it has.
\<close>

definition run_script :: "'c env \<Rightarrow> ctx \<Rightarrow> string \<Rightarrow> string list \<Rightarrow> 'c machine \<Rightarrow> (string \<times> k3s_error option) \<times> 'c machine" where
  "run_script e c path vars m =
    (case ctx_Err c (mClock m) of
       Some err \<Rightarrow> (('''', Some (CtxErr err)), m)
     | None \<Rightarrow>
       (case script e path vars c m of
          ((out, err), d, fs, cl) \<Rightarrow>
            ((out, map_option SysErr err),
             (set_fs fs m)\<lparr>mClock := mClock m + int d, mCluster := cl, mRan := (path, vars) # mRan m\<rparr>)))"

definition run_kubectl :: "'c env \<Rightarrow> ctx \<Rightarrow> string list \<Rightarrow> 'c machine \<Rightarrow> (string \<times> k3s_error option) \<times> 'c machine" where
  "run_kubectl e c args m =
    (case ctx_Err c (mClock m) of
       Some err \<Rightarrow> (('''', Some (CtxErr err)), m)
     | None \<Rightarrow>
       (case kubectl_do e args c m of
          ((out, err), d, cl) \<Rightarrow>
            ((out, map_option SysErr err), m\<lparr>mClock := mClock m + int d, mCluster := cl\<rparr>)))"

definition run_get :: "'c env \<Rightarrow> ctx \<Rightarrow> string list \<Rightarrow> 'c machine \<Rightarrow> (string \<times> k3s_error option) \<times> 'c machine" where
  "run_get e c args m =
    (case ctx_Err c (mClock m) of
       Some err \<Rightarrow> (('''', Some (CtxErr err)), m)
     | None \<Rightarrow>
       (case kubectl_get e args c m of
          ((out, err), d) \<Rightarrow> ((out, map_option SysErr err), m\<lparr>mClock := mClock m + int d\<rparr>)))"

end
