(* ===== verification/K3s_Exec.thy ===== *)
theory K3s_Exec
  imports Machine
begin

text \<open>
  \<open>ExecInstaller\<close> of \<open>antsd/internal/k3s/exec.go\<close>: the installation through the K3s scripts, the
  air-gap assets it restores before, the role read from the systemd units, the readiness polls.
\<close>

definition installScriptPath :: string where
  "installScriptPath = ''/usr/local/bin/install-k3s.sh''"

definition serverUninstallScriptPath :: string where
  "serverUninstallScriptPath = ''/usr/local/bin/k3s-uninstall.sh''"

definition agentUninstallScriptPath :: string where
  "agentUninstallScriptPath = ''/usr/local/bin/k3s-agent-uninstall.sh''"

definition systemdServerUnit :: string where
  "systemdServerUnit = ''k3s.service''"

definition systemdAgentUnit :: string where
  "systemdAgentUnit = ''k3s-agent.service''"

text \<open>The constants \<open>binPath\<close>, \<open>imagesPath\<close>, \<open>vaultPath\<close> of the code; the first is a field of the installer too.\<close>

definition defaultBinPath :: string where
  "defaultBinPath = ''/usr/local/bin/k3s''"

definition imagesPath :: string where
  "imagesPath = ''/var/lib/rancher/k3s/agent/images''"

definition vaultPath :: string where
  "vaultPath = ''/usr/lib/ants/k3s''"

definition vaultBinName :: string where
  "vaultBinName = ''k3s''"

definition vaultImagesName :: string where
  "vaultImagesName = ''images''"

definition systemdUnitDir :: string where
  "systemdUnitDir = ''/etc/systemd/system''"

definition agentKubeconfigPath :: string where
  "agentKubeconfigPath = ''/var/lib/rancher/k3s/agent/kubelet.kubeconfig''"

definition readyPollInterval :: duration where
  "readyPollInterval = 3 * second"

definition readyConditionPath :: string where
  "readyConditionPath = ''jsonpath={.status.conditions[?(@.type==''@[CHR 0x22]@''Ready''@[CHR 0x22]@'')].status}''"

record exec_installer =
  token :: string
  nodeName :: string
  unitDir :: string
  binPath :: string
  imagesDir :: string
  vaultDir :: string

definition NewExecInstaller :: "string \<Rightarrow> string \<Rightarrow> exec_installer" where
  "NewExecInstaller tok name =
    \<lparr>token = tok, nodeName = name, unitDir = systemdUnitDir, binPath = defaultBinPath,
     imagesDir = imagesPath, vaultDir = vaultPath\<rparr>"

subsection \<open>Texts\<close>

definition truncate :: "string \<Rightarrow> string" where
  "truncate output =
    (let output = TrimSpace output; maxLen = 1024 in
     if length output \<le> maxLen then output
     else
       let half = maxLen div 2 in
       take half output @ [CHR 0x0A] @ ''[...]'' @ [CHR 0x0A] @ drop (length output - half) output)"

subsection \<open>Assets\<close>

fun sys_k3s :: "sys_error \<Rightarrow> k3s_error" where
  "sys_k3s NotExist = SysErr ''not exist''"
| "sys_k3s (Sys err) = SysErr err"

text \<open>\<open>copyFile\<close>; the deferred removal of the temporary file runs on every return after its creation.\<close>

definition removing :: "'c env \<Rightarrow> string \<Rightarrow> k3s_error option \<times> 'c machine \<Rightarrow> k3s_error option \<times> 'c machine" where
  "removing e tmp r = (fst r, snd (os_Remove e tmp (snd r)))"

definition write_tmp :: "'c env \<Rightarrow> string \<Rightarrow> string \<Rightarrow> nat \<Rightarrow> string \<Rightarrow> 'c machine \<Rightarrow> k3s_error option \<times> 'c machine" where
  "write_tmp e tmp data mode dst m =
    (case io_Copy e tmp data m of
       (Inl err, m) \<Rightarrow> (Some (sys_k3s err), snd (os_Close e m)) | (Inr _, m) \<Rightarrow>
     case os_Sync e m of
       (Inl err, m) \<Rightarrow> (Some (sys_k3s err), snd (os_Close e m)) | (Inr _, m) \<Rightarrow>
     case os_Chmod e tmp mode m of
       (Inl err, m) \<Rightarrow> (Some (sys_k3s err), snd (os_Close e m)) | (Inr _, m) \<Rightarrow>
     case os_Close e m of
       (Inl err, m) \<Rightarrow> (Some (sys_k3s err), m) | (Inr _, m) \<Rightarrow>
     case os_Rename e tmp dst m of
       (Inl err, m) \<Rightarrow> (Some (sys_k3s err), m) | (Inr _, m) \<Rightarrow> (None, m))"

definition copyFile :: "'c env \<Rightarrow> string \<Rightarrow> string \<Rightarrow> nat \<Rightarrow> 'c machine \<Rightarrow> k3s_error option \<times> 'c machine" where
  "copyFile e src dst mode m =
    (case os_Open e src m of (Inl err, m) \<Rightarrow> (Some (sys_k3s err), m) | (Inr data, m) \<Rightarrow>
     case os_CreateTemp e (filepath_Dir dst) (filepath_Base dst @ ''.tmp-'') m of
       (Inl err, m) \<Rightarrow> (Some (sys_k3s err), m)
     | (Inr tmp, m) \<Rightarrow> removing e tmp (write_tmp e tmp data mode dst m))"

definition stageAsset :: "'c env \<Rightarrow> string \<Rightarrow> string \<Rightarrow> nat \<Rightarrow> 'c machine \<Rightarrow> k3s_error option \<times> 'c machine" where
  "stageAsset e src dst mode m =
    (case os_Stat e dst m of
       (Inr _, m) \<Rightarrow> (None, m)
     | (Inl (Sys err), m) \<Rightarrow> (Some (Wrap ''stat'' (SysErr err)), m)
     | (Inl NotExist, m) \<Rightarrow>
       case os_MkdirAll e (filepath_Dir dst) m of
         (Inl err, m) \<Rightarrow> (Some (Wrap ''create'' (sys_k3s err)), m)
       | (Inr _, m) \<Rightarrow>
         case os_Link e src dst m of
           (Inl _, m) \<Rightarrow>
             (case copyFile e src dst mode m of
                (Some err, m) \<Rightarrow> (Some (Wrap ''restore from the air-gap asset vault'' err), m)
              | (None, m) \<Rightarrow> (None, m))
         | (Inr _, m) \<Rightarrow>
             (case os_Chmod e dst mode m of
                (Inl err, m) \<Rightarrow> (Some (Wrap ''set the mode'' (sys_k3s err)), m)
              | (Inr _, m) \<Rightarrow> (None, m)))"

fun stageArchives ::
  "'c env \<Rightarrow> string \<Rightarrow> string \<Rightarrow> (string \<times> bool) list \<Rightarrow> 'c machine \<Rightarrow> k3s_error option \<times> 'c machine" where
  "stageArchives e vaultImages images [] m = (None, m)"
| "stageArchives e vaultImages images ((name, is_dir) # archives) m =
     (if is_dir then stageArchives e vaultImages images archives m
      else
        case stageAsset e (filepath_Join vaultImages name) (filepath_Join images name) 420 m of
          (Some err, m) \<Rightarrow> (Some err, m)
        | (None, m) \<Rightarrow> stageArchives e vaultImages images archives m)"

definition stageAirGapAssets :: "'c env \<Rightarrow> exec_installer \<Rightarrow> ctx \<Rightarrow> 'c machine \<Rightarrow> k3s_error option \<times> 'c machine" where
  "stageAirGapAssets e i c m =
    (case ctx_Err c (mClock m) of Some err \<Rightarrow> (Some (CtxErr err), m) | None \<Rightarrow>
     case os_Stat e (vaultDir i) m of
       (Inl err, m) \<Rightarrow> (Some (Wrap ''stat the air-gap asset vault'' (sys_k3s err)), m) | (Inr _, m) \<Rightarrow>
     case stageAsset e (filepath_Join (vaultDir i) vaultBinName) (binPath i) 493 m of
       (Some err, m) \<Rightarrow> (Some err, m) | (None, m) \<Rightarrow>
     case os_ReadDir e (filepath_Join (vaultDir i) vaultImagesName) m of
       (Inl err, m) \<Rightarrow> (Some (Wrap ''read the vaulted image archives'' (sys_k3s err)), m)
     | (Inr archives, m) \<Rightarrow>
         stageArchives e (filepath_Join (vaultDir i) vaultImagesName) (imagesDir i) archives m)"

subsection \<open>Installation\<close>

definition runInstallScript ::
  "'c env \<Rightarrow> exec_installer \<Rightarrow> ctx \<Rightarrow> string list \<Rightarrow> 'c machine \<Rightarrow> k3s_error option \<times> 'c machine" where
  "runInstallScript e i c extraEnv m =
    (case stageAirGapAssets e i c m of
       (Some err, m) \<Rightarrow> (Some (Wrap ''prepare the air-gap assets'' err), m)
     | (None, m) \<Rightarrow>
       let vars = environ e @ [''INSTALL_K3S_SKIP_DOWNLOAD=true'', ''K3S_TOKEN='' @ token i,
             ''K3S_NODE_NAME='' @ nodeName i] @ extraEnv
       in case run_script e c installScriptPath vars m of
            ((out, Some err), m) \<Rightarrow> (Some (Wrap (truncate out) err), m)
          | ((out, None), m) \<Rightarrow> (None, m))"

definition exec_InstallServerInit :: "'c env \<Rightarrow> exec_installer \<Rightarrow> ctx \<Rightarrow> 'c machine \<Rightarrow> k3s_error option \<times> 'c machine" where
  "exec_InstallServerInit e i c m = runInstallScript e i c [''INSTALL_K3S_EXEC=server --cluster-init''] m"

definition exec_InstallServerJoin :: "'c env \<Rightarrow> exec_installer \<Rightarrow> ctx \<Rightarrow> string \<Rightarrow> 'c machine \<Rightarrow> k3s_error option \<times> 'c machine" where
  "exec_InstallServerJoin e i c serverIP m =
    runInstallScript e i c [''INSTALL_K3S_EXEC=server --server '' @ joinURL serverIP] m"

definition exec_InstallAgent :: "'c env \<Rightarrow> exec_installer \<Rightarrow> ctx \<Rightarrow> string \<Rightarrow> 'c machine \<Rightarrow> k3s_error option \<times> 'c machine" where
  "exec_InstallAgent e i c serverIP m =
    runInstallScript e i c [''INSTALL_K3S_EXEC=agent'', ''K3S_URL='' @ joinURL serverIP] m"

definition systemdUnitExists :: "'c env \<Rightarrow> string \<Rightarrow> 'c machine \<Rightarrow> (k3s_error + bool) \<times> 'c machine" where
  "systemdUnitExists e path m =
    (case os_Stat e path m of
       (Inr _, m) \<Rightarrow> (Inr True, m)
     | (Inl NotExist, m) \<Rightarrow> (Inr False, m)
     | (Inl (Sys err), m) \<Rightarrow> (Inl (Wrap ''stat'' (SysErr err)), m))"

definition exec_InstalledRole :: "'c env \<Rightarrow> exec_installer \<Rightarrow> 'c machine \<Rightarrow> (k3s_error + role) \<times> 'c machine" where
  "exec_InstalledRole e i m =
    (case systemdUnitExists e (filepath_Join (unitDir i) systemdServerUnit) m of
       (Inl err, m) \<Rightarrow> (Inl err, m)
     | (Inr hasServer, m) \<Rightarrow>
       case systemdUnitExists e (filepath_Join (unitDir i) systemdAgentUnit) m of
         (Inl err, m) \<Rightarrow> (Inl err, m)
       | (Inr hasAgent, m) \<Rightarrow>
           if hasServer \<and> hasAgent then (Inl Ambiguous, m)
           else if hasServer then (Inr RoleServer, m)
           else if hasAgent then (Inr RoleAgent, m)
           else (Inl (Wrap ''no k3s unit found'' ErrNotInstalled), m))"

definition runUninstallScript :: "'c env \<Rightarrow> ctx \<Rightarrow> role \<Rightarrow> 'c machine \<Rightarrow> k3s_error option \<times> 'c machine" where
  "runUninstallScript e c r m =
    (let path = (if r = RoleAgent then agentUninstallScriptPath else serverUninstallScriptPath) in
     case run_script e c path (environ e) m of
       ((out, Some err), m) \<Rightarrow> (map_option CtxErr (ctx_Err c (mClock m)), m)
     | ((out, None), m) \<Rightarrow> (None, m))"

definition exec_Convert ::
  "'c env \<Rightarrow> exec_installer \<Rightarrow> ctx \<Rightarrow> role \<Rightarrow> string \<Rightarrow> 'c machine \<Rightarrow> k3s_error option \<times> 'c machine" where
  "exec_Convert e i c to serverIP m =
    (case exec_InstalledRole e i m of
       (Inl err, m) \<Rightarrow> (Some (Wrap ''cannot convert this node'' err), m)
     | (Inr from, m) \<Rightarrow>
       if from = to then (None, m)
       else
         case runUninstallScript e c from m of
           (Some err, m) \<Rightarrow> (Some err, m)
         | (None, m) \<Rightarrow>
           case exec_InstalledRole e i m of
             (Inr r, m) \<Rightarrow> (Some (LeftBehind (Some r)), m)
           | (Inl err, m) \<Rightarrow>
             if \<not> is_ErrNotInstalled err then (Some (LeftBehind None), m)
             else if to = RoleServer then exec_InstallServerJoin e i c serverIP m
             else exec_InstallAgent e i c serverIP m)"

subsection \<open>Readiness\<close>

text \<open>
  \<open>pollUntilReady\<close>. \<open>tick\<close> is the next instant the ticker has a value: the ticker has a buffer of one
  and drops what does not fit, so after a value taken at \<open>t\<close> the next one is the first multiple of
  the interval after \<open>t\<close>. The recursion has fuel; \<open>None\<close> means it ran out.
\<close>

definition next_tick :: "time \<Rightarrow> time \<Rightarrow> time" where
  "next_tick started t = started + readyPollInterval * ((t - started) div readyPollInterval + 1)"

fun poll ::
  "nat \<Rightarrow> 'c env \<Rightarrow> ctx \<Rightarrow> ('c machine \<Rightarrow> k3s_error option \<times> 'c machine) \<Rightarrow> time \<Rightarrow> time \<Rightarrow> 'c machine
    \<Rightarrow> (k3s_error option \<times> 'c machine) option" where
  "poll 0 e c attempt started tick m = None"
| "poll (Suc fuel) e c attempt started tick m =
     (case attempt m of
        (None, m) \<Rightarrow> Some (None, m)
      | (Some err, m) \<Rightarrow>
        let ready = max (mClock m) tick in
        case ctx_done c of
          None \<Rightarrow> poll fuel e c attempt started (next_tick started ready) (m\<lparr>mClock := ready\<rparr>)
        | Some (d, why) \<Rightarrow>
          let done = max (mClock m) d in
          if done < ready \<or> done = ready \<and> select_ctx e ready
          then Some (Some (Wrap ''gave up waiting for k3s readiness'' (CtxErr why)), m\<lparr>mClock := done\<rparr>)
          else poll fuel e c attempt started (next_tick started ready) (m\<lparr>mClock := ready\<rparr>))"

definition pollUntilReady ::
  "nat \<Rightarrow> 'c env \<Rightarrow> ctx \<Rightarrow> ('c machine \<Rightarrow> k3s_error option \<times> 'c machine) \<Rightarrow> 'c machine
    \<Rightarrow> (k3s_error option \<times> 'c machine) option" where
  "pollUntilReady fuel e c attempt m = poll fuel e c attempt (mClock m) (mClock m + readyPollInterval) m"

definition server_probe :: "'c env \<Rightarrow> exec_installer \<Rightarrow> ctx \<Rightarrow> 'c machine \<Rightarrow> k3s_error option \<times> 'c machine" where
  "server_probe e i c m =
    (case run_get e c [binPath i, ''kubectl'', ''get'', ''--raw=/readyz''] m of
       ((out, Some err), m) \<Rightarrow> (Some (Wrap (truncate out) err), m)
     | ((out, None), m) \<Rightarrow> (None, m))"

definition agent_probe :: "'c env \<Rightarrow> exec_installer \<Rightarrow> ctx \<Rightarrow> 'c machine \<Rightarrow> k3s_error option \<times> 'c machine" where
  "agent_probe e i c m =
    (case run_get e c [binPath i, ''kubectl'', ''--kubeconfig'', agentKubeconfigPath, ''get'', ''node'',
         nodeName i, ''-o'', readyConditionPath] m of
       ((out, Some err), m) \<Rightarrow> (Some (Wrap (truncate out) err), m)
     | ((out, None), m) \<Rightarrow>
         if TrimSpace out \<noteq> ''True'' then (Some (NotReady (TrimSpace out)), m) else (None, m))"

text \<open>
  \<open>WaitServerReady\<close> and \<open>WaitAgentReady\<close>, with the fuel \<open>wait_fuel\<close> that a deadline makes enough
  (theorem \<open>readiness_wait_ends\<close>). Every caller sets a deadline; without one the Go loop may never
  return, which is the answer \<open>Opaque\<close> here.
\<close>

definition wait_fuel :: "ctx \<Rightarrow> 'c machine \<Rightarrow> nat" where
  "wait_fuel c m = (case ctx_done c of None \<Rightarrow> 0 | Some (d, why) \<Rightarrow> nat ((d - mClock m) div readyPollInterval) + 3)"

definition returning :: "(k3s_error option \<times> 'c machine) option \<Rightarrow> 'c machine \<Rightarrow> k3s_error option \<times> 'c machine" where
  "returning r m = (case r of Some x \<Rightarrow> x | None \<Rightarrow> (Some (Opaque ''waiting''), m))"

definition exec_WaitServerReady :: "'c env \<Rightarrow> exec_installer \<Rightarrow> ctx \<Rightarrow> 'c machine \<Rightarrow> k3s_error option \<times> 'c machine" where
  "exec_WaitServerReady e i c m = returning (pollUntilReady (wait_fuel c m) e c (server_probe e i c) m) m"

definition exec_WaitAgentReady :: "'c env \<Rightarrow> exec_installer \<Rightarrow> ctx \<Rightarrow> 'c machine \<Rightarrow> k3s_error option \<times> 'c machine" where
  "exec_WaitAgentReady e i c m = returning (pollUntilReady (wait_fuel c m) e c (agent_probe e i c) m) m"

definition ExecInstaller :: "'c env \<Rightarrow> exec_installer \<Rightarrow> 'c machine installer" where
  "ExecInstaller e i =
    \<lparr>iNow = mClock, InstallServerInit = exec_InstallServerInit e i, InstallServerJoin = exec_InstallServerJoin e i,
     InstallAgent = exec_InstallAgent e i, Convert = exec_Convert e i,
     WaitServerReady = exec_WaitServerReady e i, WaitAgentReady = exec_WaitAgentReady e i,
     InstalledRole = exec_InstalledRole e i\<rparr>"

end
