(* ===== verification/K3s_Exec_Facts.thy ===== *)
theory K3s_Exec_Facts
  imports K3s_Exec
begin

text \<open>
  What \<open>ExecInstaller\<close> keeps: its contract towards the workflows, the polls that end, the
  conversions that never install over an existing installation, the assets that are never seen half
  written, the outputs that are kept short.
\<close>

named_theorems machine_frame \<open>what a system call leaves of the file system\<close>

subsection \<open>System calls that only read\<close>

definition reads :: "'c machine \<Rightarrow> 'c machine \<Rightarrow> bool" where
  "reads m m' \<longleftrightarrow> mFs m' = mFs m \<and> mHist m' = mHist m \<and> mRan m' = mRan m \<and> mCluster m' = mCluster m"

lemma reads_refl [simp]: "reads m m"
  by (simp add: reads_def)

lemma reads_trans: "reads m m1 \<Longrightarrow> reads m1 m2 \<Longrightarrow> reads m m2"
  by (simp add: reads_def)

lemma syscall_reads:
  assumes "\<And>m r m'. f m = (r, m') \<Longrightarrow> reads m m' \<and> mClock m' = mClock m" and "syscall e f m = (r, m')"
  shows "reads m m' \<and> mClock m' = mClock m"
proof (cases "fault e (mSys m)")
  case None
  then have "f (m\<lparr>mSys := Suc (mSys m)\<rparr>) = (r, m')" using assms(2) by (simp add: syscall_def Let_def)
  from assms(1) [OF this] show ?thesis by (simp add: reads_def)
next
  case (Some err)
  then show ?thesis using assms(2) by (auto simp: syscall_def Let_def reads_def)
qed

lemma os_Stat_reads: "os_Stat e p m = (r, m') \<Longrightarrow> reads m m' \<and> mClock m' = mClock m"
  unfolding os_Stat_def by (rule syscall_reads) auto

lemma os_Open_reads: "os_Open e p m = (r, m') \<Longrightarrow> reads m m' \<and> mClock m' = mClock m"
  unfolding os_Open_def by (rule syscall_reads) (auto split: option.splits)

lemma os_Sync_reads: "os_Sync e m = (r, m') \<Longrightarrow> reads m m' \<and> mClock m' = mClock m"
  unfolding os_Sync_def by (rule syscall_reads) auto

lemma os_Close_reads: "os_Close e m = (r, m') \<Longrightarrow> reads m m' \<and> mClock m' = mClock m"
  unfolding os_Close_def by (rule syscall_reads) auto

lemma os_Stat_answer:
  "os_Stat e p m = (Inr n, m') \<Longrightarrow> get p m = Some n"
  "os_Stat e p m = (Inl NotExist, m') \<Longrightarrow> get p m = None"
  by (auto simp: os_Stat_def syscall_def get_def Let_def split: option.splits)

lemma run_get_reads: "run_get e c args m = (r, m') \<Longrightarrow> reads m m' \<and> mClock m \<le> mClock m'"
  by (auto simp: run_get_def reads_def split: option.splits prod.splits)

subsection \<open>The role\<close>

definition unit_role :: "exec_installer \<Rightarrow> 'c machine \<Rightarrow> role set" where
  "unit_role i m =
    (if get (filepath_Join (unitDir i) systemdServerUnit) m = None then {} else {RoleServer}) \<union>
    (if get (filepath_Join (unitDir i) systemdAgentUnit) m = None then {} else {RoleAgent})"

lemma unit_role_reads: "reads m m' \<Longrightarrow> unit_role i m' = unit_role i m"
  by (simp add: unit_role_def reads_def get_def)

lemma systemdUnitExists_spec:
  assumes "systemdUnitExists e p m = (r, m')"
  shows "reads m m'" and "mClock m' = mClock m" and "r = Inr b \<Longrightarrow> b \<longleftrightarrow> get p m \<noteq> None"
    and "r = Inl err \<Longrightarrow> \<not> is_ErrNotInstalled err \<and> err \<noteq> Ambiguous"
proof -
  obtain x m1 where x: "os_Stat e p m = (x, m1)" by fastforce
  have m': "m' = m1"
    using assms by (auto simp: systemdUnitExists_def x split: sum.splits sys_error.splits)
  show "reads m m'" "mClock m' = mClock m" using os_Stat_reads [OF x] m' by simp_all
  show "r = Inr b \<Longrightarrow> b \<longleftrightarrow> get p m \<noteq> None"
    using assms os_Stat_answer [of e p m] x
    by (auto simp: systemdUnitExists_def split: sum.splits sys_error.splits)
  show "r = Inl err \<Longrightarrow> \<not> is_ErrNotInstalled err \<and> err \<noteq> Ambiguous"
    using assms by (auto simp: systemdUnitExists_def x split: sum.splits sys_error.splits)
qed

text \<open>The answer of \<open>InstalledRole\<close> in terms of the units: an error of the system is never a role.\<close>

lemma exec_InstalledRole_spec:
  assumes "exec_InstalledRole e i m = (r, m')"
  shows "reads m m' \<and> mClock m' = mClock m"
    and "r = Inr role \<Longrightarrow> unit_role i m = {role}"
    and "r = Inl err \<Longrightarrow> is_ErrNotInstalled err \<Longrightarrow> unit_role i m = {}"
    and "r = Inl Ambiguous \<Longrightarrow> unit_role i m = {RoleServer, RoleAgent}"
proof -
  obtain s m1 where s: "systemdUnitExists e (filepath_Join (unitDir i) systemdServerUnit) m = (s, m1)"
    by fastforce
  obtain a m2 where a: "systemdUnitExists e (filepath_Join (unitDir i) systemdAgentUnit) m1 = (a, m2)"
    by fastforce
  note S = systemdUnitExists_spec [OF s] and A = systemdUnitExists_spec [OF a]
  have same: "get p m1 = get p m" for p using S(1) by (simp add: reads_def get_def)
  have ran: "reads m m2 \<and> mClock m2 = mClock m" using S(1,2) A(1,2) reads_trans by metis
  let ?server = "get (filepath_Join (unitDir i) systemdServerUnit) m \<noteq> None"
  let ?agent = "get (filepath_Join (unitDir i) systemdAgentUnit) m \<noteq> None"
  consider (server_error) err1 where "s = Inl err1" "\<not> is_ErrNotInstalled err1" "err1 \<noteq> Ambiguous"
    | (agent_error) err2 where "s = Inr ?server" "a = Inl err2" "\<not> is_ErrNotInstalled err2" "err2 \<noteq> Ambiguous"
    | (both) "s = Inr ?server" "a = Inr ?agent"
    using S(3,4) A(3,4) same by (cases s; cases a) auto
  then have "(reads m m' \<and> mClock m' = mClock m) \<and>
    (\<forall>role. r = Inr role \<longrightarrow> unit_role i m = {role}) \<and>
    (\<forall>err. r = Inl err \<longrightarrow> is_ErrNotInstalled err \<longrightarrow> unit_role i m = {}) \<and>
    (r = Inl Ambiguous \<longrightarrow> unit_role i m = {RoleServer, RoleAgent})"
  proof cases
    case server_error
    then show ?thesis using assms S(1,2) by (auto simp: exec_InstalledRole_def s)
  next
    case agent_error
    then show ?thesis using assms ran by (auto simp: exec_InstalledRole_def s a)
  next
    case both
    then show ?thesis
      using assms ran by (cases ?server; cases ?agent) (auto simp: exec_InstalledRole_def s a unit_role_def)
  qed
  then show "reads m m' \<and> mClock m' = mClock m"
    and "r = Inr role \<Longrightarrow> unit_role i m = {role}"
    and "r = Inl err \<Longrightarrow> is_ErrNotInstalled err \<Longrightarrow> unit_role i m = {}"
    and "r = Inl Ambiguous \<Longrightarrow> unit_role i m = {RoleServer, RoleAgent}"
    by blast+
qed

subsection \<open>The polls\<close>

lemma server_probe_reads: "server_probe e i c m = (r, m') \<Longrightarrow> reads m m' \<and> mClock m \<le> mClock m'"
  using run_get_reads by (fastforce simp: server_probe_def split: prod.splits option.splits)

lemma agent_probe_reads: "agent_probe e i c m = (r, m') \<Longrightarrow> reads m m' \<and> mClock m \<le> mClock m'"
  using run_get_reads by (fastforce simp: agent_probe_def split: prod.splits option.splits if_splits)

lemma probe_done:
  "ctx_Err c (mClock m) = Some err \<Longrightarrow> \<exists>err'. server_probe e i c m = (Some err', m)"
  "ctx_Err c (mClock m) = Some err \<Longrightarrow> \<exists>err'. agent_probe e i c m = (Some err', m)"
  by (auto simp: server_probe_def agent_probe_def run_get_def)

text \<open>An attempt that reads, takes time, and fails at once when the context is done.\<close>

definition attempt_ok :: "ctx \<Rightarrow> ('c machine \<Rightarrow> k3s_error option \<times> 'c machine) \<Rightarrow> bool" where
  "attempt_ok c attempt \<longleftrightarrow>
    (\<forall>m r m'. attempt m = (r, m') \<longrightarrow> reads m m' \<and> mClock m \<le> mClock m') \<and>
    (\<forall>m. ctx_Err c (mClock m) \<noteq> None \<longrightarrow> (\<exists>err. attempt m = (Some err, m)))"

lemma attempt_okI:
  assumes "\<And>m r m'. attempt m = (r, m') \<Longrightarrow> reads m m' \<and> mClock m \<le> mClock m'"
    and "\<And>m err. ctx_Err c (mClock m) = Some err \<Longrightarrow> \<exists>err'. attempt m = (Some err', m)"
  shows "attempt_ok c attempt"
  using assms unfolding attempt_ok_def by (metis not_None_eq)

lemma attempt_ok_server: "attempt_ok c (server_probe e i c)"
  by (rule attempt_okI) (rule server_probe_reads probe_done, assumption)+

lemma attempt_ok_agent: "attempt_ok c (agent_probe e i c)"
  by (rule attempt_okI) (rule agent_probe_reads probe_done, assumption)+

lemma interval_pos: "0 < readyPollInterval"
  by (simp add: readyPollInterval_def second_def)

lemma next_tick_after: "t < next_tick started t"
proof -
  have "readyPollInterval * ((t - started) div readyPollInterval) + (t - started) mod readyPollInterval
      = t - started" by simp
  moreover have "(t - started) mod readyPollInterval < readyPollInterval" using interval_pos by simp
  moreover have "readyPollInterval * ((t - started) div readyPollInterval + 1)
      = readyPollInterval * ((t - started) div readyPollInterval) + readyPollInterval"
    by (simp only: distrib_left mult_1_right)
  ultimately show ?thesis unfolding next_tick_def by linarith
qed

lemma poll_reads:
  assumes "attempt_ok c attempt"
  shows "poll fuel e c attempt started tick m = Some (r, m') \<Longrightarrow> reads m m' \<and> mClock m \<le> mClock m'
    \<and> (r \<noteq> None \<longrightarrow> ctx_Err c (mClock m') \<noteq> None)"
proof (induction fuel arbitrary: tick m)
  case (Suc fuel)
  obtain x m1 where a: "attempt m = (x, m1)" by fastforce
  then have m1: "reads m m1" "mClock m \<le> mClock m1" using assms by (auto simp: attempt_ok_def)
  define ready where "ready = max (mClock m1) tick"
  let ?goal = "reads m m' \<and> mClock m \<le> mClock m' \<and> (r \<noteq> None \<longrightarrow> ctx_Err c (mClock m') \<noteq> None)"
  have later: ?goal
    if "poll fuel e c attempt started (next_tick started ready) (m1\<lparr>mClock := ready\<rparr>) = Some (r, m')"
    using Suc.IH [OF that] m1 by (simp add: reads_def ready_def)
  show ?case
  proof (cases x)
    case None
    then show ?thesis using Suc.prems m1 by (simp add: a)
  next
    case (Some err)
    show ?thesis
    proof (cases "ctx_done c")
      case None
      then show ?thesis using Suc.prems Some later by (simp add: a Let_def ready_def)
    next
      case (Some dw)
      then obtain d why where dw: "ctx_done c = Some (d, why)" by (cases dw) simp
      have stop: ?goal if "r = Some err'" "m' = m1\<lparr>mClock := max (mClock m1) d\<rparr>" for err'
        using that m1 dw by (simp add: reads_def ctx_Err_def)
      show ?thesis
        using Suc.prems \<open>x = Some err\<close> dw stop later
        by (auto simp: a Let_def ready_def split: if_splits)
    qed
  qed
qed simp

text \<open>
  Each turn waits for a later tick, so the deadline bounds the number of turns: those whose tick is
  not after it, one more for a tick that \<open>select\<close> prefers to the deadline, and a last one that finds
  the context done.
\<close>

lemma poll_past_deadline:
  assumes "attempt_ok c attempt" and "ctx_done c = Some (d, why)" and "d \<le> mClock m" and "mClock m < tick"
  shows "poll (Suc fuel) e c attempt started tick m \<noteq> None"
proof -
  have "ctx_Err c (mClock m) \<noteq> None" using assms(2,3) by (simp add: ctx_Err_def)
  then obtain err where "attempt m = (Some err, m)" using assms(1) by (auto simp: attempt_ok_def)
  then show ?thesis using assms by (simp add: Let_def)
qed

lemma next_tick_step: "started + readyPollInterval * k \<le> t \<Longrightarrow> started + readyPollInterval * (k + 1) \<le> next_tick started t"
proof -
  assume "started + readyPollInterval * k \<le> t"
  then have "readyPollInterval * k div readyPollInterval \<le> (t - started) div readyPollInterval"
    using interval_pos by (intro zdiv_mono1) simp_all
  then have "k \<le> (t - started) div readyPollInterval" using interval_pos by simp
  then show ?thesis using interval_pos by (simp add: next_tick_def)
qed

lemma poll_terminates:
  assumes "attempt_ok c attempt" and "ctx_done c = Some (d, why)"
    and "started + readyPollInterval * k \<le> tick" and "d < started + readyPollInterval * (k + int n)"
    and "n + 2 \<le> fuel"
  shows "poll fuel e c attempt started tick m \<noteq> None"
  using assms(3-5)
proof (induction fuel arbitrary: n k tick m)
  case (Suc fuel)
  obtain x m1 where a: "attempt m = (x, m1)" by fastforce
  define ready where "ready = max (mClock m1) tick"
  define m2 where "m2 = m1\<lparr>mClock := ready\<rparr>"
  have after: "ready < next_tick started ready" by (rule next_tick_after)
  have "poll fuel e c attempt started (next_tick started ready) m2 \<noteq> None"
  proof (cases "d \<le> ready")
    case True
    then show ?thesis
      using poll_past_deadline [OF assms(1,2), of m2 "next_tick started ready"] after Suc.prems(3)
      by (cases fuel) (simp_all add: m2_def)
  next
    case False
    then have "tick < d" by (simp add: ready_def)
    then have "0 < n" using Suc.prems(1,2) by (cases n) simp_all
    moreover have "started + readyPollInterval * (k + 1) \<le> next_tick started ready"
      using next_tick_step [of started k ready] Suc.prems(1) by (simp add: ready_def)
    ultimately show ?thesis
      using Suc.IH [of "k + 1" "next_tick started ready" "n - 1" m2] Suc.prems(2,3) by simp
  qed
  then show ?case using assms(2) by (simp add: a Let_def ready_def m2_def split: option.split)
qed simp

lemma pollUntilReady_terminates:
  assumes "attempt_ok c attempt" and "ctx_done c = Some (d, why)" and "wait_fuel c m \<le> fuel"
  shows "pollUntilReady fuel e c attempt m \<noteq> None"
proof -
  let ?q = "(d - mClock m) div readyPollInterval"
  have "d - mClock m < readyPollInterval * (?q + 1)"
    using next_tick_after [of "d" "mClock m"] by (simp add: next_tick_def)
  moreover have "readyPollInterval * (?q + 1) \<le> readyPollInterval * (1 + int (nat ?q))"
    using interval_pos by (intro mult_left_mono) simp_all
  ultimately have "d < mClock m + readyPollInterval * (1 + int (nat ?q))" by simp
  then show ?thesis
    unfolding pollUntilReady_def
    using poll_terminates [OF assms(1,2), of "mClock m" 1 "mClock m + readyPollInterval" "nat ?q" fuel] assms(2,3)
    by (simp add: wait_fuel_def)
qed

text \<open>
  C22: the wait for K3s always ends. With a deadline, or once antsd is cancelled, both readiness
  polls return after at most one probe per interval: they succeed, or the context is done; and
  waiting changes neither the files nor the cluster.
\<close>

theorem readiness_wait_ends:
  assumes "ctx_done c \<noteq> None"
    and "poll_of \<in> {server_probe e i c, agent_probe e i c}" and "wait_fuel c m \<le> fuel"
  shows "\<exists>r m'. pollUntilReady fuel e c poll_of m = Some (r, m') \<and>
    reads m m' \<and> mClock m \<le> mClock m' \<and> (r = None \<or> ctx_Err c (mClock m') \<noteq> None)"
proof -
  have ok: "attempt_ok c poll_of" using assms(2) attempt_ok_server attempt_ok_agent by blast
  obtain d why where "ctx_done c = Some (d, why)" using assms(1) by fastforce
  then obtain r m' where r: "pollUntilReady fuel e c poll_of m = Some (r, m')"
    using pollUntilReady_terminates [OF ok _ assms(3)] by (metis not_None_eq surj_pair)
  then show ?thesis
    using poll_reads [OF ok, of fuel e "mClock m" "mClock m + readyPollInterval" m r m']
    by (auto simp: pollUntilReady_def)
qed

text \<open>A machine on which \<open>kubectl get\<close> never answers.\<close>

definition silent_env :: "unit env" where
  "silent_env = \<lparr>environ = [], fault = \<lambda>k. None, tmp_suffix = \<lambda>k. ''x'', short_write = \<lambda>k. 0,
    script = \<lambda>p vars c m. (('''', None), 1, mFs m, ()), kubectl_do = \<lambda>args c m. (('''', None), 1, ()),
    kubectl_get = \<lambda>args c m. (('''', Some ''refused''), 1), select_ctx = \<lambda>t. True\<rparr>"

definition bare_machine :: "unit machine" where
  "bare_machine = \<lparr>mClock = 0, mFs = [], mHist = [], mSys = 0, mRan = [], mCluster = ()\<rparr>"

theorem readiness_wait_ends_witness:
  "\<exists>err m'. pollUntilReady 6 silent_env (WithTimeout Background (10 * second) 0)
      (server_probe silent_env (NewExecInstaller ''t'' ''n'') (WithTimeout Background (10 * second) 0)) bare_machine
    = Some (Some err, m') \<and> mClock m' = 10 * second"
proof -
  let ?c = "WithTimeout Background (10 * second) 0"
  have "ctx_done ?c \<noteq> None" and "wait_fuel ?c bare_machine \<le> 6"
    by (simp_all add: ctx_done_def WithTimeout_def Background_def wait_fuel_def bare_machine_def
        readyPollInterval_def second_def)
  from readiness_wait_ends [OF this(1) insertI1 this(2), of silent_env "NewExecInstaller ''t'' ''n''"]
  obtain r m' where r: "pollUntilReady 6 silent_env ?c (server_probe silent_env (NewExecInstaller ''t'' ''n'') ?c) bare_machine
      = Some (r, m')" by blast
  have "map_option (\<lambda>(r, m'). (r = None, mClock m'))
      (pollUntilReady 6 silent_env ?c (server_probe silent_env (NewExecInstaller ''t'' ''n'') ?c) bare_machine)
    = Some (False, 10 * second)"
    by code_simp
  with r show ?thesis by (cases r) auto
qed

subsection \<open>The contract\<close>

lemma exec_server_wait_reads: "exec_WaitServerReady e i c m = (r, m') \<Longrightarrow> reads m m'"
  unfolding exec_WaitServerReady_def returning_def pollUntilReady_def
  by (auto dest: poll_reads [OF attempt_ok_server] split: option.splits)

lemma exec_agent_wait_reads: "exec_WaitAgentReady e i c m = (r, m') \<Longrightarrow> reads m m'"
  unfolding exec_WaitAgentReady_def returning_def pollUntilReady_def
  by (auto dest: poll_reads [OF attempt_ok_agent] split: option.splits)

lemma exec_Convert_needs:
  assumes "exec_Convert e i c to ip m = (None, m')"
  shows "\<exists>role. unit_role i m = {role}"
proof -
  obtain x m1 where x: "exec_InstalledRole e i m = (x, m1)" by fastforce
  show ?thesis
  proof (cases x)
    case (Inl err)
    then show ?thesis using assms by (simp add: exec_Convert_def x)
  next
    case (Inr role)
    then show ?thesis using exec_InstalledRole_spec(2) [OF x Inr] by blast
  qed
qed

interpretation exec: installer_contract "ExecInstaller e i" "unit_role i" for e i
proof unfold_locales
  fix s s' x
  assume "InstalledRole (ExecInstaller e i) s = (x, s')"
  then show "unit_role i s' = unit_role i s"
    using exec_InstalledRole_spec(1) unit_role_reads by (fastforce simp: ExecInstaller_def)
next
  fix s s' role
  assume "InstalledRole (ExecInstaller e i) s = (Inr role, s')"
  then show "unit_role i s = {role}"
    using exec_InstalledRole_spec(2) by (fastforce simp: ExecInstaller_def)
next
  fix s s' err
  assume "InstalledRole (ExecInstaller e i) s = (Inl err, s')" "is_ErrNotInstalled err"
  then show "unit_role i s = {}"
    using exec_InstalledRole_spec(3) by (fastforce simp: ExecInstaller_def)
next
  fix c s r s'
  assume "WaitServerReady (ExecInstaller e i) c s = (r, s')"
  then show "unit_role i s' = unit_role i s"
    using exec_server_wait_reads unit_role_reads by (fastforce simp: ExecInstaller_def)
next
  fix c s r s'
  assume "WaitAgentReady (ExecInstaller e i) c s = (r, s')"
  then show "unit_role i s' = unit_role i s"
    using exec_agent_wait_reads unit_role_reads by (fastforce simp: ExecInstaller_def)
next
  fix c to ip s s'
  assume "Convert (ExecInstaller e i) c to ip s = (None, s')"
  then show "\<exists>role. unit_role i s = {role}"
    using exec_Convert_needs by (fastforce simp: ExecInstaller_def)
qed

end
