(* ===== verification/K3s_Control.thy ===== *)
theory K3s_Control
  imports K3s_Exec_Facts
begin

text \<open>
  The cluster-wide operations, \<open>antsd/internal/k3s/control_plane.go\<close>, with the simulated control
  plane of \<open>fake.go\<close>. The contract of the interface is the locale \<open>control_plane_contract\<close>: it holds
  of the simulation, and of the one that runs \<open>kubectl\<close> as far as \<open>kubectl\<close> does what it documents
  (locale \<open>kubectl_documented\<close>).
\<close>

subsection \<open>The interface\<close>

record 's control_plane =
  pNow :: "'s \<Rightarrow> time"
  DrainNode :: "ctx \<Rightarrow> string \<Rightarrow> 's \<Rightarrow> k3s_error option \<times> 's"
  DeleteNode :: "ctx \<Rightarrow> string \<Rightarrow> 's \<Rightarrow> k3s_error option \<times> 's"
  NodeExists :: "ctx \<Rightarrow> string \<Rightarrow> 's \<Rightarrow> (k3s_error + bool) \<times> 's"

text \<open>\<open>nodes\<close> is the set of names the K3s cluster knows. A deletion that fails may have happened.\<close>

locale control_plane_contract =
  fixes P :: "'s control_plane" and nodes :: "'s \<Rightarrow> string set"
  assumes drain_keeps: "DrainNode P c name s = (r, s') \<Longrightarrow> nodes s' = nodes s"
    and delete_done: "DeleteNode P c name s = (None, s') \<Longrightarrow> nodes s' = nodes s - {name}"
    and delete_failed: "DeleteNode P c name s = (Some e, s') \<Longrightarrow> nodes s - {name} \<subseteq> nodes s' \<and> nodes s' \<subseteq> nodes s"
    and exists_reads: "NodeExists P c name s = (x, s') \<Longrightarrow> nodes s' = nodes s"
    and exists_answer: "NodeExists P c name s = (Inr b, s') \<Longrightarrow> b \<longleftrightarrow> name \<in> nodes s"
begin

lemma delete_bounds:
  "DeleteNode P c name s = (r, s') \<Longrightarrow> nodes s - {name} \<subseteq> nodes s' \<and> nodes s' \<subseteq> nodes s"
  using delete_done [of c name s s'] delete_failed [of c name s _ s'] by (cases r) auto

end

subsection \<open>The simulated control plane\<close>

definition NewFakeControlPlane :: "fake \<Rightarrow> fake" where
  "NewFakeControlPlane f = f\<lparr>cDelay := fakeInstallDelay, fKnown := []\<rparr>"

definition AddNode :: "string \<Rightarrow> fake \<Rightarrow> fake" where
  "AddNode name f = f\<lparr>fKnown := List.insert name (fKnown f)\<rparr>"

definition control_simulate :: "ctx \<Rightarrow> fake \<Rightarrow> k3s_error option \<times> fake" where
  "control_simulate c f = wait_delay (cDelay f) c f"

definition fake_DrainNode :: "ctx \<Rightarrow> string \<Rightarrow> fake \<Rightarrow> k3s_error option \<times> fake" where
  "fake_DrainNode c name f = control_simulate c f"

definition fake_DeleteNode :: "ctx \<Rightarrow> string \<Rightarrow> fake \<Rightarrow> k3s_error option \<times> fake" where
  "fake_DeleteNode c name f =
    (case control_simulate c f of
       (Some err, f) \<Rightarrow> (Some err, f)
     | (None, f) \<Rightarrow> (None, f\<lparr>fKnown := removeAll name (fKnown f)\<rparr>))"

definition fake_NodeExists :: "ctx \<Rightarrow> string \<Rightarrow> fake \<Rightarrow> (k3s_error + bool) \<times> fake" where
  "fake_NodeExists c name f = (Inr (List.member (fKnown f) name), f)"

definition FakeControlPlane :: "fake control_plane" where
  "FakeControlPlane = \<lparr>pNow = fClock, DrainNode = fake_DrainNode, DeleteNode = fake_DeleteNode,
    NodeExists = fake_NodeExists\<rparr>"

definition fake_nodes :: "fake \<Rightarrow> string set" where
  "fake_nodes f = set (fKnown f)"

lemma fake_DeleteNode_cases:
  "fake_DeleteNode c name f = (r, f') \<Longrightarrow>
    fake_nodes f' = (if r = None then fake_nodes f - {name} else fake_nodes f)"
  by (auto simp: fake_DeleteNode_def control_simulate_def fake_nodes_def split: prod.splits option.splits
      dest: wait_delay_keeps)

interpretation fake_control: control_plane_contract FakeControlPlane fake_nodes
proof unfold_locales
  fix c name f r f'
  assume "DrainNode FakeControlPlane c name f = (r, f')"
  then show "fake_nodes f' = fake_nodes f"
    using wait_delay_keeps [of "cDelay f" c f r f']
    by (simp add: FakeControlPlane_def fake_DrainNode_def control_simulate_def fake_nodes_def)
qed (auto simp: FakeControlPlane_def fake_NodeExists_def
    dest: fake_DeleteNode_cases, auto simp: fake_nodes_def)

subsection \<open>The control plane that runs \<open>kubectl\<close>\<close>

definition serverKubeconfigPath :: string where
  "serverKubeconfigPath = ''/etc/rancher/k3s/k3s.yaml''"

text \<open>\<open>drainTimeout\<close> is only printed; this is what \<open>Duration.String\<close> gives for two minutes.\<close>

definition drainTimeout :: string where
  "drainTimeout = ''2m0s''"

record exec_control =
  cBinPath :: string
  kubeconfigPath :: string
  cDrainTimeout :: string

definition NewExecControlPlane :: exec_control where
  "NewExecControlPlane = \<lparr>cBinPath = ''/usr/local/bin/k3s'', kubeconfigPath = serverKubeconfigPath,
    cDrainTimeout = drainTimeout\<rparr>"

text \<open>The words of a command joined with spaces, \<open>strings.Join\<close>.\<close>

fun join_words :: "string list \<Rightarrow> string" where
  "join_words [] = ''''"
| "join_words [a] = a"
| "join_words (a # b # as) = a @ '' '' @ join_words (b # as)"

definition full_command :: "exec_control \<Rightarrow> string list \<Rightarrow> string list" where
  "full_command a args = cBinPath a # [''kubectl'', ''--kubeconfig'', kubeconfigPath a] @ args"

definition kubectl_result ::
  "string list \<Rightarrow> (string \<times> k3s_error option) \<times> 's \<Rightarrow> (k3s_error + string) \<times> 's" where
  "kubectl_result args r =
    (case r of
       ((out, Some err), m) \<Rightarrow> (Inl (Wrap (''kubectl '' @ join_words args @ '': '' @ K3s_Exec.truncate out) err), m)
     | ((out, None), m) \<Rightarrow> (Inr out, m))"

text \<open>\<open>kubectl\<close>, once for the commands that change the cluster and once for those that read it.\<close>

definition kubectl :: "'c env \<Rightarrow> exec_control \<Rightarrow> ctx \<Rightarrow> string list \<Rightarrow> 'c machine \<Rightarrow> (k3s_error + string) \<times> 'c machine" where
  "kubectl e a c args m = kubectl_result args (run_kubectl e c (full_command a args) m)"

definition kubectl_read :: "'c env \<Rightarrow> exec_control \<Rightarrow> ctx \<Rightarrow> string list \<Rightarrow> 'c machine \<Rightarrow> (k3s_error + string) \<times> 'c machine" where
  "kubectl_read e a c args m = kubectl_result args (run_get e c (full_command a args) m)"

definition error_only :: "(k3s_error + 'a) \<times> 's \<Rightarrow> k3s_error option \<times> 's" where
  "error_only r = (case r of (Inl err, s) \<Rightarrow> (Some err, s) | (Inr _, s) \<Rightarrow> (None, s))"

definition drain_args :: "exec_control \<Rightarrow> string \<Rightarrow> string list" where
  "drain_args a name = [''drain'', name, ''--ignore-daemonsets'', ''--delete-emptydir-data'', ''--force'',
    ''--timeout'', cDrainTimeout a]"

definition delete_args :: "string \<Rightarrow> string list" where
  "delete_args name = [''delete'', ''node'', name, ''--ignore-not-found'']"

definition get_args :: "string \<Rightarrow> string list" where
  "get_args name = [''get'', ''node'', name, ''--ignore-not-found'', ''-o'', ''name'']"

definition exec_DrainNode :: "'c env \<Rightarrow> exec_control \<Rightarrow> ctx \<Rightarrow> string \<Rightarrow> 'c machine \<Rightarrow> k3s_error option \<times> 'c machine" where
  "exec_DrainNode e a c name m = error_only (kubectl e a c (drain_args a name) m)"

definition exec_DeleteNode :: "'c env \<Rightarrow> exec_control \<Rightarrow> ctx \<Rightarrow> string \<Rightarrow> 'c machine \<Rightarrow> k3s_error option \<times> 'c machine" where
  "exec_DeleteNode e a c name m = error_only (kubectl e a c (delete_args name) m)"

definition exec_NodeExists :: "'c env \<Rightarrow> exec_control \<Rightarrow> ctx \<Rightarrow> string \<Rightarrow> 'c machine \<Rightarrow> (k3s_error + bool) \<times> 'c machine" where
  "exec_NodeExists e a c name m =
    (case kubectl_read e a c (get_args name) m of
       (Inl err, m) \<Rightarrow> (Inl err, m)
     | (Inr out, m) \<Rightarrow> (Inr (TrimSpace out \<noteq> ''''), m))"

definition ExecControlPlane :: "'c env \<Rightarrow> exec_control \<Rightarrow> 'c machine control_plane" where
  "ExecControlPlane e a = \<lparr>pNow = mClock, DrainNode = exec_DrainNode e a, DeleteNode = exec_DeleteNode e a,
    NodeExists = exec_NodeExists e a\<rparr>"

text \<open>
  What \<open>kubectl\<close> documents of the three commands. \<open>nodes_of\<close> reads the node objects of the cluster.
\<close>

locale kubectl_documented =
  fixes e :: "'c env" and a :: exec_control and nodes_of :: "'c \<Rightarrow> string set"
  assumes drain_documented:
      "kubectl_do e (full_command a (drain_args a name)) c m = (r, d, cl) \<Longrightarrow> nodes_of cl = nodes_of (mCluster m)"
    and delete_documented:
      "kubectl_do e (full_command a (delete_args name)) c m = ((out, None), d, cl) \<Longrightarrow>
        nodes_of cl = nodes_of (mCluster m) - {name}"
    and delete_error_documented:
      "kubectl_do e (full_command a (delete_args name)) c m = ((out, Some err), d, cl) \<Longrightarrow>
        nodes_of (mCluster m) - {name} \<subseteq> nodes_of cl \<and> nodes_of cl \<subseteq> nodes_of (mCluster m)"
    and get_documented:
      "kubectl_get e (full_command a (get_args name)) c m = ((out, None), d) \<Longrightarrow>
        TrimSpace out \<noteq> '''' \<longleftrightarrow> name \<in> nodes_of (mCluster m)"

sublocale kubectl_documented \<subseteq> exec_control: control_plane_contract "ExecControlPlane e a" "nodes_of \<circ> mCluster"
proof unfold_locales
  fix c name m r m'
  assume "DrainNode (ExecControlPlane e a) c name m = (r, m')"
  then show "(nodes_of \<circ> mCluster) m' = (nodes_of \<circ> mCluster) m"
    using drain_documented
    by (auto simp: ExecControlPlane_def exec_DrainNode_def error_only_def kubectl_def kubectl_result_def
        run_kubectl_def split: option.splits prod.splits)
next
  fix c name m m'
  assume "DeleteNode (ExecControlPlane e a) c name m = (None, m')"
  then show "(nodes_of \<circ> mCluster) m' = (nodes_of \<circ> mCluster) m - {name}"
    using delete_documented
    by (auto simp: ExecControlPlane_def exec_DeleteNode_def error_only_def kubectl_def kubectl_result_def
        run_kubectl_def split: option.splits prod.splits)
next
  fix c name m err m'
  assume "DeleteNode (ExecControlPlane e a) c name m = (Some err, m')"
  then show "(nodes_of \<circ> mCluster) m - {name} \<subseteq> (nodes_of \<circ> mCluster) m' \<and>
      (nodes_of \<circ> mCluster) m' \<subseteq> (nodes_of \<circ> mCluster) m"
    using delete_error_documented
    by (fastforce simp: ExecControlPlane_def exec_DeleteNode_def error_only_def kubectl_def kubectl_result_def
        run_kubectl_def split: option.splits prod.splits)
next
  fix c name m x m'
  assume "NodeExists (ExecControlPlane e a) c name m = (x, m')"
  then show "(nodes_of \<circ> mCluster) m' = (nodes_of \<circ> mCluster) m"
    by (auto simp: ExecControlPlane_def exec_NodeExists_def kubectl_read_def kubectl_result_def
        run_get_def split: option.splits prod.splits)
next
  fix c name m b m'
  assume "NodeExists (ExecControlPlane e a) c name m = (Inr b, m')"
  then show "b \<longleftrightarrow> name \<in> (nodes_of \<circ> mCluster) m"
    using get_documented
    by (auto simp: ExecControlPlane_def exec_NodeExists_def kubectl_read_def kubectl_result_def
        run_get_def split: option.splits prod.splits)
qed

text \<open>A \<open>kubectl\<close> on a cluster of named nodes that behaves as documented.\<close>

definition cluster_env :: "string list env" where
  "cluster_env = \<lparr>environ = [], fault = \<lambda>k. None, tmp_suffix = \<lambda>k. ''1'', short_write = \<lambda>k. 0,
    script = \<lambda>p vars c m. (('''', None), 1, mFs m, mCluster m),
    kubectl_do = \<lambda>args c m. (('''', None), 1,
      if args ! 4 = ''delete'' then removeAll (args ! 6) (mCluster m) else mCluster m),
    kubectl_get = \<lambda>args c m. ((if args ! 6 \<in> set (mCluster m) then ''n'' else '''', None), 1),
    select_ctx = \<lambda>t. True\<rparr>"

interpretation cluster_kubectl: kubectl_documented cluster_env a set for a
  by unfold_locales
    (auto simp: cluster_env_def full_command_def drain_args_def delete_args_def get_args_def TrimSpace_def
      is_space_def split: if_splits)

end
