(* ===== verification/K3s_Exec_Safety.thy ===== *)
theory K3s_Exec_Safety
  imports K3s_Exec_Facts
begin

text \<open>
  What \<open>ExecInstaller\<close> never does: install over an installation, show a half-written asset, replace a
  live one, or copy a whole command output into an error message.
\<close>

subsection \<open>A machine to convert\<close>

text \<open>
  An agent with its vault in place. The scripts do what their names say; in \<open>split_env\<close> a hard link
  is refused, as it is across devices.
\<close>

definition demo_installer :: exec_installer where
  "demo_installer = NewExecInstaller ''t'' ''ants02''"

definition demo_env :: "unit env" where
  "demo_env = \<lparr>environ = [], fault = \<lambda>k. None, tmp_suffix = \<lambda>k. ''1'', short_write = \<lambda>k. 1,
    script = \<lambda>p vars c m. (('''', None), 1,
      if p = installScriptPath then AList.update ''/etc/systemd/system/k3s.service'' (File 7 '''' 420) (mFs m)
      else AList.delete ''/etc/systemd/system/k3s-agent.service'' (mFs m), ()),
    kubectl_do = \<lambda>args c m. (('''', None), 1, ()), kubectl_get = \<lambda>args c m. (('''', None), 1),
    select_ctx = \<lambda>t. True\<rparr>"

definition split_env :: "unit env" where
  "split_env = demo_env\<lparr>fault := \<lambda>k. if k = 2 then Some ''cross-device link'' else None\<rparr>"

definition agent_machine :: "unit machine" where
  "agent_machine = \<lparr>mClock = 0, mFs = [(''/usr/lib/ants/k3s'', Dir), (''/usr/lib/ants/k3s/k3s'', File 1 ''BIN'' 493),
      (''/usr/lib/ants/k3s/images'', Dir), (''/etc/systemd/system/k3s-agent.service'', File 2 '''' 420)],
    mHist = [], mSys = 0, mRan = [], mCluster = ()\<rparr>"

subsection \<open>Conversions\<close>

definition uninstall_path :: "role \<Rightarrow> string" where
  "uninstall_path r = (if r = RoleAgent then agentUninstallScriptPath else serverUninstallScriptPath)"

lemma run_script_ran:
  "run_script e c p vars m = (r, m') \<Longrightarrow> mRan m' = mRan m \<or> mRan m' = (p, vars) # mRan m"
  "run_script e c p vars m = ((out, None), m') \<Longrightarrow> mRan m' = (p, vars) # mRan m"
  "run_script e c p vars m = ((out, Some err), m') \<Longrightarrow> ctx_Err c (mClock m') = None \<Longrightarrow>
    mRan m' = (p, vars) # mRan m"
  by (auto simp: run_script_def set_fs_def split: option.splits prod.splits)

lemma runUninstallScript_ran:
  assumes "runUninstallScript e c r m = (x, m')"
  shows "mRan m' = mRan m \<or> mRan m' = (uninstall_path r, environ e) # mRan m"
    and "x = None \<Longrightarrow> mRan m' = (uninstall_path r, environ e) # mRan m"
proof -
  obtain out err m1 where s: "run_script e c (uninstall_path r) (environ e) m = ((out, err), m1)"
    by (metis prod.exhaust)
  have "m' = m1 \<and> (x = None \<longrightarrow> err = None \<or> ctx_Err c (mClock m1) = None)"
    using assms s by (auto simp: runUninstallScript_def uninstall_path_def Let_def split: option.splits)
  then show "mRan m' = mRan m \<or> mRan m' = (uninstall_path r, environ e) # mRan m"
    and "x = None \<Longrightarrow> mRan m' = (uninstall_path r, environ e) # mRan m"
    using run_script_ran(1) [OF s] run_script_ran(2,3) [of e c _ _ m out] s by (cases err; auto)+
qed

text \<open>
  C17: a conversion runs at most the uninstall script of the installed role and then the install
  script, in that order; the install script is only reached on a machine that has no K3s unit left.
  A conversion that ends well without it found the target role installed already.
\<close>

theorem convert_never_installs_over:
  assumes "exec_Convert e i c to serverIP m = (r, m')"
  shows "(\<exists>old m1. unit_role i m = {old} \<and> old \<noteq> to \<and> unit_role i m1 = {}
      \<and> mRan m1 = (uninstall_path old, environ e) # mRan m
      \<and> (r, m') = (if to = RoleServer then exec_InstallServerJoin e i c serverIP m1
                    else exec_InstallAgent e i c serverIP m1))
    \<or> (mRan m' = mRan m \<or> (\<exists>old. unit_role i m = {old} \<and> mRan m' = (uninstall_path old, environ e) # mRan m))
      \<and> (r = None \<longrightarrow> unit_role i m = {to} \<and> mRan m' = mRan m)"
proof -
  obtain x m0 where x: "exec_InstalledRole e i m = (x, m0)" by fastforce
  have r0: "mRan m0 = mRan m" using exec_InstalledRole_spec(1) [OF x] by (simp add: reads_def)
  show ?thesis
  proof (cases x)
    case (Inl err)
    then show ?thesis using assms r0 by (auto simp: exec_Convert_def x)
  next
    case (Inr old)
    note role = exec_InstalledRole_spec(2) [OF x Inr]
    show ?thesis
    proof (cases "old = to")
      case True
      then show ?thesis using assms r0 role Inr by (auto simp: exec_Convert_def x)
    next
      case False
      obtain u m1 where u: "runUninstallScript e c old m0 = (u, m1)" by fastforce
      note ran = runUninstallScript_ran [OF u]
      obtain y m2 where y: "exec_InstalledRole e i m1 = (y, m2)" by fastforce
      have r2: "mRan m2 = mRan m1" "unit_role i m2 = unit_role i m1"
        using exec_InstalledRole_spec(1) [OF y] unit_role_reads [of m1 m2 i] by (auto simp: reads_def)
      show ?thesis
      proof (cases u)
        case (Some err)
        then show ?thesis using assms Inr False ran(1) r0 role by (auto simp: exec_Convert_def x u)
      next
        case None
        note ran' = ran(2) [OF None]
        show ?thesis
        proof (cases "\<exists>err. y = Inl err \<and> is_ErrNotInstalled err")
          case True
          then obtain err where err: "y = Inl err" "is_ErrNotInstalled err" by blast
          then have "unit_role i m1 = {}" using exec_InstalledRole_spec(3) [OF y] by blast
          moreover have "(r, m') = (if to = RoleServer then exec_InstallServerJoin e i c serverIP m2
              else exec_InstallAgent e i c serverIP m2)"
            using assms Inr False None err by (simp add: exec_Convert_def x u y)
          ultimately show ?thesis
            using role False ran' r0 r2 by (intro disjI1 exI [of _ old] exI [of _ m2]) simp
        next
          case other: False
          then have "r \<noteq> None \<and> m' = m2"
            using assms Inr False None by (cases y) (auto simp: exec_Convert_def x u y)
          then show ?thesis using ran' r0 r2(1) role by auto
        qed
      qed
    qed
  qed
qed

theorem convert_never_installs_over_witness:
  "\<exists>m1. unit_role demo_installer m1 = {} \<and> mRan m1 = [(agentUninstallScriptPath, [])]
    \<and> fst (exec_InstallServerJoin demo_env demo_installer Background ''10.0.0.1'' m1) = None"
proof -
  obtain r m' where c: "exec_Convert demo_env demo_installer Background RoleServer ''10.0.0.1'' agent_machine = (r, m')"
    by fastforce
  have run: "fst (exec_Convert demo_env demo_installer Background RoleServer ''10.0.0.1'' agent_machine) = None"
    "length (mRan (snd (exec_Convert demo_env demo_installer Background RoleServer ''10.0.0.1'' agent_machine))) = 2"
    by code_simp+
  have two: "length (mRan m') = 2" "r = None" using run c by simp_all
  have role: "unit_role demo_installer agent_machine = {RoleAgent}" by code_simp
  have start: "mRan agent_machine = []" "environ demo_env = []" by (simp_all add: agent_machine_def demo_env_def)
  show ?thesis
    using convert_never_installs_over [OF c] two role start by (auto simp: uninstall_path_def) (metis fst_conv)
qed

subsection \<open>Outputs\<close>

text \<open>
  An output quoted in an error has at most 1031 bytes. A short one is quoted whole, without the
  spaces around it; of a long one the first and the last 512 bytes are kept.
\<close>

theorem truncate_bounds:
  "length (truncate output) \<le> 1031 \<and>
   (if length (TrimSpace output) \<le> 1024 then truncate output = TrimSpace output
    else take 512 (truncate output) = take 512 (TrimSpace output)
      \<and> drop (length (truncate output) - 512) (truncate output)
          = drop (length (TrimSpace output) - 512) (TrimSpace output))"
  by (simp add: truncate_def Let_def)

subsection \<open>Assets\<close>

text \<open>What a path may hold while an asset with content \<open>data\<close> is restored under it.\<close>

definition whole :: "string \<Rightarrow> fnode option \<Rightarrow> bool" where
  "whole data n \<longleftrightarrow> n = None \<or> (\<exists>ino mode. n = Some (File ino data mode))"

definition never_partial :: "string \<Rightarrow> string \<Rightarrow> 'c machine \<Rightarrow> bool" where
  "never_partial dst data m \<longleftrightarrow> (\<forall>fs \<in> set (mFs m # mHist m). whole data (map_of fs dst))"

definition holds :: "string \<Rightarrow> string \<Rightarrow> 'c machine \<Rightarrow> bool" where
  "holds p data m \<longleftrightarrow> (\<exists>ino mode. get p m = Some (File ino data mode))"

lemma never_partial_reads: "reads m m' \<Longrightarrow> never_partial dst data m' = never_partial dst data m"
  by (simp add: never_partial_def reads_def)

lemma holds_reads: "reads m m' \<Longrightarrow> holds p data m' = holds p data m"
  by (simp add: holds_def reads_def get_def)

lemma never_partial_set_fs:
  "never_partial dst data m \<Longrightarrow> whole data (map_of fs dst) \<Longrightarrow> never_partial dst data (set_fs fs m)"
  by (auto simp: never_partial_def set_fs_def)

lemma get_set_fs [simp]: "get p (set_fs fs m) = map_of fs p"
  by (simp add: get_def set_fs_def)

lemma map_of_mkdirs:
  "mkdirs ps fs = Some fs' \<Longrightarrow> map_of fs' p = (if map_of fs p = None \<and> p \<in> set ps then Some Dir else map_of fs p)"
proof (induction ps arbitrary: fs)
  case (Cons q ps)
  show ?case
  proof (cases "map_of fs q")
    case None
    then show ?thesis using Cons.IH [of "AList.update q Dir fs"] Cons.prems by (auto simp: update_conv')
  next
    case (Some n)
    then show ?thesis using Cons.IH [of fs] Cons.prems by (cases n) auto
  qed
qed simp

lemma ancestors_length: "q \<in> set (ancestors p) \<Longrightarrow> length q \<le> length p"
  by (auto simp: ancestors_def simp del: upt_Suc)

lemma filepath_split: "CHR ''/'' \<in> set p \<Longrightarrow> filepath_Join (filepath_Dir p) (filepath_Base p) = p"
proof -
  assume s: "CHR ''/'' \<in> set p"
  let ?d = "dropWhile (\<lambda>c. c \<noteq> CHR ''/'') (rev p)" and ?t = "takeWhile (\<lambda>c. c \<noteq> CHR ''/'') (rev p)"
  have "?d \<noteq> []" using s by (simp add: dropWhile_eq_Nil_conv)
  moreover have "hd ?d = CHR ''/''" using hd_dropWhile [OF calculation] by simp
  ultimately have "?d = CHR ''/'' # tl ?d" by (metis list.collapse)
  then have "rev p = ?t @ CHR ''/'' # tl ?d" by (metis takeWhile_dropWhile_id)
  then have "p = rev (tl ?d) @ CHR ''/'' # rev ?t" by (metis append.assoc append_Cons append_Nil rev.simps(2) rev_append rev_rev_ident)
  then show ?thesis by (simp add: filepath_Join_def filepath_Dir_def filepath_Base_def)
qed

lemma tmp_differs:
  assumes "CHR ''/'' \<in> set dst" and "s \<noteq> ''''"
  shows "filepath_Join (filepath_Dir dst) (filepath_Base dst @ s) \<noteq> dst"
proof -
  have "filepath_Join (filepath_Dir dst) (filepath_Base dst @ s) = dst @ s"
    using filepath_split [OF assms(1)] by (simp add: filepath_Join_def)
  with assms(2) show ?thesis by simp
qed

lemma Dir_shorter: "CHR ''/'' \<in> set dst \<Longrightarrow> length (filepath_Dir dst) < length dst"
  using arg_cong [OF filepath_split [of dst], of length] by (simp add: filepath_Join_def)

subsection \<open>The steps of a copy\<close>

text \<open>Every system call either fails and leaves the files, or does its step.\<close>

lemma syscall_cases:
  assumes "syscall e f m = (r, m')"
  obtains (fails) err where "r = Inl (Sys err)" "reads m m'"
  | (works) m0 where "f m0 = (r, m')" "reads m m0"
proof (cases "fault e (mSys m)")
  case None
  then show thesis using assms works [of "m\<lparr>mSys := Suc (mSys m)\<rparr>"] by (simp add: syscall_def Let_def reads_def)
next
  case (Some err)
  then show thesis using assms fails by (auto simp: syscall_def Let_def reads_def)
qed

lemma get_reads: "reads m m' \<Longrightarrow> get p m' = get p m"
  by (simp add: reads_def get_def)

lemma os_MkdirAll_step:
  assumes "os_MkdirAll e d m = (r, m')" and "never_partial dst data m" and "holds src data m" and "get dst m = None"
    and "length d < length dst"
  shows "never_partial dst data m' \<and> holds src data m' \<and> get dst m' = None"
  using assms(1) unfolding os_MkdirAll_def
proof (cases rule: syscall_cases)
  case (fails err)
  then show ?thesis using assms never_partial_reads holds_reads get_reads by metis
next
  case (works m0)
  have m0: "never_partial dst data m0" "holds src data m0" "get dst m0 = None"
    using assms(2-4) works(2) never_partial_reads holds_reads get_reads by metis+
  show ?thesis
  proof (cases "mkdirs (ancestors d) (mFs m0)")
    case None
    then show ?thesis using works(1) m0 by simp
  next
    case (Some fs)
    have "dst \<notin> set (ancestors d)" using ancestors_length [of dst d] assms(5) by fastforce
    then have "map_of fs dst = None" using map_of_mkdirs [OF Some, of dst] m0(3) by (simp add: get_def)
    moreover have "map_of fs src = get src m0"
      using map_of_mkdirs [OF Some, of src] m0(2) by (auto simp: holds_def get_def)
    ultimately show ?thesis
      using works(1) Some m0 by (auto simp: holds_def whole_def intro!: never_partial_set_fs)
  qed
qed

lemma os_Link_step:
  assumes "os_Link e src dst m = (r, m')" and "never_partial dst data m" and "holds src data m" and "get dst m = None"
  shows "never_partial dst data m' \<and> (r = Inr () \<longrightarrow> holds dst data m') \<and>
    (r \<noteq> Inr () \<longrightarrow> holds src data m' \<and> get dst m' = None)"
  using assms(1) unfolding os_Link_def
proof (cases rule: syscall_cases)
  case (fails err)
  then show ?thesis using assms never_partial_reads [of m m'] holds_reads [of m m'] get_reads [of m m'] by simp
next
  case (works m0)
  have m0: "never_partial dst data m0" "holds src data m0" "get dst m0 = None"
    using assms(2-4) works(2) never_partial_reads holds_reads get_reads by metis+
  then obtain ino mode where "get src m0 = Some (File ino data mode)" by (auto simp: holds_def)
  then show ?thesis
    using works(1) m0
    by (auto simp: holds_def update_conv' whole_def intro!: never_partial_set_fs)
qed

lemma map_of_chmod:
  "map_of (chmod_inode i mode fs) p =
    (case map_of fs p of None \<Rightarrow> None | Some Dir \<Rightarrow> Some Dir
     | Some (File j c old) \<Rightarrow> Some (File j c (if j = i then mode else old)))"
  unfolding chmod_inode_def by (induction fs) (auto split: fnode.splits)

lemma chmod_inode_content:
  "whole data (map_of fs p) \<Longrightarrow> whole data (map_of (chmod_inode i mode fs) p)"
  "(\<exists>ino md. map_of fs p = Some (File ino data md)) \<Longrightarrow>
    \<exists>ino md. map_of (chmod_inode i mode fs) p = Some (File ino data md)"
  by (auto simp: map_of_chmod whole_def)

lemma os_Chmod_step:
  assumes "os_Chmod e q mode m = (r, m')" and "never_partial dst data m"
  shows "never_partial dst data m' \<and> (holds p c m \<longrightarrow> holds p c m') \<and> (get p m = None \<longrightarrow> get p m' = None)"
  using assms(1) unfolding os_Chmod_def
proof (cases rule: syscall_cases)
  case (fails err)
  then show ?thesis using assms(2) never_partial_reads [of m m'] holds_reads [of m m'] get_reads [of m m'] by simp
next
  case (works m0)
  have m0: "never_partial dst data m0" "holds p c m0 = holds p c m" "get p m0 = get p m"
    using assms(2) works(2) never_partial_reads holds_reads get_reads by metis+
  have "whole data (map_of (mFs m0) dst)" using m0(1) by (simp add: never_partial_def)
  then have "never_partial dst data (set_fs (chmod_inode i mode (mFs m0)) m0)" for i
    by (intro never_partial_set_fs m0(1) chmod_inode_content(1))
  moreover have "holds p c m0 \<Longrightarrow> holds p c (set_fs (chmod_inode i mode (mFs m0)) m0)" for i
    using chmod_inode_content(2) [of "mFs m0" p c i mode] by (auto simp: holds_def get_def set_fs_def)
  moreover have "get p m0 = None \<Longrightarrow> get p (set_fs (chmod_inode i mode (mFs m0)) m0) = None" for i
    by (simp add: get_def set_fs_def map_of_chmod)
  ultimately show ?thesis
    using works(1) m0 by (auto split: option.splits fnode.splits)
qed

text \<open>The temporary file of a copy, while it is written.\<close>

definition copying :: "string \<Rightarrow> string \<Rightarrow> string \<Rightarrow> 'c machine \<Rightarrow> bool" where
  "copying dst data tmp m \<longleftrightarrow> never_partial dst data m \<and> get dst m = None \<and> tmp \<noteq> dst \<and>
    (\<exists>ino c mode. get tmp m = Some (File ino c mode))"

lemma copying_reads: "reads m m' \<Longrightarrow> copying dst data tmp m' = copying dst data tmp m"
  by (simp add: copying_def never_partial_reads get_reads)

lemma os_CreateTemp_step:
  assumes "os_CreateTemp e (filepath_Dir dst) (filepath_Base dst @ ''.tmp-'') m = (r, m')"
    and "never_partial dst data m" and "get dst m = None" and "CHR ''/'' \<in> set dst"
  shows "(\<forall>tmp. r = Inr tmp \<longrightarrow> copying dst data tmp m') \<and> never_partial dst data m'
    \<and> get dst m' = None"
  using assms(1) unfolding os_CreateTemp_def
proof (cases rule: syscall_cases)
  case (fails err)
  then show ?thesis using assms(2,3) never_partial_reads [of m m'] get_reads [of m m'] by simp
next
  case (works m0)
  have m0: "never_partial dst data m0" "get dst m0 = None"
    using assms(2,3) works(2) never_partial_reads get_reads by metis+
  obtain p where p: "p = filepath_Join (filepath_Dir dst) ((filepath_Base dst @ ''.tmp-'') @ tmp_suffix e (mSys m0))"
    by simp
  have "p \<noteq> dst" using tmp_differs [OF assms(4), of "''.tmp-'' @ tmp_suffix e (mSys m0)"] by (simp add: p)
  moreover have "map_of (mFs m0) dst = None" using m0(2) by (simp add: get_def)
  ultimately have "never_partial dst data (set_fs (AList.update p n (mFs m0)) m0)"
      "map_of (AList.update p n (mFs m0)) dst = None" for n
    using m0 by (auto simp: update_conv' whole_def intro!: never_partial_set_fs)
  moreover have "(case get p m0 of
       None \<Rightarrow> (Inr p, set_fs (AList.update p (File (fresh_inode (mFs m0)) '''' 384) (mFs m0)) m0)
     | Some x \<Rightarrow> (Inl (Sys ''exists''), m0)) = (r, m')"
    using works(1) by (simp only: p Let_def)
  ultimately show ?thesis
    using m0 \<open>p \<noteq> dst\<close> by (cases "get p m0") (auto simp: copying_def update_conv')
qed

lemma io_Copy_step:
  assumes "io_Copy e tmp d m = (r, m')" and "copying dst data tmp m"
  shows "copying dst data tmp m' \<and> (r = Inr () \<longrightarrow> holds tmp d m')"
proof -
  have w: "copying dst data tmp (write_file tmp x m0) \<and> holds tmp x (write_file tmp x m0)" if "reads m m0" for x m0
  proof -
    have c: "copying dst data tmp m0" using assms(2) copying_reads [OF that] by simp
    then obtain ino c' mode where g: "get tmp m0 = Some (File ino c' mode)" by (auto simp: copying_def)
    with c show ?thesis
      by (auto simp: write_file_def copying_def holds_def update_conv' get_def [of dst m0] whole_def
          intro!: never_partial_set_fs)
  qed
  have "reads m (m\<lparr>mSys := Suc (mSys m)\<rparr>)" by (simp add: reads_def)
  from w [OF this] show ?thesis using assms(1) by (auto simp: io_Copy_def Let_def split: option.splits)
qed

lemma os_Chmod_copying:
  assumes "os_Chmod e tmp mode m = (r, m')" and "copying dst data tmp m" and "holds tmp d m"
  shows "copying dst data tmp m' \<and> holds tmp d m'"
  using os_Chmod_step [OF assms(1), of dst data tmp d] os_Chmod_step [OF assms(1), of dst data dst d] assms(2,3)
  by (auto simp: copying_def holds_def)

lemma os_Rename_step:
  assumes "os_Rename e tmp dst m = (r, m')" and "copying dst data tmp m" and "holds tmp data m"
  shows "never_partial dst data m' \<and> (r = Inr () \<longrightarrow> holds dst data m') \<and>
    (r \<noteq> Inr () \<longrightarrow> get dst m' = None)"
  using assms(1) unfolding os_Rename_def
proof (cases rule: syscall_cases)
  case (fails err)
  then show ?thesis using assms(2) never_partial_reads [of m m'] get_reads [of m m'] by (simp add: copying_def)
next
  case (works m0)
  have m0: "copying dst data tmp m0" "holds tmp data m0"
    using assms(2,3) works(2) copying_reads holds_reads by metis+
  then obtain ino mode where "get tmp m0 = Some (File ino data mode)" by (auto simp: holds_def)
  then show ?thesis
    using works(1) m0 by (auto simp: copying_def holds_def update_conv' whole_def intro!: never_partial_set_fs)
qed

lemma os_Remove_step:
  assumes "os_Remove e tmp m = (r, m')" and "never_partial dst data m" and "tmp \<noteq> dst"
  shows "never_partial dst data m' \<and> get dst m' = get dst m"
  using assms(1) unfolding os_Remove_def
proof (cases rule: syscall_cases)
  case (fails err)
  then show ?thesis using assms(2) never_partial_reads [of m m'] get_reads [of m m'] by simp
next
  case (works m0)
  have m0: "never_partial dst data m0" "get dst m0 = get dst m"
    using assms(2) works(2) never_partial_reads get_reads by metis+
  have "map_of (AList.delete tmp (mFs m0)) dst = map_of (mFs m0) dst" using assms(3) by (simp add: delete_conv')
  moreover have "whole data (map_of (mFs m0) dst)" using m0(1) by (simp add: never_partial_def)
  ultimately show ?thesis
    using works(1) m0 by (cases "get tmp m0") (auto simp: get_def [of dst m0] intro!: never_partial_set_fs)
qed

lemma os_Sync_copying:
  assumes "os_Sync e m = (r, m')"
  shows "copying dst data tmp m' = copying dst data tmp m" and "holds p d m' = holds p d m"
  using os_Sync_reads [OF assms] copying_reads [of m m'] holds_reads [of m m'] by simp_all

lemma os_Close_copying:
  assumes "os_Close e m = (r, m')"
  shows "copying dst data tmp m' = copying dst data tmp m" and "holds p d m' = holds p d m"
  using os_Close_reads [OF assms] copying_reads [of m m'] holds_reads [of m m'] by simp_all

lemma os_Close_snd [simp]: "copying dst data tmp (snd (os_Close e m)) = copying dst data tmp m"
  by (metis os_Close_copying(1) prod.exhaust_sel)

definition restored :: "string \<Rightarrow> string \<Rightarrow> k3s_error option \<times> 'c machine \<Rightarrow> bool" where
  "restored dst data r \<longleftrightarrow> never_partial dst data (snd r) \<and> (fst r = None \<longrightarrow> holds dst data (snd r))"

lemma copying_restored: "copying dst data tmp m \<Longrightarrow> r \<noteq> None \<Longrightarrow> restored dst data (r, m)"
  by (auto simp: restored_def copying_def)

lemma write_tmp_step:
  assumes "copying dst data tmp m"
  shows "restored dst data (write_tmp e tmp data mode dst m)"
proof -
  obtain r1 m1 where 1: "io_Copy e tmp data m = (r1, m1)" by fastforce
  obtain r2 m2 where 2: "os_Sync e m1 = (r2, m2)" by fastforce
  obtain r3 m3 where 3: "os_Chmod e tmp mode m2 = (r3, m3)" by fastforce
  obtain r4 m4 where 4: "os_Close e m3 = (r4, m4)" by fastforce
  obtain r5 m5 where 5: "os_Rename e tmp dst m4 = (r5, m5)" by fastforce
  note run = 1 2 3 4 5
  have c1: "copying dst data tmp m1" "r1 = Inr () \<Longrightarrow> holds tmp data m1"
    using io_Copy_step [OF 1 assms] by simp_all
  show ?thesis
  proof (cases r1)
    case (Inl err)
    then show ?thesis using c1 by (simp add: write_tmp_def run copying_restored)
  next
    case (Inr u)
    then have c2: "copying dst data tmp m2" "holds tmp data m2"
      using c1 by (simp_all add: os_Sync_copying [OF 2])
    have c3: "copying dst data tmp m3" "holds tmp data m3"
      using os_Chmod_copying [OF 3 c2] by simp_all
    then have c4: "copying dst data tmp m4" "holds tmp data m4"
      by (simp_all add: os_Close_copying [OF 4])
    have "restored dst data (case r5 of Inl err \<Rightarrow> Some (sys_k3s err) | Inr _ \<Rightarrow> None, m5)"
      using os_Rename_step [OF 5 c4] by (cases r5) (auto simp: restored_def)
    then show ?thesis using Inr c2 c3 c4
      by (cases r2; cases r3; cases r4; cases r5) (simp_all add: write_tmp_def run copying_restored)
  qed
qed

lemma removing_restored:
  assumes "restored dst data r" and "tmp \<noteq> dst"
  shows "restored dst data (removing e tmp r)"
proof -
  obtain x m' where "os_Remove e tmp (snd r) = (x, m')" by fastforce
  with os_Remove_step [OF this, of dst data] assms show ?thesis
    by (simp add: restored_def removing_def holds_def)
qed

lemma copyFile_step:
  assumes "never_partial dst data m" and "holds src data m" and "get dst m = None" and "CHR ''/'' \<in> set dst"
  shows "restored dst data (copyFile e src dst mode m)"
proof -
  obtain r1 m1 where 1: "os_Open e src m = (r1, m1)" by fastforce
  obtain r2 m2 where 2: "os_CreateTemp e (filepath_Dir dst) (filepath_Base dst @ ''.tmp-'') m1 = (r2, m2)"
    by fastforce
  have "reads m m1" using os_Open_reads [OF 1] by simp
  then have m1: "never_partial dst data m1" "get dst m1 = None"
    using assms never_partial_reads get_reads by metis+
  note step = os_CreateTemp_step [OF 2 m1 assms(4)]
  show ?thesis
  proof (cases r1)
    case (Inl err)
    then show ?thesis using m1 by (simp add: copyFile_def 1 restored_def)
  next
    case (Inr d)
    then have "d = data"
      using 1 assms(2) by (auto simp: os_Open_def syscall_def Let_def holds_def get_def split: option.splits)
    with Inr show ?thesis
      using step
      by (cases r2) (auto simp: copyFile_def 1 2 [simplified] restored_def [of _ _ "(Some _, _)"] copying_def
          intro!: removing_restored write_tmp_step)
  qed
qed

text \<open>
  C24: when an asset is restored from the vault, every state of the file system on the way, and so
  any state a crash leaves, has the destination absent or with the whole content, and a restoration
  that ends well leaves it in place. A destination that exists already is not touched.
\<close>

theorem stage_asset_atomic:
  assumes "stageAsset e src dst mode m = (r, m')" and "get src m = Some (File ino data perm)"
    and "CHR ''/'' \<in> set dst" and "mHist m = []"
  shows "if get dst m \<noteq> None then mFs m' = mFs m \<and> mHist m' = []
    else (\<forall>fs \<in> set (mFs m' # mHist m'). map_of fs dst = None \<or> (\<exists>i p. map_of fs dst = Some (File i data p)))
      \<and> (r = None \<longrightarrow> (\<exists>i p. get dst m' = Some (File i data p)))"
proof -
  obtain r1 m1 where 1: "os_Stat e dst m = (r1, m1)" by fastforce
  obtain r2 m2 where 2: "os_MkdirAll e (filepath_Dir dst) m1 = (r2, m2)" by fastforce
  obtain r3 m3 where 3: "os_Link e src dst m2 = (r3, m3)" by fastforce
  obtain r4 m4 where 4: "os_Chmod e dst mode m3 = (r4, m4)" by fastforce
  note run = 1 2 3 4
  have r1: "reads m m1" using os_Stat_reads [OF 1] by simp
  show ?thesis
  proof (cases "get dst m")
    case (Some n)
    then have "r1 \<noteq> Inl NotExist" using os_Stat_answer(2) 1 by fastforce
    then have "m' = m1" using assms(1) by (auto simp: stageAsset_def 1 split: sum.splits sys_error.splits)
    then show ?thesis using Some r1 assms(4) by (simp add: reads_def)
  next
    case None
    then have absent: "\<nexists>n. r1 = Inr n" using os_Stat_answer(1) 1 by fastforce
    have "holds src data m" "never_partial dst data m"
      using assms(2,4) None by (auto simp: holds_def never_partial_def whole_def get_def)
    then have m1: "never_partial dst data m1" "holds src data m1" "get dst m1 = None"
      using r1 None by (simp_all add: never_partial_reads holds_reads get_reads)
    note m2 = os_MkdirAll_step [OF 2 m1 Dir_shorter [OF assms(3)]]
    then have m3: "never_partial dst data m3" "r3 = Inr () \<Longrightarrow> holds dst data m3"
        "r3 \<noteq> Inr () \<Longrightarrow> holds src data m3 \<and> get dst m3 = None"
      using os_Link_step [OF 3, of data] by simp_all
    note m4 = os_Chmod_step [OF 4 m3(1), of dst data]
    have "restored dst data (copyFile e src dst mode m3)" if "r3 \<noteq> Inr ()"
      using m3(3) [OF that] copyFile_step [OF m3(1)] assms(3) by simp
    then have "restored dst data (r, m')"
      using assms(1) absent m1 m2 m3 m4
      by (cases r1; cases r2; cases r3; cases r4)
        (auto simp: stageAsset_def run restored_def split: sys_error.splits prod.splits option.splits)
    then show ?thesis using None by (auto simp: restored_def never_partial_def whole_def holds_def)
  qed
qed

theorem stage_asset_atomic_witness:
  "\<exists>m'. stageAsset split_env ''/usr/lib/ants/k3s/k3s'' ''/usr/local/bin/k3s'' 493 agent_machine = (None, m')
    \<and> (\<exists>i p. get ''/usr/local/bin/k3s'' m' = Some (File i ''BIN'' p)) \<and> length (mHist m') = 5"
proof -
  let ?r = "stageAsset split_env ''/usr/lib/ants/k3s/k3s'' ''/usr/local/bin/k3s'' 493 agent_machine"
  obtain r m' where r: "?r = (r, m')" by fastforce
  have "fst ?r = None" and len: "length (mHist (snd ?r)) = 5" by code_simp+
  then have none: "r = None" using r by simp
  have "get ''/usr/lib/ants/k3s/k3s'' agent_machine = Some (File 1 ''BIN'' 493)"
    and "get ''/usr/local/bin/k3s'' agent_machine = None" and "mHist agent_machine = []"
    by (simp_all add: agent_machine_def get_def)
  from stage_asset_atomic [OF r this(1) _ this(3)] this(2) none r len show ?thesis by simp
qed

end
