(* ===== verification/Background_Ops.thy ===== *)
theory Background_Ops
  imports Rescale K3s_Control K3s_Exec_Safety
begin

text \<open>
  The K3s operations that run beside the loop: the closures handed to \<open>startK3sOperation\<close> with the
  functions they call in \<open>firstboot.go\<close>, \<open>rejoin.go\<close>, \<open>rescale.go\<close> and \<open>forget.go\<close> of
  \<open>antsd/internal/cluster\<close>. They are written over the two interfaces of the package \<open>k3s\<close>; what they
  guarantee is proved from the contracts and then stated of the real implementations.
\<close>

definition firstBootTimeout :: duration where
  "firstBootTimeout = 10 * minute"

text \<open>\<open>fmt.Errorf\<close> around the error of a step, when it has one.\<close>

definition wrapping :: "string \<Rightarrow> k3s_error option \<times> 's \<Rightarrow> k3s_error option \<times> 's" where
  "wrapping what r = (map_option (Wrap what) (fst r), snd r)"

subsection \<open>First boot\<close>

definition ensureK3sIsNotInstalled :: "'s installer \<Rightarrow> 's \<Rightarrow> k3s_error option \<times> 's" where
  "ensureK3sIsNotInstalled I s =
    (case InstalledRole I s of
       (Inl err, s) \<Rightarrow>
         if is_ErrNotInstalled err then (None, s)
         else (Some (Wrap ''cannot check for an existing k3s installation'' err), s)
     | (Inr role, s) \<Rightarrow> (Some (AlreadyInstalled role), s))"

definition installThenWaitReady ::
  "'s installer \<Rightarrow> (ctx \<Rightarrow> 's \<Rightarrow> k3s_error option \<times> 's) \<Rightarrow> (ctx \<Rightarrow> 's \<Rightarrow> k3s_error option \<times> 's)
    \<Rightarrow> ctx \<Rightarrow> 's \<Rightarrow> k3s_error option \<times> 's" where
  "installThenWaitReady I install waitReady c s =
    (case ensureK3sIsNotInstalled I s of
       (Some err, s) \<Rightarrow> (Some err, s)
     | (None, s) \<Rightarrow>
       let c = WithTimeout c firstBootTimeout (iNow I s);
           ready = (\<lambda>s. wrapping ''k3s was not installed and ready in time'' (waitReady c s))
       in case install c s of
            (None, s) \<Rightarrow> ready s
          | (Some err, s) \<Rightarrow>
            (case InstalledRole I s of
               (Inl roleErr, s) \<Rightarrow>
                 (Some (Wrap ''k3s install script failed, leaving no usable installation'' err), s)
             | (Inr role, s) \<Rightarrow> ready s))"

subsection \<open>Rejoin and conversion\<close>

definition wait_ready :: "'s installer \<Rightarrow> role \<Rightarrow> ctx \<Rightarrow> 's \<Rightarrow> k3s_error option \<times> 's" where
  "wait_ready I r = (if r = RoleServer then WaitServerReady I else WaitAgentReady I)"

definition checkInstalledRole :: "'s installer \<Rightarrow> role \<Rightarrow> 's \<Rightarrow> k3s_error option \<times> 's" where
  "checkInstalledRole I want s =
    (case InstalledRole I s of
       (Inl err, s) \<Rightarrow> (Some (Wrap ''read the installed k3s role'' err), s)
     | (Inr got, s) \<Rightarrow> (if got \<noteq> want then Some (WrongRole got want) else None, s))"

text \<open>The closure of \<open>startRejoin\<close>.\<close>

definition rejoin_op :: "'s installer \<Rightarrow> duration \<Rightarrow> role \<Rightarrow> ctx \<Rightarrow> 's \<Rightarrow> k3s_error option \<times> 's" where
  "rejoin_op I timeout r c s =
    (let c = WithTimeout c timeout (iNow I s) in
     case checkInstalledRole I r s of
       (Some err, s) \<Rightarrow> (Some err, s)
     | (None, s) \<Rightarrow> wrapping ''k3s did not report ready in time'' (wait_ready I r c s))"

definition convertThenWaitReady :: "'s installer \<Rightarrow> rescaleOrder \<Rightarrow> ctx \<Rightarrow> 's \<Rightarrow> k3s_error option \<times> 's" where
  "convertThenWaitReady I ord c s =
    (let c = WithTimeout c rescaleConvertTimeout (iNow I s) in
     case Convert I c (RoleO ord) (JoinIP ord) s of
       (Some err, s) \<Rightarrow> (Some err, s)
     | (None, s) \<Rightarrow>
       case InstalledRole I s of
         (Inl err, s) \<Rightarrow> (Some (Wrap ''read the installed k3s role'' err), s)
       | (Inr got, s) \<Rightarrow>
         if got \<noteq> RoleO ord then (Some (WrongRole got (RoleO ord)), s)
         else wrapping ''k3s was not converted and ready in time'' (wait_ready I (RoleO ord) c s))"

subsection \<open>Rounds of the coordinator\<close>

definition checkQuorum :: "'s control_plane \<Rightarrow> string \<Rightarrow> ctx \<Rightarrow> 's \<Rightarrow> k3s_error option \<times> 's" where
  "checkQuorum P self c s =
    (case NodeExists P (WithTimeout c quorumProbeTimeout (pNow P s)) self s of
       (Inl err, s) \<Rightarrow> (Some (Wrap ''this node is not on the majority side of the cluster'' err), s)
     | (Inr b, s) \<Rightarrow> (None, s))"

text \<open>The loop of \<open>startEviction\<close>.\<close>

fun delete_nodes :: "'s control_plane \<Rightarrow> ctx \<Rightarrow> string list \<Rightarrow> 's \<Rightarrow> k3s_error option \<times> 's" where
  "delete_nodes P c [] s = (None, s)"
| "delete_nodes P c (name # names) s =
     (case DeleteNode P c name s of
        (Some err, s) \<Rightarrow> (Some (Wrap (''delete the node object of '' @ name) err), s)
      | (None, s) \<Rightarrow> delete_nodes P c names s)"

definition prepareConversion :: "'s control_plane \<Rightarrow> ctx \<Rightarrow> string \<Rightarrow> 's \<Rightarrow> k3s_error option \<times> 's" where
  "prepareConversion P c name s =
    (case DrainNode P c name s of (drained, s) \<Rightarrow>
     case DeleteNode P c name s of
       (Some err, s) \<Rightarrow> (Some (Wrap (''delete the node object of '' @ name) err), s)
     | (None, s) \<Rightarrow>
       case NodeExists P c name s of
         (Inl err, s) \<Rightarrow> (Some (Wrap (''check that it left the cluster: '' @ name) err), s)
       | (Inr exists, s) \<Rightarrow> (if exists then Some (StillKnown name) else None, s))"

fun round_step :: "'s control_plane \<Rightarrow> round_work \<Rightarrow> ctx \<Rightarrow> 's \<Rightarrow> k3s_error option \<times> 's" where
  "round_step P (EvictNodes names) c s = delete_nodes P c names s"
| "round_step P (PrepareConversion name) c s = prepareConversion P c name s"
| "round_step P (EraseNode name) c s = DeleteNode P c name s"

text \<open>The closure of \<open>startCoordinationRound\<close>.\<close>

definition coordination_round ::
  "'s control_plane \<Rightarrow> string \<Rightarrow> round_work \<Rightarrow> ctx \<Rightarrow> 's \<Rightarrow> k3s_error option \<times> 's" where
  "coordination_round P self work c s =
    (let c = WithTimeout c rescaleCoordinationTimeout (pNow P s) in
     case checkQuorum P self c s of
       (Some err, s) \<Rightarrow> (Some err, s)
     | (None, s) \<Rightarrow> round_step P work c s)"

subsection \<open>All operations\<close>

text \<open>What the goroutine of \<open>startK3sOperation\<close> runs, by the closure it was given.\<close>

fun run_op ::
  "'s installer \<Rightarrow> 's control_plane \<Rightarrow> string \<Rightarrow> duration \<Rightarrow> k3s_op \<Rightarrow> ctx \<Rightarrow> 's \<Rightarrow> k3s_error option \<times> 's" where
  "run_op I P self timeout OpInstallInit c s =
     installThenWaitReady I (InstallServerInit I) (WaitServerReady I) c s"
| "run_op I P self timeout (OpInstallServer ip) c s =
     installThenWaitReady I (\<lambda>c. InstallServerJoin I c ip) (WaitServerReady I) c s"
| "run_op I P self timeout (OpInstallAgent ip) c s =
     installThenWaitReady I (\<lambda>c. InstallAgent I c ip) (WaitAgentReady I) c s"
| "run_op I P self timeout OpEnsureNotInstalled c s = ensureK3sIsNotInstalled I s"
| "run_op I P self timeout (OpRejoin r) c s = rejoin_op I timeout r c s"
| "run_op I P self timeout (OpRound work) c s = coordination_round P self work c s"
| "run_op I P self timeout (OpConvert ord) c s = convertThenWaitReady I ord c s"

fun first_boot_op :: "k3s_op \<Rightarrow> bool" where
  "first_boot_op OpInstallInit = True"
| "first_boot_op (OpInstallServer ip) = True"
| "first_boot_op (OpInstallAgent ip) = True"
| "first_boot_op OpEnsureNotInstalled = True"
| "first_boot_op _ = False"

fun round_names :: "round_work \<Rightarrow> string list" where
  "round_names (EvictNodes names) = names"
| "round_names (PrepareConversion name) = [name]"
| "round_names (EraseNode name) = [name]"

subsection \<open>What the contracts give\<close>

context installer_contract
begin

lemma refuses_existing:
  assumes "unit_role s \<noteq> {}"
  obtains err x s1 where "ensureK3sIsNotInstalled I s = (Some err, s1)" and "InstalledRole I s = (x, s1)"
proof -
  obtain x s1 where x: "InstalledRole I s = (x, s1)" by fastforce
  have "\<exists>err. ensureK3sIsNotInstalled I s = (Some err, s1)"
    using assms role_missing [of s _ s1] x by (cases x) (auto simp: ensureK3sIsNotInstalled_def)
  with x that show thesis by blast
qed

lemma first_boot_refuses:
  assumes "unit_role s \<noteq> {}" and "first_boot_op op"
  obtains err x s1 where "run_op I P self timeout op c s = (Some err, s1)" and "InstalledRole I s = (x, s1)"
proof -
  obtain err x s1 where "ensureK3sIsNotInstalled I s = (Some err, s1)" and "InstalledRole I s = (x, s1)"
    using refuses_existing [OF assms(1)] .
  moreover from this have "run_op I P self timeout op c s = (Some err, s1)"
    using assms(2) by (cases op) (simp_all add: installThenWaitReady_def)
  ultimately show thesis using that by blast
qed

lemma wait_ready_reads: "wait_ready I r c s = (x, s') \<Longrightarrow> unit_role s' = unit_role s"
  using server_wait_reads agent_wait_reads by (auto simp: wait_ready_def split: if_splits)

lemma wrapping_wait:
  "wrapping what (wait_ready I r c s) = (x, s') \<Longrightarrow> unit_role s' = unit_role s"
  using wait_ready_reads [of r c s "fst (wait_ready I r c s)" s'] by (auto simp: wrapping_def)

lemma rejoin_only_reads:
  assumes "rejoin_op I timeout r c s = (x, s')"
  shows "unit_role s' = unit_role s" and "x = None \<Longrightarrow> unit_role s = {r}"
proof -
  obtain y s1 where y: "InstalledRole I s = (y, s1)" by fastforce
  have s1: "unit_role s1 = unit_role s" using role_reads [OF y] .
  have "unit_role s' = unit_role s \<and> (x = None \<longrightarrow> unit_role s = {r})"
    using assms y s1 role_answer [of s r s1] wrapping_wait
    by (cases y) (auto simp: rejoin_op_def checkInstalledRole_def Let_def split: if_splits)
  then show "unit_role s' = unit_role s" and "x = None \<Longrightarrow> unit_role s = {r}" by simp_all
qed

lemma convert_installs_role:
  assumes "convertThenWaitReady I ord c s = (None, s')"
  shows "unit_role s' = {RoleO ord}"
proof -
  let ?c = "WithTimeout c rescaleConvertTimeout (iNow I s)"
  obtain x s1 where x: "Convert I ?c (RoleO ord) (JoinIP ord) s = (x, s1)" by fastforce
  obtain y s2 where y: "InstalledRole I s1 = (y, s2)" by fastforce
  have "x = None" "y = Inr (RoleO ord)"
    and w: "wrapping ''k3s was not converted and ready in time'' (wait_ready I (RoleO ord) ?c s2) = (None, s')"
    using assms by (auto simp: convertThenWaitReady_def x y Let_def split: option.splits sum.splits if_splits)
  then show ?thesis
    using role_reads [OF y] role_answer [of s1 "RoleO ord" s2] y wrapping_wait [OF w] by simp
qed

end

context control_plane_contract
begin

lemma delete_nodes_effect:
  assumes "delete_nodes P c names s = (r, s')"
  shows "nodes s - set names \<subseteq> nodes s'" and "nodes s' \<subseteq> nodes s" and "r = None \<Longrightarrow> nodes s' = nodes s - set names"
proof -
  have "nodes s - set names \<subseteq> nodes s' \<and> nodes s' \<subseteq> nodes s \<and> (r = None \<longrightarrow> nodes s' = nodes s - set names)"
    using assms
  proof (induction names arbitrary: s)
    case (Cons name names)
    obtain x s1 where x: "DeleteNode P c name s = (x, s1)" by fastforce
    show ?case
    proof (cases x)
      case None
      then show ?thesis using Cons.IH [of s1] Cons.prems delete_done [of c name s s1] x by auto
    next
      case (Some err)
      then show ?thesis using Cons.prems delete_bounds [OF x] x by auto
    qed
  qed simp
  then show "nodes s - set names \<subseteq> nodes s'" and "nodes s' \<subseteq> nodes s" and "r = None \<Longrightarrow> nodes s' = nodes s - set names"
    by simp_all
qed

lemma prepareConversion_effect:
  assumes "prepareConversion P c name s = (r, s')"
  shows "nodes s - {name} \<subseteq> nodes s' \<and> nodes s' \<subseteq> nodes s \<and> (r = None \<longrightarrow> nodes s' = nodes s - {name})"
proof -
  obtain x s1 where x: "DrainNode P c name s = (x, s1)" by fastforce
  obtain y s2 where y: "DeleteNode P c name s1 = (y, s2)" by fastforce
  obtain z s3 where z: "NodeExists P c name s2 = (z, s3)" by fastforce
  note keep = drain_keeps [OF x] delete_bounds [OF y] exists_reads [OF z]
  show ?thesis
  proof (cases y)
    case None
    then have "nodes s2 = nodes s1 - {name}" using delete_done y by blast
    moreover have "s' = s3" using assms x y z None by (cases z) (auto simp: prepareConversion_def)
    ultimately show ?thesis using keep by auto
  next
    case (Some err)
    then have "s' = s2" "r \<noteq> None" using assms x y by (auto simp: prepareConversion_def)
    then show ?thesis using keep by auto
  qed
qed

lemma round_step_effect:
  assumes "round_step P work c s = (r, s')"
  shows "nodes s - set (round_names work) \<subseteq> nodes s' \<and> nodes s' \<subseteq> nodes s
    \<and> (r = None \<longrightarrow> nodes s' = nodes s - set (round_names work))"
proof (cases work)
  case (EvictNodes names)
  then show ?thesis using assms delete_nodes_effect [of c names s r s'] by simp
next
  case (PrepareConversion name)
  then show ?thesis using assms prepareConversion_effect [of c name s r s'] by simp
next
  case (EraseNode name)
  then show ?thesis using assms delete_bounds [of c name s r s'] delete_done [of c name s s'] by auto
qed

lemma checkQuorum_reads: "checkQuorum P self c s = (r, s') \<Longrightarrow> nodes s' = nodes s"
  using exists_reads by (auto simp: checkQuorum_def split: sum.splits prod.splits)

lemma round_effect:
  assumes "coordination_round P self work c s = (r, s')"
  shows "nodes s - set (round_names work) \<subseteq> nodes s' \<and> nodes s' \<subseteq> nodes s
    \<and> (r = None \<longrightarrow> nodes s' = nodes s - set (round_names work))
    \<and> (fst (checkQuorum P self (WithTimeout c rescaleCoordinationTimeout (pNow P s)) s) \<noteq> None \<longrightarrow>
        r \<noteq> None \<and> nodes s' = nodes s)"
proof -
  let ?c = "WithTimeout c rescaleCoordinationTimeout (pNow P s)"
  obtain q s1 where q: "checkQuorum P self ?c s = (q, s1)" by fastforce
  show ?thesis
  proof (cases q)
    case None
    then have "round_step P work ?c s1 = (r, s')" using assms q by (simp add: coordination_round_def Let_def)
    then show ?thesis using round_step_effect [of work ?c s1 r s'] checkQuorum_reads [OF q] q None by simp
  next
    case (Some err)
    then show ?thesis using assms checkQuorum_reads [OF q] q by (simp add: coordination_round_def Let_def) blast
  qed
qed

end

context kubectl_documented
begin

lemma exec_round_effect:
  assumes "coordination_round (ExecControlPlane e a) self work c m = (r, m')"
  shows "nodes_of (mCluster m) - set (round_names work) \<subseteq> nodes_of (mCluster m')
    \<and> nodes_of (mCluster m') \<subseteq> nodes_of (mCluster m)
    \<and> (r = None \<longrightarrow> nodes_of (mCluster m') = nodes_of (mCluster m) - set (round_names work))
    \<and> (fst (checkQuorum (ExecControlPlane e a) self (WithTimeout c rescaleCoordinationTimeout (mClock m)) m) \<noteq> None \<longrightarrow>
        r \<noteq> None \<and> nodes_of (mCluster m') = nodes_of (mCluster m))"
proof -
  have "pNow (ExecControlPlane e a) m = mClock m" by (simp add: ExecControlPlane_def)
  then show ?thesis using exec_control.round_effect [OF assms] by simp
qed

end

subsection \<open>The operations on the real machine\<close>

text \<open>
  C18: on a machine that holds a K3s unit of any kind, no operation of the first boot changes
  anything: each fails, with the files, the cluster and the list of commands run as they were.
\<close>

theorem first_boot_never_over:
  assumes "first_boot_op op" and "unit_role i m \<noteq> {}"
  shows "\<exists>err m'. run_op (ExecInstaller e i) P self timeout op c m = (Some err, m') \<and> reads m m'"
proof -
  obtain err x m' where "run_op (ExecInstaller e i) P self timeout op c m = (Some err, m')"
    and "InstalledRole (ExecInstaller e i) m = (x, m')"
    using exec.first_boot_refuses [OF assms(2,1)] .
  then show ?thesis using exec_InstalledRole_spec(1) [of e i m x m'] by (auto simp: ExecInstaller_def)
qed

theorem first_boot_never_over_witness:
  "\<exists>err m'. run_op (ExecInstaller demo_env demo_installer) (ExecControlPlane demo_env NewExecControlPlane) ''ants02'' 0 OpInstallInit Background agent_machine
    = (Some err, m') \<and> mRan m' = []"
proof -
  have "unit_role demo_installer agent_machine \<noteq> {}" by code_simp
  from first_boot_never_over [OF _ this, of OpInstallInit demo_env "ExecControlPlane demo_env NewExecControlPlane" "''ants02''" 0 Background]
  show ?thesis by (auto simp: reads_def agent_machine_def)
qed



text \<open>
  C20: a coordination round removes from K3s no machine but those it names, all of them when it ends
  well, and nothing at all when the cluster did not answer the quorum probe first.
\<close>

theorem round_removes_only_its_targets:
  assumes "kubectl_documented e a nodes_of"
    and "run_op I (ExecControlPlane e a) self timeout (OpRound work) c m = (r, m')"
  shows "nodes_of (mCluster m) - set (round_names work) \<subseteq> nodes_of (mCluster m')
    \<and> nodes_of (mCluster m') \<subseteq> nodes_of (mCluster m)
    \<and> (r = None \<longrightarrow> nodes_of (mCluster m') = nodes_of (mCluster m) - set (round_names work))
    \<and> (fst (checkQuorum (ExecControlPlane e a) self (WithTimeout c rescaleCoordinationTimeout (mClock m)) m) \<noteq> None \<longrightarrow>
        r \<noteq> None \<and> nodes_of (mCluster m') = nodes_of (mCluster m))"
  using kubectl_documented.exec_round_effect [OF assms(1), of self work c m r m'] assms(2) by simp

definition three_nodes :: "string list machine" where
  "three_nodes = \<lparr>mClock = 0, mFs = [], mHist = [], mSys = 0, mRan = [], mCluster = [''n1'', ''n2'', ''n3'']\<rparr>"

theorem round_removes_only_its_targets_witness:
  "\<exists>m'. run_op (ExecInstaller cluster_env demo_installer) (ExecControlPlane cluster_env NewExecControlPlane) ''n1'' 0 (OpRound (EvictNodes [''n3''])) Background three_nodes
    = (None, m') \<and> set (mCluster m') = {''n1'', ''n2''}"
proof -
  obtain r m' where r: "run_op (ExecInstaller cluster_env demo_installer) (ExecControlPlane cluster_env NewExecControlPlane) ''n1'' 0
      (OpRound (EvictNodes [''n3''])) Background three_nodes = (r, m')"
    by fastforce
  have "fst (coordination_round (ExecControlPlane cluster_env NewExecControlPlane) ''n1'' (EvictNodes [''n3'']) Background three_nodes) = None"
    by code_simp
  then have "r = None" using r by simp
  with round_removes_only_its_targets [OF cluster_kubectl.kubectl_documented_axioms r] r show ?thesis
    by (auto simp: three_nodes_def)
qed

end
