(* ===== verification/Round_Warrants.thy ===== *)
theory Round_Warrants
  imports Rescale_Rounds Background_Ops
begin

text \<open>
  Every destructive round of every run was warranted by an observation: the coordinator that started
  it had just read a view in which it held the turn, the membership was quiet, and each machine of
  the round was one the rules allow to remove. A handler either starts no round or starts one with
  such a warrant (\<open>just_step\<close>); the invariant of the run loop follows.
\<close>

subsection \<open>Warrants\<close>

fun warrant :: "clusterView \<Rightarrow> string \<Rightarrow> round_work \<Rightarrow> bool" where
  "warrant view self (EvictNodes names) \<longleftrightarrow>
     isRescaleCoordinator view self \<and> \<not> isEtcdMembershipChanging view \<and> set names \<subseteq> set (failedMembersNames view)"
| "warrant view self (PrepareConversion name) \<longleftrightarrow>
     isRescaleCoordinator view self \<and> \<not> isEtcdMembershipChanging view
     \<and> map_option (Name \<circ> fst) (chooseConversionTarget view self) = Some name"
| "warrant view self (EraseNode name) \<longleftrightarrow>
     isRescaleCoordinator view self \<and> \<not> isEtcdMembershipChanging view \<and> isVirginMember view name"

text \<open>Some observation of the history warrants the round.\<close>

definition observed :: "world \<Rightarrow> history \<Rightarrow> clusterView \<Rightarrow> bool" where
  "observed w h view \<longleftrightarrow> (\<exists>h'. suffix (IoSnapshot # h') h \<and> view = \<lparr>snapshot = wSnapshot w h'\<rparr>)"

fun justified :: "world \<Rightarrow> string \<Rightarrow> history \<Rightarrow> bool" where
  "justified w self [] = True"
| "justified w self (e # h) =
     (justified w self h \<and>
      (case round_of e of None \<Rightarrow> True | Some work \<Rightarrow> \<exists>view. observed w h view \<and> warrant view self work))"

lemma observed_suffix: "observed w h view \<Longrightarrow> suffix h h' \<Longrightarrow> observed w h' view"
  unfolding observed_def by (blast intro: suffix_order.trans)

lemma observed_now [simp]: "observed w (IoSnapshot # h) \<lparr>snapshot = wSnapshot w h\<rparr>"
  unfolding observed_def by blast

lemma observed_Cons: "observed w h view \<Longrightarrow> observed w (e # h) view"
  by (erule observed_suffix) (simp add: suffix_ConsI)

lemma observed_stop [simp]:
  "observed w h view \<Longrightarrow> observed w (case t of None \<Rightarrow> h | Some i \<Rightarrow> IoStop i # h) view"
  by (simp add: observed_Cons split: option.split)

lemma justified_stop [simp]:
  "justified w self (case t of None \<Rightarrow> h | Some i \<Rightarrow> IoStop i # h) = justified w self h"
  by (simp split: option.split)

lemma justified_member:
  assumes "justified w self h" and "IoStartOp i (OpRound work) \<in> set h"
  shows "\<exists>view. observed w h view \<and> warrant view self work"
  using assms
proof (induction h)
  case (Cons e h)
  show ?case
  proof (cases "e = IoStartOp i (OpRound work)")
    case True
    then show ?thesis using Cons.prems(1) observed_Cons by fastforce
  next
    case False
    then show ?thesis using Cons observed_Cons by fastforce
  qed
qed simp

subsection \<open>Steps\<close>

definition just_step :: "world \<Rightarrow> manager \<Rightarrow> manager \<Rightarrow> bool" where
  "just_step w m m' \<longleftrightarrow> m_config m' = m_config m \<and> suffix (m_calls m) (m_calls m') \<and>
    (justified w (selfName m) (m_calls m) \<longrightarrow> justified w (selfName m) (m_calls m'))"

named_theorems just_rules \<open>the handlers are justified steps\<close>

lemma just_refl [simp]: "just_step w m m"
  by (simp add: just_step_def)

lemma just_trans: "just_step w m m1 \<Longrightarrow> just_step w m1 m2 \<Longrightarrow> just_step w m m2"
  by (auto simp: just_step_def intro: suffix_order.trans)

lemmas just_simps = just_step_def suffix_ConsI call_defs

lemma just_emit [just_rules]: "round_of e = None \<Longrightarrow> just_step w m (emit e m)"
  by (simp add: just_simps)

lemma just_failBootstrap [just_rules]: "just_step w m (failBootstrap m)"
  by (simp add: failBootstrap_def just_simps)

lemma just_onRequestBootstrap [just_rules]: "just_step w m (snd (onRequestBootstrap w m))"
  by (auto simp: onRequestBootstrap_def just_simps split: prod.split)

lemma just_onCancelBootstrap [just_rules]: "just_step w m (snd (onCancelBootstrap m))"
  by (auto simp: onCancelBootstrap_def just_simps)

lemma just_onConfirmBootstrap [just_rules]: "just_step w m (snd (onConfirmBootstrap w m))"
  by (auto simp: onConfirmBootstrap_def just_simps split: option.split)

lemma just_onBootstrapRequested [just_rules]: "just_step w m (onBootstrapRequested m)"
  by (auto simp: onBootstrapRequested_def just_simps Let_def)

lemma just_onBootstrapWaitExpired [just_rules]: "just_step w m (onBootstrapWaitExpired w m)"
  by (auto simp: onBootstrapWaitExpired_def failBootstrap_def just_simps split: option.split)

lemma just_maybeInstallServer [just_rules]: "just_step w m (maybeInstallServer view m)"
  by (auto simp: maybeInstallServer_def just_simps split: prod.split)

lemma just_maybeInstallAgent [just_rules]: "just_step w m (maybeInstallAgent view m)"
  by (auto simp: maybeInstallAgent_def just_simps split: prod.split)

lemma just_maybeStartJoiningPath [just_rules]: "just_step w m (maybeStartJoiningPath view m)"
  by (auto simp: maybeStartJoiningPath_def bootstrap_reset_def just_simps Let_def split: prod.split)

lemma just_maybeJoinCluster [just_rules]: "just_step w m (maybeJoinCluster view m)"
  by (auto simp: maybeJoinCluster_def startForgetMe_def joinAsAgent_def just_simps split: prod.split)

lemma just_onForgetMe [just_rules]: "just_step w m (onForgetMe w p m)"
  by (auto simp: onForgetMe_def just_simps split: option.split)

lemma just_sendForgetMe [just_rules]: "just_step w m (sendForgetMe w m)"
  by (simp add: sendForgetMe_def just_simps Let_def)

lemma just_onForgetRetry [just_rules]: "just_step w m (onForgetRetry w m)"
  by (simp add: onForgetRetry_def just_sendForgetMe)

lemma just_onJoiningCleanupChecked [just_rules]: "just_step w m (onJoiningCleanupChecked w m)"
  by (simp add: onJoiningCleanupChecked_def sendForgetMe_def just_simps Let_def)

lemma just_confirmForgotten [just_rules]: "just_step w m (confirmForgotten w name m)"
  by (simp add: confirmForgotten_def just_simps)

lemma just_onRescaleConvert [just_rules]: "just_step w m (onRescaleConvert p m)"
  by (auto simp: onRescaleConvert_def just_simps Let_def split: option.split)

lemma just_failJoining [just_rules]: "just_step w m (failJoining m)"
  by (simp add: failJoining_def just_simps)

lemma just_failRejoin [just_rules]: "just_step w m (failRejoin m)"
  by (simp add: failRejoin_def just_simps)

lemma just_failRescale [just_rules]: "just_step w m (failRescale m)"
  by (simp add: failRescale_def just_simps Let_def)

lemma just_abandonCoordination [just_rules]: "just_step w m (abandonCoordination w m)"
  by (simp add: abandonCoordination_def scheduleRescaleCheck_def armTimer_def just_simps Let_def)

lemma just_installed [just_rules]:
  "just_step w m (onBootstrapInstallSucceeded w m)" "just_step w m (onJoiningInstallSucceeded w m)"
  "just_step w m (onRejoinReady m)" "just_step w m (onRescaleConverted w m)"
  by (auto simp: onBootstrapInstallSucceeded_def onJoiningInstallSucceeded_def onRejoinReady_def
      onRescaleConverted_def buildFirstBootState_def becomeStable_def panic_def just_simps Let_def
      split: node_state.split option.split)

lemma just_startRejoin [just_rules]: "just_step w m (startRejoin m)"
  by (auto simp: startRejoin_def failRejoin_def panic_def just_simps split: option.split)

text \<open>Setting the progress records changes no call.\<close>

lemma just_fields [simp]:
  "just_step w m (m'\<lparr>m_joining := j\<rparr>) = just_step w m m'" "just_step w m (m'\<lparr>m_bootstrap := b\<rparr>) = just_step w m m'"
  "just_step w m (m'\<lparr>m_rescale := r\<rparr>) = just_step w m m'"
  by (simp_all add: just_step_def)

lemma just_observe: "observeCluster w m = (view, m') \<Longrightarrow> just_step w m m' \<and> observed w (m_calls m') view"
  by (auto simp: observeCluster_def just_emit) (simp add: emit_def)

subsection \<open>Rounds\<close>

lemma just_round:
  assumes "observed w (m_calls m) view" and "warrant view (selfName m) work" and "just_step w m m1"
  shows "just_step w m (startCoordinationRound work m1)"
proof -
  have "selfName m1 = selfName m" "observed w (m_calls m1) view"
    using assms observed_suffix by (auto simp: just_step_def)
  then have "\<exists>view. observed w (IoSetState StateRescaleCoordinating # m_calls m1) view \<and> warrant view (selfName m) work"
    using assms(2) observed_Cons by blast
  then show ?thesis
    using assms(3) by (auto simp: startCoordinationRound_def just_simps)
qed

lemma just_rescale_stopTimer [just_rules]: "just_step w m (rescale_stopTimer m)"
  by (simp add: just_simps)

lemma just_joining_stopTimer [just_rules]: "just_step w m (joining_stopTimer m)"
  by (simp add: just_simps)

lemma just_bootstrap_stopTimer [just_rules]: "just_step w m (bootstrap_stopTimer m)"
  by (simp add: just_simps)

lemma just_forget [just_rules]: "just_step w m (forget m)"
  by (simp add: forget_def Let_def just_rescale_stopTimer)

lemma just_resetProgress [just_rules]: "just_step w m (resetProgress m)"
  by (simp add: resetProgress_def Let_def just_rescale_stopTimer)

lemma just_scheduleRescaleCheck [just_rules]: "just_step w m (scheduleRescaleCheck deadline t m)"
  by (simp add: scheduleRescaleCheck_def armTimer_def just_simps Let_def)

lemma just_trackImbalance: "trackImbalance view t m = (r, m') \<Longrightarrow> just_step w m m' \<and> m_calls m' = m_calls m"
  by (auto simp: trackImbalance_def Let_def split: if_splits)

lemma just_startConversion:
  assumes "startConversion w view m = (started, m')" and "observed w (m_calls m) view"
    and "isRescaleCoordinator view (selfName m)" and "\<not> isEtcdMembershipChanging view"
  shows "just_step w m m'"
proof (cases "chooseConversionTarget view (selfName m)")
  case None
  then show ?thesis using assms(1) by (simp add: startConversion_def)
next
  case (Some choice)
  obtain target r where choice: "choice = (target, r)" by fastforce
  define m1 where "m1 = (resetProgress m)\<lparr>m_rescale := (m_rescale (resetProgress m))\<lparr>imbalanceControlPlaneSince := zero_time\<rparr>\<rparr>"
  define m2 where "m2 = (\<lambda>r. (emit IoLocalIP m1)\<lparr>m_rescale := r\<rparr>)"
  have "just_step w m m1" by (simp add: m1_def just_resetProgress)
  then have "just_step w m (m2 r)" for r
    using just_trans [OF _ just_emit [of IoLocalIP w m1]] by (simp add: m2_def)
  moreover have "\<exists>r. m' = startCoordinationRound (PrepareConversion (Name target)) (m2 r)"
    using assms(1) by (auto simp: startConversion_def Some choice Let_def LocalIP_def m1_def m2_def)
  moreover have "warrant view (selfName m) (PrepareConversion (Name target))"
    using assms(3,4) by (simp add: Some choice)
  ultimately show ?thesis using just_round [OF assms(2)] by blast
qed

lemma evictable_failed:
  assumes "durablyFailedMembersNames v since grace t = (ev, due)"
  shows "set ev \<subseteq> set (failedMembersNames v)"
proof -
  have "set (fst (foldl (eviction_step dl t) a names)) \<subseteq> set (fst a) \<union> set names" for dl a names
    by (induction names arbitrary: a) (fastforce simp: eviction_step_def Let_def split: prod.splits if_splits)+
  from this [of "failure_deadline since grace t" "([], zero_time)" "failedMembersNames v"] show ?thesis
    using assms by (auto simp: durablyFailedMembersNames_def split: prod.splits)
qed

lemma just_maybeRescale [just_rules]:
  assumes "observed w (m_calls m) view"
  shows "just_step w m (maybeRescale w view m)"
proof -
  define t where "t = wNow w (m_calls m)"
  define m1 where "m1 = (emit IoNow m)\<lparr>m_rescale := trackFailures view t (m_rescale m)\<rparr>"
  have m1: "just_step w m m1" by (simp add: m1_def just_emit)
  have o1: "observed w (m_calls m1) view" using assms m1 observed_suffix by (auto simp: just_step_def)
  obtain ev due where ev: "durablyFailedMembersNames view (failedSince (m_rescale m1)) (m_evictionGrace m1) t = (ev, due)"
    by fastforce
  obtain isSettled dl m2 where ti: "trackImbalance view t m1 = ((isSettled, dl), m2)" by (metis prod.exhaust)
  obtain started m3 where sc: "startConversion w view m2 = (started, m3)" by fastforce
  have now: "now w m = (t, emit IoNow m)" by (simp add: now_def t_def)
  have m2: "just_step w m1 m2" "m_calls m2 = m_calls m1" using just_trackImbalance [OF ti] by simp_all
  have run: "maybeRescale w view m =
    (if \<not> RescaleEnabled (m_config m) then m
     else if m_state m1 \<noteq> StateStableServer then m1
     else if \<not> isRescaleCoordinator view (selfName m1) then forget m1
     else if t < retryNotBefore (m_rescale m1) then m1
     else if isEtcdMembershipChanging view then rescale_stopTimer m1
     else if ev \<noteq> [] then startEviction ev m1
     else if isSettled then (if started then m3 else scheduleRescaleCheck (earliest due (t + m_rescaleSettleDelay m3)) t m3)
     else scheduleRescaleCheck (earliest due dl) t m2)"
    using ev ti sc by (simp add: maybeRescale_def now Let_def m1_def emit_def)
  have m: "just_step w m m'" if "just_step w m1 m'" for m' using just_trans [OF m1 that] .
  have quiet: "just_step w m (forget m1)" "just_step w m (rescale_stopTimer m1)"
      "just_step w m (scheduleRescaleCheck d t m2)" for d
    using m just_forget just_rescale_stopTimer just_trans [OF m2(1) just_scheduleRescaleCheck] by blast+
  have evict: "just_step w m (startEviction ev m1)"
    if "isRescaleCoordinator view (selfName m1)" "\<not> isEtcdMembershipChanging view"
  proof -
    have "warrant view (selfName m1) (EvictNodes ev)" using that evictable_failed [OF ev] by simp
    then have "just_step w m1 (startEviction ev m1)"
      using just_round [OF o1, of "EvictNodes ev"] just_resetProgress [of w m1] by (simp add: startEviction_def Let_def)
    then show ?thesis by (rule m)
  qed
  have convert: "just_step w m m3" "just_step w m (scheduleRescaleCheck d t m3)"
    if "isRescaleCoordinator view (selfName m1)" "\<not> isEtcdMembershipChanging view" for d
  proof -
    have "selfName m2 = selfName m1" using m2(1) by (simp add: just_step_def)
    then have "just_step w m2 m3" using just_startConversion [OF sc] o1 m2(2) that by simp
    then have "just_step w m1 m3" using just_trans [OF m2(1)] by blast
    then show "just_step w m m3" "just_step w m (scheduleRescaleCheck d t m3)"
      using m just_trans [OF _ just_scheduleRescaleCheck] by blast+
  qed
  show ?thesis unfolding run using m1 quiet evict convert by simp
qed

subsection \<open>The other handlers\<close>

lemma just_observing:
  assumes "\<And>view. observed w (m_calls (emit IoSnapshot m)) view \<Longrightarrow> just_step w (emit IoSnapshot m) (f view (emit IoSnapshot m))"
  shows "just_step w m (case observeCluster w m of (view, m) \<Rightarrow> f view m)"
proof -
  have "observed w (m_calls (emit IoSnapshot m)) \<lparr>snapshot = wSnapshot w (m_calls m)\<rparr>"
    by (simp add: emit_def)
  from assms [OF this] show ?thesis
    using just_trans [OF just_emit [of IoSnapshot w m]] by (simp add: observeCluster_def)
qed

lemma just_observing_after:
  assumes "just_step w m m1"
    and "\<And>view. observed w (m_calls (emit IoSnapshot m1)) view \<Longrightarrow> just_step w (emit IoSnapshot m1) (f view (emit IoSnapshot m1))"
  shows "just_step w m (case observeCluster w m1 of (view, m) \<Rightarrow> f view m)"
  using just_trans [OF assms(1) just_observing] assms(2) by blast

lemma just_onBootstrapStart [just_rules]: "just_step w m (onBootstrapStart w m)"
proof (cases "m_state m = StateBootstrapWaiting")
  case True
  have install: "just_step w m1 (maybeInstallAgent view (maybeInstallServer view m1))" for view m1
    using just_trans [OF just_maybeInstallServer just_maybeInstallAgent] .
  have init: "just_step w m1 (startK3sOperation OpInstallInit (transition StateBootstrapInstallInit m1))" for m1
    by (simp add: just_simps)
  have set_b: "just_step w m1 m2" if "just_step w (m1\<lparr>m_bootstrap := b\<rparr>) m2" for b m1 m2
    using that by (simp add: just_step_def)
  show ?thesis
    using True unfolding onBootstrapStart_def
    by (simp add: Let_def, intro just_observing_after just_bootstrap_stopTimer)
      (auto simp: Let_def intro: just_failBootstrap set_b [OF install] set_b [OF init] set_b [OF just_failBootstrap]
        split: sum.split prod.split)
qed (simp add: onBootstrapStart_def)

lemma just_onJoinWaitExpired [just_rules]: "just_step w m (onJoinWaitExpired w m)"
proof -
  have "just_step w m (joining_stopTimer (m\<lparr>m_joining := j\<rparr>))" for j by (simp add: just_simps)
  then show ?thesis unfolding onJoinWaitExpired_def Let_def
    by (auto intro!: just_observing_after just_maybeJoinCluster)
qed

lemma just_onForgotten [just_rules]: "just_step w m (onForgotten w p m)"
proof -
  have "just_step w m (transition StateJoiningWaiting (m1\<lparr>m_joining := j\<rparr>))" if "just_step w m m1" for m1 j
    using that by (simp add: just_simps)
  then show ?thesis unfolding onForgotten_def Let_def
    by (auto intro!: just_observing_after just_maybeJoinCluster just_joining_stopTimer split: option.split)
qed

lemma just_onRescaleCheck [just_rules]: "just_step w m (onRescaleCheck w m)"
  unfolding onRescaleCheck_def by (rule just_observing) (rule just_maybeRescale)

lemma just_onForgetProbed [just_rules]: "just_step w m (onForgetProbed w name found m)"
  unfolding onForgetProbed_def
proof (rule just_observing)
  let ?m = "emit IoSnapshot m"
  fix view
  assume view: "observed w (m_calls ?m) view"
  have "just_step w ?m (startCoordinationRound (EraseNode name)
      ((resetProgress ?m)\<lparr>m_rescale := (m_rescale (resetProgress ?m))\<lparr>cleaning := name\<rparr>\<rparr>))"
    if "canForget view name ?m" "\<not> isEtcdMembershipChanging view"
    using just_round [OF view, of "EraseNode name"] that just_resetProgress
    by (auto simp: canForget_def split: if_splits)
  then show "just_step w ?m (if \<not> canForget view name ?m then ?m else if \<not> found then confirmForgotten w name ?m
      else if isEtcdMembershipChanging view then ?m
      else let m = resetProgress ?m; m = m\<lparr>m_rescale := (m_rescale m)\<lparr>cleaning := name\<rparr>\<rparr>
        in startCoordinationRound (EraseNode name) m)"
    by (simp add: just_confirmForgotten Let_def)
qed

lemma just_erase_evicted [just_rules]: "just_step w m (erase_evicted w names m)"
proof (induction names arbitrary: m)
  case (Cons name names)
  have "just_step w m ((emit (IoRemoveFailed name) m)\<lparr>m_rescale := r\<rparr>)" for r by (simp add: just_emit)
  then show ?case
    using just_trans [OF _ Cons.IH] just_emit [of "IoRemoveFailed name" w m]
    by (simp add: RemoveFailedNode_def split: option.split)
qed simp

lemma just_transition [just_rules]: "just_step w m (transition st m)"
  by (simp add: just_simps)

lemma just_finishEviction [just_rules]: "just_step w m (finishEviction w m)"
  unfolding finishEviction_def Let_def
  by (intro just_observing_after just_maybeRescale just_trans [OF _ just_transition])
    (simp_all add: just_erase_evicted)

lemma just_finishForgetting [just_rules]: "just_step w m (finishForgetting w m)"
  unfolding finishForgetting_def Let_def
  by (intro just_observing_after just_maybeRescale just_trans [OF _ just_confirmForgotten]
      just_trans [OF _ just_transition]) simp_all

lemma just_onRescaleCoordinationDone [just_rules]: "just_step w m (onRescaleCoordinationDone w m)"
proof -
  have set_r: "just_step w m1 m2" if "just_step w (m1\<lparr>m_rescale := r\<rparr>) m2" for r m1 m2
    using that by (simp add: just_step_def)
  have "just_step w m (abandonCoordination w (emit (IoSend e p) (m\<lparr>m_rescale := r\<rparr>)))" for e p r
    by (rule set_r, rule just_trans [OF just_emit just_abandonCoordination]) simp
  moreover have "just_step w m (scheduleRescaleCheck d t (emit IoNow (transition st (emit (IoSend e p) (m\<lparr>m_rescale := r\<rparr>)))))" for d t st e p r
    by (rule set_r, rule just_trans [OF just_trans [OF just_trans [OF just_emit just_transition] just_emit] just_scheduleRescaleCheck]) simp_all
  ultimately show ?thesis
    by (auto simp: onRescaleCoordinationDone_def Let_def just_finishForgetting just_finishEviction SendUserEvent_def
        now_def split: option.split)
qed

lemma just_onK3sOperation [just_rules]:
  "just_step w m (onK3sOperationSucceeded w m)" "just_step w m (onK3sOperationFailed w m)"
  unfolding onK3sOperationSucceeded_def onK3sOperationFailed_def
  by (cases "m_state m"; simp add: just_rules)+

lemma just_reply: "just_step w m (snd r) \<Longrightarrow> just_step w m (reply ch r)"
  by (cases r) (simp add: reply_def, erule just_trans, simp add: just_emit)

lemma just_handleCommand: "just_step w m (handleCommand w c m)"
  by (cases c) (simp_all add: just_rules just_reply)

lemma just_handleUserEvent: "just_step w m (handleUserEvent w e m)"
  by (simp add: handleUserEvent_def just_rules)

lemma just_handleSerfEvent: "just_step w m (handleSerfEvent w e m)"
proof -
  have "just_step w m1 (maybeRescale w view (maybeInstallAgent view (maybeInstallServer view
      (maybeJoinCluster view (maybeStartJoiningPath view m1)))))" if o: "observed w (m_calls m1) view" for m1 view
  proof -
    have four: "just_step w m1 (maybeInstallAgent view (maybeInstallServer view
      (maybeJoinCluster view (maybeStartJoiningPath view m1))))" (is "just_step w m1 ?m")
      by (rule just_trans [OF just_trans [OF just_trans [OF just_maybeStartJoiningPath just_maybeJoinCluster]
            just_maybeInstallServer] just_maybeInstallAgent])
    then have "observed w (m_calls ?m) view" using o observed_suffix by (auto simp: just_step_def)
    then show ?thesis using just_trans [OF four just_maybeRescale] by blast
  qed
  then show ?thesis
    by (auto simp: handleSerfEvent_def just_handleUserEvent intro!: just_observing)
qed

lemma just_chooseInitialState: "just_step w m (chooseInitialState w m)"
proof -
  have "just_step w m (startRejoin ((emit IoLoad m)\<lparr>m_persistedState := p\<rparr>))" for p
  proof -
    have "just_step w m ((emit IoLoad m)\<lparr>m_persistedState := p\<rparr>)" by (simp add: just_simps)
    then show ?thesis using just_trans just_startRejoin by blast
  qed
  moreover have "just_step w m (transition st (emit IoLoad m))" for st
    using just_trans [OF just_emit just_transition] by simp
  ultimately show ?thesis
    by (auto simp: chooseInitialState_def Let_def split: sum.split load_error.split)
qed

lemma just_shutdown: "just_step w m (shutdown m)"
  unfolding shutdown_def
  by (rule just_trans [OF just_trans [OF just_bootstrap_stopTimer just_joining_stopTimer] just_rescale_stopTimer])

subsection \<open>The invariant\<close>

definition just_manager :: "world \<Rightarrow> config \<Rightarrow> manager \<Rightarrow> bool" where
  "just_manager w conf m \<longleftrightarrow> selfName m = NodeNameC conf \<and> justified w (NodeNameC conf) (m_calls m)"

lemma just_keeps: "just_step w m m' \<Longrightarrow> just_manager w conf m \<Longrightarrow> just_manager w conf m'"
  by (auto simp: just_step_def just_manager_def)

interpretation just: loop_invariant w conf "just_manager w conf" for w conf
proof unfold_locales
  have "just_manager w conf (newManager conf)" by (simp add: just_manager_def newManager_def)
  then show "just_manager w conf (chooseInitialState w (newManager conf))"
    by (rule just_keeps [OF just_chooseInitialState])
qed (blast intro: just_keeps just_handleSerfEvent just_handleCommand just_shutdown)+

lemma warrant_spares_self:
  assumes "named_view view" and "warrant view self work"
  shows "self \<notin> set (round_names work)"
proof -
  have coord: "isRescaleCoordinator view self" using assms(2) by (cases work) simp_all
  then obtain me where me: "me \<in> set (members view)" "aliveIn StateStableServer me" "Name me = self"
    using coordinator_alive_stable [OF assms(1)] by blast
  have alive: "Status me = memberStatusAlive" "member_state me = StateStableServer"
    using me(2) by (simp_all add: aliveIn_state)
  show ?thesis
  proof (cases work)
    case (EvictNodes names)
    then have "n \<in> set names \<Longrightarrow> \<exists>k \<in> set (members view). Name k = n \<and> Status k = memberStatusFailed" for n
      using assms(2) set_failedMembersNames by auto
    moreover have "Status k = memberStatusFailed \<Longrightarrow> k \<in> set (members view) \<Longrightarrow> Name k \<noteq> self" for k
      using named_view_inj [OF assms(1) _ me(1), of k] me(3) alive(1) failed_not_alive by auto
    ultimately have "self \<notin> set names" by blast
    then show ?thesis using EvictNodes by simp
  next
    case (PrepareConversion name)
    then obtain target r where c: "chooseConversionTarget view self = Some (target, r)" "Name target = name"
      using assms(2) by auto
    have "Name target \<noteq> self" if "needsAnotherK3sServer view"
    proof -
      have "lowestNamedAliveMemberIn view StateStableAgent = (target, True)"
        using c that by (auto simp: chooseConversionTarget_def findPromotionTarget_def split: if_splits prod.splits)
      then have "target \<in> set (members view)" "aliveIn StateStableAgent target"
        using lowestNamedAliveMemberIn_found [OF assms(1), of StateStableAgent target] by auto
      then show ?thesis using named_view_inj [OF assms(1) _ me(1), of target] me(3) alive(2) by (auto simp: aliveIn_state)
    qed
    moreover have "Name target \<noteq> self" if "\<not> needsAnotherK3sServer view"
      using c that by (auto simp: chooseConversionTarget_def split: if_splits prod.splits)
    ultimately show ?thesis using PrepareConversion c(2) by auto
  next
    case (EraseNode name)
    then have "isVirginMember view name" using assms(2) by simp
    then obtain k where k: "k \<in> set (members view)" "Name k = name" "IsFirstBoot (member_state k)"
      using isVirginMember_iff [OF assms(1)] by auto
    then have "name \<noteq> self" using named_view_inj [OF assms(1) k(1) me(1)] me(3) alive by auto
    then show ?thesis using EraseNode by simp
  qed
qed

text \<open>
  C6: in every run, each round a coordinator started was warranted by a membership it had read
  before: in that view it held the turn, no machine was changing the etcd membership, and the round
  removes only machines that are failed (an eviction), the one machine the rebalancing rule picks (a
  conversion), or an alive machine on its first boot (an erasure). So a coordinator never removes
  itself.
\<close>

theorem rounds_are_warranted:
  assumes "reachable w conf s" and "named_world w" and "IoStartOp i (OpRound work) \<in> set (m_calls (sMgr s))"
  shows "NodeNameC conf \<notin> set (round_names work)
    \<and> (\<exists>h. suffix (IoSnapshot # h) (m_calls (sMgr s)) \<and>
        (let view = \<lparr>snapshot = wSnapshot w h\<rparr> in
         isRescaleCoordinator view (NodeNameC conf) \<and> \<not> isEtcdMembershipChanging view \<and>
         (case work of
            EvictNodes names \<Rightarrow> set names \<subseteq> set (failedMembersNames view)
          | PrepareConversion name \<Rightarrow>
              map_option (Name \<circ> fst) (chooseConversionTarget view (NodeNameC conf)) = Some name
          | EraseNode name \<Rightarrow> isVirginMember view name)))"
proof -
  have "justified w (NodeNameC conf) (m_calls (sMgr s))"
    using just.loop.J_reachable [OF assms(1)] by (simp add: just_manager_def)
  from justified_member [OF this assms(3)] obtain h where
    h: "suffix (IoSnapshot # h) (m_calls (sMgr s))" "warrant \<lparr>snapshot = wSnapshot w h\<rparr> (NodeNameC conf) work"
    by (auto simp: observed_def)
  have "named_view \<lparr>snapshot = wSnapshot w h\<rparr>" using assms(2) by (simp add: named_world_def)
  from warrant_spares_self [OF this h(2)] h show ?thesis
    by (intro conjI exI [of _ h]) (cases work; simp add: Let_def)+
qed

text \<open>A server that rebooted, reads the same degraded cluster an hour apart and evicts.\<close>

definition coordinator_world :: world where
  "coordinator_world = (steady_world degraded_cluster)
    \<lparr>wNow := \<lambda>h. epoch + int (length h) * hour, wLoad := \<lambda>h. Inr server_state\<rparr>"

definition evict_actions :: "action list" where
  "evict_actions = [OpReturns 2 None, Submit 0, TakeCommand, Arrive member_event, TakeEvent,
     Arrive member_event, TakeEvent]"

theorem rounds_are_warranted_witness:
  "\<exists>s. reachable coordinator_world (demo_config ''ants01'') s
    \<and> IoStartOp 12 (OpRound (EvictNodes [''ants03''])) \<in> set (m_calls (sMgr s))
    \<and> (\<exists>h. suffix (IoSnapshot # h) (m_calls (sMgr s))
          \<and> ''ants03'' \<in> set (failedMembersNames \<lparr>snapshot = wSnapshot coordinator_world h\<rparr>))"
proof -
  have "map_option (\<lambda>s. hd (m_calls (sMgr s)))
      (run_by (\<lambda>s a. True) coordinator_world evict_actions (Run_start coordinator_world (demo_config ''ants01'')))
    = Some (IoStartOp 12 (OpRound (EvictNodes [''ants03''])))"
    and ne: "map_option (\<lambda>s. m_calls (sMgr s) = [])
      (run_by (\<lambda>s a. True) coordinator_world evict_actions (Run_start coordinator_world (demo_config ''ants01''))) = Some False"
    by code_simp+
  then obtain s where run: "run_by (\<lambda>s a. True) coordinator_world evict_actions (Run_start coordinator_world (demo_config ''ants01'')) = Some s"
    and hd: "hd (m_calls (sMgr s)) = IoStartOp 12 (OpRound (EvictNodes [''ants03'']))" "m_calls (sMgr s) \<noteq> []"
    by auto
  note r = run_from_start [OF run]
  have "named_view (view_of degraded_cluster)"
    by (simp add: named_view_def degraded_cluster_def view_of_def peer_def)
  then have "named_world coordinator_world"
    by (simp add: named_world_def coordinator_world_def steady_world_def view_of_def)
  moreover have "IoStartOp 12 (OpRound (EvictNodes [''ants03''])) \<in> set (m_calls (sMgr s))"
    using hd by (metis list.set_sel(1))
  ultimately show ?thesis
    using rounds_are_warranted [OF r, of 12 "EvictNodes [''ants03'']"] r by (auto simp: Let_def)
qed

end
