(* ===== verification/Cluster_Safety.thy ===== *)
theory Cluster_Safety
  imports Single_Flight Scenario
begin

text \<open>
  Several nodes together. A node enters a coordination round, or starts another one, only in a turn of
  its loop in which it read a membership where no machine was changing the etcd membership
  (\<open>calm_step\<close>, one lemma per handler). On a cluster whose snapshots show the states the nodes are
  in, this makes the check a mutual exclusion; on snapshots that lag, or once an order is on the wire, it
  is the best-effort check the comment of \<open>isNodeChangingEtcdMembership\<close> announces.
\<close>

subsection \<open>Steps that start no round\<close>

definition rounds :: "history \<Rightarrow> nat" where
  "rounds h = length (filter (\<lambda>e. round_of e \<noteq> None) h)"

lemma rounds_simps [simp]:
  "rounds [] = 0" "rounds (e # h) = (if round_of e = None then rounds h else Suc (rounds h))"
  "rounds (case t of None \<Rightarrow> h | Some i \<Rightarrow> IoStop i # h) = rounds h"
  by (simp_all add: rounds_def split: option.split)

lemma rounds_mono: "suffix h h' \<Longrightarrow> rounds h \<le> rounds h'"
  by (auto simp: suffix_def rounds_def)

definition coordinating :: "manager \<Rightarrow> bool" where
  "coordinating m \<longleftrightarrow> m_state m = StateRescaleCoordinating"

text \<open>The initialisations of a cluster that a node has started, and the states behind the first start signal.\<close>

definition inits :: "history \<Rightarrow> nat" where
  "inits h = length (filter (\<lambda>(i, op). op = OpInstallInit) (ops h))"

lemma inits_simps [simp]:
  "inits [] = 0" "inits (IoStartOp i op # h) = (if op = OpInstallInit then Suc (inits h) else inits h)"
  "inits (IoSetState st # h) = inits h" "inits (IoSend name p # h) = inits h" "inits (IoSnapshot # h) = inits h"
  "inits (IoNow # h) = inits h" "inits (IoLoad # h) = inits h" "inits (IoPanic # h) = inits h" "inits (IoStop j # h) = inits h"
  "inits (case t of None \<Rightarrow> h | Some i \<Rightarrow> IoStop i # h) = inits h"
  by (simp_all add: inits_def)

definition begun :: "manager \<Rightarrow> bool" where
  "begun m \<longleftrightarrow> m_state m \<notin> {StateStarting, StateDiscovering, StateBootstrapConfirm, StateBootstrapWaiting}"

definition keeps_begun :: "manager \<Rightarrow> manager \<Rightarrow> bool" where
  "keeps_begun m m' \<longleftrightarrow> m_config m' = m_config m \<and> inits (m_calls m') = inits (m_calls m) \<and> (begun m \<longrightarrow> begun m')"

definition plain_step :: "manager \<Rightarrow> manager \<Rightarrow> bool" where
  "plain_step m m' \<longleftrightarrow> suffix (m_calls m) (m_calls m') \<and> rounds (m_calls m') = rounds (m_calls m)
    \<and> (coordinating m' \<longrightarrow> coordinating m) \<and> keeps_begun m m'"

named_theorems plain_rules \<open>the handlers that start no round\<close>

lemma plain_refl [simp]: "plain_step m m"
  by (simp add: plain_step_def keeps_begun_def)

lemma plain_trans: "plain_step m m1 \<Longrightarrow> plain_step m1 m2 \<Longrightarrow> plain_step m m2"
  by (auto simp: plain_step_def keeps_begun_def intro: suffix_order.trans)

lemmas plain_simps = plain_step_def keeps_begun_def inits_def begun_def coordinating_def suffix_ConsI call_defs panic_def Let_def

lemma plain_fields [simp]:
  "plain_step m (m'\<lparr>m_joining := j\<rparr>) = plain_step m m'" "plain_step m (m'\<lparr>m_bootstrap := b\<rparr>) = plain_step m m'"
  "plain_step m (m'\<lparr>m_rescale := r\<rparr>) = plain_step m m'" "plain_step m (m'\<lparr>m_persistedState := p\<rparr>) = plain_step m m'"
  "plain_step (m\<lparr>m_joining := j\<rparr>) m' = plain_step m m'" "plain_step (m\<lparr>m_bootstrap := b\<rparr>) m' = plain_step m m'"
  "plain_step (m\<lparr>m_rescale := r\<rparr>) m' = plain_step m m'"
  by (simp_all add: plain_step_def keeps_begun_def begun_def coordinating_def)

text \<open>A call that starts no background operation.\<close>

fun starts_nothing :: "io \<Rightarrow> bool" where
  "starts_nothing (IoStartOp i op) = False"
| "starts_nothing _ = True"

lemma starts_nothing_history: "starts_nothing e \<Longrightarrow> round_of e = None" "starts_nothing e \<Longrightarrow> ops (e # h) = ops h"
  by (cases e; simp)+

lemma plain_emit [plain_rules]: "starts_nothing e \<Longrightarrow> plain_step m (emit e m)"
  by (simp add: plain_simps starts_nothing_history)

lemma plain_then: "plain_step m m' \<Longrightarrow> starts_nothing e \<Longrightarrow> plain_step m (emit e m')"
  using plain_trans plain_emit by blast

lemma plain_stops [plain_rules]:
  "plain_step m (bootstrap_stopTimer m)" "plain_step m (joining_stopTimer m)" "plain_step m (rescale_stopTimer m)"
  by (simp_all add: plain_simps)

lemma plain_transition:
  "st \<notin> {StateRescaleCoordinating, StateStarting, StateDiscovering, StateBootstrapConfirm, StateBootstrapWaiting} \<Longrightarrow>
    plain_step m (transition st m)"
  by (simp add: plain_simps)

lemma plain_bootstrap [plain_rules]:
  "plain_step m (failBootstrap m)" "plain_step m (snd (onRequestBootstrap w m))"
  "plain_step m (snd (onCancelBootstrap m))" "plain_step m (snd (onConfirmBootstrap w m))"
  "plain_step m (onBootstrapRequested m)" "plain_step m (onBootstrapWaitExpired w m)"
  "plain_step m (maybeInstallServer view m)" "plain_step m (maybeInstallAgent view m)"
  by (auto simp: failBootstrap_def onRequestBootstrap_def onCancelBootstrap_def onConfirmBootstrap_def
      onBootstrapRequested_def onBootstrapWaitExpired_def maybeInstallServer_def maybeInstallAgent_def
      plain_simps split: prod.splits option.splits)

lemma plain_joining [plain_rules]:
  "plain_step m (failJoining m)" "plain_step m (maybeStartJoiningPath view m)"
  "plain_step m (maybeJoinCluster view m)" "plain_step m (sendForgetMe w m)"
  by (auto simp: failJoining_def maybeStartJoiningPath_def bootstrap_reset_def maybeJoinCluster_def
      startForgetMe_def joinAsAgent_def sendForgetMe_def plain_simps split: prod.splits option.splits)

lemma plain_installed [plain_rules]:
  "plain_step m (onBootstrapInstallSucceeded w m)" "plain_step m (onJoiningInstallSucceeded w m)"
  "plain_step m (onRejoinReady m)" "plain_step m (onRescaleConverted w m)"
  by (auto simp: onBootstrapInstallSucceeded_def onJoiningInstallSucceeded_def onRejoinReady_def
      onRescaleConverted_def buildFirstBootState_def becomeStable_def StableState_def plain_simps
      split: prod.splits option.splits node_state.splits)

lemma plain_rejoin [plain_rules]: "plain_step m (failRejoin m)"
  by (simp add: failRejoin_def plain_simps)

lemma chooseInitialState_plain:
  assumes "\<not> begun m"
  shows "plain_step m (chooseInitialState w m)"
  using assms by (auto simp: startRejoin_def failRejoin_def chooseInitialState_def plain_simps
      split: option.splits sum.splits load_error.splits)

lemma plain_rescale [plain_rules]:
  "plain_step m (forget m)" "plain_step m (resetProgress m)" "plain_step m (scheduleRescaleCheck deadline t m)"
  "plain_step m (abandonCoordination w m)" "plain_step m (failRescale m)" "plain_step m (onRescaleConvert p m)"
  "plain_step m (confirmForgotten w name m)"
  by (auto simp: forget_def resetProgress_def scheduleRescaleCheck_def armTimer_def abandonCoordination_def
      failRescale_def onRescaleConvert_def confirmForgotten_def plain_simps split: option.splits)

text \<open>The evaluation starts no round while the membership of etcd changes.\<close>

lemma plain_maybeRescale:
  assumes "isEtcdMembershipChanging view"
  shows "plain_step m (maybeRescale w view m)"
proof -
  have "plain_step m (forget ((emit IoNow m)\<lparr>m_rescale := r\<rparr>))" "plain_step m (rescale_stopTimer ((emit IoNow m)\<lparr>m_rescale := r\<rparr>))" for r
    by (rule plain_trans [OF _ plain_rescale(1)] plain_trans [OF _ plain_stops(3)], simp add: plain_emit)+
  then show ?thesis using assms by (auto simp: maybeRescale_def now_def Let_def plain_emit)
qed

text \<open>It never starts an initialisation.\<close>

lemma keeps_begun_trans: "keeps_begun m m1 \<Longrightarrow> keeps_begun m1 m2 \<Longrightarrow> keeps_begun m m2"
  by (simp add: keeps_begun_def)

lemma keeps_begun_fields [simp]:
  "keeps_begun m (m'\<lparr>m_rescale := r\<rparr>) = keeps_begun m m'" "keeps_begun (m\<lparr>m_rescale := r\<rparr>) m' = keeps_begun m m'"
  by (simp_all add: keeps_begun_def begun_def)

lemma plain_keeps: "plain_step m m' \<Longrightarrow> keeps_begun m m'"
  by (simp add: plain_step_def)

lemma keeps_rounds:
  "keeps_begun m (startCoordinationRound work m)" "keeps_begun m (startEviction names m)"
  "keeps_begun m (snd (startConversion w view m))" "keeps_begun m (snd (trackImbalance view t m))"
  by (auto simp: startCoordinationRound_def startEviction_def startConversion_def resetProgress_def trackImbalance_def
      keeps_begun_def begun_def inits_def call_defs Let_def split: option.split)

lemma keeps_maybeRescale: "keeps_begun m (maybeRescale w view m)"
proof -
  have refl: "keeps_begun m1 m1" for m1 by (simp add: keeps_begun_def)
  have step: "keeps_begun m (f m1)" if "keeps_begun m m1" "\<And>m1. keeps_begun m1 (f m1)" for f m1
    using that keeps_begun_trans by blast
  have now: "keeps_begun m (emit IoNow m)" by (rule plain_keeps [OF plain_emit]) simp
  have sched: "keeps_begun m1 (scheduleRescaleCheck d t m1)" "keeps_begun m1 (forget m1)" "keeps_begun m1 (rescale_stopTimer m1)"
    for d t m1 by (simp_all add: plain_keeps plain_rules)
  have track: "keeps_begun m m2" if "trackImbalance view t m1 = (r, m2)" "keeps_begun m m1" for r t m1 m2
    using keeps_rounds(4) [of m1 view t] that keeps_begun_trans by (metis snd_conv)
  have conv: "keeps_begun m m2" if "startConversion w view m1 = (r, m2)" "keeps_begun m m1" for r m1 m2
    using keeps_rounds(3) [of m1 w view] that keeps_begun_trans by (metis snd_conv)
  show ?thesis
    unfolding maybeRescale_def now_def
    by (auto simp: Let_def refl now split: prod.split
        intro!: step [OF _ sched(1)] step [OF _ sched(2)] step [OF _ sched(3)] step [OF _ keeps_rounds(2)]
        dest!: track conv)
qed

subsection \<open>Steps that look before they start one\<close>

text \<open>\<open>B\<close> is the history at the beginning of the turn; \<open>looked\<close> says that the turn read a quiet membership.\<close>

definition looked :: "world \<Rightarrow> history \<Rightarrow> history \<Rightarrow> bool" where
  "looked w B h \<longleftrightarrow>
    (\<exists>h'. suffix B h' \<and> suffix (IoSnapshot # h') h \<and> \<not> isEtcdMembershipChanging \<lparr>snapshot = wSnapshot w h'\<rparr>)"

definition seen :: "world \<Rightarrow> history \<Rightarrow> history \<Rightarrow> clusterView \<Rightarrow> bool" where
  "seen w B h view \<longleftrightarrow>
    (\<exists>h'. suffix B h' \<and> suffix (IoSnapshot # h') h \<and> view = \<lparr>snapshot = wSnapshot w h'\<rparr>)"

definition starts_round :: "manager \<Rightarrow> manager \<Rightarrow> bool" where
  "starts_round m m' \<longleftrightarrow> coordinating m' \<and> \<not> coordinating m \<or> rounds (m_calls m) < rounds (m_calls m')"

text \<open>A turn that initialises a cluster read a snapshot in which the node has the lowest alive name.\<close>

definition elected :: "world \<Rightarrow> history \<Rightarrow> string \<Rightarrow> history \<Rightarrow> bool" where
  "elected w B self h \<longleftrightarrow> (\<exists>h'. suffix B h' \<and> suffix (IoSnapshot # h') h
    \<and> Rank (aliveMemberNames \<lparr>snapshot = wSnapshot w h'\<rparr>) self = Inr 0)"

definition initialises :: "world \<Rightarrow> history \<Rightarrow> manager \<Rightarrow> manager \<Rightarrow> bool" where
  "initialises w B m m' \<longleftrightarrow> m_config m' = m_config m \<and> inits (m_calls m') = Suc (inits (m_calls m))
    \<and> \<not> begun m \<and> begun m' \<and> elected w B (selfName m) (m_calls m')"

definition calm_step :: "world \<Rightarrow> history \<Rightarrow> manager \<Rightarrow> manager \<Rightarrow> bool" where
  "calm_step w B m m' \<longleftrightarrow> (suffix B (m_calls m) \<longrightarrow>
    suffix (m_calls m) (m_calls m') \<and> (starts_round m m' \<longrightarrow> looked w B (m_calls m'))
    \<and> (keeps_begun m m' \<or> initialises w B m m'))"

named_theorems calm_rules \<open>the handlers look before they start a round\<close>

lemma calm_plain: "plain_step m m' \<Longrightarrow> calm_step w B m m'"
  by (auto simp: plain_step_def calm_step_def starts_round_def)

lemma calm_refl [simp]: "calm_step w B m m"
  by (simp add: calm_plain)

lemma looked_mono: "looked w B h \<Longrightarrow> suffix h h' \<Longrightarrow> looked w B h'"
  unfolding looked_def by (blast intro: suffix_order.trans)

lemma seen_mono: "seen w B h view \<Longrightarrow> suffix h h' \<Longrightarrow> seen w B h' view"
  unfolding seen_def by (blast intro: suffix_order.trans)

lemma elected_mono: "elected w B self h \<Longrightarrow> suffix h h' \<Longrightarrow> elected w B self h'"
  unfolding elected_def by (blast intro: suffix_order.trans)

lemma begun_trans:
  assumes "keeps_begun m m1 \<or> initialises w B m m1" and "keeps_begun m1 m2 \<or> initialises w B m1 m2"
    and "suffix (m_calls m1) (m_calls m2)"
  shows "keeps_begun m m2 \<or> initialises w B m m2"
  using assms elected_mono [of w B "selfName m" "m_calls m1" "m_calls m2"]
  unfolding keeps_begun_def initialises_def by metis

lemma calm_trans:
  assumes "calm_step w B m m1" and "calm_step w B m1 m2"
  shows "calm_step w B m m2"
proof (cases "suffix B (m_calls m)")
  case True
  then have s: "suffix (m_calls m) (m_calls m1)" "suffix B (m_calls m1)"
    using assms(1) suffix_order.trans by (auto simp: calm_step_def)
  then have "suffix (m_calls m1) (m_calls m2)" "suffix (m_calls m) (m_calls m2)"
    using assms(2) suffix_order.trans by (auto simp: calm_step_def)
  moreover have "starts_round m m2 \<Longrightarrow> starts_round m m1 \<or> starts_round m1 m2" by (auto simp: starts_round_def)
  moreover have "keeps_begun m m2 \<or> initialises w B m m2"
    using begun_trans assms True s(2) calculation(1) unfolding calm_step_def by blast
  ultimately show ?thesis using assms True s looked_mono unfolding calm_step_def by metis
qed (simp add: calm_step_def)

lemma calm_fields [simp]:
  "calm_step w B m (m'\<lparr>m_joining := j\<rparr>) = calm_step w B m m'" "calm_step w B m (m'\<lparr>m_bootstrap := b\<rparr>) = calm_step w B m m'"
  "calm_step w B m (m'\<lparr>m_rescale := r\<rparr>) = calm_step w B m m'"
  "calm_step w B (m\<lparr>m_rescale := r\<rparr>) m' = calm_step w B m m'" "calm_step w B (m\<lparr>m_bootstrap := b\<rparr>) m' = calm_step w B m m'"
  by (simp_all add: calm_step_def starts_round_def coordinating_def keeps_begun_def initialises_def begun_def)

lemma calm_quiet:
  "keeps_begun m m' \<Longrightarrow> seen w B (m_calls m) view \<Longrightarrow> \<not> isEtcdMembershipChanging view \<Longrightarrow> suffix (m_calls m) (m_calls m') \<Longrightarrow> calm_step w B m m'"
  using seen_mono by (fastforce simp: calm_step_def seen_def looked_def)

lemma calm_maybeRescale [calm_rules]:
  assumes "seen w B (m_calls m) view"
  shows "calm_step w B m (maybeRescale w view m)"
proof (cases "isEtcdMembershipChanging view")
  case True
  then show ?thesis by (rule calm_plain [OF plain_maybeRescale])
next
  case False
  have "suffix (m_calls m) (m_calls (maybeRescale w view m))"
    using idle_maybeRescale by (simp add: idle_step_def keeps_history_def)
  with keeps_maybeRescale assms False show ?thesis by (rule calm_quiet)
qed

lemma calm_observing:
  assumes "calm_step w B m m1"
    and "\<And>view. seen w B (m_calls (emit IoSnapshot m1)) view \<Longrightarrow> calm_step w B (emit IoSnapshot m1) (f view (emit IoSnapshot m1))"
  shows "calm_step w B m (case observeCluster w m1 of (view, m) \<Rightarrow> f view m)"
proof (cases "suffix B (m_calls m)")
  case True
  then have "suffix B (m_calls m1)" using assms(1) suffix_order.trans by (auto simp: calm_step_def)
  then have "seen w B (m_calls (emit IoSnapshot m1)) \<lparr>snapshot = wSnapshot w (m_calls m1)\<rparr>"
    by (auto simp: seen_def emit_def)
  from assms(2) [OF this] have "calm_step w B m (f \<lparr>snapshot = wSnapshot w (m_calls m1)\<rparr> (emit IoSnapshot m1))"
    using calm_trans [OF calm_trans [OF assms(1) calm_plain [OF plain_emit [of IoSnapshot m1]]]] by simp
  then show ?thesis by (simp add: observeCluster_def)
qed (simp add: calm_step_def)

subsection \<open>The handlers\<close>

lemma calm_onBootstrapStart [calm_rules]: "calm_step w B m (onBootstrapStart w m)"
proof (cases "m_state m = StateBootstrapWaiting")
  case True
  have set_b: "calm_step w B m1 m2" if "calm_step w B (m1\<lparr>m_bootstrap := b\<rparr>) m2" for b m1 m2 using that by simp
  have install: "calm_step w B m1 (maybeInstallAgent view (maybeInstallServer view m1))" for view m1
    by (rule calm_plain [OF plain_trans [OF plain_bootstrap(7) plain_bootstrap(8)]])
  let ?m = "emit IoSnapshot (bootstrap_stopTimer m)"
  have init: "calm_step w B ?m (startK3sOperation OpInstallInit (transition StateBootstrapInstallInit (?m\<lparr>m_bootstrap := b\<rparr>)))"
    if "seen w B (m_calls ?m) view" "Rank (aliveMemberNames view) (selfName ?m) = Inr 0" for view b
  proof -
    have "initialises w B ?m (startK3sOperation OpInstallInit (transition StateBootstrapInstallInit (?m\<lparr>m_bootstrap := b\<rparr>)))"
      using that True by (auto simp: initialises_def elected_def seen_def begun_def call_defs intro: suffix_ConsI)
    then show ?thesis by (simp add: calm_step_def starts_round_def coordinating_def call_defs suffix_ConsI)
  qed
  have fail: "calm_step w B m1 (failBootstrap m1)" for m1 by (rule calm_plain [OF plain_bootstrap(1)])
  show ?thesis
    using True unfolding onBootstrapStart_def
    by (simp add: Let_def, intro calm_observing calm_plain [OF plain_stops(1)])
      (auto simp: Let_def intro: fail set_b [OF install] init set_b [OF fail] split: sum.split prod.split)
qed (simp add: onBootstrapStart_def)

lemma calm_onJoinWaitExpired [calm_rules]: "calm_step w B m (onJoinWaitExpired w m)"
proof -
  have "plain_step m (joining_stopTimer (m\<lparr>m_joining := j\<rparr>))" for j by (simp add: plain_simps)
  then show ?thesis unfolding onJoinWaitExpired_def Let_def
    by (auto simp: calm_plain plain_joining(3) intro!: calm_observing)
qed

lemma calm_onForgotten [calm_rules]: "calm_step w B m (onForgotten w p m)"
proof -
  have "plain_step m (transition StateJoiningWaiting ((joining_stopTimer m)\<lparr>m_joining := j\<rparr>))" for j by (simp add: plain_simps)
  then show ?thesis unfolding onForgotten_def Let_def
    by (auto simp: calm_plain plain_joining(3) intro!: calm_observing split: option.split)
qed

lemma calm_forget_requests [calm_rules]:
  "calm_step w B m (onJoiningCleanupChecked w m)" "calm_step w B m (onForgetRetry w m)" "calm_step w B m (onForgetMe w p m)"
proof -
  have "plain_step m (sendForgetMe w (m\<lparr>m_joining := j\<rparr>))" for j
    using plain_joining(4) [of "m\<lparr>m_joining := j\<rparr>" w] by simp
  then show "calm_step w B m (onJoiningCleanupChecked w m)" by (simp add: onJoiningCleanupChecked_def calm_plain)
  show "calm_step w B m (onForgetRetry w m)" by (simp add: onForgetRetry_def calm_plain plain_joining(4))
  show "calm_step w B m (onForgetMe w p m)"
    unfolding onForgetMe_def by (auto simp: calm_plain plain_emit intro!: calm_observing split: option.split)
qed

lemma calm_onRescaleCheck [calm_rules]: "calm_step w B m (onRescaleCheck w m)"
  unfolding onRescaleCheck_def by (rule calm_observing) (simp_all add: calm_maybeRescale)

lemma calm_onForgetProbed [calm_rules]: "calm_step w B m (onForgetProbed w name found m)"
  unfolding onForgetProbed_def
proof (rule calm_observing)
  let ?m = "emit IoSnapshot m"
  fix view
  assume view: "seen w B (m_calls ?m) view"
  have "calm_step w B ?m (startCoordinationRound (EraseNode name) ((resetProgress ?m)\<lparr>m_rescale := r\<rparr>))"
    if "\<not> isEtcdMembershipChanging view" for r
  proof (rule calm_quiet [OF _ view that])
    show "keeps_begun ?m (startCoordinationRound (EraseNode name) ((resetProgress ?m)\<lparr>m_rescale := r\<rparr>))"
      by (simp add: startCoordinationRound_def resetProgress_def keeps_begun_def begun_def inits_def call_defs Let_def)
  qed (simp add: startCoordinationRound_def resetProgress_def call_defs suffix_ConsI Let_def)
  then show "calm_step w B ?m (if \<not> canForget view name ?m then ?m else if \<not> found then confirmForgotten w name ?m
      else if isEtcdMembershipChanging view then ?m
      else let m = resetProgress ?m; m = m\<lparr>m_rescale := (m_rescale m)\<lparr>cleaning := name\<rparr>\<rparr>
        in startCoordinationRound (EraseNode name) m)"
    by (simp add: calm_plain plain_rescale(7) Let_def)
qed simp

lemma plain_erase_evicted: "plain_step m (erase_evicted w names m)"
proof (induction names arbitrary: m)
  case (Cons name names)
  have "plain_step m ((emit (IoRemoveFailed name) m)\<lparr>m_rescale := r\<rparr>)" for r by (simp add: plain_emit)
  then show ?case
    using plain_trans [OF _ Cons.IH] plain_emit [of "IoRemoveFailed name" m]
    by (simp add: RemoveFailedNode_def split: option.split)
qed simp

lemma calm_ends [calm_rules]:
  "calm_step w B m (finishEviction w m)" "calm_step w B m (finishForgetting w m)"
proof -
  have "plain_step m (transition StateStableServer ((erase_evicted w names m)\<lparr>m_rescale := r\<rparr>))" for names r
    by (rule plain_trans [OF _ plain_transition]) (simp_all add: plain_erase_evicted)
  then show "calm_step w B m (finishEviction w m)" unfolding finishEviction_def Let_def
    by (intro calm_observing) (simp_all add: calm_plain calm_maybeRescale)
  have "plain_step m (transition StateStableServer (m\<lparr>m_rescale := r\<rparr>))" for r by (simp add: plain_simps)
  then show "calm_step w B m (finishForgetting w m)" unfolding finishForgetting_def Let_def
    by (intro calm_observing) (simp_all add: calm_plain calm_maybeRescale plain_trans [OF _ plain_rescale(7)])
qed

lemma calm_onRescaleCoordinationDone [calm_rules]: "calm_step w B m (onRescaleCoordinationDone w m)"
proof -
  have "plain_step m (abandonCoordination w (emit (IoSend e p) (m\<lparr>m_rescale := r\<rparr>)))" for e p r
    by (rule plain_trans [OF _ plain_rescale(4)]) (simp add: plain_simps)
  moreover have "plain_step m (scheduleRescaleCheck d t (emit IoNow (transition StateStableServer (emit (IoSend e p) (m\<lparr>m_rescale := r\<rparr>)))))" for d t e p r
    by (rule plain_trans [OF _ plain_rescale(3)]) (simp add: plain_simps)
  ultimately show ?thesis
    by (auto simp: onRescaleCoordinationDone_def Let_def calm_ends SendUserEvent_def now_def calm_plain split: option.split)
qed

lemma calm_onK3sOperation [calm_rules]:
  "calm_step w B m (onK3sOperationSucceeded w m)" "calm_step w B m (onK3sOperationFailed w m)"
  unfolding onK3sOperationSucceeded_def onK3sOperationFailed_def
  by (cases "m_state m"; simp add: calm_rules calm_plain plain_rules)+

lemma plain_reply: "plain_step m (snd r) \<Longrightarrow> plain_step m (reply ch r)"
  by (cases r) (simp add: reply_def plain_then)

lemma calm_handleCommand: "calm_step w B m (handleCommand w c m)"
  by (cases c) (simp_all add: calm_rules calm_plain plain_rules plain_reply)

lemma calm_handleSerfEvent: "calm_step w B m (handleSerfEvent w e m)"
proof -
  have "calm_step w B m1 (maybeRescale w view (maybeInstallAgent view (maybeInstallServer view
      (maybeJoinCluster view (maybeStartJoiningPath view m1)))))" if seen: "seen w B (m_calls m1) view" for m1 view
  proof -
    have four: "plain_step m1 (maybeInstallAgent view (maybeInstallServer view
      (maybeJoinCluster view (maybeStartJoiningPath view m1))))" (is "plain_step m1 ?m")
      by (rule plain_trans [OF plain_trans [OF plain_trans [OF plain_joining(2) plain_joining(3)] plain_bootstrap(7)] plain_bootstrap(8)])
    then have "seen w B (m_calls ?m) view" using seen seen_mono by (auto simp: plain_step_def)
    then show ?thesis using calm_trans [OF calm_plain [OF four] calm_maybeRescale] by blast
  qed
  then show ?thesis
    by (auto simp: handleSerfEvent_def handleUserEvent_def calm_rules calm_plain plain_rules intro!: calm_observing)
qed

lemma plain_shutdown: "plain_step m (shutdown m)"
  unfolding shutdown_def
  by (rule plain_trans [OF plain_trans [OF plain_stops(1) plain_stops(2)] plain_stops(3)])

text \<open>What one action of the loop does: a round starts only after a look of the same turn.\<close>

lemma calm_perform: "calm_step w (m_calls (sMgr s)) (sMgr s) (sMgr (perform w a s))"
  by (cases a) (simp_all add: calm_handleCommand calm_handleSerfEvent calm_plain plain_shutdown)

lemma perform_looks:
  "starts_round (sMgr s) (sMgr (perform w a s)) \<Longrightarrow> looked w (m_calls (sMgr s)) (m_calls (sMgr (perform w a s)))"
  using calm_perform by (simp add: calm_step_def)

text \<open>A cluster is initialised only before the first boot is decided, by a node that sees itself elected.\<close>

lemma perform_initialises:
  "keeps_begun (sMgr s) (sMgr (perform w a s)) \<or>
    initialises w (m_calls (sMgr s)) (sMgr s) (sMgr (perform w a s))"
  using calm_perform by (simp add: calm_step_def)

end
