(* ===== verification/Cluster_Runs.thy ===== *)
theory Cluster_Runs
  imports Cluster_Safety "HOL-Library.Sublist"
begin

text \<open>
  Runs of a whole cluster: several nodes, each with its own loop and world, one action of one node at a
  time. In an ideal run a node that reads its snapshot finds every other node in the state it is in;
  then at most one node coordinates at a time. The last part shows what that depends on.
\<close>

record cnode =
  peerWorld :: world
  peerConf :: config
  peerSys :: sys

abbreviation peerMgr :: "cnode \<Rightarrow> manager" where
  "peerMgr n \<equiv> sMgr (peerSys n)"

abbreviation peerName :: "cnode \<Rightarrow> string" where
  "peerName n \<equiv> NodeNameC (peerConf n)"

definition act_on :: "nat \<Rightarrow> action \<Rightarrow> cnode list \<Rightarrow> cnode list" where
  "act_on i a cl = cl[i := (cl ! i)\<lparr>peerSys := perform (peerWorld (cl ! i)) a (peerSys (cl ! i))\<rparr>]"

definition shown_alive :: "clusterView \<Rightarrow> string \<Rightarrow> node_state \<Rightarrow> bool" where
  "shown_alive v name st \<longleftrightarrow>
    list_ex (\<lambda>k. Name k = name \<and> Status k = memberStatusAlive \<and> member_state k = st) (Members (snapshot v))"

text \<open>The histories at which a turn that took the history from \<open>B\<close> to \<open>h\<close> read its snapshot.\<close>

fun looks :: "history \<Rightarrow> history \<Rightarrow> history list" where
  "looks B [] = []"
| "looks B (e # h) = (if e = IoSnapshot \<and> suffix B h then h # looks B h else looks B h)"

lemma set_looks: "h' \<in> set (looks B h) \<longleftrightarrow> suffix (IoSnapshot # h') h \<and> suffix B h'"
  by (induction B h rule: looks.induct) (auto simp: suffix_Cons)

definition up_to_date :: "cnode list \<Rightarrow> nat \<Rightarrow> action \<Rightarrow> bool" where
  "up_to_date cl i a \<longleftrightarrow>
    (\<forall>h \<in> set (looks (m_calls (peerMgr (cl ! i))) (m_calls (peerMgr (act_on i a cl ! i)))).
     \<forall>j < length cl. j \<noteq> i \<longrightarrow>
       shown_alive \<lparr>snapshot = wSnapshot (peerWorld (cl ! i)) h\<rparr> (peerName (cl ! j)) (m_state (peerMgr (cl ! j))))"

inductive cluster_by :: "(cnode list \<Rightarrow> nat \<Rightarrow> action \<Rightarrow> bool) \<Rightarrow> cnode list \<Rightarrow> bool"
  for ok :: "cnode list \<Rightarrow> nat \<Rightarrow> action \<Rightarrow> bool" where
  boot: "(\<And>n. n \<in> set cl \<Longrightarrow> peerSys n = Run_start (peerWorld n) (peerConf n)) \<Longrightarrow> distinct (map peerName cl)
    \<Longrightarrow> cluster_by ok cl"
| turn: "cluster_by ok cl \<Longrightarrow> i < length cl \<Longrightarrow> enabled (peerSys (cl ! i)) a \<Longrightarrow> ok cl i a \<Longrightarrow> cluster_by ok (act_on i a cl)"

abbreviation ideal_cluster :: "cnode list \<Rightarrow> bool" where
  "ideal_cluster \<equiv> cluster_by up_to_date"

subsection \<open>Mutual exclusion\<close>

lemma act_on_nth:
  "i < length cl \<Longrightarrow> act_on i a cl ! j =
    (if j = i then (cl ! i)\<lparr>peerSys := perform (peerWorld (cl ! i)) a (peerSys (cl ! i))\<rparr> else cl ! j)"
  "length (act_on i a cl) = length cl"
  by (simp_all add: act_on_def)

lemma shown_changing:
  "shown_alive v name st \<Longrightarrow> isNodeChangingEtcdMembership st \<Longrightarrow> isEtcdMembershipChanging v"
  by (auto simp: shown_alive_def isEtcdMembershipChanging_def list_ex_iff)

lemma looked_alone:
  assumes "up_to_date cl i a" and "i < length cl" and "j < length cl" and "j \<noteq> i"
    and "looked (peerWorld (cl ! i)) (m_calls (peerMgr (cl ! i))) (m_calls (peerMgr (act_on i a cl ! i)))"
  shows "\<not> isNodeChangingEtcdMembership (m_state (peerMgr (cl ! j)))"
proof -
  obtain h where h: "suffix (m_calls (peerMgr (cl ! i))) h" "suffix (IoSnapshot # h) (m_calls (peerMgr (act_on i a cl ! i)))"
      "\<not> isEtcdMembershipChanging \<lparr>snapshot = wSnapshot (peerWorld (cl ! i)) h\<rparr>"
    using assms(5) by (auto simp: looked_def)
  then have "shown_alive \<lparr>snapshot = wSnapshot (peerWorld (cl ! i)) h\<rparr> (peerName (cl ! j)) (m_state (peerMgr (cl ! j)))"
    using assms(1,3,4) by (simp add: up_to_date_def set_looks)
  then show ?thesis using shown_changing h(3) by blast
qed

text \<open>
  When the snapshots show the states the other nodes are in, a node starts a coordination round
  only when no other node is changing the membership of etcd: none installs a server for the first
  boot, rejoins, converts or coordinates.
\<close>

theorem round_starts_alone:
  assumes "i < length cl" and "up_to_date cl i a"
    and "starts_round (peerMgr (cl ! i)) (peerMgr (act_on i a cl ! i))"
    and "j < length cl" and "j \<noteq> i"
  shows "\<not> isNodeChangingEtcdMembership (m_state (peerMgr (cl ! j)))"
  using perform_looks [of "peerSys (cl ! i)" "peerWorld (cl ! i)" a] looked_alone [OF assms(2,1,4,5)] assms(3)
  by (simp add: act_on_nth(1) [OF assms(1)])

lemma start_plain: "plain_step (newManager conf) (sMgr (Run_start w conf))"
  using chooseInitialState_plain [of "newManager conf" w] by (simp add: Run_start_def begun_def newManager_def)

lemma start_not_coordinating: "\<not> coordinating (sMgr (Run_start w conf))"
  using start_plain [of conf w] by (auto simp: plain_step_def coordinating_def newManager_def)

text \<open>
  C8: in an ideal run of a cluster, of any size and under any interleaving of events, commands, timers,
  answers and shutdowns, no two nodes are ever in a coordination round at the same time.
\<close>

theorem exclusive_coordinators:
  assumes "ideal_cluster cl"
  shows "i < length cl \<Longrightarrow> j < length cl \<Longrightarrow> i \<noteq> j \<Longrightarrow> coordinating (peerMgr (cl ! i)) \<Longrightarrow> \<not> coordinating (peerMgr (cl ! j))"
  using assms
proof (induction arbitrary: i j rule: cluster_by.induct)
  case (boot cl)
  then show ?case using start_not_coordinating by (metis nth_mem)
next
  case (turn cl k a)
  have alone: "\<not> coordinating (peerMgr (cl ! y))"
    if new: "\<not> coordinating (peerMgr (cl ! k))" "coordinating (peerMgr (act_on k a cl ! k))" and y: "y < length cl" "y \<noteq> k" for y
  proof -
    have "looked (peerWorld (cl ! k)) (m_calls (peerMgr (cl ! k))) (m_calls (peerMgr (act_on k a cl ! k)))"
      using new perform_looks [of "peerSys (cl ! k)" "peerWorld (cl ! k)" a] turn.hyps(2)
      by (simp add: act_on_nth starts_round_def)
    from looked_alone [OF turn.hyps(4,2) y this] show ?thesis
      by (auto simp: coordinating_def)
  qed
  have len: "i < length cl" "j < length cl" using turn.prems by (simp_all add: act_on_nth(2))
  consider "i = k" | "j = k" | "i \<noteq> k" "j \<noteq> k" by blast
  then show ?case
  proof cases
    case 1
    then have "j \<noteq> k" "act_on k a cl ! j = cl ! j" using turn.prems(3) turn.hyps(2) by (simp_all add: act_on_nth)
    then show ?thesis using turn.IH [OF len turn.prems(3)] turn.prems(4) alone len 1 by metis
  next
    case 2
    then have "i \<noteq> k" "act_on k a cl ! i = cl ! i" using turn.prems(3) turn.hyps(2) by (simp_all add: act_on_nth)
    then show ?thesis using turn.IH [OF len turn.prems(3)] turn.prems(4) alone len 2 by metis
  next
    case 3
    then show ?thesis using turn.IH [OF len turn.prems(3)] turn.prems(4) turn.hyps(2) by (simp add: act_on_nth)
  qed
qed

subsection \<open>A cluster with a missing server\<close>

text \<open>
  \<open>ants01\<close> is a server, \<open>ants02\<close> and \<open>ants03\<close> are agents: three machines want three servers. The world
  of \<open>ants01\<close> shows the other two as stable agents, its own state as it last set it, and an hour passes
  with every call; \<open>ants02\<close> is the other node of the run.
\<close>

definition short_of_servers :: "history \<Rightarrow> member list" where
  "short_of_servers h =
    [peer ''ants01'' ''10.0.0.1'' memberStatusAlive (current h),
     peer ''ants02'' ''10.0.0.2'' memberStatusAlive StateStableAgent,
     peer ''ants03'' ''10.0.0.3'' memberStatusAlive StateStableAgent]"

definition leading_world :: world where
  "leading_world = (steady_world [])
    \<lparr>wNow := \<lambda>h. epoch + int (length h) * hour, wLoad := \<lambda>h. Inr server_state,
     wSnapshot := \<lambda>h. snapshot (view_of (short_of_servers h))\<rparr>"

definition agent_world :: world where
  "agent_world = (steady_world (short_of_servers [IoSetState StateStableServer]))
    \<lparr>wLoad := \<lambda>h. Inr (server_state\<lparr>NodeNameP := ''ants02'', RoleP := RoleAgent\<rparr>)\<rparr>"

definition two_nodes :: "cnode list" where
  "two_nodes =
    [\<lparr>peerWorld = leading_world, peerConf = demo_config ''ants01'', peerSys = Run_start leading_world (demo_config ''ants01'')\<rparr>,
     \<lparr>peerWorld = agent_world, peerConf = demo_config ''ants02'', peerSys = Run_start agent_world (demo_config ''ants02'')\<rparr>]"

fun run_cluster :: "(cnode list \<Rightarrow> nat \<Rightarrow> action \<Rightarrow> bool) \<Rightarrow> (nat \<times> action) list \<Rightarrow> cnode list \<Rightarrow> cnode list option" where
  "run_cluster ok [] cl = Some cl"
| "run_cluster ok ((i, a) # acts) cl =
    (if i < length cl \<and> enabled (peerSys (cl ! i)) a \<and> ok cl i a then run_cluster ok acts (act_on i a cl) else None)"

lemma run_cluster_by: "cluster_by ok cl \<Longrightarrow> run_cluster ok acts cl = Some cl' \<Longrightarrow> cluster_by ok cl'"
  by (induction acts cl rule: run_cluster.induct [of _ ok]) (auto split: if_splits intro: cluster_by.turn)

lemma run_cluster_some:
  assumes "cluster_by ok cl" and "map_option f (run_cluster ok acts cl) = Some v"
  obtains cl' where "cluster_by ok cl'" and "f cl' = v"
  using assms that run_cluster_by [OF assms(1)] by (cases "run_cluster ok acts cl") auto

lemma ideal_two_nodes: "ideal_cluster two_nodes"
  by (rule cluster_by.boot) (auto simp: two_nodes_def demo_config_def)

definition ready :: "nat \<Rightarrow> (nat \<times> action) list" where
  "ready i = [(i, OpReturns 2 None), (i, Submit 0), (i, TakeCommand)]"

definition notice :: "nat \<Rightarrow> (nat \<times> action) list" where
  "notice i = [(i, Arrive member_event), (i, TakeEvent)]"

definition convert_order :: rescaleOrder where
  "convert_order = \<lparr>Target = ''ants02'', RoleO = RoleServer, JoinIP = ''10.0.0.1''\<rparr>"

definition first_round :: "(nat \<times> action) list" where
  "first_round = ready 1 @ ready 0 @ notice 0 @ notice 0"

text \<open>The order reaches \<open>ants02\<close> only after \<open>ants01\<close> has evaluated the cluster twice more.\<close>

definition late_order :: "(nat \<times> action) list" where
  "late_order = first_round @ [(0, OpReturns 13 None), (0, Submit 0), (0, TakeCommand)] @ notice 0 @ notice 0
    @ [(1, Arrive (user_event eventRescaleConvert (marshalOrder convert_order))), (1, TakeEvent)]"

theorem exclusive_coordinators_witness:
  "\<exists>cl. ideal_cluster cl \<and> length cl = 2 \<and> coordinating (peerMgr (cl ! 0)) \<and> \<not> coordinating (peerMgr (cl ! 1))"
proof -
  have "map_option (map (\<lambda>n. m_state (peerMgr n))) (run_cluster up_to_date first_round two_nodes) = Some [StateRescaleCoordinating, StateStableAgent]"
    by code_simp
  from run_cluster_some [OF ideal_two_nodes this] obtain cl where cl: "ideal_cluster cl"
      "map (\<lambda>n. m_state (peerMgr n)) cl = [StateRescaleCoordinating, StateStableAgent]" .
  then have "length cl = 2" "coordinating (peerMgr (cl ! 0))" by (auto simp: coordinating_def)
  with exclusive_coordinators [OF cl(1), of 0 1] cl(1) show ?thesis by auto
qed

theorem round_starts_alone_witness:
  "\<exists>cl. ideal_cluster cl \<and> up_to_date cl 0 TakeEvent \<and> coordinating (peerMgr (act_on 0 TakeEvent cl ! 0))
    \<and> \<not> isNodeChangingEtcdMembership (m_state (peerMgr (cl ! 1)))"
proof -
  have "map_option (\<lambda>cl. (length cl, up_to_date cl 0 TakeEvent, m_state (peerMgr (cl ! 0)), m_state (peerMgr (act_on 0 TakeEvent cl ! 0))))
      (run_cluster up_to_date (butlast first_round) two_nodes) = Some (2, True, StateStableServer, StateRescaleCoordinating)"
    by code_simp
  from run_cluster_some [OF ideal_two_nodes this] obtain cl where cl: "ideal_cluster cl" "length cl = 2" "up_to_date cl 0 TakeEvent"
      "m_state (peerMgr (cl ! 0)) = StateStableServer" "m_state (peerMgr (act_on 0 TakeEvent cl ! 0)) = StateRescaleCoordinating"
    by auto
  then have "starts_round (peerMgr (cl ! 0)) (peerMgr (act_on 0 TakeEvent cl ! 0))"
    by (simp add: starts_round_def coordinating_def)
  with round_starts_alone [OF _ cl(3) this, of 1] cl show ?thesis by (auto simp: coordinating_def)
qed

text \<open>
  C26: the mutual exclusion ends where the orders begin, even when every snapshot is up to date. Once a
  conversion order is on the wire nothing shows it: after the settle delay the coordinator evaluates
  the same cluster again and starts the next round for the same machine, and the machine obeys the
  order that arrives late. So the coordinator drains and deletes the node from K3s while that node is
  installing itself as a server.
\<close>

theorem late_order_overlaps_round:
  "\<exists>cl i j. ideal_cluster cl
    \<and> m_state (peerMgr (cl ! 0)) = StateRescaleCoordinating
    \<and> outstanding (peerSys (cl ! 0)) = [(i, OpRound (PrepareConversion ''ants02''))]
    \<and> peerName (cl ! 1) = ''ants02'' \<and> m_state (peerMgr (cl ! 1)) = StateRescalePromoting
    \<and> outstanding (peerSys (cl ! 1)) = [(j, OpConvert convert_order)]
    \<and> IoSend eventRescaleConvert (marshalOrder convert_order) \<in> set (m_calls (peerMgr (cl ! 0)))"
proof -
  have "map_option (\<lambda>cl. (m_state (peerMgr (cl ! 0)), outstanding (peerSys (cl ! 0)), peerName (cl ! 1),
        m_state (peerMgr (cl ! 1)), outstanding (peerSys (cl ! 1)), List.member (m_calls (peerMgr (cl ! 0))) (IoSend eventRescaleConvert (marshalOrder convert_order))))
      (run_cluster up_to_date late_order two_nodes)
    = Some (StateRescaleCoordinating, [(27, OpRound (PrepareConversion ''ants02''))], ''ants02'',
        StateRescalePromoting, [(6, OpConvert convert_order)], True)"
    by code_simp
  from run_cluster_some [OF ideal_two_nodes this] obtain cl where cl: "ideal_cluster cl"
      "m_state (peerMgr (cl ! 0)) = StateRescaleCoordinating"
      "outstanding (peerSys (cl ! 0)) = [(27, OpRound (PrepareConversion ''ants02''))]"
      "peerName (cl ! 1) = ''ants02''" "m_state (peerMgr (cl ! 1)) = StateRescalePromoting"
      "outstanding (peerSys (cl ! 1)) = [(6, OpConvert convert_order)]"
      "IoSend eventRescaleConvert (marshalOrder convert_order) \<in> set (m_calls (peerMgr (cl ! 0)))"
    by auto
  then show ?thesis by blast
qed

end
