(* ===== verification/First_Server.thy ===== *)
theory First_Server
  imports Cluster_Runs Bootstrap_Order
begin

text \<open>
  The first boot of a whole cluster: on up-to-date snapshots one node at most initialises a cluster,
  once, and it is the one with the lowest name. Without them a split network ends with two clusters.
\<close>

definition initialised :: "cnode \<Rightarrow> nat" where
  "initialised n = inits (m_calls (peerMgr n))"

text \<open>What a run keeps of every node: its name, and that an initialisation ends its first boot.\<close>

definition decided :: "cnode \<Rightarrow> bool" where
  "decided n \<longleftrightarrow> m_config (peerMgr n) = peerConf n \<and> initialised n \<le> 1 \<and> (0 < initialised n \<longrightarrow> begun (peerMgr n))"

lemma decided_start: "decided n \<and> initialised n = 0" if "peerSys n = Run_start (peerWorld n) (peerConf n)"
  using plain_keeps [OF start_plain [of "peerConf n" "peerWorld n"]] that
  by (simp add: keeps_begun_def decided_def initialised_def newManager_def)

lemma decided_turn:
  assumes "decided n" and "n' = n\<lparr>peerSys := perform (peerWorld n) a (peerSys n)\<rparr>"
  shows "decided n'" and "initialised n < initialised n' \<Longrightarrow>
    elected (peerWorld n) (m_calls (peerMgr n)) (peerName n) (m_calls (peerMgr n'))"
  using assms perform_initialises [of "peerSys n" "peerWorld n" a]
  by (auto simp: decided_def initialised_def keeps_begun_def initialises_def)

lemma shown_alive_named: "shown_alive v name st \<Longrightarrow> name \<in> set (aliveMemberNames v)"
  by (auto simp: shown_alive_def list_ex_iff aliveMemberNames_def)

lemma elected_lowest:
  assumes "up_to_date cl i a" and "j < length cl" and "j \<noteq> i"
    and "elected (peerWorld (cl ! i)) (m_calls (peerMgr (cl ! i))) (peerName (cl ! i)) (m_calls (peerMgr (act_on i a cl ! i)))"
  shows "peerName (cl ! i) \<le> peerName (cl ! j)"
proof -
  obtain h where h: "suffix (m_calls (peerMgr (cl ! i))) h" "suffix (IoSnapshot # h) (m_calls (peerMgr (act_on i a cl ! i)))"
      "Rank (aliveMemberNames \<lparr>snapshot = wSnapshot (peerWorld (cl ! i)) h\<rparr>) (peerName (cl ! i)) = Inr 0"
    using assms(4) by (auto simp: elected_def)
  then have "shown_alive \<lparr>snapshot = wSnapshot (peerWorld (cl ! i)) h\<rparr> (peerName (cl ! j)) (m_state (peerMgr (cl ! j)))"
    using assms(1-3) by (simp add: up_to_date_def set_looks)
  then show ?thesis using Rank_zero [OF h(3)] shown_alive_named by blast
qed

definition lowest_initialises :: "cnode list \<Rightarrow> bool" where
  "lowest_initialises cl \<longleftrightarrow> distinct (map peerName cl) \<and> (\<forall>n \<in> set cl. decided n) \<and>
    (\<forall>i < length cl. 0 < initialised (cl ! i) \<longrightarrow> (\<forall>j < length cl. peerName (cl ! i) \<le> peerName (cl ! j)))"

lemma ideal_lowest: "ideal_cluster cl \<Longrightarrow> lowest_initialises cl"
proof (induction rule: cluster_by.induct)
  case (boot cl)
  then show ?case using decided_start by (auto simp: lowest_initialises_def)
next
  case (turn cl k a)
  let ?cl = "act_on k a cl"
  have names: "map peerName ?cl = map peerName cl"
    using turn.hyps(2) by (simp add: act_on_def map_update) (metis list_update_id nth_map map_update)
  then have name: "peerName (?cl ! i) = peerName (cl ! i)" if "i < length cl" for i
    using that by (metis nth_map act_on_nth(2) turn.hyps(2))
  have dec: "decided (cl ! i)" if "i < length cl" for i using turn.IH that by (simp add: lowest_initialises_def)
  have k: "?cl ! k = (cl ! k)\<lparr>peerSys := perform (peerWorld (cl ! k)) a (peerSys (cl ! k))\<rparr>"
    using turn.hyps(2) by (simp add: act_on_nth)
  have "decided (?cl ! i)" if "i < length cl" for i
    using decided_turn(1) [OF dec k] dec that turn.hyps(2) by (cases "i = k") (simp_all add: act_on_nth)
  moreover have "peerName (cl ! i) \<le> peerName (cl ! j)"
    if new: "0 < initialised (?cl ! i)" and "i < length cl" and "j < length cl" for i j
  proof (cases "0 < initialised (cl ! i)")
    case True
    then show ?thesis using turn.IH that by (simp add: lowest_initialises_def)
  next
    case False
    with new that(2) turn.hyps(2) have "i = k" by (auto simp: act_on_nth split: if_splits)
    with False new have "initialised (cl ! k) < initialised (?cl ! k)" by simp
    from elected_lowest [OF turn.hyps(4) that(3) _ decided_turn(2) [OF dec k this]] show ?thesis
      using turn.hyps(2) \<open>i = k\<close> by (cases "j = k") simp_all
  qed
  ultimately show ?case
    using turn.IH names name turn.hyps(2)
    by (auto simp: lowest_initialises_def act_on_nth(2) in_set_conv_nth)
qed

lemma sum_initialised:
  assumes "distinct (map peerName cl)" and "\<forall>n \<in> set cl. initialised n \<le> 1"
    and "\<forall>n \<in> set cl. 0 < initialised n \<longrightarrow> (\<forall>n' \<in> set cl. peerName n \<le> peerName n')"
  shows "sum_list (map initialised cl) \<le> 1"
  using assms
proof (induction cl)
  case (Cons n cl)
  show ?case
  proof (cases "initialised n = 0")
    case False
    have "initialised n' = 0" if n': "n' \<in> set cl" for n'
    proof (rule ccontr)
      assume "initialised n' \<noteq> 0"
      then have "peerName n = peerName n'" using False Cons.prems(3) n' by (intro order.antisym) auto
      then show False using Cons.prems(1) n' by auto
    qed
    then have "sum_list (map initialised cl) = 0" by (induction cl) simp_all
    moreover have "initialised n \<le> 1" using Cons.prems(2) by simp
    ultimately show ?thesis by (simp only: list.map sum_list.Cons)
  qed (use Cons in simp)
qed simp

text \<open>
  C3: in an ideal run of a cluster, under any interleaving of the actions of its nodes and however often
  the start signals arrive, at most one node ever initialises a new K3s cluster, it does so once, and it
  is the node with the lowest name.
\<close>

theorem one_initialisation:
  assumes "ideal_cluster cl"
  shows "sum_list (map initialised cl) \<le> 1
    \<and> (\<forall>n \<in> set cl. 0 < initialised n \<longrightarrow> (\<forall>n' \<in> set cl. peerName n \<le> peerName n'))"
proof -
  have low: "lowest_initialises cl" by (rule ideal_lowest [OF assms])
  then have "\<forall>n \<in> set cl. 0 < initialised n \<longrightarrow> (\<forall>n' \<in> set cl. peerName n \<le> peerName n')"
    by (auto simp: lowest_initialises_def in_set_conv_nth)
  moreover from this have "sum_list (map initialised cl) \<le> 1"
    using low by (intro sum_initialised) (simp_all add: lowest_initialises_def decided_def)
  ultimately show ?thesis by simp
qed

subsection \<open>Two machines of a first boot\<close>

text \<open>
  \<open>ants01\<close> and \<open>ants02\<close> wait; when the start signal comes \<open>ants01\<close> initialises the cluster, and
  \<open>ants02\<close>, which sees it doing so, takes its rank and waits for its turn.
\<close>

definition booting_node :: "string \<Rightarrow> member list \<Rightarrow> cnode" where
  "booting_node name ms =
    \<lparr>peerWorld = steady_world ms, peerConf = demo_config name, peerSys = Run_start (steady_world ms) (demo_config name)\<rparr>"

definition two_booting :: "cnode list" where
  "two_booting =
    [booting_node ''ants01'' [peer ''ants01'' ''10.0.0.1'' memberStatusAlive StateBootstrapWaiting,
       peer ''ants02'' ''10.0.0.2'' memberStatusAlive StateBootstrapWaiting],
     booting_node ''ants02'' [peer ''ants01'' ''10.0.0.1'' memberStatusAlive StateBootstrapInstallInit,
       peer ''ants02'' ''10.0.0.2'' memberStatusAlive StateBootstrapWaiting]]"

definition signal :: "nat \<Rightarrow> string \<Rightarrow> (nat \<times> action) list" where
  "signal i name = [(i, Arrive (user_event name NoPayload)), (i, TakeEvent)]"

definition boot_signals :: "(nat \<times> action) list" where
  "boot_signals = signal 0 eventBootstrapRequested @ signal 1 eventBootstrapRequested
    @ signal 0 eventBootstrapStart @ signal 1 eventBootstrapStart"

lemma ideal_two_booting: "ideal_cluster two_booting"
  by (rule cluster_by.boot) (auto simp: two_booting_def booting_node_def demo_config_def)

theorem one_initialisation_witness:
  "\<exists>cl. ideal_cluster cl \<and> map initialised cl = [1, 0] \<and> map (\<lambda>n. m_state (peerMgr n)) cl = [StateBootstrapInstallInit, StateBootstrapWaiting]
    \<and> sum_list (map initialised cl) \<le> 1"
proof -
  have "map_option (\<lambda>cl. (map initialised cl, map (\<lambda>n. m_state (peerMgr n)) cl)) (run_cluster up_to_date boot_signals two_booting)
    = Some ([1, 0], [StateBootstrapInstallInit, StateBootstrapWaiting])"
    by code_simp
  from run_cluster_some [OF ideal_two_booting this] obtain cl where "ideal_cluster cl"
      "(map initialised cl, map (\<lambda>n. m_state (peerMgr n)) cl) = ([1, 0], [StateBootstrapInstallInit, StateBootstrapWaiting])" .
  with one_initialisation [OF this(1)] show ?thesis by (intro exI [of _ cl]) simp
qed

text \<open>
  What the up-to-date snapshots are for: on a network split before the first boot each side elects its
  own lowest name, and two nodes initialise a cluster.
\<close>

definition split_network :: "cnode list" where
  "split_network =
    [booting_node ''ants01'' [peer ''ants01'' ''10.0.0.1'' memberStatusAlive StateBootstrapWaiting],
     booting_node ''ants02'' [peer ''ants02'' ''10.0.0.2'' memberStatusAlive StateBootstrapWaiting]]"

theorem split_network_initialises_twice:
  "\<exists>cl. cluster_by (\<lambda>cl i a. True) cl \<and> map initialised cl = [1, 1]"
proof -
  have boot: "cluster_by (\<lambda>cl i a. True) split_network"
    by (rule cluster_by.boot) (auto simp: split_network_def booting_node_def demo_config_def)
  have "map_option (map initialised) (run_cluster (\<lambda>cl i a. True) boot_signals split_network) = Some [1, 1]" by code_simp
  from run_cluster_some [OF boot this] obtain cl where "cluster_by (\<lambda>cl i a. True) cl" "map initialised cl = [1, 1]" .
  then show ?thesis by (intro exI conjI)
qed

end
