(* ===== verification/Op_Timing.thy ===== *)
theory Op_Timing
  imports Background_Ops
begin

text \<open>
  How long a background operation can take. Every one of them runs under a deadline of its own, so
  that a machine that never comes back stops blocking the etcd membership changes of the others. A
  command obeys its context: \<open>exec.CommandContext\<close> kills it when the context ends. Reading and
  copying files takes no time in the model.
\<close>

subsection \<open>Ending by the deadline\<close>

definition by_deadline :: "ctx \<Rightarrow> time \<Rightarrow> time \<Rightarrow> bool" where
  "by_deadline c t t' \<longleftrightarrow> t \<le> t' \<and> (case ctx_done c of None \<Rightarrow> True | Some (d, why) \<Rightarrow> t' \<le> max t d)"

lemma by_deadline_refl [simp]: "by_deadline c t t"
  by (auto simp: by_deadline_def split: option.split)

lemma by_deadline_trans: "by_deadline c t t1 \<Longrightarrow> by_deadline c t1 t2 \<Longrightarrow> by_deadline c t t2"
  by (auto simp: by_deadline_def split: option.splits)

text \<open>A timeout set inside an operation ends no later than the context it is derived from.\<close>

lemma by_deadline_WithTimeout: "by_deadline (WithTimeout c d t0) t t' \<Longrightarrow> by_deadline c t t'"
  by (auto simp: by_deadline_def WithTimeout_def ctx_done_def split: option.splits if_splits)

lemma by_deadline_timeout:
  "by_deadline (WithTimeout c d t) t t' \<Longrightarrow> 0 \<le> d \<Longrightarrow> t \<le> t' \<and> t' \<le> t + d"
  by (auto simp: by_deadline_def WithTimeout_def ctx_done_def split: option.splits if_splits)

text \<open>What an operation promises about the time it takes; \<open>tm\<close> is the clock of a state.\<close>

locale timed_host =
  fixes I :: "'s installer" and P :: "'s control_plane" and tm :: "'s \<Rightarrow> time"
  assumes clock_I: "iNow I s = tm s" and clock_P: "pNow P s = tm s"
    and role_instant: "InstalledRole I s = (x, s') \<Longrightarrow> tm s' = tm s"
    and init_timed: "InstallServerInit I c s = (r, s') \<Longrightarrow> by_deadline c (tm s) (tm s')"
    and join_timed: "InstallServerJoin I c ip s = (r, s') \<Longrightarrow> by_deadline c (tm s) (tm s')"
    and agent_timed: "InstallAgent I c ip s = (r, s') \<Longrightarrow> by_deadline c (tm s) (tm s')"
    and convert_timed: "Convert I c to ip s = (r, s') \<Longrightarrow> by_deadline c (tm s) (tm s')"
    and wait_server_timed: "WaitServerReady I c s = (r, s') \<Longrightarrow> by_deadline c (tm s) (tm s')"
    and wait_agent_timed: "WaitAgentReady I c s = (r, s') \<Longrightarrow> by_deadline c (tm s) (tm s')"
    and drain_timed: "DrainNode P c name s = (r, s') \<Longrightarrow> by_deadline c (tm s) (tm s')"
    and delete_timed: "DeleteNode P c name s = (r, s') \<Longrightarrow> by_deadline c (tm s) (tm s')"
    and exists_timed: "NodeExists P c name s = (b, s') \<Longrightarrow> by_deadline c (tm s) (tm s')"

text \<open>The time an operation may take when nothing cancels it.\<close>

fun op_timeout :: "duration \<Rightarrow> k3s_op \<Rightarrow> duration" where
  "op_timeout timeout OpEnsureNotInstalled = 0"
| "op_timeout timeout (OpRejoin r) = timeout"
| "op_timeout timeout (OpRound work) = rescaleCoordinationTimeout"
| "op_timeout timeout (OpConvert ord) = rescaleConvertTimeout"
| "op_timeout timeout _ = firstBootTimeout"

lemma timeouts_positive: "0 \<le> firstBootTimeout" "0 \<le> rescaleConvertTimeout" "0 \<le> rescaleCoordinationTimeout"
  by (simp_all add: firstBootTimeout_def rescaleConvertTimeout_def rescaleCoordinationTimeout_def minute_def second_def)

context timed_host
begin

lemma ensure_instant: "ensureK3sIsNotInstalled I s = (r, s') \<Longrightarrow> tm s' = tm s"
  using role_instant by (auto simp: ensureK3sIsNotInstalled_def split: prod.splits sum.splits if_splits)

lemma wrapping_snd: "wrapping what r = (x, s') \<Longrightarrow> s' = snd r"
  by (auto simp: wrapping_def)

lemma wait_ready_timed: "by_deadline c (tm s) (tm (snd (wait_ready I role c s)))"
  using wait_server_timed wait_agent_timed by (simp add: wait_ready_def) (metis prod.collapse)

lemma install_timed:
  assumes "\<And>c s r s'. install c s = (r, s') \<Longrightarrow> by_deadline c (tm s) (tm s')"
    and "\<And>c s r s'. waitReady c s = (r, s') \<Longrightarrow> by_deadline c (tm s) (tm s')"
    and "installThenWaitReady I install waitReady c s = (r, s')"
  shows "tm s \<le> tm s' \<and> tm s' \<le> tm s + firstBootTimeout"
proof -
  obtain e s1 where e: "ensureK3sIsNotInstalled I s = (e, s1)" by fastforce
  have t1: "tm s1 = tm s" using ensure_instant [OF e] .
  let ?c = "WithTimeout c firstBootTimeout (tm s)"
  obtain i s2 where i: "install ?c s1 = (i, s2)" by fastforce
  obtain x s3 where x: "InstalledRole I s2 = (x, s3)" by fastforce
  have t2: "by_deadline ?c (tm s) (tm s2)" "tm s3 = tm s2" using assms(1) [OF i] t1 role_instant [OF x] by simp_all
  have w: "by_deadline ?c (tm s) (tm (snd (waitReady ?c s4)))" if "tm s4 = tm s2" for s4
    using by_deadline_trans [OF t2(1)] assms(2) [of ?c s4] that by (metis prod.collapse)
  have "e \<noteq> None \<and> s' = s1 \<or> by_deadline ?c (tm s) (tm s')"
    using assms(3) w [of s2] w [of s3] t2 clock_I t1
    by (auto simp: installThenWaitReady_def e i x Let_def wrapping_def split: option.splits sum.splits)
  then show ?thesis using by_deadline_timeout timeouts_positive(1) t1 by fastforce
qed

lemma rejoin_timed:
  assumes "rejoin_op I timeout role c s = (r, s')" and "0 \<le> timeout"
  shows "tm s \<le> tm s' \<and> tm s' \<le> tm s + timeout"
proof -
  let ?c = "WithTimeout c timeout (tm s)"
  obtain x s1 where x: "InstalledRole I s = (x, s1)" by fastforce
  have t1: "tm s1 = tm s" using role_instant [OF x] .
  have "s' = s1 \<or> s' = snd (wait_ready I role ?c s1)"
    using assms(1) clock_I by (auto simp: rejoin_op_def checkInstalledRole_def x Let_def wrapping_def
        split: option.splits sum.splits if_splits)
  then have "by_deadline ?c (tm s) (tm s')" using wait_ready_timed [of ?c s1 role] t1 by auto
  then show ?thesis using by_deadline_timeout assms(2) by blast
qed

lemma convert_op_timed:
  assumes "convertThenWaitReady I ord c s = (r, s')"
  shows "tm s \<le> tm s' \<and> tm s' \<le> tm s + rescaleConvertTimeout"
proof -
  let ?c = "WithTimeout c rescaleConvertTimeout (tm s)"
  obtain x s1 where x: "Convert I ?c (RoleO ord) (JoinIP ord) s = (x, s1)" by fastforce
  obtain y s2 where y: "InstalledRole I s1 = (y, s2)" by fastforce
  have t: "by_deadline ?c (tm s) (tm s1)" "tm s2 = tm s1" using convert_timed [OF x] role_instant [OF y] by simp_all
  have "s' \<in> {s1, s2, snd (wait_ready I (RoleO ord) ?c s2)}"
    using assms clock_I by (auto simp: convertThenWaitReady_def x y Let_def wrapping_def split: option.splits sum.splits if_splits)
  then have "by_deadline ?c (tm s) (tm s')"
    using t by_deadline_trans [OF t(1)] wait_ready_timed [of ?c s2 "RoleO ord"] by auto
  then show ?thesis using by_deadline_timeout timeouts_positive(2) by blast
qed

lemma delete_nodes_timed: "delete_nodes P c names s = (r, s') \<Longrightarrow> by_deadline c (tm s) (tm s')"
proof (induction names arbitrary: s)
  case (Cons name names)
  obtain x s1 where x: "DeleteNode P c name s = (x, s1)" by fastforce
  note t = delete_timed [OF x]
  show ?case
  proof (cases x)
    case None
    then show ?thesis using Cons.IH [of s1] Cons.prems x by_deadline_trans [OF t] by simp
  next
    case (Some err)
    then show ?thesis using Cons.prems x t by simp
  qed
qed simp

lemma round_step_timed:
  assumes "round_step P work c s = (r, s')"
  shows "by_deadline c (tm s) (tm s')"
proof (cases work)
  case (EvictNodes names)
  then show ?thesis using delete_nodes_timed assms by simp
next
  case (PrepareConversion name)
  obtain x s1 where x: "DrainNode P c name s = (x, s1)" by fastforce
  obtain y s2 where y: "DeleteNode P c name s1 = (y, s2)" by fastforce
  obtain z s3 where z: "NodeExists P c name s2 = (z, s3)" by fastforce
  have t: "by_deadline c (tm s) (tm s2)" by (rule by_deadline_trans [OF drain_timed [OF x] delete_timed [OF y]])
  have "s' = s2 \<or> s' = s3"
    using assms PrepareConversion by (auto simp: prepareConversion_def x y z split: option.splits sum.splits)
  then show ?thesis using t by_deadline_trans [OF t exists_timed [OF z]] by blast
next
  case (EraseNode name)
  then show ?thesis using delete_timed assms by simp
qed

lemma round_timed:
  assumes "coordination_round P self work c s = (r, s')"
  shows "tm s \<le> tm s' \<and> tm s' \<le> tm s + rescaleCoordinationTimeout"
proof -
  let ?c = "WithTimeout c rescaleCoordinationTimeout (tm s)"
  obtain q s1 where q: "checkQuorum P self ?c s = (q, s1)" by fastforce
  obtain x s2 where x: "NodeExists P (WithTimeout ?c quorumProbeTimeout (pNow P s)) self s = (x, s2)" by fastforce
  have "s1 = s2" using q by (auto simp: checkQuorum_def x split: sum.splits)
  then have t: "by_deadline ?c (tm s) (tm s1)" using by_deadline_WithTimeout [OF exists_timed [OF x]] by simp
  have "s' = s1 \<or> round_step P work ?c s1 = (r, s')"
    using assms by (auto simp: coordination_round_def Let_def clock_P q split: option.splits)
  then have "by_deadline ?c (tm s) (tm s')" using t by_deadline_trans [OF t round_step_timed] by blast
  then show ?thesis using by_deadline_timeout timeouts_positive(3) by blast
qed

lemma run_op_timed:
  assumes "run_op I P self timeout op c s = (r, s')" and "0 \<le> timeout"
  shows "tm s \<le> tm s' \<and> tm s' \<le> tm s + op_timeout timeout op"
proof (cases op)
  case OpInstallInit
  then show ?thesis using install_timed [OF init_timed wait_server_timed] assms(1) by simp
next
  case (OpInstallServer ip)
  then show ?thesis using install_timed [OF join_timed wait_server_timed] assms(1) by simp
next
  case (OpInstallAgent ip)
  then show ?thesis using install_timed [OF agent_timed wait_agent_timed] assms(1) by simp
next
  case OpEnsureNotInstalled
  then show ?thesis using ensure_instant assms(1) by simp
next
  case (OpRejoin role)
  then show ?thesis using rejoin_timed assms by simp
next
  case (OpRound work)
  then show ?thesis using round_timed assms(1) by simp
next
  case (OpConvert ord)
  then show ?thesis using convert_op_timed assms(1) by simp
qed

end

subsection \<open>The simulated operations\<close>

lemma wait_delay_timed: "wait_delay d c f = (r, f') \<Longrightarrow> by_deadline c (fClock f) (fClock f')"
  by (auto simp: wait_delay_def by_deadline_def Let_def split: option.splits if_splits)

lemma simulateInstall_timed: "simulateInstall c role f = (r, f') \<Longrightarrow> by_deadline c (fClock f) (fClock f')"
  using wait_delay_timed [of "Delay f" c f]
  by (auto simp: simulateInstall_def simulate_def SetInstalledRole_def split: prod.splits option.splits)

interpretation fake_timed: timed_host FakeInstaller FakeControlPlane fClock
proof unfold_locales
  fix c name f r f'
  assume "DeleteNode FakeControlPlane c name f = (r, f')"
  then show "by_deadline c (fClock f) (fClock f')"
    using wait_delay_timed [of "cDelay f" c f]
    by (auto simp: FakeControlPlane_def fake_DeleteNode_def control_simulate_def split: prod.splits option.splits)
next
  fix c to ip f r f'
  assume "Convert FakeInstaller c to ip f = (r, f')"
  then show "by_deadline c (fClock f) (fClock f')"
    using simulateInstall_timed [of c to f]
    by (auto simp: FakeInstaller_def fake_Convert_def fake_InstalledRole_def split: if_splits)
qed (auto simp: FakeInstaller_def FakeControlPlane_def fake_InstalledRole_def fake_InstallServerInit_def
    fake_InstallServerJoin_def fake_InstallAgent_def fake_WaitServerReady_def fake_WaitAgentReady_def
    fake_DrainNode_def fake_NodeExists_def simulate_def control_simulate_def
    intro: wait_delay_timed simulateInstall_timed split: if_splits)

subsection \<open>The operations on the real machine\<close>

lemma syscall_clock:
  assumes "\<And>m r m'. f m = (r, m') \<Longrightarrow> mClock m' = mClock m" and "syscall e f m = (r, m')"
  shows "mClock m' = mClock m"
proof (cases "fault e (mSys m)")
  case None
  then show ?thesis using assms(1) [of "m\<lparr>mSys := Suc (mSys m)\<rparr>" r m'] assms(2) by (simp add: syscall_def Let_def)
next
  case (Some err)
  then show ?thesis using assms(2) by (auto simp: syscall_def Let_def)
qed

lemma set_fs_clock [simp]: "mClock (set_fs fs m) = mClock m"
  by (simp add: set_fs_def)

lemma os_clock:
  "os_MkdirAll e p m = (r1, m') \<Longrightarrow> mClock m' = mClock m"
  "os_Link e p q m = (r1, m') \<Longrightarrow> mClock m' = mClock m"
  "os_Chmod e p mode m = (r1, m') \<Longrightarrow> mClock m' = mClock m"
  "os_CreateTemp e p q m = (r2, m') \<Longrightarrow> mClock m' = mClock m"
  "os_Rename e p q m = (r1, m') \<Longrightarrow> mClock m' = mClock m"
  "os_Remove e p m = (r1, m') \<Longrightarrow> mClock m' = mClock m"
  "os_ReadDir e p m = (r3, m') \<Longrightarrow> mClock m' = mClock m"
  unfolding os_MkdirAll_def os_Link_def os_Chmod_def os_CreateTemp_def os_Rename_def os_Remove_def os_ReadDir_def
  by (erule syscall_clock [rotated], auto simp: Let_def split: option.splits fnode.splits prod.splits)+

lemma reads_clock:
  "os_Stat e p m = (r4, m') \<Longrightarrow> mClock m' = mClock m" "os_Open e p m = (r5, m') \<Longrightarrow> mClock m' = mClock m"
  "os_Sync e m = (r1, m') \<Longrightarrow> mClock m' = mClock m" "os_Close e m = (r1, m') \<Longrightarrow> mClock m' = mClock m"
  using os_Stat_reads os_Open_reads os_Sync_reads os_Close_reads by blast+

lemma io_Copy_clock: "io_Copy e p data m = (r1, m') \<Longrightarrow> mClock m' = mClock m"
  by (auto simp: io_Copy_def write_file_def Let_def split: option.splits fnode.splits)

lemma snd_clock [simp]:
  "mClock (snd (os_Close e m)) = mClock m" "mClock (snd (os_Remove e p m)) = mClock m"
  by (metis reads_clock(4) prod.collapse, metis os_clock(6) prod.collapse)

lemmas clocks = os_clock reads_clock io_Copy_clock

lemma write_tmp_clock: "write_tmp e tmp data mode dst m = (r, m') \<Longrightarrow> mClock m' = mClock m"
  by (auto simp: write_tmp_def split: prod.splits sum.splits dest!: clocks)

lemma copyFile_clock: "copyFile e src dst mode m = (r, m') \<Longrightarrow> mClock m' = mClock m"
  by (auto simp: copyFile_def removing_def split: prod.splits sum.splits dest!: clocks)
    (metis prod.collapse write_tmp_clock)+

lemma stageAsset_clock: "stageAsset e src dst mode m = (r, m') \<Longrightarrow> mClock m' = mClock m"
  by (auto simp: stageAsset_def split: prod.splits sum.splits sys_error.splits option.splits dest!: clocks copyFile_clock)

lemma stageArchives_clock: "stageArchives e v images archives m = (r, m') \<Longrightarrow> mClock m' = mClock m"
proof (induction archives arbitrary: m)
  case (Cons a archives)
  obtain name is_dir where a: "a = (name, is_dir)" by fastforce
  obtain x m1 where x: "stageAsset e (filepath_Join v name) (filepath_Join images name) 420 m = (x, m1)" by fastforce
  show ?case using Cons.prems Cons.IH [of m] Cons.IH [of m1] stageAsset_clock [OF x]
    by (cases x) (auto simp: a x split: if_splits)
qed simp

lemma stageAirGapAssets_clock: "stageAirGapAssets e i c m = (r, m') \<Longrightarrow> mClock m' = mClock m"
  by (auto simp: stageAirGapAssets_def split: prod.splits sum.splits option.splits
      dest!: clocks stageAsset_clock stageArchives_clock)

text \<open>Commands that end when their context does; they are only started before it.\<close>

locale obeying_env =
  fixes e :: "'c env"
  assumes script_obeys: "script e p vars c m = ((out, err), d, fs, cl) \<Longrightarrow> ctx_done c = Some (t, why) \<Longrightarrow>
      mClock m < t \<Longrightarrow> mClock m + int d \<le> t"
    and kubectl_obeys: "kubectl_do e args c m = ((out, err), d, cl) \<Longrightarrow> ctx_done c = Some (t, why) \<Longrightarrow>
      mClock m < t \<Longrightarrow> mClock m + int d \<le> t"
    and get_obeys: "kubectl_get e args c m = ((out, err), d) \<Longrightarrow> ctx_done c = Some (t, why) \<Longrightarrow>
      mClock m < t \<Longrightarrow> mClock m + int d \<le> t"
begin

lemma run_script_timed: "run_script e c p vars m = (r, m') \<Longrightarrow> by_deadline c (mClock m) (mClock m')"
  by (auto simp: run_script_def by_deadline_def ctx_Err_def split: option.splits prod.splits if_splits
      dest: script_obeys)

lemma run_kubectl_timed: "run_kubectl e c args m = (r, m') \<Longrightarrow> by_deadline c (mClock m) (mClock m')"
  by (auto simp: run_kubectl_def by_deadline_def ctx_Err_def split: option.splits prod.splits if_splits
      dest: kubectl_obeys)

lemma run_get_timed: "run_get e c args m = (r, m') \<Longrightarrow> by_deadline c (mClock m) (mClock m')"
  by (auto simp: run_get_def by_deadline_def ctx_Err_def split: option.splits prod.splits if_splits
      dest: get_obeys)

lemma runInstallScript_timed:
  assumes "runInstallScript e i c extra m = (r, m')"
  shows "by_deadline c (mClock m) (mClock m')"
proof -
  obtain x m1 where x: "stageAirGapAssets e i c m = (x, m1)" by fastforce
  have m1: "mClock m1 = mClock m" using stageAirGapAssets_clock [OF x] .
  have "m' = m1 \<or> (\<exists>p vars. m' = snd (run_script e c p vars m1))"
    using assms by (auto simp: runInstallScript_def x Let_def split: option.splits prod.splits) (metis snd_conv)+
  then show ?thesis using m1 run_script_timed [of c _ _ m1] by (metis by_deadline_refl prod.collapse)
qed

lemma exec_Convert_timed:
  assumes "exec_Convert e i c to ip m = (r, m')"
  shows "by_deadline c (mClock m) (mClock m')"
proof -
  obtain x m0 where x: "exec_InstalledRole e i m = (x, m0)" by fastforce
  have m0: "mClock m0 = mClock m" using exec_InstalledRole_spec(1) [OF x] by simp
  show ?thesis
  proof (cases "\<exists>old. x = Inr old \<and> old \<noteq> to")
    case False
    then have "m' = m0" using assms by (cases x) (auto simp: exec_Convert_def x)
    then show ?thesis using m0 by simp
  next
    case True
    then obtain old where old: "x = Inr old" "old \<noteq> to" by blast
    obtain u m1 where u: "runUninstallScript e c old m0 = (u, m1)" by fastforce
    obtain y m2 where y: "exec_InstalledRole e i m1 = (y, m2)" by fastforce
    have "\<exists>p. m1 = snd (run_script e c p (environ e) m0)"
      using u by (auto simp: runUninstallScript_def Let_def split: option.splits prod.splits) (metis snd_conv)+
    then have t1: "by_deadline c (mClock m) (mClock m1)" using run_script_timed [of c _ _ m0] m0 by (metis prod.collapse)
    have t2: "mClock m2 = mClock m1" using exec_InstalledRole_spec(1) [OF y] by simp
    have install: "by_deadline c (mClock m) (mClock (snd (runInstallScript e i c extra m2)))" for extra
      using by_deadline_trans [OF t1] runInstallScript_timed t2 by (metis prod.collapse)
    have "m' \<in> {m1, m2} \<or> (\<exists>extra. m' = snd (runInstallScript e i c extra m2))"
      using assms old by (auto simp: exec_Convert_def x u y exec_InstallServerJoin_def exec_InstallAgent_def
          split: option.splits sum.splits if_splits) (metis snd_conv)+
    then show ?thesis using t1 t2 install by auto
  qed
qed

lemma poll_timed:
  assumes "\<And>m r m'. attempt m = (r, m') \<Longrightarrow> by_deadline c (mClock m) (mClock m')"
  shows "poll fuel e c attempt started tick m = Some (r, m') \<Longrightarrow> by_deadline c (mClock m) (mClock m')"
proof (induction fuel arbitrary: tick m)
  case (Suc fuel)
  obtain x m1 where x: "attempt m = (x, m1)" by fastforce
  note t1 = assms [OF x]
  show ?case
  proof (cases x)
    case None
    then show ?thesis using Suc.prems x t1 by simp
  next
    case (Some err)
    let ?ready = "max (mClock m1) tick"
    have next_poll: "by_deadline c (mClock m) (mClock m')"
      if "poll fuel e c attempt started (next_tick started ?ready) (m1\<lparr>mClock := ?ready\<rparr>) = Some (r, m')"
        and "by_deadline c (mClock m1) ?ready"
      using Suc.IH [OF that(1)] by_deadline_trans [OF t1] by_deadline_trans [OF that(2)] by simp
    show ?thesis
    proof (cases "ctx_done c")
      case None
      then have "by_deadline c (mClock m1) ?ready" by (simp add: by_deadline_def)
      then show ?thesis using Suc.prems x Some None next_poll by (simp add: Let_def)
    next
      case ends: (Some dw)
      obtain d why where dw: "dw = (d, why)" by fastforce
      have "by_deadline c (mClock m1) (max (mClock m1) d)" by (simp add: by_deadline_def ends dw)
      moreover have "by_deadline c (mClock m1) ?ready" if "?ready \<le> max (mClock m1) d"
        using that by (simp add: by_deadline_def ends dw)
      ultimately show ?thesis
        using Suc.prems x Some ends dw next_poll by_deadline_trans [OF t1]
        by (auto simp: Let_def split: if_splits)
    qed
  qed
qed simp

lemma probe_timed:
  "server_probe e i c m = (r, m') \<Longrightarrow> by_deadline c (mClock m) (mClock m')"
  "agent_probe e i c m = (r, m') \<Longrightarrow> by_deadline c (mClock m) (mClock m')"
  by (auto simp: server_probe_def agent_probe_def split: prod.splits option.splits if_splits dest: run_get_timed)

lemma wait_timed:
  "exec_WaitServerReady e i c m = (r, m') \<Longrightarrow> by_deadline c (mClock m) (mClock m')"
  "exec_WaitAgentReady e i c m = (r, m') \<Longrightarrow> by_deadline c (mClock m) (mClock m')"
  using poll_timed [OF probe_timed(1)] poll_timed [OF probe_timed(2)]
  by (auto simp: exec_WaitServerReady_def exec_WaitAgentReady_def returning_def pollUntilReady_def split: option.splits)

lemma control_timed:
  "exec_DrainNode e a c name m = (r, m') \<Longrightarrow> by_deadline c (mClock m) (mClock m')"
  "exec_DeleteNode e a c name m = (r, m') \<Longrightarrow> by_deadline c (mClock m) (mClock m')"
  "exec_NodeExists e a c name m = (b, m') \<Longrightarrow> by_deadline c (mClock m) (mClock m')"
  by (auto simp: exec_DrainNode_def exec_DeleteNode_def exec_NodeExists_def error_only_def kubectl_def
      kubectl_read_def kubectl_result_def split: prod.splits option.splits sum.splits
      dest: run_kubectl_timed run_get_timed)

end

sublocale obeying_env \<subseteq> exec_timed: timed_host "ExecInstaller e i" "ExecControlPlane e a" mClock for i a
proof unfold_locales
  fix m x m'
  assume "InstalledRole (ExecInstaller e i) m = (x, m')"
  then show "mClock m' = mClock m" using exec_InstalledRole_spec(1) by (fastforce simp: ExecInstaller_def)
qed (auto simp: ExecInstaller_def ExecControlPlane_def exec_InstallServerInit_def exec_InstallServerJoin_def
    exec_InstallAgent_def intro: runInstallScript_timed exec_Convert_timed wait_timed control_timed)

context obeying_env
begin

lemmas exec_run_op_timed = exec_timed.run_op_timed

end

interpretation cluster_env: obeying_env cluster_env
  by unfold_locales (auto simp: cluster_env_def)



end
