(* ===== verification/Wire_Types.thy ===== *)
theory Wire_Types
  imports Scenario
begin

text \<open>
  What a node puts on the wire. The five user events carry no declared type: a payload is bytes, and
  the receiver of a conversion order does not check its role. This theory types the messages at the
  sender: in every run, each event a node broadcasts has the payload its receivers decode.
\<close>

subsection \<open>Message types\<close>

definition forget_message :: "string \<Rightarrow> payload \<Rightarrow> bool" where
  "forget_message name p \<longleftrightarrow> name \<noteq> '''' \<and> unmarshalForget p = Some \<lparr>NameO = name\<rparr>"

definition order_message :: "payload \<Rightarrow> bool" where
  "order_message p \<longleftrightarrow>
    (case unmarshalOrder p of
       None \<Rightarrow> False
     | Some ord \<Rightarrow> Target ord \<noteq> '''' \<and> RoleO ord \<in> {RoleServer, RoleAgent})"

definition message_typed :: "string \<Rightarrow> string \<Rightarrow> payload \<Rightarrow> bool" where
  "message_typed self name p \<longleftrightarrow>
    name = eventBootstrapRequested \<and> p = NoPayload \<or>
    name = eventBootstrapStart \<and> p = NoPayload \<or>
    name = eventForgetMe \<and> p = marshalForget \<lparr>NameO = self\<rparr> \<or>
    name = eventForgotten \<and> (\<exists>n. forget_message n p) \<or>
    name = eventRescaleConvert \<and> order_message p"

fun io_typed :: "string \<Rightarrow> io \<Rightarrow> bool" where
  "io_typed self (IoSend name p) = message_typed self name p"
| "io_typed self _ = True"

lemma message_typed_simps [simp]:
  "message_typed self eventBootstrapRequested NoPayload"
  "message_typed self eventBootstrapStart NoPayload"
  "message_typed self eventForgetMe (marshalForget \<lparr>NameO = self\<rparr>)"
  by (simp_all add: message_typed_def)

lemma forgotten_typed: "name \<noteq> '''' \<Longrightarrow> message_typed self eventForgotten (marshalForget \<lparr>NameO = name\<rparr>)"
  by (auto simp: message_typed_def forget_message_def)

lemma order_typed:
  "Target ord \<noteq> '''' \<Longrightarrow> RoleO ord \<in> {RoleServer, RoleAgent} \<Longrightarrow>
    message_typed self eventRescaleConvert (marshalOrder ord)"
  by (auto simp: message_typed_def order_message_def)

subsection \<open>Steps\<close>

text \<open>A step that only adds typed calls; the two handlers that broadcast an order or a
confirmation need the invariant of the manager for it.\<close>

definition typed_step :: "manager \<Rightarrow> manager \<Rightarrow> bool" where
  "typed_step m m' \<longleftrightarrow> m_config m' = m_config m \<and>
    (\<forall>e \<in> set (m_calls m'). e \<in> set (m_calls m) \<or> io_typed (selfName m) e)"

named_theorems typed_rules \<open>the handlers broadcast typed messages\<close>

lemma typed_refl [simp]: "typed_step m m"
  by (simp add: typed_step_def)

lemma typed_trans: "typed_step m m1 \<Longrightarrow> typed_step m1 m2 \<Longrightarrow> typed_step m m2"
  unfolding typed_step_def by metis

lemma typed_fields [simp]:
  "typed_step m (m'\<lparr>m_joining := j\<rparr>) = typed_step m m'" "typed_step m (m'\<lparr>m_bootstrap := b\<rparr>) = typed_step m m'"
  "typed_step m (m'\<lparr>m_rescale := r\<rparr>) = typed_step m m'" "typed_step m (m'\<lparr>m_persistedState := p\<rparr>) = typed_step m m'"
  "typed_step (m\<lparr>m_joining := j\<rparr>) m' = typed_step m m'" "typed_step (m\<lparr>m_bootstrap := b\<rparr>) m' = typed_step m m'"
  "typed_step (m\<lparr>m_rescale := r\<rparr>) m' = typed_step m m'"
  by (simp_all add: typed_step_def)

lemma typed_emit [typed_rules]: "io_typed (selfName m) e \<Longrightarrow> typed_step m (emit e m)"
  by (auto simp: typed_step_def emit_def)

lemma typed_then: "typed_step m m' \<Longrightarrow> io_typed (selfName m) e \<Longrightarrow> typed_step m (emit e m')"
  by (auto simp: typed_step_def emit_def)

lemma typed_transition [typed_rules]: "typed_step m m' \<Longrightarrow> typed_step m (transition st m')"
  by (auto simp: typed_step_def transition_def emit_def)

lemma typed_stops [typed_rules]:
  "typed_step m m' \<Longrightarrow> typed_step m (bootstrap_stopTimer m')"
  "typed_step m m' \<Longrightarrow> typed_step m (joining_stopTimer m')"
  "typed_step m m' \<Longrightarrow> typed_step m (rescale_stopTimer m')"
  by (auto simp: typed_step_def call_defs split: option.splits)

lemma typed_operation [typed_rules]: "typed_step m m' \<Longrightarrow> typed_step m (startK3sOperation op m')"
  by (auto simp: startK3sOperation_def intro: typed_then)

lemma typed_calls:
  "now w m = (t, m') \<Longrightarrow> typed_step m m'" "observeCluster w m = (view, m') \<Longrightarrow> typed_step m m'"
  "LocalIP w m = (ip, m') \<Longrightarrow> typed_step m m'" "RemoveFailedNode w name m = (r, m') \<Longrightarrow> typed_step m m'"
  "AfterFunc wake d m = (i, m') \<Longrightarrow> typed_step m m'"
  by (auto simp: now_def observeCluster_def LocalIP_def RemoveFailedNode_def AfterFunc_def intro: typed_emit)

lemmas typed_simps = typed_step_def call_defs panic_def Let_def

subsection \<open>The first boot\<close>

lemma typed_bootstrap [typed_rules]:
  "typed_step m (failBootstrap m)" "typed_step m (snd (onRequestBootstrap w m))"
  "typed_step m (snd (onCancelBootstrap m))" "typed_step m (snd (onConfirmBootstrap w m))"
  "typed_step m (onBootstrapRequested m)" "typed_step m (onBootstrapWaitExpired w m)"
  "typed_step m (maybeInstallServer view m)" "typed_step m (maybeInstallAgent view m)"
  "typed_step m (onBootstrapInstallSucceeded w m)"
  by (auto simp: failBootstrap_def onRequestBootstrap_def onCancelBootstrap_def onConfirmBootstrap_def
      onBootstrapRequested_def onBootstrapWaitExpired_def maybeInstallServer_def maybeInstallAgent_def
      onBootstrapInstallSucceeded_def buildFirstBootState_def becomeStable_def typed_simps
      split: prod.splits option.splits node_state.splits)

lemma typed_joining [typed_rules]:
  "typed_step m (failJoining m)" "typed_step m (maybeStartJoiningPath view m)"
  "typed_step m (maybeJoinCluster view m)" "typed_step m (onJoiningInstallSucceeded w m)"
  "typed_step m (sendForgetMe w m)"
  by (auto simp: failJoining_def maybeStartJoiningPath_def bootstrap_reset_def maybeJoinCluster_def
      startForgetMe_def joinAsAgent_def onJoiningInstallSucceeded_def buildFirstBootState_def
      becomeStable_def sendForgetMe_def typed_simps
      split: prod.splits option.splits)

lemma typed_rejoin [typed_rules]:
  "typed_step m (failRejoin m)" "typed_step m (startRejoin m)" "typed_step m (onRejoinReady m)"
  "typed_step m (chooseInitialState w m)"
  by (auto simp: failRejoin_def startRejoin_def onRejoinReady_def chooseInitialState_def becomeStable_def
      typed_simps split: option.splits sum.splits load_error.splits)


lemma typed_observing:
  assumes "typed_step m m1" and "\<And>view m2. typed_step m m2 \<Longrightarrow> m_state m2 = m_state m1 \<Longrightarrow> typed_step m (f view m2)"
  shows "typed_step m (case observeCluster w m1 of (view, m) \<Rightarrow> f view m)"
  using assms typed_then [of m m1 IoSnapshot] by (simp add: observeCluster_def emit_def)

lemma typed_onBootstrapStart [typed_rules]: "typed_step m (onBootstrapStart w m)"
proof (cases "m_state m = StateBootstrapWaiting")
  case True
  have set_b: "typed_step m (m1\<lparr>m_bootstrap := b\<rparr>)" if "typed_step m m1" for m1 b using that by simp
  have install: "typed_step m (maybeInstallAgent view (maybeInstallServer view m1))" if "typed_step m m1" for view m1
    using typed_trans [OF typed_trans [OF that typed_bootstrap(7)] typed_bootstrap(8)] .
  have init: "typed_step m (startK3sOperation OpInstallInit (transition st m1))" if "typed_step m m1" for st m1
    by (rule typed_operation [OF typed_transition [OF that]])
  have fail: "typed_step m (failBootstrap m1)" if "typed_step m m1" for m1
    by (rule typed_trans [OF that typed_bootstrap(1)])
  show ?thesis
    using True unfolding onBootstrapStart_def Let_def
    by (simp, intro typed_observing typed_stops typed_refl)
      (auto intro: fail [OF set_b] init [OF set_b] install [OF set_b] fail split: sum.split prod.split)
qed (simp add: onBootstrapStart_def)

lemma typed_onJoinWaitExpired [typed_rules]: "typed_step m (onJoinWaitExpired w m)"
  unfolding onJoinWaitExpired_def Let_def
  by (auto intro!: typed_observing typed_stops intro: typed_trans [OF _ typed_joining(3)])

lemma typed_forget_requests [typed_rules]:
  "typed_step m (onJoiningCleanupChecked w m)" "typed_step m (onForgetRetry w m)" "typed_step m (onForgetMe w p m)"
proof -
  have "typed_step m (sendForgetMe w (m\<lparr>m_joining := j\<rparr>))" for j
    using typed_joining(5) [of "m\<lparr>m_joining := j\<rparr>" w] by simp
  then show "typed_step m (onJoiningCleanupChecked w m)" by (simp add: onJoiningCleanupChecked_def)
  have "typed_step m (emit (IoProbe i name) m1)" if "typed_step m m1" for i name m1
    using typed_then [OF that] by simp
  then show "typed_step m (onForgetMe w p m)"
    by (auto simp: onForgetMe_def intro!: typed_observing split: option.split)
qed (simp add: onForgetRetry_def typed_joining(5))

lemma typed_onForgotten [typed_rules]: "typed_step m (onForgotten w p m)"
  unfolding onForgotten_def Let_def
  by (auto intro!: typed_observing typed_stops typed_transition intro: typed_trans [OF _ typed_joining(3)]
      split: option.split)

subsection \<open>Rescaling\<close>

lemma typed_progress [typed_rules]:
  "typed_step m (forget m)" "typed_step m (resetProgress m)" "typed_step m (scheduleRescaleCheck deadline t m)"
  "typed_step m (startCoordinationRound work m)" "typed_step m (startEviction names m)"
  "typed_step m (abandonCoordination w m)" "typed_step m (failRescale m)" "typed_step m (onRescaleConvert p m)"
  "typed_step m (onRescaleConverted w m)"
  by (auto simp: forget_def resetProgress_def scheduleRescaleCheck_def armTimer_def startCoordinationRound_def
      startEviction_def abandonCoordination_def failRescale_def onRescaleConvert_def onRescaleConverted_def
      becomeStable_def typed_simps split: option.splits)

lemma typed_trackImbalance: "trackImbalance view t m = (r, m') \<Longrightarrow> typed_step m m'"
  by (auto simp: trackImbalance_def Let_def split: if_splits)

lemma typed_startConversion: "startConversion w view m = (started, m') \<Longrightarrow> typed_step m m'"
  by (auto simp: startConversion_def resetProgress_def startCoordinationRound_def typed_simps split: option.splits)

lemma typed_maybeRescale [typed_rules]: "typed_step m (maybeRescale w view m)"
proof -
  define t where "t = wNow w (m_calls m)"
  define m1 where "m1 = (emit IoNow m)\<lparr>m_rescale := trackFailures view t (m_rescale (emit IoNow m))\<rparr>"
  obtain ev due where ev: "durablyFailedMembersNames view (failedSince (m_rescale m1)) (m_evictionGrace m1) t = (ev, due)"
    by fastforce
  obtain isSettled dl m2 where ti: "trackImbalance view t m1 = ((isSettled, dl), m2)" by (metis prod.exhaust)
  obtain started m3 where sc: "startConversion w view m2 = (started, m3)" by fastforce
  have now: "now w m = (t, emit IoNow m)" by (simp add: now_def t_def)
  have m1: "typed_step m m1" by (simp add: m1_def typed_emit)
  note m2 = typed_trans [OF m1 typed_trackImbalance [OF ti]]
  note m3 = typed_trans [OF m2 typed_startConversion [OF sc]]
  have run: "maybeRescale w view m =
    (if \<not> RescaleEnabled (m_config m) then m
     else if m_state m1 \<noteq> StateStableServer then m1
     else if \<not> isRescaleCoordinator view (selfName m1) then forget m1
     else if t < retryNotBefore (m_rescale m1) then m1
     else if isEtcdMembershipChanging view then rescale_stopTimer m1
     else if ev \<noteq> [] then startEviction ev m1
     else if isSettled then (if started then m3 else scheduleRescaleCheck (earliest due (t + m_rescaleSettleDelay m3)) t m3)
     else scheduleRescaleCheck (earliest due dl) t m2)"
    using ev ti sc by (simp add: maybeRescale_def now Let_def m1_def emit_def)
  show ?thesis unfolding run
    using m1 m3 typed_stops(3) [OF m1] typed_trans [OF m1 typed_progress(1)] typed_trans [OF m1 typed_progress(5)]
      typed_trans [OF m2 typed_progress(3)] typed_trans [OF m3 typed_progress(3)] by simp
qed

lemma typed_onRescaleCheck [typed_rules]: "typed_step m (onRescaleCheck w m)"
  unfolding onRescaleCheck_def by (auto intro!: typed_observing intro: typed_trans [OF _ typed_maybeRescale])

lemma typed_erase_evicted: "typed_step m m' \<Longrightarrow> typed_step m (erase_evicted w names m')"
proof (induction names arbitrary: m')
  case (Cons name names)
  have "typed_step m (emit (IoRemoveFailed name) m')" using typed_then [OF Cons.prems] by simp
  then show ?case using Cons.IH by (simp add: RemoveFailedNode_def split: option.split)
qed simp

lemma typed_finishEviction [typed_rules]: "typed_step m (finishEviction w m)"
  unfolding finishEviction_def Let_def
  by (auto intro!: typed_observing typed_transition typed_erase_evicted intro: typed_trans [OF _ typed_maybeRescale])

subsection \<open>Confirmations and orders\<close>

lemma typed_confirmForgotten: "name \<noteq> '''' \<Longrightarrow> typed_step m m' \<Longrightarrow> typed_step m (confirmForgotten w name m')"
  by (simp add: confirmForgotten_def SendUserEvent_def typed_then forgotten_typed)

lemma typed_onForgetProbed:
  assumes "named_world w"
  shows "typed_step m (onForgetProbed w name found m)"
proof -
  let ?view = "\<lparr>snapshot = wSnapshot w (m_calls m)\<rparr>" and ?m = "emit IoSnapshot m"
  have m: "typed_step m ?m" by (simp add: typed_emit)
  have "named_view ?view" using assms by (simp add: named_world_def)
  then have "canForget ?view name ?m \<Longrightarrow> name \<noteq> ''''" using canForget_named by blast
  moreover have "typed_step m (startCoordinationRound (EraseNode name) ((resetProgress ?m)\<lparr>m_rescale := r\<rparr>))" for r
    using typed_trans [OF typed_trans [OF m typed_progress(2)]
        typed_progress(4) [of "(resetProgress ?m)\<lparr>m_rescale := r\<rparr>" "EraseNode name", simplified]] .
  ultimately show ?thesis
    using m by (auto simp: onForgetProbed_def observeCluster_def Let_def intro: typed_confirmForgotten)
qed

lemma typed_onRescaleCoordinationDone:
  assumes "wf_manager m" and "m_state m = StateRescaleCoordinating"
  shows "typed_step m (onRescaleCoordinationDone w m)"
proof -
  have round: "round_ok StateRescaleCoordinating (m_rescale m)" using assms by (simp add: wf_manager_def)
  consider (forget) "cleaning (m_rescale m) \<noteq> ''''"
    | (evict) "cleaning (m_rescale m) = ''''" "Target (order (m_rescale m)) = ''''"
    | (convert) "cleaning (m_rescale m) = ''''" "Target (order (m_rescale m)) \<noteq> ''''" by blast
  then show ?thesis
  proof cases
    case forget
    then show ?thesis unfolding onRescaleCoordinationDone_def finishForgetting_def Let_def
      by (auto intro!: typed_observing typed_confirmForgotten typed_transition intro: typed_trans [OF _ typed_maybeRescale])
  next
    case evict
    then show ?thesis by (simp add: onRescaleCoordinationDone_def typed_finishEviction)
  next
    case convert
    let ?m = "emit (IoSend eventRescaleConvert (marshalOrder (order (m_rescale m)))) (m\<lparr>m_rescale := (m_rescale m)\<lparr>order := noOrder\<rparr>\<rparr>)"
    have "RoleO (order (m_rescale m)) \<in> {RoleServer, RoleAgent}" using round convert by (auto simp: noOrder_def)
    then have sent: "typed_step m ?m" using convert by (intro typed_then) (simp_all add: order_typed)
    have "onRescaleCoordinationDone w m = abandonCoordination w ?m
      \<or> (\<exists>d t. onRescaleCoordinationDone w m = scheduleRescaleCheck d t (emit IoNow (transition StateStableServer ?m)))"
      using convert by (auto simp: onRescaleCoordinationDone_def Let_def SendUserEvent_def now_def split: option.split)
    then show ?thesis
      using typed_trans [OF sent typed_progress(6)]
        typed_trans [OF typed_then [OF typed_transition [OF sent]] typed_progress(3)] by auto
  qed
qed

subsection \<open>The loop\<close>

lemma typed_onK3sOperation:
  "wf_manager m \<Longrightarrow> typed_step m (onK3sOperationSucceeded w m)" "typed_step m (onK3sOperationFailed w m)"
  by (cases "m_state m"; simp add: onK3sOperationSucceeded_def onK3sOperationFailed_def typed_rules
      typed_onRescaleCoordinationDone)+

lemma typed_reply: "typed_step m (snd r) \<Longrightarrow> typed_step m (reply ch r)"
  by (cases r) (simp add: reply_def typed_then)

lemma typed_handleCommand: "named_world w \<Longrightarrow> wf_manager m \<Longrightarrow> typed_step m (handleCommand w c m)"
  by (cases c) (simp_all add: typed_rules typed_reply typed_onForgetProbed typed_onK3sOperation)

lemma typed_handleSerfEvent: "typed_step m (handleSerfEvent w e m)"
proof -
  have "typed_step m1 (maybeRescale w view (maybeInstallAgent view (maybeInstallServer view
      (maybeJoinCluster view (maybeStartJoiningPath view m1)))))" for m1 view
    by (rule typed_trans [OF typed_trans [OF typed_trans [OF typed_trans [OF typed_joining(2) typed_joining(3)]
          typed_bootstrap(7)] typed_bootstrap(8)] typed_maybeRescale])
  then show ?thesis
    by (auto simp: handleSerfEvent_def handleUserEvent_def typed_rules intro!: typed_observing intro: typed_trans)
qed

definition typed_manager :: "config \<Rightarrow> manager \<Rightarrow> bool" where
  "typed_manager conf m \<longleftrightarrow> wf_manager m \<and> selfName m = NodeNameC conf
    \<and> (\<forall>e \<in> set (m_calls m). io_typed (NodeNameC conf) e)"

interpretation typed: loop_invariant w conf "\<lambda>m. named_world w \<longrightarrow> typed_manager conf m" for w conf
proof unfold_locales
  show "named_world w \<longrightarrow> typed_manager conf (chooseInitialState w (newManager conf))"
    using typed_rejoin(4) [of "newManager conf" w] wf_Run_start
    by (auto simp: typed_manager_def typed_step_def newManager_def)
next
  fix m e
  assume m: "named_world w \<longrightarrow> typed_manager conf m"
  show "named_world w \<longrightarrow> typed_manager conf (handleSerfEvent w e m)"
    using m wf.inv_event [of w m e] typed_handleSerfEvent [of m w e]
    by (auto simp: typed_manager_def typed_step_def)
next
  fix m c
  assume m: "named_world w \<longrightarrow> typed_manager conf m"
  show "named_world w \<longrightarrow> typed_manager conf (handleCommand w c m)"
    using m wf.inv_command [of w m c] typed_handleCommand [of w m c]
    by (auto simp: typed_manager_def typed_step_def)
next
  fix m
  assume m: "named_world w \<longrightarrow> typed_manager conf m"
  have "typed_step m (shutdown m)" by (simp add: shutdown_def typed_stops)
  then show "named_world w \<longrightarrow> typed_manager conf (shutdown m)"
    using m wf_shutdown [of m] by (auto simp: typed_manager_def typed_step_def)
qed

text \<open>
  C12: every user event a node broadcasts, in every run, has the payload its receivers decode: none
  for the two bootstrap events; its own name for a forget request; a name for a confirmation; for a
  conversion order a machine and one of the two roles, so an order of this code never has the
  unknown role its receiver would take for a demotion.
\<close>

theorem broadcasts_are_typed:
  assumes "reachable w conf s" and "named_world w" and "IoSend name p \<in> set (m_calls (sMgr s))"
  shows "name \<in> {eventBootstrapRequested, eventBootstrapStart} \<and> p = NoPayload
    \<or> name = eventForgetMe \<and> unmarshalForget p = Some \<lparr>NameO = NodeNameC conf\<rparr>
    \<or> name = eventForgotten \<and> (\<exists>who. who \<noteq> '''' \<and> unmarshalForget p = Some \<lparr>NameO = who\<rparr>)
    \<or> name = eventRescaleConvert \<and>
        (\<exists>ord. unmarshalOrder p = Some ord \<and> Target ord \<noteq> '''' \<and> RoleO ord \<in> {RoleServer, RoleAgent})"
proof -
  have "io_typed (NodeNameC conf) (IoSend name p)"
    using typed.loop.J_reachable [OF assms(1)] assms(2,3) unfolding typed_manager_def by blast
  then show ?thesis
    by (auto simp: message_typed_def forget_message_def order_message_def split: option.splits)
qed

theorem broadcasts_are_typed_witness:
  "\<exists>s p. reachable joiner_world (demo_config ''ants02'') s \<and> IoSend eventForgetMe p \<in> set (m_calls (sMgr s))
    \<and> unmarshalForget p = Some \<lparr>NameO = ''ants02''\<rparr>"
proof -
  have "map_option (\<lambda>s. list_ex (\<lambda>e. case e of IoSend n p \<Rightarrow> n = ''antsd:forget-me'' | _ \<Rightarrow> False) (m_calls (sMgr s)))
      (run joiner_world (take 8 join_actions) (Run_start joiner_world (demo_config ''ants02''))) = Some True"
    by code_simp
  from run_some [OF this] obtain s where s: "reachable joiner_world (demo_config ''ants02'') s"
      "list_ex (\<lambda>e. case e of IoSend n p \<Rightarrow> n = ''antsd:forget-me'' | _ \<Rightarrow> False) (m_calls (sMgr s))" by blast
  then obtain e where e: "e \<in> set (m_calls (sMgr s))" "case e of IoSend n p \<Rightarrow> n = ''antsd:forget-me'' | _ \<Rightarrow> False"
    by (auto simp: list_ex_iff)
  from e(2) obtain p where "e = IoSend eventForgetMe p" by (cases e) (simp_all add: eventForgetMe_def)
  with e(1) have p: "IoSend eventForgetMe p \<in> set (m_calls (sMgr s))" by simp
  from broadcasts_are_typed [OF s(1) named_joiner p] p s(1) show ?thesis
    by (intro exI [of _ s] exI [of _ p])
      (auto simp: eventForgetMe_def eventBootstrapRequested_def eventBootstrapStart_def eventForgotten_def
        eventRescaleConvert_def demo_config_def)
qed

end
