(* ===== verification/Boot_Log.thy ===== *)
theory Boot_Log
  imports Single_Flight Background_Ops
begin

text \<open>
  What one boot of the daemon writes to its state file, and what it may install. \<open>p\<close> is the state the
  boot loaded, \<open>fresh\<close> says that it found no file. The invariant \<open>log_inv\<close> speaks of the history alone, so
  it holds at whatever call the machine loses power.
\<close>

fun saves :: "history \<Rightarrow> PersistedState list" where
  "saves [] = []"
| "saves (IoSave st # h) = st # saves h"
| "saves (_ # h) = saves h"

lemma saves_stop [simp]: "saves (case t of None \<Rightarrow> h | Some i \<Rightarrow> IoStop i # h) = saves h"
  by (simp split: option.split)

lemma saves_suffix: "suffix h h' \<Longrightarrow> set (saves h) \<subseteq> set (saves h')"
proof -
  have "set (saves h) \<subseteq> set (saves (zs @ h))" for zs
    by (induction zs rule: saves.induct) auto
  then show "suffix h h' \<Longrightarrow> set (saves h) \<subseteq> set (saves h')" by (auto simp: suffix_def)
qed

text \<open>What never changes in the life of a node, and what one boot changes once.\<close>

definition identity :: "PersistedState \<Rightarrow> string \<times> time" where
  "identity st = (NodeNameP st, FirstBootCompletedAt st)"

definition first_boot_ops :: "history \<Rightarrow> k3s_op list" where
  "first_boot_ops h = filter first_boot_op (map snd (ops h))"

lemma first_boot_ops_stop [simp]:
  "first_boot_ops (case t of None \<Rightarrow> h | Some i \<Rightarrow> IoStop i # h) = first_boot_ops h"
  by (simp add: first_boot_ops_def)

definition was_stable :: "node_state \<Rightarrow> bool" where
  "was_stable s \<longleftrightarrow> s \<in> {StateStableServer, StateStableAgent, StateRescaleCoordinating, StateRescalePromoting,
     StateRescaleDemoting}"

text \<open>The state in memory, and with it every state this boot saved, descends from the one on disk.\<close>

definition record_ok :: "PersistedState option \<Rightarrow> string \<Rightarrow> PersistedState option \<Rightarrow> PersistedState list \<Rightarrow> bool" where
  "record_ok p self persisted ss \<longleftrightarrow>
    (case persisted of
       None \<Rightarrow> p = None \<and> ss = []
     | Some r \<Rightarrow>
         (\<forall>st \<in> set ss. identity st = identity r \<and> BootCount st = BootCount r) \<and>
         (case p of
            None \<Rightarrow> ss \<noteq> [] \<and> NodeNameP r = self \<and> BootCount r = 1
          | Some q \<Rightarrow> identity r = identity q \<and>
              BootCount r = (if ss = [] then BootCount q else wrap_int (BootCount q + 1))))"

definition log_inv :: "bool \<Rightarrow> PersistedState option \<Rightarrow> string \<Rightarrow> manager \<Rightarrow> bool" where
  "log_inv fresh p self m \<longleftrightarrow> selfName m = self \<and>
    record_ok p self (m_persistedState m) (saves (m_calls m)) \<and>
    (IsFirstBoot (m_state m) \<longrightarrow> fresh \<and> m_persistedState m = None) \<and>
    (m_state m = StateRejoinCluster \<longrightarrow> saves (m_calls m) = [] \<and> p \<noteq> None) \<and>
    (was_stable (m_state m) \<longrightarrow> saves (m_calls m) \<noteq> []) \<and>
    (fresh \<or> first_boot_ops (m_calls m) = []) \<and>
    (fresh \<or> p \<noteq> None \<or> m_persistedState m = None)"

subsection \<open>Handlers that save nothing\<close>

definition modest :: "manager \<Rightarrow> manager \<Rightarrow> bool" where
  "modest m m' \<longleftrightarrow> m_config m' = m_config m \<and> m_persistedState m' = m_persistedState m \<and>
    saves (m_calls m') = saves (m_calls m) \<and>
    (\<not> IsFirstBoot (m_state m) \<longrightarrow> first_boot_ops (m_calls m') = first_boot_ops (m_calls m)) \<and>
    (IsFirstBoot (m_state m') \<longrightarrow> IsFirstBoot (m_state m)) \<and>
    (m_state m' = StateRejoinCluster \<longrightarrow> m_state m = StateRejoinCluster) \<and>
    (was_stable (m_state m') \<longrightarrow> was_stable (m_state m))"

named_theorems modest_rules \<open>the handlers that save nothing\<close>

lemma modest_refl [simp]: "modest m m"
  by (simp add: modest_def)

lemma modest_trans: "modest m m1 \<Longrightarrow> modest m1 m2 \<Longrightarrow> modest m m2"
  unfolding modest_def by metis

lemma modest_log:
  assumes "modest m m'" and "log_inv fresh p self m"
  shows "log_inv fresh p self m'"
proof -
  have "fresh \<or> first_boot_ops (m_calls m') = []"
    using assms by (cases "IsFirstBoot (m_state m)") (auto simp: modest_def log_inv_def)
  then show ?thesis using assms by (auto simp: modest_def log_inv_def)
qed

lemmas modest_simps = modest_def was_stable_def first_boot_ops_def call_defs panic_def Let_def

lemma modest_fields [simp]:
  "modest m (m'\<lparr>m_joining := j\<rparr>) = modest m m'" "modest m (m'\<lparr>m_bootstrap := b\<rparr>) = modest m m'"
  "modest m (m'\<lparr>m_rescale := r\<rparr>) = modest m m'"
  "modest (m\<lparr>m_joining := j\<rparr>) m' = modest m m'" "modest (m\<lparr>m_bootstrap := b\<rparr>) m' = modest m m'"
  "modest (m\<lparr>m_rescale := r\<rparr>) m' = modest m m'"
  by (simp_all add: modest_def)

fun plain_call :: "io \<Rightarrow> bool" where
  "plain_call (IoStartOp i op) = False"
| "plain_call (IoSave st) = False"
| "plain_call _ = True"

lemma modest_emit [modest_rules]: "plain_call e \<Longrightarrow> modest m (emit e m)"
  by (cases e) (simp_all add: modest_simps)

lemma modest_then: "modest m m' \<Longrightarrow> plain_call e \<Longrightarrow> modest m (emit e m')"
  using modest_trans modest_emit by blast

lemma modest_stops [modest_rules]:
  "modest m (bootstrap_stopTimer m)" "modest m (joining_stopTimer m)" "modest m (rescale_stopTimer m)"
  by (simp_all add: modest_simps)

lemma modest_observing:
  assumes "modest m m1" and "\<And>view. modest (emit IoSnapshot m1) (f view (emit IoSnapshot m1))"
  shows "modest m (case observeCluster w m1 of (view, m) \<Rightarrow> f view m)"
  using modest_trans [OF modest_then [OF assms(1), of IoSnapshot] assms(2)] by (simp add: observeCluster_def)

lemma modest_first_boot [modest_rules]:
  "IsFirstBoot (m_state m) \<Longrightarrow> modest m (failBootstrap m)" "IsFirstBoot (m_state m) \<Longrightarrow> modest m (failJoining m)"
  "modest m (snd (onRequestBootstrap w m))" "modest m (snd (onCancelBootstrap m))"
  "modest m (snd (onConfirmBootstrap w m))" "modest m (onBootstrapRequested m)" "modest m (onBootstrapWaitExpired w m)"
  "modest m (maybeInstallServer view m)" "modest m (maybeInstallAgent view m)"
  "modest m (maybeStartJoiningPath view m)" "modest m (maybeJoinCluster view m)" "modest m (sendForgetMe w m)"
  by (auto simp: failBootstrap_def failJoining_def onRequestBootstrap_def onCancelBootstrap_def onConfirmBootstrap_def
      onBootstrapRequested_def onBootstrapWaitExpired_def maybeInstallServer_def maybeInstallAgent_def
      maybeStartJoiningPath_def bootstrap_reset_def maybeJoinCluster_def startForgetMe_def joinAsAgent_def
      sendForgetMe_def modest_simps split: prod.splits option.splits)

lemma modest_onBootstrapStart [modest_rules]: "modest m (onBootstrapStart w m)"
proof (cases "m_state m = StateBootstrapWaiting")
  case True
  let ?m = "emit IoSnapshot (bootstrap_stopTimer m)"
  have state: "m_state ?m = StateBootstrapWaiting" using True by (simp add: call_defs)
  have set_b: "modest m1 m2" if "modest (m1\<lparr>m_bootstrap := b\<rparr>) m2" for b m1 m2 using that by simp
  have install: "modest m1 (maybeInstallAgent view (maybeInstallServer view m1))" for view m1
    by (rule modest_trans [OF modest_first_boot(8) modest_first_boot(9)])
  have init: "modest ?m (startK3sOperation OpInstallInit (transition StateBootstrapInstallInit (?m\<lparr>m_bootstrap := b\<rparr>)))" for b
    using state by (simp add: modest_def was_stable_def startK3sOperation_def transition_def emit_def)
  have fail: "modest ?m (failBootstrap ?m)" "modest ?m (failBootstrap (?m\<lparr>m_bootstrap := b\<rparr>))" for b
    using state by (simp add: modest_first_boot) (rule set_b, rule modest_first_boot(1), simp add: state)
  show ?thesis
    using True unfolding onBootstrapStart_def
    by (simp add: Let_def, intro modest_observing modest_stops(1))
      (auto simp: Let_def intro: fail set_b [OF install] init split: sum.split prod.split)
qed (simp add: onBootstrapStart_def)

lemma modest_onJoinWaitExpired [modest_rules]: "modest m (onJoinWaitExpired w m)"
proof -
  have "modest m (joining_stopTimer (m\<lparr>m_joining := j\<rparr>))" for j by (simp add: modest_simps)
  then show ?thesis unfolding onJoinWaitExpired_def Let_def
    by (auto simp: modest_first_boot intro!: modest_observing)
qed

lemma modest_forget [modest_rules]:
  "modest m (onForgotten w p m)" "modest m (onJoiningCleanupChecked w m)" "modest m (onForgetRetry w m)"
  "modest m (onForgetMe w p m)" "modest m (confirmForgotten w name m)"
proof -
  have "modest m (transition StateJoiningWaiting ((joining_stopTimer m)\<lparr>m_joining := j\<rparr>))"
    if "m_state m = StateJoiningCleanup" for j using that by (simp add: modest_simps)
  then show "modest m (onForgotten w p m)" unfolding onForgotten_def Let_def
    by (auto simp: modest_first_boot intro!: modest_observing split: option.split)
  show "modest m (onJoiningCleanupChecked w m)"
    using modest_first_boot(12) [of "m\<lparr>m_joining := j\<rparr>" w for j] by (simp add: onJoiningCleanupChecked_def)
  show "modest m (onForgetRetry w m)" by (simp add: onForgetRetry_def modest_first_boot)
  show "modest m (onForgetMe w p m)"
    unfolding onForgetMe_def by (auto simp: modest_emit intro!: modest_observing split: option.split)
  show "modest m (confirmForgotten w name m)" by (simp add: confirmForgotten_def SendUserEvent_def modest_emit)
qed

subsection \<open>Rescaling\<close>

lemma modest_rescale [modest_rules]:
  "modest m (forget m)" "modest m (resetProgress m)" "modest m (scheduleRescaleCheck deadline t m)"
  "m_state m = StateStableServer \<Longrightarrow> modest m (startEviction names m)"
  "m_state m = StateRescaleCoordinating \<Longrightarrow> modest m (abandonCoordination w m)"
  "modest m (failRescale m)" "modest m (onRescaleConvert p m)"
  by (auto simp: forget_def resetProgress_def scheduleRescaleCheck_def armTimer_def startEviction_def
      startCoordinationRound_def abandonCoordination_def failRescale_def onRescaleConvert_def StableState_def
      Other_def modest_simps split: option.splits if_splits)

lemma modest_trackImbalance: "trackImbalance view t m = (r, m') \<Longrightarrow> modest m m' \<and> m_state m' = m_state m"
  by (auto simp: trackImbalance_def Let_def split: if_splits)

lemma modest_startConversion:
  "m_state m = StateStableServer \<Longrightarrow> startConversion w view m = (started, m') \<Longrightarrow> modest m m'"
  by (auto simp: startConversion_def resetProgress_def startCoordinationRound_def modest_simps split: option.splits)

lemma modest_maybeRescale [modest_rules]: "modest m (maybeRescale w view m)"
proof -
  define t where "t = wNow w (m_calls m)"
  define m1 where "m1 = (emit IoNow m)\<lparr>m_rescale := trackFailures view t (m_rescale (emit IoNow m))\<rparr>"
  obtain ev due where ev: "durablyFailedMembersNames view (failedSince (m_rescale m1)) (m_evictionGrace m1) t = (ev, due)"
    by fastforce
  obtain isSettled dl m2 where ti: "trackImbalance view t m1 = ((isSettled, dl), m2)" by (metis prod.exhaust)
  obtain started m3 where sc: "startConversion w view m2 = (started, m3)" by fastforce
  have now: "now w m = (t, emit IoNow m)" by (simp add: now_def t_def)
  have m1: "modest m m1" by (simp add: m1_def modest_emit)
  note m2 = modest_trans [OF m1 conjunct1 [OF modest_trackImbalance [OF ti]]]
  have m3: "modest m m3" if "m_state m1 = StateStableServer"
    using modest_trans [OF m2 modest_startConversion [OF _ sc]] modest_trackImbalance [OF ti] that by simp
  have run: "maybeRescale w view m =
    (if \<not> RescaleEnabled (m_config m) then m
     else if m_state m1 \<noteq> StateStableServer then m1
     else if \<not> isRescaleCoordinator view (selfName m1) then forget m1
     else if t < retryNotBefore (m_rescale m1) then m1
     else if isEtcdMembershipChanging view then rescale_stopTimer m1
     else if ev \<noteq> [] then startEviction ev m1
     else if isSettled then (if started then m3 else scheduleRescaleCheck (earliest due (t + m_rescaleSettleDelay m3)) t m3)
     else scheduleRescaleCheck (earliest due dl) t m2)"
    using ev ti sc by (simp add: maybeRescale_def now Let_def m1_def emit_def)
  show ?thesis unfolding run
    using m1 m3 modest_trans [OF m1 modest_stops(3)] modest_trans [OF m1 modest_rescale(1)]
      modest_trans [OF m1 modest_rescale(4)] modest_trans [OF m2 modest_rescale(3)] modest_trans [OF m3 modest_rescale(3)]
    by simp
qed

lemma modest_checks [modest_rules]: "modest m (onRescaleCheck w m)" "modest m (onForgetProbed w name found m)"
proof -
  show "modest m (onRescaleCheck w m)"
    unfolding onRescaleCheck_def by (rule modest_observing) (simp_all add: modest_maybeRescale)
  let ?m = "emit IoSnapshot m"
  have "modest ?m (startCoordinationRound (EraseNode name) ((resetProgress ?m)\<lparr>m_rescale := r\<rparr>))"
    if "canForget view name ?m" for view r
    using that by (simp add: canForget_def startCoordinationRound_def resetProgress_def modest_simps split: if_splits)
  then show "modest m (onForgetProbed w name found m)"
    unfolding onForgetProbed_def by (intro modest_observing) (simp_all add: modest_forget Let_def)
qed

lemma modest_erase_evicted: "modest m (erase_evicted w names m)"
proof (induction names arbitrary: m)
  case (Cons name names)
  have "modest m ((emit (IoRemoveFailed name) m)\<lparr>m_rescale := r\<rparr>)" for r by (simp add: modest_emit)
  then show ?case
    using modest_trans [OF _ Cons.IH] modest_emit [of "IoRemoveFailed name" m]
    by (simp add: RemoveFailedNode_def split: option.split)
qed simp

lemma modest_onRescaleCoordinationDone [modest_rules]:
  assumes "m_state m = StateRescaleCoordinating"
  shows "modest m (onRescaleCoordinationDone w m)"
proof -
  have stable: "modest m (transition StateStableServer m1)" if "modest m m1" for m1
    using modest_trans [OF that, of "transition StateStableServer m1"] assms that
    by (simp add: modest_simps)
  have look: "modest m (case observeCluster w m1 of (view, m) \<Rightarrow> maybeRescale w view m)" if "modest m m1" for m1
    using that by (rule modest_observing) (rule modest_maybeRescale)
  have "modest m (transition StateStableServer ((erase_evicted w names m)\<lparr>m_rescale := r\<rparr>))" for names r
    by (rule stable) (simp add: modest_erase_evicted)
  then have evict: "modest m (finishEviction w m)" unfolding finishEviction_def Let_def by (rule look)
  have "modest m (confirmForgotten w name (transition StateStableServer (m\<lparr>m_rescale := r\<rparr>)))" for name r
    by (rule modest_trans [OF stable modest_forget(5)]) simp
  then have erase: "modest m (finishForgetting w m)" unfolding finishForgetting_def Let_def by (rule look)
  have sent: "modest m (emit (IoSend e p) (m\<lparr>m_rescale := r\<rparr>))" for e p r by (simp add: modest_simps)
  have "modest m (abandonCoordination w (emit (IoSend e p) (m\<lparr>m_rescale := r\<rparr>)))" for e p r
    by (rule modest_trans [OF sent modest_rescale(5)]) (simp add: emit_def assms)
  moreover have "modest m (scheduleRescaleCheck d t (emit IoNow (transition StateStableServer (emit (IoSend e p) (m\<lparr>m_rescale := r\<rparr>)))))" for d t e p r
    by (rule modest_trans [OF modest_then [OF stable [OF sent]] modest_rescale(3)]) simp
  ultimately show ?thesis
    using evict erase by (simp add: onRescaleCoordinationDone_def Let_def SendUserEvent_def now_def split: option.split)
qed

subsection \<open>Handlers that save\<close>

lemma log_becomeStable:
  assumes "selfName m = self" and "record_ok p self (Some st) (st # saves (m_calls m))"
    and "fresh \<or> first_boot_ops (m_calls m) = []" and "fresh \<or> p \<noteq> None"
  shows "log_inv fresh p self (becomeStable st m)"
  using assms by (simp add: log_inv_def becomeStable_def StableState_def first_boot_ops_def transition_def emit_def)

lemma record_first:
  "record_ok p self None ss \<Longrightarrow> NodeNameP r = self \<Longrightarrow> BootCount r = 1 \<Longrightarrow> record_ok p self (Some r) (r # ss)"
  by (simp add: record_ok_def)

lemma record_rejoin:
  "record_ok p self (Some q) [] \<Longrightarrow> record_ok p self (Some (q\<lparr>BootCount := wrap_int (BootCount q + 1)\<rparr>))
    [q\<lparr>BootCount := wrap_int (BootCount q + 1)\<rparr>]"
  by (auto simp: record_ok_def identity_def split: option.splits)

lemma record_next:
  assumes "record_ok p self (Some q) ss" and "ss \<noteq> []" and "identity r = identity q" and "BootCount r = BootCount q"
  shows "record_ok p self (Some r) (r # ss)"
  using assms by (simp add: record_ok_def identity_def split: option.splits)

lemma log_first:
  assumes "log_inv fresh p self m" and "IsFirstBoot (m_state m)"
  shows "log_inv fresh p self (case buildFirstBootState w role m of (st, m) \<Rightarrow> becomeStable st m)"
proof -
  have "record_ok p self None (saves (m_calls m))" "selfName m = self" "fresh"
    using assms by (auto simp: log_inv_def)
  then show ?thesis
    unfolding buildFirstBootState_def now_def
    by (simp, intro log_becomeStable) (simp_all add: emit_def record_first)
qed

lemma log_installed:
  assumes "log_inv fresh p self m"
  shows "log_inv fresh p self (onBootstrapInstallSucceeded w m)" and "log_inv fresh p self (onJoiningInstallSucceeded w m)"
  using assms log_first [OF assms]
  by (simp_all add: onBootstrapInstallSucceeded_def onJoiningInstallSucceeded_def split: node_state.split)

lemma log_onRejoinReady:
  assumes "log_inv fresh p self m" and "m_state m = StateRejoinCluster"
  shows "log_inv fresh p self (onRejoinReady m)"
proof -
  have r: "record_ok p self (m_persistedState m) []" "p \<noteq> None" "saves (m_calls m) = []" "selfName m = self"
      "fresh \<or> first_boot_ops (m_calls m) = []"
    using assms by (auto simp: log_inv_def)
  show ?thesis
  proof (cases "m_persistedState m")
    case None
    then show ?thesis using r(1,2) by (simp add: record_ok_def)
  next
    case (Some q)
    then show ?thesis using r record_rejoin [of p self q]
      by (simp add: onRejoinReady_def log_becomeStable)
  qed
qed

lemma log_onRescaleConverted:
  assumes "log_inv fresh p self m" and "m_state m \<in> {StateRescalePromoting, StateRescaleDemoting}"
  shows "log_inv fresh p self (onRescaleConverted w m)"
proof -
  have r: "record_ok p self (m_persistedState m) (saves (m_calls m))" "saves (m_calls m) \<noteq> []" "selfName m = self"
      "fresh \<or> first_boot_ops (m_calls m) = []" "fresh \<or> p \<noteq> None \<or> m_persistedState m = None"
    using assms by (auto simp: log_inv_def was_stable_def)
  show ?thesis
  proof (cases "m_persistedState m")
    case None
    then show ?thesis using r(1,2) by (simp add: record_ok_def)
  next
    case (Some q)
    then show ?thesis using r record_next [of p self q "saves (m_calls m)"]
      by (auto simp: onRescaleConverted_def Let_def now_def emit_def identity_def first_boot_ops_def intro!: log_becomeStable)
  qed
qed

subsection \<open>The loop\<close>

lemma modest_failRejoin: "m_state m = StateRejoinCluster \<Longrightarrow> modest m (failRejoin m)"
  by (simp add: failRejoin_def modest_simps)

lemma log_onK3sOperationSucceeded:
  "log_inv fresh p self m \<Longrightarrow> log_inv fresh p self (onK3sOperationSucceeded w m)"
  by (cases "m_state m")
    (simp_all add: onK3sOperationSucceeded_def log_installed log_onRejoinReady log_onRescaleConverted
      modest_log [OF modest_forget(2)] modest_log [OF modest_onRescaleCoordinationDone])

lemma modest_onK3sOperationFailed [modest_rules]: "modest m (onK3sOperationFailed w m)"
  by (cases "m_state m")
    (simp_all add: onK3sOperationFailed_def modest_first_boot modest_rescale modest_failRejoin)

lemma modest_reply: "modest m (snd r) \<Longrightarrow> modest m (reply ch r)"
  by (cases r) (simp add: reply_def modest_then)

lemma modest_handleCommand: "c \<noteq> CmdK3sOperationSucceeded \<Longrightarrow> modest m (handleCommand w c m)"
  by (cases c) (simp_all add: modest_rules modest_reply)

lemma log_handleCommand: "log_inv fresh p self m \<Longrightarrow> log_inv fresh p self (handleCommand w c m)"
  using modest_log [OF modest_handleCommand [of c m w]]
  by (cases "c = CmdK3sOperationSucceeded") (simp_all add: log_onK3sOperationSucceeded)

lemma modest_handleSerfEvent: "modest m (handleSerfEvent w e m)"
proof -
  have "modest m1 (maybeRescale w view (maybeInstallAgent view (maybeInstallServer view
      (maybeJoinCluster view (maybeStartJoiningPath view m1)))))" for m1 view
    by (rule modest_trans [OF modest_trans [OF modest_trans [OF modest_trans [OF modest_first_boot(10) modest_first_boot(11)]
      modest_first_boot(8)] modest_first_boot(9)] modest_maybeRescale])
  then show ?thesis
    by (auto simp: handleSerfEvent_def handleUserEvent_def modest_rules intro!: modest_observing)
qed

lemma modest_shutdown: "modest m (shutdown m)"
  unfolding shutdown_def
  by (rule modest_trans [OF modest_trans [OF modest_stops(1) modest_stops(2)] modest_stops(3)])

text \<open>What a boot found on disk.\<close>

definition loaded_state :: "world \<Rightarrow> PersistedState option" where
  "loaded_state w = (case wLoad w [] of Inl _ \<Rightarrow> None | Inr q \<Rightarrow> Some q)"

definition fresh_boot :: "world \<Rightarrow> bool" where
  "fresh_boot w \<longleftrightarrow> wLoad w [] = Inl LNotExist"

lemma log_start: "log_inv (fresh_boot w) (loaded_state w) (NodeNameC conf) (chooseInitialState w (newManager conf))"
  by (auto simp: log_inv_def record_ok_def chooseInitialState_def startRejoin_def failRejoin_def newManager_def
      loaded_state_def fresh_boot_def was_stable_def first_boot_ops_def call_defs Let_def
      split: sum.split load_error.split)

interpretation boot_log: loop_invariant w conf "log_inv (fresh_boot w) (loaded_state w) (NodeNameC conf)" for w conf
  by unfold_locales (auto intro: log_start log_handleCommand modest_log modest_handleSerfEvent modest_shutdown)

lemma reachable_log: "reachable_by ok w conf s \<Longrightarrow> log_inv (fresh_boot w) (loaded_state w) (NodeNameC conf) (sMgr s)"
  by (rule boot_log.loop.J_reachable)

text \<open>At whatever call the machine loses power.\<close>

lemma first_boot_ops_suffix: "suffix h h' \<Longrightarrow> first_boot_ops h' = [] \<Longrightarrow> first_boot_ops h = []"
proof -
  have "set (ops h) \<subseteq> set (ops (zs @ h))" for zs
    by (induction zs rule: ops.induct) auto
  then show "suffix h h' \<Longrightarrow> first_boot_ops h' = [] \<Longrightarrow> first_boot_ops h = []"
    by (fastforce simp: suffix_def first_boot_ops_def filter_empty_conv)
qed

lemma boot_saves:
  assumes "reachable w conf s" and "suffix h (m_calls (sMgr s))" and "st \<in> set (saves h)"
  shows "case loaded_state w of
      None \<Rightarrow> fresh_boot w \<and> NodeNameP st = NodeNameC conf \<and> BootCount st = 1
        \<and> (\<forall>st' \<in> set (saves h). identity st' = identity st)
    | Some q \<Rightarrow> identity st = identity q \<and> BootCount st = wrap_int (BootCount q + 1)"
proof -
  have sub: "set (saves h) \<subseteq> set (saves (m_calls (sMgr s)))" by (rule saves_suffix [OF assms(2)])
  then have "saves (m_calls (sMgr s)) \<noteq> []" using assms(3) by auto
  then obtain r where r: "m_persistedState (sMgr s) = Some r"
    using reachable_log [OF assms(1)] by (cases "m_persistedState (sMgr s)") (auto simp: log_inv_def record_ok_def)
  then have all: "\<forall>st \<in> set (saves h). identity st = identity r \<and> BootCount st = BootCount r"
    using reachable_log [OF assms(1)] sub by (auto simp: log_inv_def record_ok_def)
  then show ?thesis
    using reachable_log [OF assms(1)] r assms(3) \<open>saves (m_calls (sMgr s)) \<noteq> []\<close>
    by (auto simp: log_inv_def record_ok_def identity_def split: option.splits)
qed

lemma boot_installs:
  "reachable w conf s \<Longrightarrow> suffix h (m_calls (sMgr s)) \<Longrightarrow> \<not> fresh_boot w \<Longrightarrow> first_boot_ops h = []"
  using reachable_log [of "\<lambda>s a. True" w conf s] first_boot_ops_suffix [of h "m_calls (sMgr s)"]
  by (auto simp: log_inv_def)

end
