(* ===== verification/Reboots.thy ===== *)
theory Reboots
  imports Boot_Log Scenario
begin

text \<open>
  The life of a machine across its boots. A boot finds what the previous one left on disk, runs for a
  while and loses power at some call, also in the middle of saving the state file; every save may
  fail. What ties the boots together is the file alone.
\<close>

text \<open>The contents of the disk a boot goes through with its last call, the last one first.\<close>

fun disks :: "(time \<Rightarrow> string option) \<Rightarrow> (history \<Rightarrow> save_env) \<Rightarrow> string \<Rightarrow> fs \<Rightarrow> history \<Rightarrow> fs list" where
  "disks time_text env path f [] = [f]"
| "disks time_text env path f (IoSave st # h) =
     snd (Save time_text (env h) st path (hd (disks time_text env path f h)))"
| "disks time_text env path f (e # h) = [hd (disks time_text env path f h)]"

record boot =
  bDisk :: fs
  bConf :: config
  bCalls :: history

text \<open>The boots of a machine since its factory reset, the last one first, and what they left on disk.\<close>

inductive life :: "(time \<Rightarrow> string option) \<Rightarrow> (string \<Rightarrow> time option) \<Rightarrow> string \<Rightarrow> boot list \<Rightarrow> fs \<Rightarrow> bool"
  for time_text :: "time \<Rightarrow> string option" and text_time :: "string \<Rightarrow> time option" and path :: string where
  factory: "f path = None \<Longrightarrow> life time_text text_time path [] f"
| power_cycle: "life time_text text_time path bs f \<Longrightarrow> StateFilePath conf = path \<Longrightarrow>
    wLoad w [] = Load text_time read_error path f \<Longrightarrow> reachable w conf s \<Longrightarrow> suffix h (m_calls (sMgr s)) \<Longrightarrow>
    (\<And>h. tmp_name (env h) \<noteq> path) \<Longrightarrow> g \<in> set (disks time_text env path f h) \<Longrightarrow>
    life time_text text_time path (\<lparr>bDisk = f, bConf = conf, bCalls = h\<rparr> # bs) g"

subsection \<open>One boot\<close>

lemma disks_not_empty [simp]: "disks time_text env path f h \<noteq> []"
  by (induction time_text env path f h rule: disks.induct)
    (auto simp: Save_def Let_def split: option.split prod.split)

lemma disks_path:
  assumes "\<And>h. tmp_name (env h) \<noteq> path" and "g \<in> set (disks time_text env path f h)"
  shows "g path = f path \<or> (\<exists>st \<in> set (saves h). \<exists>data. marshalState time_text st = Some data \<and> g path = Some data)"
  using assms(2)
proof (induction h arbitrary: g)
  case (Cons e h)
  let ?g = "hd (disks time_text env path f h)"
  note IH = Cons.IH [OF list.set_sel(1) [OF disks_not_empty]]
  show ?case
  proof (cases "\<exists>st. e = IoSave st")
    case True
    then obtain st where e: "e = IoSave st" by blast
    obtain err gs where "Save time_text (env h) st path ?g = (err, gs)" by fastforce
    with Cons.prems Save_path [OF assms(1) [of h], of time_text st ?g err gs g] IH e
    show ?thesis by auto
  next
    case False
    then have "g = ?g" "saves (e # h) = saves h" using Cons.prems by (cases e; simp)+
    with IH show ?thesis by simp
  qed
qed simp

text \<open>The RFC 3339 text of an instant, where it has one, denotes the instant.\<close>

definition reads_back :: "(time \<Rightarrow> string option) \<Rightarrow> (string \<Rightarrow> time option) \<Rightarrow> bool" where
  "reads_back time_text text_time \<longleftrightarrow> (\<forall>t x. time_text t = Some x \<longrightarrow> text_time x = Some t)"

text \<open>A state that was saved reads back, up to the spelling of its role.\<close>

lemma unmarshalState_saved:
  assumes "marshalState time_text s = Some data" and "reads_back time_text text_time"
    and "- (2 ^ 63) \<le> BootCount s" and "BootCount s < 2 ^ 63"
  shows "unmarshalState text_time data = Some (s\<lparr>RoleP := role_of (role_string (RoleP s))\<rparr>)"
  using assms
  by (auto simp: marshalState_def unmarshalState_def state_field_def noState_def reads_back_def Let_def split: option.splits)

definition stored :: "(time \<Rightarrow> string option) \<Rightarrow> string \<Rightarrow> fs \<Rightarrow> PersistedState \<Rightarrow> bool" where
  "stored time_text path f st \<longleftrightarrow> - (2 ^ 63) \<le> BootCount st \<and> BootCount st < 2 ^ 63 \<and>
    (\<exists>data. marshalState time_text st = Some data \<and> f path = Some data)"

lemma Load_stored:
  assumes "stored time_text path f st" and "reads_back time_text text_time"
    and "Load text_time read_error path f = Inr q"
  shows "identity q = identity st \<and> BootCount q = BootCount st"
  using assms unmarshalState_saved [of time_text st _ text_time]
  by (auto simp: stored_def Load_def identity_def split: option.splits sum.splits)

text \<open>What a boot that found a file, or none, leaves behind.\<close>

lemma boot_leaves:
  assumes "wLoad w [] = Load text_time read_error path f" and "reachable w conf s" and "suffix h (m_calls (sMgr s))"
    and "\<And>h. tmp_name (env h) \<noteq> path" and "g \<in> set (disks time_text env path f h)"
    and "reads_back time_text text_time"
  shows "f path = None \<Longrightarrow> g path = None \<or> (\<exists>st. stored time_text path g st \<and> BootCount st = 1)"
    and "stored time_text path f q \<Longrightarrow> \<exists>st. stored time_text path g st \<and> identity st = identity q
      \<and> BootCount st \<in> {BootCount q, wrap_int (BootCount q + 1)}"
proof -
  note saved = boot_saves [OF assms(2,3)] and g = disks_path [OF assms(4,5)]
  show "g path = None \<or> (\<exists>st. stored time_text path g st \<and> BootCount st = 1)" if "f path = None"
  proof -
    have "loaded_state w = None" using that assms(1) by (simp add: loaded_state_def Load_def)
    with g that show ?thesis using saved by (fastforce simp: stored_def)
  qed
  show "\<exists>st. stored time_text path g st \<and> identity st = identity q \<and> BootCount st \<in> {BootCount q, wrap_int (BootCount q + 1)}"
    if q: "stored time_text path f q"
  proof (cases "g path = f path")
    case True
    with q show ?thesis by (auto simp: stored_def)
  next
    case False
    with g obtain st data where st: "st \<in> set (saves h)" "marshalState time_text st = Some data" "g path = Some data" by blast
    have "\<not> fresh_boot w"
      using q assms(1) by (auto simp: fresh_boot_def stored_def Load_def split: option.split sum.split)
    then obtain q' where q': "loaded_state w = Some q'" "identity st = identity q'" "BootCount st = wrap_int (BootCount q' + 1)"
      using saved [OF st(1)] by (cases "loaded_state w") simp_all
    then have "Load text_time read_error path f = Inr q'"
      using assms(1) by (simp add: loaded_state_def split: sum.splits)
    from Load_stored [OF q assms(6) this] q' st(2,3) show ?thesis
      using wrap_int_range by (intro exI [of _ st]) (simp add: stored_def)
  qed
qed

subsection \<open>All boots\<close>

lemma life_prefix: "life tt xt path (later @ b # earlier) f \<Longrightarrow> life tt xt path earlier (bDisk b)"
proof (induction later arbitrary: f)
  case Nil
  then show ?case by (auto elim: life.cases)
next
  case (Cons b' later)
  from Cons.prems obtain f' where "life tt xt path (later @ b # earlier) f'" by (auto elim: life.cases)
  with Cons.IH show ?case by blast
qed

lemma file_stays:
  assumes "\<And>h. tmp_name (env h) \<noteq> path" and "g \<in> set (disks tt env path f h)" and "f path \<noteq> None"
  shows "g path \<noteq> None"
  using disks_path [OF assms(1,2)] assms(3) by auto


lemma stored_unique: "stored tt path f a \<Longrightarrow> stored tt path f b \<Longrightarrow> BootCount a = BootCount b"
  by (auto simp: stored_def marshalState_def split: option.splits)

lemma life_stored:
  assumes "life tt xt path bs f" and "reads_back tt xt" and "int (length bs) < 2 ^ 63"
    and "f path \<noteq> None"
  shows "\<exists>st. stored tt path f st \<and> 1 \<le> BootCount st \<and> BootCount st \<le> int (length bs)"
  using assms(1,3,4)
proof (induction rule: life.induct)
  case (power_cycle bs f conf w read_error s h env g)
  note leaves = boot_leaves [OF power_cycle.hyps(3-7) assms(2)]
  show ?case
  proof (cases "f path = None")
    case True
    with leaves(1) power_cycle.prems show ?thesis by fastforce
  next
    case False
    with power_cycle obtain q where q: "stored tt path f q" "1 \<le> BootCount q" "BootCount q \<le> int (length bs)" by auto
    then have "wrap_int (BootCount q + 1) = BootCount q + 1"
      using power_cycle.prems(1) by (intro wrap_int_id) simp_all
    with leaves(2) [OF q(1)] q(2,3) show ?thesis by fastforce
  qed
qed simp

lemma life_keeps:
  assumes "life tt xt path bs f" and "reads_back tt xt" and "int (length bs) < 2 ^ 63"
    and "bs = later @ b # earlier" and "stored tt path (bDisk b) q"
  shows "\<exists>st. stored tt path f st \<and> identity st = identity q \<and> BootCount q \<le> BootCount st"
  using assms(1,3,4)
proof (induction arbitrary: later rule: life.induct)
  case (power_cycle bs f conf w read_error s h env g)
  note leaves = boot_leaves [OF power_cycle.hyps(3-7) assms(2)]
  have step: "\<exists>st. stored tt path g st \<and> identity st = identity r \<and> BootCount r \<le> BootCount st"
    if r: "stored tt path f r" for r
  proof -
    have "f path \<noteq> None" using r by (auto simp: stored_def)
    with life_stored [OF power_cycle.hyps(1) assms(2)] power_cycle.prems(1)
    obtain st where "stored tt path f st" "1 \<le> BootCount st" "BootCount st \<le> int (length bs)" by auto
    with stored_unique [OF r] have "1 \<le> BootCount r" "BootCount r \<le> int (length bs)" by auto
    then have "wrap_int (BootCount r + 1) = BootCount r + 1"
      using power_cycle.prems(1) by (intro wrap_int_id) simp_all
    with leaves(2) [OF r] show ?thesis by fastforce
  qed
  show ?case
  proof (cases later)
    case Nil
    then show ?thesis using power_cycle.prems(2) assms(5) step by auto
  next
    case (Cons b' later')
    with power_cycle.prems have "int (length bs) < 2 ^ 63" "bs = later' @ b # earlier" by simp_all
    from power_cycle.IH [OF this] obtain r where r: "stored tt path f r" "identity r = identity q" "BootCount q \<le> BootCount r"
      by blast
    with step [OF r(1)] show ?thesis by fastforce
  qed
qed simp


subsection \<open>Three boots of an agent\<close>

text \<open>
  \<open>ants02\<close> joins as an agent; its second boot rejoins and loses power between writing the temporary state
  file and renaming it; the third one rejoins.
\<close>

definition agent_saved :: "int \<Rightarrow> PersistedState" where
  "agent_saved n = \<lparr>NodeNameP = ''ants02'', RoleP = RoleAgent, BootCount = n,
    FirstBootCompletedAt = epoch + 17 * second, RoleChangedAt = zero_time\<rparr>"

definition two_instants :: "time \<Rightarrow> string option" where
  "two_instants t = (if t = epoch + 17 * second then Some ''then'' else if t = zero_time then Some ''never'' else None)"

definition instant_of :: "string \<Rightarrow> time option" where
  "instant_of x = (if x = ''then'' then Some (epoch + 17 * second) else if x = ''never'' then Some zero_time else None)"

definition disk_saving :: "PersistedState \<Rightarrow> fs \<Rightarrow> fs list" where
  "disk_saving st f = snd (Save two_instants demo_save_env st ''/var/lib/antsd/state.json'' f)"

definition disk1 :: fs where
  "disk1 = hd (disk_saving (agent_saved 1) Map.empty)"

definition disk2 :: fs where
  "disk2 = disk_saving (agent_saved 2) disk1 ! 1"

definition disk3 :: fs where
  "disk3 = hd (disk_saving (agent_saved 2) disk2)"

definition rejoining_world :: world where
  "rejoining_world = joiner_world\<lparr>wLoad := \<lambda>h. Inr (agent_saved 1)\<rparr>"

definition rejoined_calls :: history where
  "rejoined_calls = [IoSetState StateStableAgent, IoSave (agent_saved 2), IoStartOp 2 (OpRejoin RoleAgent),
     IoSetState StateRejoinCluster, IoLoad]"

lemma final_disk:
  "hd (disks tt (\<lambda>h. e) path f h) = foldr (\<lambda>st f. hd (snd (Save tt e st path f))) (saves h) f"
  by (induction h rule: saves.induct) simp_all

lemma final_disk_in: "foldr (\<lambda>st f. hd (snd (Save tt e st path f))) (saves h) f \<in> set (disks tt (\<lambda>h. e) path f h)"
  using list.set_sel(1) [OF disks_not_empty, of tt "\<lambda>h. e" path f h] by (simp add: final_disk)

lemma rejoined:
  obtains s where "reachable rejoining_world (demo_config ''ants02'') s" and "m_calls (sMgr s) = rejoined_calls"
proof -
  have "map_option (\<lambda>s. m_calls (sMgr s)) (run rejoining_world [OpReturns 2 None, Submit 0, TakeCommand]
      (Run_start rejoining_world (demo_config ''ants02''))) = Some rejoined_calls"
    by code_simp
  from run_some [OF this] that show thesis by blast
qed

lemma loads:
  "Load instant_of None ''/var/lib/antsd/state.json'' disk1 = Inr (agent_saved 1)"
  "Load instant_of None ''/var/lib/antsd/state.json'' disk2 = Inr (agent_saved 1)"
  "Load instant_of None ''/var/lib/antsd/state.json'' disk3 = Inr (agent_saved 2)"
  by code_simp+

lemma three_boots:
  obtains h1 where "life two_instants instant_of ''/var/lib/antsd/state.json''
    [\<lparr>bDisk = disk2, bConf = demo_config ''ants02'', bCalls = rejoined_calls\<rparr>,
     \<lparr>bDisk = disk1, bConf = demo_config ''ants02'', bCalls = tl rejoined_calls\<rparr>,
     \<lparr>bDisk = Map.empty, bConf = demo_config ''ants02'', bCalls = h1\<rparr>] disk3"
proof -
  let ?path = "''/var/lib/antsd/state.json''" and ?conf = "demo_config ''ants02''" and ?env = "\<lambda>h. demo_save_env"
  have path: "StateFilePath ?conf = ?path" "\<And>h. tmp_name (?env h) \<noteq> ?path"
    by (simp_all add: demo_config_def demo_save_env_def)
  have "map_option (\<lambda>s. saves (m_calls (sMgr s))) (run_by orderly joiner_world join_actions (Run_start joiner_world ?conf))
    = Some [agent_saved 1]" by code_simp
  from run_some [OF this] obtain s1 where s1: "reachable_by orderly joiner_world ?conf s1" "saves (m_calls (sMgr s1)) = [agent_saved 1]" .
  have "disk1 \<in> set (disks two_instants ?env ?path Map.empty (m_calls (sMgr s1)))"
    using final_disk_in [of two_instants demo_save_env ?path "m_calls (sMgr s1)" Map.empty] s1(2)
    by (simp add: disk1_def disk_saving_def)
  moreover have "wLoad joiner_world [] = Load instant_of None ?path Map.empty"
    by (simp add: joiner_world_def steady_world_def Load_def)
  ultimately have "life two_instants instant_of ?path [\<lparr>bDisk = Map.empty, bConf = ?conf, bCalls = m_calls (sMgr s1)\<rparr>] disk1"
    using path reachable_by_mono [OF s1(1)] by - (rule life.power_cycle [OF life.factory, where s = s1 and w = joiner_world and env = ?env and read_error = None], simp_all add: suffix_order.order_refl)
  moreover obtain s where s: "reachable rejoining_world ?conf s" "m_calls (sMgr s) = rejoined_calls" by (rule rejoined)
  moreover have "disk2 \<in> set (disks two_instants ?env ?path disk1 (tl rejoined_calls))"
  proof -
    have "length (disk_saving (agent_saved 2) disk1) = 4" by code_simp
    then show ?thesis
      by (simp add: rejoined_calls_def disk2_def disk_saving_def [symmetric])
  qed
  moreover have "suffix (tl rejoined_calls) (m_calls (sMgr s))" using s(2) by (simp add: suffix_tl)
  moreover have "wLoad rejoining_world [] = Load instant_of None ?path disk1" "wLoad rejoining_world [] = Load instant_of None ?path disk2"
    by (simp_all add: rejoining_world_def loads)
  ultimately have "life two_instants instant_of ?path
    [\<lparr>bDisk = disk1, bConf = ?conf, bCalls = tl rejoined_calls\<rparr>,
     \<lparr>bDisk = Map.empty, bConf = ?conf, bCalls = m_calls (sMgr s1)\<rparr>] disk2"
    using path by - (rule life.power_cycle [where s = s and w = rejoining_world and env = ?env and read_error = None], simp_all)
  moreover have "disk3 \<in> set (disks two_instants ?env ?path disk2 rejoined_calls)"
    using final_disk_in [of two_instants demo_save_env ?path rejoined_calls disk2]
    by (simp add: disk3_def disk_saving_def rejoined_calls_def)
  ultimately have "life two_instants instant_of ?path
    [\<lparr>bDisk = disk2, bConf = ?conf, bCalls = rejoined_calls\<rparr>,
     \<lparr>bDisk = disk1, bConf = ?conf, bCalls = tl rejoined_calls\<rparr>,
     \<lparr>bDisk = Map.empty, bConf = ?conf, bCalls = m_calls (sMgr s1)\<rparr>] disk3"
    using path s \<open>wLoad rejoining_world [] = Load instant_of None ?path disk2\<close>
    by - (rule life.power_cycle [where s = s and w = rejoining_world and env = ?env and read_error = None], simp_all add: suffix_order.order_refl)
  then show thesis by (rule that)
qed



end
