(* ===== verification/Serf_Node.thy ===== *)
theory Serf_Node
  imports Run_Loop "HOL-Library.AList"
begin

text \<open>
  The wrapper around the Serf library, \<open>antsd/internal/serfnode/serfnode.go\<close>: the conversion of its
  events, the guards of a node that is not started, the state tag, the snapshot handed to the
  manager and to the admin server. The library is third-party code: a \<open>serflib\<close> is a record of the
  calls the wrapper makes, over a state of its own.
\<close>

definition clusterName :: string where
  "clusterName = ''antsd-cluster''"

definition stateTagKey :: string where
  "stateTagKey = ''state''"

fun EventType_String :: "EventType \<Rightarrow> string" where
  "EventType_String EventMemberJoin = ''member-join''"
| "EventType_String EventMemberLeave = ''member-leave''"
| "EventType_String EventMemberFailed = ''member-failed''"
| "EventType_String EventMemberUpdate = ''member-update''"
| "EventType_String EventMemberReap = ''member-reap''"
| "EventType_String EventUser = ''user''"
| "EventType_String EventQuery = ''query''"

subsection \<open>The library\<close>

datatype lib_event_type =
    LibMemberJoin
  | LibMemberLeave
  | LibMemberFailed
  | LibMemberUpdate
  | LibMemberReap
  | LibUser
  | LibQuery

record lib_member =
  lName :: string
  lAddr :: string
  lStatus :: string
  lTags :: "(string \<times> string) list"

datatype lib_event =
    MemberEvent lib_event_type "lib_member list"
  | UserEvent string payload
  | OtherEvent

record 'l serflib =
  lib_Join :: "string list \<Rightarrow> bool \<Rightarrow> 'l \<Rightarrow> (nat \<times> error option) \<times> 'l"
  lib_Leave :: "'l \<Rightarrow> error option \<times> 'l"
  lib_RemoveFailedNodePrune :: "string \<Rightarrow> 'l \<Rightarrow> error option \<times> 'l"
  lib_LocalMember :: "'l \<Rightarrow> lib_member"
  lib_SetTags :: "(string \<times> string) list \<Rightarrow> 'l \<Rightarrow> error option \<times> 'l"
  lib_UserEvent :: "string \<Rightarrow> payload \<Rightarrow> bool \<Rightarrow> 'l \<Rightarrow> error option \<times> 'l"
  lib_Members :: "'l \<Rightarrow> lib_member list"

text \<open>A \<open>Node\<close>; \<open>nSerf\<close> is \<open>None\<close> until \<open>Start\<close> has created the library's agent.\<close>

record 'l serf_node =
  nName :: string
  nSerf :: "'l option"
  nEventCh :: "Event list"

definition New_node :: "'l serf_node" where
  "New_node = \<lparr>nName = '''', nSerf = None, nEventCh = []\<rparr>"

text \<open>\<open>Start\<close> once \<open>serflib.Create\<close> has answered with an agent: it is published with its name.\<close>

definition started_node :: "string \<Rightarrow> 'l \<Rightarrow> 'l serf_node \<Rightarrow> 'l serf_node" where
  "started_node name l nd = nd\<lparr>nSerf := Some l, nName := name\<rparr>"

subsection \<open>Events\<close>

fun mapMemberEventType :: "lib_event_type \<Rightarrow> EventType" where
  "mapMemberEventType LibMemberJoin = EventMemberJoin"
| "mapMemberEventType LibMemberLeave = EventMemberLeave"
| "mapMemberEventType LibMemberFailed = EventMemberFailed"
| "mapMemberEventType LibMemberUpdate = EventMemberUpdate"
| "mapMemberEventType LibMemberReap = EventMemberReap"
| "mapMemberEventType LibQuery = EventQuery"
| "mapMemberEventType LibUser = EventUser"

definition raw_member_event :: "lib_event_type \<Rightarrow> lib_member \<Rightarrow> Event" where
  "raw_member_event t m =
    \<lparr>Type = mapMemberEventType t, NodeIP = lAddr m, EName = lName m, ETags = lTags m, Payload = NoPayload\<rparr>"

definition raw_user_event :: "string \<Rightarrow> payload \<Rightarrow> Event" where
  "raw_user_event name data = \<lparr>Type = EventUser, NodeIP = '''', EName = name, ETags = [], Payload = data\<rparr>"

fun converted :: "lib_event \<Rightarrow> Event list" where
  "converted (MemberEvent t ms) = map (raw_member_event t) ms"
| "converted (UserEvent name data) = [raw_user_event name data]"
| "converted OtherEvent = []"

definition handleRawEvent :: "lib_event \<Rightarrow> 'l serf_node \<Rightarrow> 'l serf_node" where
  "handleRawEvent e nd = nd\<lparr>nEventCh := fold dispatch (converted e) (nEventCh nd)\<rparr>"

text \<open>The loop of the node, on the events its raw channel delivers before the context ends.\<close>

definition Node_loop :: "lib_event list \<Rightarrow> 'l serf_node \<Rightarrow> 'l serf_node" where
  "Node_loop es nd = fold handleRawEvent es nd"

subsection \<open>Operations\<close>

definition Node_Join :: "'l serflib \<Rightarrow> string list \<Rightarrow> 'l serf_node \<Rightarrow> error option \<times> 'l serf_node" where
  "Node_Join lib addrs nd =
    (case nSerf nd of
       None \<Rightarrow> (None, nd)
     | Some l \<Rightarrow> (case lib_Join lib addrs True l of ((n, err), l) \<Rightarrow> (err, nd\<lparr>nSerf := Some l\<rparr>)))"

definition Node_Leave :: "'l serflib \<Rightarrow> 'l serf_node \<Rightarrow> error option \<times> 'l serf_node" where
  "Node_Leave lib nd =
    (case nSerf nd of
       None \<Rightarrow> (None, nd)
     | Some l \<Rightarrow> (case lib_Leave lib l of (err, l) \<Rightarrow> (err, nd\<lparr>nSerf := Some l\<rparr>)))"

definition not_started :: error where
  "not_started = ''serf not started''"

definition Node_RemoveFailedNode :: "'l serflib \<Rightarrow> string \<Rightarrow> 'l serf_node \<Rightarrow> error option \<times> 'l serf_node" where
  "Node_RemoveFailedNode lib name nd =
    (case nSerf nd of
       None \<Rightarrow> (Some not_started, nd)
     | Some l \<Rightarrow> (case lib_RemoveFailedNodePrune lib name l of (err, l) \<Rightarrow> (err, nd\<lparr>nSerf := Some l\<rparr>)))"

text \<open>A Go map copied and written: the association list keeps one entry per key.\<close>

definition with_state_tag :: "node_state \<Rightarrow> (string \<times> string) list \<Rightarrow> (string \<times> string) list" where
  "with_state_tag st tags = AList.update stateTagKey (state_string st) tags"

definition Node_SetState :: "'l serflib \<Rightarrow> node_state \<Rightarrow> 'l serf_node \<Rightarrow> error option \<times> 'l serf_node" where
  "Node_SetState lib st nd =
    (case nSerf nd of
       None \<Rightarrow> (Some not_started, nd)
     | Some l \<Rightarrow>
       (case lib_SetTags lib (with_state_tag st (lTags (lib_LocalMember lib l))) l of
          (err, l) \<Rightarrow> (err, nd\<lparr>nSerf := Some l\<rparr>)))"

definition Node_SendUserEvent ::
  "'l serflib \<Rightarrow> string \<Rightarrow> payload \<Rightarrow> 'l serf_node \<Rightarrow> error option \<times> 'l serf_node" where
  "Node_SendUserEvent lib name data nd =
    (case nSerf nd of
       None \<Rightarrow> (Some not_started, nd)
     | Some l \<Rightarrow> (case lib_UserEvent lib name data False l of (err, l) \<Rightarrow> (err, nd\<lparr>nSerf := Some l\<rparr>)))"

definition Node_LocalIP :: "'l serflib \<Rightarrow> 'l serf_node \<Rightarrow> string" where
  "Node_LocalIP lib nd = (case nSerf nd of None \<Rightarrow> '''' | Some l \<Rightarrow> lAddr (lib_LocalMember lib l))"

definition to_member :: "lib_member \<Rightarrow> member" where
  "to_member m = \<lparr>Name = lName m, IP = lAddr m, Status = lStatus m, Tags = lTags m\<rparr>"

text \<open>\<open>sort.Slice\<close> is not stable; on distinct names every sort gives this list.\<close>

definition Node_Snapshot :: "'l serflib \<Rightarrow> time \<Rightarrow> 'l serf_node \<Rightarrow> Snapshot" where
  "Node_Snapshot lib t nd =
    (let snapshot = \<lparr>CollectedAt = t, NodeName = nName nd, Available = False, Members = []\<rparr> in
     case nSerf nd of
       None \<Rightarrow> snapshot
     | Some l \<Rightarrow> snapshot\<lparr>Available := True, Members := sort_key Name (map to_member (lib_Members lib l))\<rparr>)"

subsection \<open>The snapshot\<close>

lemma map_Name_to_member [simp]: "map (Name \<circ> to_member) ms = map lName ms"
  by (simp add: to_member_def comp_def)

lemma strict_sorted_names:
  assumes "distinct (map lName ms)"
  shows "sorted_wrt (<) (map Name (sort_key Name (map to_member ms)))"
proof -
  have "distinct (map Name (sort_key Name (map to_member ms)))"
    using assms by (simp add: distinct_map_sort_key)
  then show ?thesis by (simp add: strict_sorted_iff)
qed

text \<open>
  C34: the snapshot of a started node is a view in which names identify members, in strictly
  increasing order, with one entry for each member of the library carrying its address, status and
  tags; before the start it is empty and marked unavailable. This is what the view readings and the
  invariants of the run loop assume of a snapshot.
\<close>

theorem snapshot_is_named_view:
  assumes "\<And>l. nSerf nd = Some l \<Longrightarrow> distinct (map lName (lib_Members lib l)) \<and> '''' \<notin> lName ` set (lib_Members lib l)"
  shows "named_view \<lparr>snapshot = Node_Snapshot lib t nd\<rparr>
    \<and> sorted_wrt (<) (map Name (Members (Node_Snapshot lib t nd)))
    \<and> mset (Members (Node_Snapshot lib t nd)) = (case nSerf nd of None \<Rightarrow> {#} | Some l \<Rightarrow> mset (map to_member (lib_Members lib l)))
    \<and> Available (Node_Snapshot lib t nd) = (nSerf nd \<noteq> None)"
proof (cases "nSerf nd")
  case None
  then show ?thesis by (simp add: Node_Snapshot_def named_view_def)
next
  case (Some l)
  have "distinct (map Name (sort_key Name (map to_member (lib_Members lib l))))"
    using assms [OF Some] by (simp add: distinct_map_sort_key)
  moreover have "Name ` set (map to_member (lib_Members lib l)) = lName ` set (lib_Members lib l)"
    by (simp add: image_image to_member_def)
  ultimately show ?thesis
    using assms [OF Some] strict_sorted_names [of "lib_Members lib l"]
    by (simp add: Node_Snapshot_def Some named_view_def)
qed

text \<open>A library that only keeps a member list, the local member first.\<close>

definition demo_lib :: "lib_member list serflib" where
  "demo_lib = \<lparr>lib_Join = \<lambda>addrs b l. ((length addrs, None), l), lib_Leave = \<lambda>l. (None, l),
    lib_RemoveFailedNodePrune = \<lambda>name l. (None, filter (\<lambda>m. lName m \<noteq> name) l),
    lib_LocalMember = hd, lib_SetTags = \<lambda>tags l. (None, (hd l)\<lparr>lTags := tags\<rparr> # tl l),
    lib_UserEvent = \<lambda>name data c l. (None, l), lib_Members = \<lambda>l. l\<rparr>"

definition two_members :: "lib_member list" where
  "two_members = [\<lparr>lName = ''ants02'', lAddr = ''10.0.0.2'', lStatus = ''alive'', lTags = [(''state'', ''starting''), (''rack'', ''7'')]\<rparr>,
    \<lparr>lName = ''ants01'', lAddr = ''10.0.0.1'', lStatus = ''alive'', lTags = [(''state'', ''stable_server'')]\<rparr>]"

theorem snapshot_is_named_view_witness:
  "map Name (Members (Node_Snapshot demo_lib 5 (started_node ''ants02'' two_members New_node))) = [''ants01'', ''ants02'']
    \<and> named_view \<lparr>snapshot = Node_Snapshot demo_lib 5 (started_node ''ants02'' two_members New_node)\<rparr>"
proof -
  let ?nd = "started_node ''ants02'' two_members New_node"
  have "distinct (map lName (lib_Members demo_lib l)) \<and> '''' \<notin> lName ` set (lib_Members demo_lib l)"
    if "nSerf ?nd = Some l" for l
    using that by (auto simp: started_node_def New_node_def two_members_def demo_lib_def)
  note nv = snapshot_is_named_view [where nd = ?nd and lib = demo_lib and t = 5, OF this]
  have "map Name (Members (Node_Snapshot demo_lib 5 ?nd)) = [''ants01'', ''ants02'']" by code_simp
  with nv show ?thesis by blast
qed

subsection \<open>The state tag\<close>

lemma tag_get_with_state_tag:
  "tag_get (with_state_tag st tags) k = (if k = stateTagKey then state_string st else tag_get tags k)"
  by (simp add: tag_get_def with_state_tag_def update_conv')

lemma wf_with_state_tag: "wf_tags tags \<Longrightarrow> wf_tags (with_state_tag st tags)"
  by (simp add: wf_tags_def with_state_tag_def distinct_update)

text \<open>
  A lifecycle state is published by replacing the state tag alone: the library receives tags
  with the new state, every other tag as it was and no key twice; a peer that reads them as a
  member finds the state. Before the start nothing is sent and the caller gets an error.
\<close>

theorem set_state_replaces_only_the_state_tag:
  "case nSerf nd of
     None \<Rightarrow> Node_SetState lib st nd = (Some not_started, nd)
   | Some l \<Rightarrow>
     let tags = with_state_tag st (lTags (lib_LocalMember lib l)); m = (lib_LocalMember lib l)\<lparr>lTags := tags\<rparr>
     in Node_SetState lib st nd = (fst (lib_SetTags lib tags l), nd\<lparr>nSerf := Some (snd (lib_SetTags lib tags l))\<rparr>)
       \<and> member_state (to_member m) = state_of (state_string st)
       \<and> (\<forall>k. tag_get tags k = (if k = ''state'' then state_string st else tag_get (lTags (lib_LocalMember lib l)) k))
       \<and> distinct (map fst tags) = distinct (map fst (lTags (lib_LocalMember lib l)))"
proof (cases "nSerf nd")
  case (Some l)
  have "distinct (map fst (with_state_tag st tags)) = distinct (map fst tags)" for tags
    by (induction tags) (auto simp: with_state_tag_def dom_update split: if_splits)
  then show ?thesis
    using Some by (simp add: Node_SetState_def Let_def tag_get_with_state_tag member_state_def to_member_def
        stateTagKey_def split: prod.splits)
qed (simp add: Node_SetState_def)

subsection \<open>The event channel\<close>

lemma dispatch_simps:
  "length ch < eventChCap \<Longrightarrow> dispatch e ch = ch @ [e]" "\<not> length ch < eventChCap \<Longrightarrow> dispatch e ch = ch"
  by (simp_all add: dispatch_def)

lemma fold_dispatch:
  "length ch \<le> eventChCap \<Longrightarrow> fold dispatch es ch = ch @ take (eventChCap - length ch) es"
proof (induction es arbitrary: ch)
  case (Cons e es)
  show ?case
  proof (cases "length ch < eventChCap")
    case True
    then have "fold dispatch (e # es) ch = (ch @ [e]) @ take (eventChCap - length (ch @ [e])) es"
      using Cons.IH [of "ch @ [e]"] by (simp add: dispatch_simps)
    moreover have "eventChCap - length ch = Suc (eventChCap - length (ch @ [e]))" using True by simp
    ultimately show ?thesis by simp
  next
    case False
    then show ?thesis using Cons.IH [of ch] Cons.prems by (simp add: dispatch_simps)
  qed
qed simp

lemma Node_loop_channel: "nEventCh (Node_loop es nd) = fold dispatch (concat (map converted es)) (nEventCh nd)"
  by (induction es arbitrary: nd) (simp_all add: Node_loop_def handleRawEvent_def)

text \<open>
  C35: events reach the run loop in the order of the library, one per member of a member event, at the
  end of the channel. Over any burst the channel never holds more than 64: what does not fit is
  dropped from the end of the burst, so the events that were waiting are untouched and the loop is
  never blocked.
\<close>

theorem raw_events_in_order:
  assumes "length (nEventCh nd) \<le> 64"
  shows "nEventCh (Node_loop es nd) = nEventCh nd @ take (64 - length (nEventCh nd)) (concat (map converted es))
    \<and> length (nEventCh (Node_loop es nd)) \<le> 64
    \<and> map EName (concat (map converted es)) = concat (map (\<lambda>e. case e of
        MemberEvent t ms \<Rightarrow> map lName ms | UserEvent name data \<Rightarrow> [name] | OtherEvent \<Rightarrow> []) es)"
proof -
  have "map EName (converted e) = (case e of
        MemberEvent t ms \<Rightarrow> map lName ms | UserEvent name data \<Rightarrow> [name] | OtherEvent \<Rightarrow> [])" for e
    by (cases e) (simp_all add: raw_member_event_def raw_user_event_def)
  then have "map EName (concat (map converted es)) = concat (map (\<lambda>e. case e of
        MemberEvent t ms \<Rightarrow> map lName ms | UserEvent name data \<Rightarrow> [name] | OtherEvent \<Rightarrow> []) es)"
    by (simp add: map_concat comp_def)
  then show ?thesis
    using assms fold_dispatch [of "nEventCh nd" "concat (map converted es)"]
    by (simp add: Node_loop_channel eventChCap_def)
qed

theorem raw_events_in_order_witness:
  "map EName (nEventCh (Node_loop [MemberEvent LibMemberJoin two_members, OtherEvent, UserEvent ''antsd:forget-me'' NoPayload] (New_node :: unit serf_node)))
    = [''ants02'', ''ants01'', ''antsd:forget-me'']"
proof -
  let ?es = "[MemberEvent LibMemberJoin two_members, OtherEvent, UserEvent ''antsd:forget-me'' NoPayload]"
  have "length (nEventCh (New_node :: unit serf_node)) \<le> 64" by (simp add: New_node_def)
  note order = raw_events_in_order [OF this, of ?es]
  have "length (concat (map converted ?es)) \<le> 64" by (simp add: two_members_def)
  then have "nEventCh (Node_loop ?es (New_node :: unit serf_node)) = concat (map converted ?es)"
    using order by (simp add: New_node_def)
  with order show ?thesis by (simp add: two_members_def)
qed

end
