(* ===== verification/Discovery.thy ===== *)
theory Discovery
  imports Serf_Node K3s_Installer "HOL-Library.Sublist"
begin

text \<open>
  The discovery of peers over mDNS, \<open>antsd/internal/discovery/mdns.go\<close>: which entries of the
  multicast group are peers of this cluster, and which of them are handed to the callback. The
  callback changes a state of its own; in \<open>serfnode.go\<close> it is the join of the Serf node.
\<close>

record entry =
  entName :: string
  AddrV4 :: string
  Port :: int

text \<open>\<open>AddrV4\<close> is the rendered address, empty when the entry carries none.\<close>

record discovery_config =
  ClusterName :: string
  dNodeName :: string
  BindIP :: string
  BindPort :: int
  QueryInterval :: duration

record 'a discoverer =
  dConfig :: discovery_config
  onFind :: "string \<Rightarrow> 'a \<Rightarrow> 'a"
  seen :: "string list"

definition New_discoverer :: "discovery_config \<Rightarrow> (string \<Rightarrow> 'a \<Rightarrow> 'a) \<Rightarrow> 'a discoverer" where
  "New_discoverer conf f = \<lparr>dConfig = conf, onFind = f, seen = []\<rparr>"

definition serviceName :: "string \<Rightarrow> string" where
  "serviceName c = ''_antsd-'' @ c @ ''._tcp''"

definition mdnsDomain :: string where
  "mdnsDomain = ''local''"

definition instanceSuffix :: "string \<Rightarrow> string" where
  "instanceSuffix c = ''.'' @ serviceName c @ ''.'' @ mdnsDomain @ ''.''"

text \<open>\<open>strconv.Itoa\<close>.\<close>

fun decimal :: "nat \<Rightarrow> string" where
  "decimal n = (if n < 10 then [''0123456789'' ! n] else decimal (n div 10) @ [''0123456789'' ! (n mod 10)])"

definition Itoa :: "int \<Rightarrow> string" where
  "Itoa i = (if i < 0 then ''-'' @ decimal (nat (- i)) else decimal (nat i))"

definition peer_addr :: "entry \<Rightarrow> string" where
  "peer_addr e = JoinHostPort (AddrV4 e) (Itoa (Port e))"

definition handleEntry :: "entry \<Rightarrow> 'a discoverer \<times> 'a \<Rightarrow> 'a discoverer \<times> 'a" where
  "handleEntry e st =
    (case st of (d, s) \<Rightarrow>
     if \<not> suffix (instanceSuffix (ClusterName (dConfig d))) (entName e) then (d, s)
     else if AddrV4 e = '''' then (d, s)
     else
       let addr = peer_addr e in
       if List.member (seen d) addr then (d, s)
       else (d\<lparr>seen := addr # seen d\<rparr>, onFind d addr s))"

text \<open>
  One lookup: the entries \<open>mdns.Query\<close> has sent are handled after it has returned, also when it
  returned an error; the client drops what does not fit in the channel.
\<close>

definition entriesBufferSize :: nat where
  "entriesBufferSize = 64"

definition lookupOnce :: "entry list \<Rightarrow> 'a discoverer \<times> 'a \<Rightarrow> 'a discoverer \<times> 'a" where
  "lookupOnce es st = fold handleEntry (take entriesBufferSize es) st"

definition lookups :: "entry list list \<Rightarrow> 'a discoverer \<times> 'a \<Rightarrow> 'a discoverer \<times> 'a" where
  "lookups rounds st = fold lookupOnce rounds st"

text \<open>The callback of \<open>serfnode.go\<close>; the error of the join is only logged.\<close>

definition join_peer :: "'l serflib \<Rightarrow> string \<Rightarrow> 'l serf_node \<Rightarrow> 'l serf_node" where
  "join_peer lib addr nd = snd (Node_Join lib [addr] nd)"

subsection \<open>Names of other clusters\<close>

lemma last_label:
  assumes "CHR ''.'' \<notin> set a" and "CHR ''.'' \<notin> set b" and "p @ CHR ''.'' # a = q @ CHR ''.'' # b"
  shows "a = b"
proof -
  have "takeWhile (\<lambda>c. c \<noteq> CHR ''.'') (rev (p @ CHR ''.'' # x)) = rev x" if "CHR ''.'' \<notin> set x" for p x :: string
    using that by (auto simp: takeWhile_append2 intro!: trans [OF takeWhile_append2])
  from this [OF assms(1), of p] this [OF assms(2), of q] assms(3) show ?thesis by simp
qed

text \<open>
  Clusters whose names differ and hold no dot do not discover each other: an instance name of
  the one never has the suffix the other looks for, whatever the name of the instance.
\<close>

theorem clusters_are_isolated:
  assumes "CHR ''.'' \<notin> set c1" and "CHR ''.'' \<notin> set c2"
    and "suffix (instanceSuffix c1) (inst @ instanceSuffix c2)"
  shows "c1 = c2"
proof -
  let ?tail = "''._tcp.local.''"
  obtain p where p: "inst @ instanceSuffix c2 = p @ instanceSuffix c1"
    using assms(3) by (auto simp: suffix_def)
  have split: "instanceSuffix c = (CHR ''.'' # ''_antsd-'' @ c) @ ?tail" for c
    by (simp add: instanceSuffix_def serviceName_def mdnsDomain_def)
  have "(inst @ CHR ''.'' # ''_antsd-'' @ c2) @ ?tail = (p @ CHR ''.'' # ''_antsd-'' @ c1) @ ?tail"
    using p by (simp only: split append.assoc)
  then have "inst @ CHR ''.'' # (''_antsd-'' @ c2) = p @ CHR ''.'' # (''_antsd-'' @ c1)"
    by (simp only: append_same_eq)
  then have "''_antsd-'' @ c2 = ''_antsd-'' @ c1"
    by (rule last_label [rotated 2]) (use assms in simp_all)
  then show ?thesis by simp
qed

theorem clusters_are_isolated_witness:
  "\<not> suffix (instanceSuffix ''antsd-cluster'') (''ants02'' @ instanceSuffix ''lab'')"
  using clusters_are_isolated [of "''antsd-cluster''" "''lab''" "''ants02''"] by fastforce

subsection \<open>Announcements\<close>

text \<open>The addresses an entry stands for, and the callbacks a recording callback would have made.\<close>

definition peers_of :: "string \<Rightarrow> entry list \<Rightarrow> string list" where
  "peers_of c es = map peer_addr (filter (\<lambda>e. suffix (instanceSuffix c) (entName e) \<and> AddrV4 e \<noteq> '''') es)"

lemma handleEntry_run:
  assumes "handleEntry e (d, s) = (d', s')"
  shows "dConfig d' = dConfig d" and "onFind d' = onFind d"
    and "seen d' = (case peers_of (ClusterName (dConfig d)) [e] of [] \<Rightarrow> seen d | a # _ \<Rightarrow> List.insert a (seen d))"
    and "s' = fold (onFind d) (filter (\<lambda>a. a \<notin> set (seen d)) (peers_of (ClusterName (dConfig d)) [e])) s"
  using assms by (auto simp: handleEntry_def peers_of_def Let_def List.insert_def split: if_splits)

text \<open>New addresses in the order of their first appearance.\<close>

fun fresh :: "string list \<Rightarrow> string list \<Rightarrow> string list" where
  "fresh known [] = []"
| "fresh known (a # as) = (if a \<in> set known then fresh known as else a # fresh (a # known) as)"

lemma fresh_cong: "set k1 = set k2 \<Longrightarrow> fresh k1 as = fresh k2 as"
proof (induction as arbitrary: k1 k2)
  case (Cons a rest_as)
  have "set (a # k1) = set (a # k2)" using Cons.prems by simp
  from Cons.IH [OF this] Cons.IH [OF Cons.prems] Cons.prems show ?case by simp
qed simp

lemma fresh_facts: "distinct (fresh known as) \<and> set (fresh known as) = set as - set known"
  by (induction known as rule: fresh.induct) auto

lemma handle_entries:
  assumes "fold handleEntry es (d, s) = (d', s')"
  shows "dConfig d' = dConfig d \<and> onFind d' = onFind d
    \<and> set (seen d') = set (seen d) \<union> set (peers_of (ClusterName (dConfig d)) es)
    \<and> s' = fold (onFind d) (fresh (seen d) (peers_of (ClusterName (dConfig d)) es)) s"
  using assms
proof (induction es arbitrary: d s)
  case Nil
  then show ?case by (simp add: peers_of_def)
next
  case (Cons e es)
  let ?c = "ClusterName (dConfig d)"
  obtain d1 s1 where one: "handleEntry e (d, s) = (d1, s1)" by fastforce
  note step = handleEntry_run [OF one]
  have rest: "fold handleEntry es (d1, s1) = (d', s')" using Cons.prems one by simp
  note IH = Cons.IH [OF rest, unfolded step(1,2)]
  have split: "peers_of ?c (e # es) = peers_of ?c [e] @ peers_of ?c es" by (simp add: peers_of_def)
  show ?case
  proof (cases "peers_of ?c [e]")
    case Nil
    then have "s1 = s" "seen d1 = seen d" using step(3,4) by simp_all
    then show ?thesis using IH split Nil by simp
  next
    case (Cons a rest_as)
    then have a: "peers_of ?c [e] = [a]" by (auto simp: peers_of_def split: if_splits)
    show ?thesis
    proof (cases "a \<in> set (seen d)")
      case True
      then have "s1 = s" "seen d1 = seen d" using step(3,4) a by simp_all
      then show ?thesis using IH split a True by auto
    next
      case False
      then have "s1 = onFind d a s" "set (seen d1) = set (a # seen d)" using step(3,4) a by simp_all
      then show ?thesis using IH split a False fresh_cong [of "seen d1" "a # seen d"] by auto
    qed
  qed
qed

lemma lookups_fold: "lookups rounds st = fold handleEntry (concat (map (take entriesBufferSize) rounds)) st"
  by (induction rounds arbitrary: st) (simp_all add: lookups_def lookupOnce_def)

text \<open>
  Over any sequence of lookups the callback is called once for each address of an entry of this
  cluster that carries an IPv4 address, in the order of their first appearance, and for nothing
  else. An address is given up after one call: whatever the join answered, it is never tried again.
\<close>

theorem each_peer_announced_once:
  "\<exists>addrs. snd (lookups rounds (New_discoverer conf f, s)) = fold f addrs s
    \<and> distinct addrs
    \<and> set addrs = peer_addr ` {e. e \<in> (\<Union>es \<in> set rounds. set (take 64 es))
        \<and> suffix (instanceSuffix (ClusterName conf)) (entName e) \<and> AddrV4 e \<noteq> ''''}"
proof -
  let ?es = "concat (map (take entriesBufferSize) rounds)"
  obtain d' s' where r: "fold handleEntry ?es (New_discoverer conf f, s) = (d', s')" by fastforce
  note run = handle_entries [OF r]
  show ?thesis
    using run fresh_facts [of "[]" "peers_of (ClusterName conf) ?es"] r
    by (intro exI [of _ "fresh [] (peers_of (ClusterName conf) ?es)"])
      (auto simp: lookups_fold New_discoverer_def peers_of_def entriesBufferSize_def)
qed

lemma peers_of_append: "peers_of c (xs @ ys) = peers_of c xs @ peers_of c ys"
  by (simp add: peers_of_def)

lemma peers_of_replicate: "set (peers_of c (concat (replicate n es))) \<subseteq> set (peers_of c es)"
  by (induction n) (simp_all add: peers_of_append, simp add: peers_of_def)

lemma fresh_seen: "set as \<subseteq> set k \<Longrightarrow> fresh k as = []"
  using fresh_facts [of k as] by (metis Diff_eq_empty_iff set_empty)

lemma handle_seen:
  assumes "fold handleEntry es (d, s) = (d', s')" and "set (peers_of (ClusterName (dConfig d)) es) \<subseteq> set (seen d)"
  shows "s' = s"
proof -
  have "s' = fold (onFind d) (fresh (seen d) (peers_of (ClusterName (dConfig d)) es)) s"
    using handle_entries [OF assms(1)] by blast
  also have "\<dots> = s" by (simp only: fresh_seen [OF assms(2)] fold.simps id_apply)
  finally show ?thesis .
qed

text \<open>
  C37: a peer is joined at most once. Repeating the same lookups any number of times after the first
  makes no further call, so a join that failed the first time is not tried again by this node.
\<close>

theorem failed_join_not_retried:
  "snd (lookups (rounds @ concat (replicate n rounds)) (New_discoverer conf (join_peer lib), nd))
    = snd (lookups rounds (New_discoverer conf (join_peer lib), nd))"
proof -
  let ?es = "concat (map (take entriesBufferSize) rounds)"
  obtain d' nd' where r: "fold handleEntry ?es (New_discoverer conf (join_peer lib), nd) = (d', nd')" by fastforce
  have "set (peers_of (ClusterName (dConfig d')) (concat (replicate n ?es))) \<subseteq> set (seen d')"
    using handle_entries [OF r] peers_of_replicate [of "ClusterName conf" n ?es] by (simp add: New_discoverer_def)
  moreover have "concat (map (take entriesBufferSize) (concat (replicate n rounds))) = concat (replicate n ?es)"
    by (induction n) simp_all
  moreover obtain d2 nd2 where "fold handleEntry (concat (replicate n ?es)) (d', nd') = (d2, nd2)" by fastforce
  ultimately have "nd2 = nd'" and
    "fold handleEntry (concat (map (take entriesBufferSize) (rounds @ concat (replicate n rounds)))) (New_discoverer conf (join_peer lib), nd) = (d2, nd2)"
    using handle_seen [of "concat (replicate n ?es)" d' nd' d2 nd2] r by simp_all
  then show ?thesis using r by (simp only: lookups_fold snd_conv)
qed

end
