(* ===== verification/Log_Bridge.thy ===== *)
theory Log_Bridge
  imports Config "HOL-Library.Sublist"
begin

text \<open>
  The bridge between the loggers of the HashiCorp libraries and the log of the daemon,
  \<open>antsd/internal/logbridge/logbridge.go\<close>. What the bridge hands to \<open>slog\<close> is a list of records, a
  level and a text; texts are ASCII.
\<close>

definition defaultLevel :: level where
  "defaultLevel = LevelInfo"

definition levels :: "(string \<times> level) list" where
  "levels = [(''TRACE'', LevelDebug), (''DEBUG'', LevelDebug), (''INFO'', LevelInfo), (''WARN'', LevelWarn),
    (''ERR'', LevelError), (''ERROR'', LevelError)]"

record log_writer =
  component :: string
  quiet :: bool

definition NewStdLogger :: "string \<Rightarrow> log_writer" where
  "NewStdLogger c = \<lparr>component = c, quiet = False\<rparr>"

definition NewQuietStdLogger :: "string \<Rightarrow> log_writer" where
  "NewQuietStdLogger c = \<lparr>component = c, quiet = True\<rparr>"

text \<open>\<open>strings.Cut\<close> at the first occurrence of a separator, \<open>None\<close> when there is none.\<close>

fun Cut :: "string \<Rightarrow> string \<Rightarrow> (string \<times> string) option" where
  "Cut sep s =
     (if prefix sep s then Some ('''', drop (length sep) s)
      else case s of [] \<Rightarrow> None
        | c # cs \<Rightarrow> map_option (\<lambda>(before, after). (c # before, after)) (Cut sep cs))"

declare Cut.simps [simp del]

text \<open>\<open>strings.EqualFold\<close>, on ASCII.\<close>

definition EqualFold :: "string \<Rightarrow> string \<Rightarrow> bool" where
  "EqualFold a b \<longleftrightarrow> ToLower a = ToLower b"

text \<open>The message and its component, \<open>tag\<close>.\<close>

definition tagged :: "log_writer \<Rightarrow> string \<Rightarrow> string" where
  "tagged w msg =
    (let msg = (case Cut '': '' msg of
                  Some (name, rest) \<Rightarrow> if EqualFold name (component w) then rest else msg
                | None \<Rightarrow> msg)
     in ''['' @ component w @ ''] '' @ msg)"

text \<open>\<open>parseLine\<close>; \<open>end > 0\<close> always holds of a closing bracket here, the line starting with another one.\<close>

definition parseLine :: "string \<Rightarrow> level \<times> string" where
  "parseLine line =
    (let line = TrimSpace line in
     if prefix ''['' line \<and> CHR '']'' \<in> set line then
       let end_at = length (takeWhile (\<lambda>c. c \<noteq> CHR '']'') line) in
       case map_of levels (drop 1 (take end_at line)) of
         Some l \<Rightarrow> (l, TrimSpace (drop (Suc end_at) line))
       | None \<Rightarrow> (defaultLevel, line)
     else (defaultLevel, line))"

text \<open>\<open>Write\<close>: the number of bytes it reports, and the records logged.\<close>

definition Write :: "log_writer \<Rightarrow> string \<Rightarrow> (level \<times> string) list \<Rightarrow> nat \<times> (level \<times> string) list" where
  "Write w p log =
    (case parseLine p of
       (l, msg) \<Rightarrow>
         if quiet w \<and> l < LevelWarn then (length p, log)
         else (length p, log @ [(l, tagged w msg)]))"

subsection \<open>Trimming\<close>

definition trim_end :: "string \<Rightarrow> string" where
  "trim_end s = rev (dropWhile is_space (rev s))"

lemma trim_end_simps [simp]:
  "trim_end '''' = ''''" "trim_end (s @ [c]) = (if is_space c then trim_end s else s @ [c])"
  by (simp_all add: trim_end_def)

lemma TrimSpace_trim_end: "TrimSpace s = trim_end (dropWhile is_space s)"
  by (simp add: TrimSpace_def trim_end_def)

lemma dropWhile_trim_end: "dropWhile is_space (trim_end s) = trim_end (dropWhile is_space s)"
proof (induction s rule: rev_induct)
  case (snoc c s)
  show ?case
  proof (cases "\<forall>x \<in> set s. is_space x")
    case True
    then have "dropWhile is_space s = []" "trim_end s = []" by (simp_all add: trim_end_def)
    then show ?thesis using snoc True trim_end_simps(2) [of "''''" c] by (simp add: dropWhile_append)
  next
    case False
    then have "dropWhile is_space (s @ [c]) = dropWhile is_space s @ [c]"
      by (auto simp: dropWhile_append)
    then show ?thesis using snoc by simp
  qed
qed simp

lemma trim_end_idem [simp]: "trim_end (trim_end s) = trim_end s"
  by (simp add: trim_end_def )

lemma TrimSpace_trim_end_arg [simp]: "TrimSpace (trim_end s) = TrimSpace s"
  by (simp add: TrimSpace_trim_end dropWhile_trim_end)

lemma trim_end_append:
  "p \<noteq> '''' \<Longrightarrow> \<not> is_space (last p) \<Longrightarrow> trim_end (p @ s) = p @ trim_end s"
proof (induction s rule: rev_induct)
  case Nil
  then show ?case by (cases p rule: rev_cases) simp_all
next
  case (snoc c s)
  then show ?case using trim_end_simps(2) [of "p @ s" c] by simp
qed

subsection \<open>Lines\<close>

lemma parse_severity:
  assumes "map_of levels name = Some l"
  shows "parseLine (''['' @ name @ '']'' @ msg) = (l, TrimSpace msg)"
proof -
  have "(name, l) \<in> set levels" using assms by (rule map_of_SomeD)
  then have clean: "CHR '']'' \<notin> set name" by (auto simp: levels_def)
  have "trim_end ((''['' @ name @ '']'') @ msg) = (''['' @ name @ '']'') @ trim_end msg"
    by (rule trim_end_append) (simp_all add: is_space_def)
  then have t: "TrimSpace (''['' @ name @ '']'' @ msg) = ''['' @ name @ '']'' @ trim_end msg"
    by (simp add: TrimSpace_trim_end is_space_def)
  have "takeWhile (\<lambda>c. c \<noteq> CHR '']'') (name @ CHR '']'' # trim_end msg) = name"
    using clean by (subst takeWhile_append2) auto
  moreover have "TrimSpace (CHR ''['' # name @ CHR '']'' # msg) = CHR ''['' # name @ CHR '']'' # trim_end msg"
    using t by simp
  ultimately show ?thesis using assms by (simp add: parseLine_def Let_def)
qed

lemma bracketed:
  assumes "prefix ''['' t" and "CHR '']'' \<in> set t"
  shows "\<exists>rest. t = ''['' @ drop 1 (take (length (takeWhile (\<lambda>c. c \<noteq> CHR '']'') t)) t) @ '']'' @ rest"
proof -
  obtain u where u: "t = CHR ''['' # u" using assms(1) by (auto simp: prefix_def)
  then have "CHR '']'' \<in> set u" using assms(2) by simp
  then obtain a b where "u = a @ CHR '']'' # b" "CHR '']'' \<notin> set a" by (meson split_list_first)
  moreover from this have "takeWhile (\<lambda>c. c \<noteq> CHR '']'') (a @ CHR '']'' # b) = a"
    by (subst takeWhile_append2) auto
  ultimately show ?thesis using u by simp
qed

text \<open>
  A line that starts with a severity the libraries use is logged at the level of that severity,
  without the prefix and without the spaces around the message; every other line is logged whole,
  at the default level.
\<close>

theorem line_levels:
  "(\<forall>l. map_of levels name = Some l \<longrightarrow> parseLine (''['' @ name @ '']'' @ msg) = (l, TrimSpace msg))
  \<and> ((\<nexists>name msg. name \<in> fst ` set levels \<and> TrimSpace line = ''['' @ name @ '']'' @ msg) \<longrightarrow>
      parseLine line = (LevelInfo, TrimSpace line))"
proof (intro conjI allI impI)
  assume none: "\<nexists>name msg. name \<in> fst ` set levels \<and> TrimSpace line = ''['' @ name @ '']'' @ msg"
  let ?t = "TrimSpace line"
  let ?name = "drop 1 (take (length (takeWhile (\<lambda>c. c \<noteq> CHR '']'') ?t)) ?t)"
  have "map_of levels ?name = None" if "prefix ''['' ?t" and "CHR '']'' \<in> set ?t"
    using bracketed [OF that] none by (metis map_of_eq_None_iff)
  then show "parseLine line = (LevelInfo, TrimSpace line)"
    by (simp add: parseLine_def Let_def defaultLevel_def)
qed (rule parse_severity)

theorem line_levels_witness:
  "parseLine ''[ERR] memberlist: lost'' = (LevelError, ''memberlist: lost'')
    \<and> parseLine '' no severity '' = (LevelInfo, ''no severity'')"
proof
  have "map_of levels ''ERR'' = Some LevelError" by (simp add: levels_def)
  with line_levels [of "''ERR''" "'' memberlist: lost''" "''''"]
  have "parseLine (''['' @ ''ERR'' @ '']'' @ '' memberlist: lost'') = (LevelError, TrimSpace '' memberlist: lost'')"
    by blast
  then show "parseLine ''[ERR] memberlist: lost'' = (LevelError, ''memberlist: lost'')"
    by (simp add: TrimSpace_def is_space_def)
  have "TrimSpace '' no severity '' = ''no severity''" by (simp add: TrimSpace_def is_space_def)
  with line_levels [of "''''" "''''" "'' no severity ''"]
  show "parseLine '' no severity '' = (LevelInfo, ''no severity'')" by auto
qed

subsection \<open>Writers\<close>

lemma Write_cases:
  "snd (Write (NewQuietStdLogger c) p log) =
    log @ filter (\<lambda>(l, msg). LevelWarn \<le> l) (snd (Write (NewStdLogger c) p []))"
  by (auto simp: Write_def NewQuietStdLogger_def NewStdLogger_def tagged_def split: prod.splits option.splits)

lemma Write_append: "snd (Write (NewStdLogger c) p log) = log @ snd (Write (NewStdLogger c) p [])"
  by (simp add: Write_def NewStdLogger_def split: prod.splits)

text \<open>
  Over any sequence of lines the quiet bridge logs exactly what the plain one logs at the
  warning level or above, in the same order; a warning or an error of a library is never lost.
\<close>

theorem quiet_keeps_warnings:
  "fold (\<lambda>p log. snd (Write (NewQuietStdLogger c) p log)) lines (filter (\<lambda>(l, msg). LevelWarn \<le> l) log)
    = filter (\<lambda>(l, msg). LevelWarn \<le> l) (fold (\<lambda>p log. snd (Write (NewStdLogger c) p log)) lines log)"
proof (induction lines arbitrary: log)
  case (Cons p lines)
  have "snd (Write (NewQuietStdLogger c) p (filter (\<lambda>(l, msg). LevelWarn \<le> l) log)) =
      filter (\<lambda>(l, msg). LevelWarn \<le> l) (snd (Write (NewStdLogger c) p log))"
    using Write_append [of c p log] by (simp add: Write_cases)
  then show ?case using Cons.IH [of "snd (Write (NewStdLogger c) p log)"] by simp
qed simp

end
