(* ===== verification/Admin_Server.thy ===== *)
theory Admin_Server
  imports Scenario
begin

text \<open>
  The administration server, \<open>antsd/internal/admin/server.go\<close>: the routes, the user actions with the
  status codes of their outcomes, the monitoring endpoints. The network, the HTML template and the
  encoding of a JSON value into bytes are not part of the model; the body of \<open>/status\<close> is the JSON
  value itself. The \<open>Controller\<close> interface is the locale \<open>controller_contract\<close>, interpreted on the
  handlers of the manager.
\<close>

subsection \<open>Status\<close>

record Status = Snapshot +
  sState :: string
  StartedAt :: time
  UptimeSeconds :: int

text \<open>\<open>Duration.Round\<close> to a positive unit: half away from zero, or unchanged when that overflows.\<close>

definition Round :: "duration \<Rightarrow> duration \<Rightarrow> duration" where
  "Round d unit =
    (let r = \<bar>d\<bar> mod unit; down = \<bar>d\<bar> - r; up = down + unit;
         a = (if r + r < unit then down else up); x = (if d < 0 then - a else a)
     in if x < min_duration then min_duration else if x > max_duration then max_duration else x)"

definition Uptime :: "Status \<Rightarrow> duration" where
  "Uptime s = Round (time_sub (CollectedAt s) (StartedAt s)) second"

text \<open>
  \<open>int64(d.Seconds())\<close>: the whole seconds, towards zero. The float between the two is exact enough
  for that as long as it has a spare nanosecond, which uptimes of less than a month give it.
\<close>

definition whole_seconds :: "duration \<Rightarrow> int" where
  "whole_seconds d = sgn d * (\<bar>d\<bar> div second)"

definition status :: "Snapshot \<Rightarrow> string \<Rightarrow> time \<Rightarrow> Status" where
  "status snap st startedAt =
    \<lparr>CollectedAt = CollectedAt snap, NodeName = NodeName snap, Available = Available snap,
     Members = Members snap, sState = st, StartedAt = startedAt,
     UptimeSeconds = whole_seconds (time_sub (CollectedAt snap) startedAt)\<rparr>"

definition json_member :: "member \<Rightarrow> json" where
  "json_member m = JObject [(''name'', JString (Name m)), (''ip'', JString (IP m)),
    (''status'', JString (Status m)),
    (''tags'', JObject (map (\<lambda>(k, v). (k, JString v)) (sort_key fst (Tags m))))]"

text \<open>\<open>show_time\<close> is the RFC 3339 text of an instant. A snapshot without members has a nil slice.\<close>

definition json_status :: "(time \<Rightarrow> string) \<Rightarrow> Status \<Rightarrow> json" where
  "json_status show_time s = JObject
    [(''collected_at'', JString (show_time (CollectedAt s))), (''node_name'', JString (NodeName s)),
     (''available'', JBool (Available s)),
     (''members'', if Available s then JArray (map json_member (Members s)) else JNull),
     (''state'', JString (sState s)), (''started_at'', JString (show_time (StartedAt s))),
     (''uptime_seconds'', JNumber (UptimeSeconds s))]"

subsection \<open>The controller\<close>

record 'c controller =
  cState :: "'c \<Rightarrow> string"
  cRequestBootstrap :: "'c \<Rightarrow> action_error option \<times> 'c"
  cConfirmBootstrap :: "'c \<Rightarrow> action_error option \<times> 'c"
  cCancelBootstrap :: "'c \<Rightarrow> action_error option \<times> 'c"

definition controller_action :: "user_action \<Rightarrow> 'c controller \<Rightarrow> 'c \<Rightarrow> action_error option \<times> 'c" where
  "controller_action a C =
    (case a of RequestBootstrap \<Rightarrow> cRequestBootstrap C | ConfirmBootstrap \<Rightarrow> cConfirmBootstrap C
     | CancelBootstrap \<Rightarrow> cCancelBootstrap C)"

text \<open>The state an action is allowed in, and the one it leaves.\<close>

definition action_before :: "user_action \<Rightarrow> node_state" where
  "action_before a = (if a = RequestBootstrap then StateDiscovering else StateBootstrapConfirm)"

definition action_after :: "user_action \<Rightarrow> node_state" where
  "action_after a = (if a = CancelBootstrap then StateDiscovering else StateBootstrapConfirm)"

text \<open>
  The comments of the interface: \<open>ErrConflict\<close> means that the action is not allowed in the current
  state; an action that succeeds is one of the three steps of the screens.
\<close>

locale controller_contract =
  fixes C :: "'c controller" and coherent :: "'c \<Rightarrow> bool"
  assumes error_keeps_state:
      "coherent s \<Longrightarrow> controller_action a C s = (Some err, s') \<Longrightarrow> cState C s' = cState C s"
    and success_moves: "coherent s \<Longrightarrow> controller_action a C s = (None, s') \<Longrightarrow>
        cState C s = state_string (action_before a) \<and> cState C s' = state_string (action_after a)"
    and wrong_state_refused: "coherent s \<Longrightarrow> cState C s \<noteq> state_string (action_before a) \<Longrightarrow>
        \<exists>err. controller_action a C s = (Some err, s) \<and> is_conflict err"

text \<open>
  The manager as a controller. An action waits for the run loop, which handles it in one turn; this is
  that turn, on a manager whose state is mirrored, as it is after every transition.
\<close>

definition manager_controller :: "world \<Rightarrow> manager controller" where
  "manager_controller w = \<lparr>cState = StateC, cRequestBootstrap = onRequestBootstrap w,
    cConfirmBootstrap = onConfirmBootstrap w, cCancelBootstrap = onCancelBootstrap\<rparr>"

definition mirrored :: "manager \<Rightarrow> bool" where
  "mirrored m \<longleftrightarrow> m_stateView m = m_state m"

lemma StateC_mirrored: "mirrored m \<Longrightarrow> StateC m = state_string (m_state m)"
  by (simp add: mirrored_def StateC_def)

lemma manager_action_cases:
  assumes "controller_action a (manager_controller w) m = (r, m')"
  shows "if m_state m \<noteq> action_before a then m' = m \<and> (\<exists>what. r = Some (StateConflict what (m_state m)))
    else if r = None then m_state m' = action_after a \<and> (m_stateView m = m_state m \<longrightarrow> m_stateView m' = m_state m')
    else m_state m' = m_state m \<and> m_stateView m' = m_stateView m"
  using assms
  by (cases a) (auto simp: controller_action_def manager_controller_def action_before_def action_after_def
      onRequestBootstrap_def onConfirmBootstrap_def onCancelBootstrap_def call_defs
      split: prod.splits option.splits if_splits)

interpretation manager_controller: controller_contract "manager_controller w" mirrored for w
proof unfold_locales
  fix m m' a err
  assume m: "mirrored m" and act: "controller_action a (manager_controller w) m = (Some err, m')"
  show "cState (manager_controller w) m' = cState (manager_controller w) m"
    using manager_action_cases [OF act] by (auto simp: manager_controller_def StateC_def split: if_splits)
next
  fix m m' a
  assume m: "mirrored m" and act: "controller_action a (manager_controller w) m = (None, m')"
  show "cState (manager_controller w) m = state_string (action_before a) \<and>
      cState (manager_controller w) m' = state_string (action_after a)"
    using manager_action_cases [OF act] m by (auto simp: manager_controller_def StateC_def mirrored_def split: if_splits)
next
  fix m a
  assume m: "mirrored m" and wrong: "cState (manager_controller w) m \<noteq> state_string (action_before a)"
  obtain r m' where act: "controller_action a (manager_controller w) m = (r, m')" by fastforce
  have "m_state m \<noteq> action_before a" using wrong m by (auto simp: manager_controller_def StateC_mirrored)
  then show "\<exists>err. controller_action a (manager_controller w) m = (Some err, m) \<and> is_conflict err"
    using manager_action_cases [OF act] act by auto
qed

subsection \<open>Requests\<close>

datatype http_method = GET | HEAD | POST | OtherMethod string

record request =
  rMethod :: http_method
  rPath :: string

datatype body = PlainText string | Html string | Json json

record response =
  code :: nat
  location :: "string option"
  rBody :: body

datatype user_error = Refused action_error | ShuttingDown

fun is_ErrConflict :: "user_error \<Rightarrow> bool" where
  "is_ErrConflict (Refused err) = is_conflict err"
| "is_ErrConflict ShuttingDown = False"

text \<open>\<open>source\<close> and \<open>down\<close> read the state of the daemon: its snapshot, and whether it shuts down.\<close>

record 'c server =
  source :: "'c \<Rightarrow> Snapshot"
  sController :: "'c controller"
  down :: "'c \<Rightarrow> bool"
  startedAt :: time
  render :: "Status \<Rightarrow> string \<times> error option"
  show_time :: "time \<Rightarrow> string"
  show_error :: "user_error \<Rightarrow> string"

definition submitUserAction :: "'c server \<Rightarrow> user_action \<Rightarrow> 'c \<Rightarrow> user_error option \<times> 'c" where
  "submitUserAction S a s =
    (if down S s then (Some ShuttingDown, s)
     else case controller_action a (sController S) s of (err, s) \<Rightarrow> (map_option Refused err, s))"

definition handleAction :: "'c server \<Rightarrow> user_action \<Rightarrow> 'c \<Rightarrow> response \<times> 'c" where
  "handleAction S a s =
    (case submitUserAction S a s of
       (Some err, s) \<Rightarrow>
         (\<lparr>code = if is_ErrConflict err then 409 else 500, location = None, rBody = PlainText (show_error S err)\<rparr>, s)
     | (None, s) \<Rightarrow> (\<lparr>code = 303, location = Some ''/'', rBody = PlainText ''''\<rparr>, s))"

definition handleHealth :: response where
  "handleHealth = \<lparr>code = 200, location = None, rBody = PlainText (''ok'' @ [CHR 0x0A])\<rparr>"

definition server_status :: "'c server \<Rightarrow> 'c \<Rightarrow> Status" where
  "server_status S s = status (source S s) (cState (sController S) s) (startedAt S)"

definition writeJSON :: "nat \<Rightarrow> json \<Rightarrow> response" where
  "writeJSON st v = \<lparr>code = st, location = None, rBody = Json v\<rparr>"

definition handleStatus :: "'c server \<Rightarrow> 'c \<Rightarrow> response" where
  "handleStatus S s = writeJSON 200 (json_status (show_time S) (server_status S s))"

text \<open>A template that fails after it wrote something has sent the status 200 already.\<close>

definition handleDashboard :: "'c server \<Rightarrow> 'c \<Rightarrow> response" where
  "handleDashboard S s =
    (case render S (server_status S s) of
       (page, None) \<Rightarrow> \<lparr>code = 200, location = None, rBody = Html page\<rparr>
     | (page, Some err) \<Rightarrow>
         if page = '''' then \<lparr>code = 500, location = None, rBody = PlainText ''Internal Server Error''\<rparr>
         else \<lparr>code = 200, location = None, rBody = Html (page @ ''Internal Server Error'')\<rparr>)"

datatype endpoint = Dashboard | Health | StatusPage | Action user_action | MethodNotAllowed

text \<open>
  The patterns of \<open>NewServer\<close>, as \<open>http.ServeMux\<close> matches them on a clean path: \<open>GET /\<close> takes every
  path the others leave, \<open>GET\<close> patterns take \<open>HEAD\<close>, and a path that only other methods match is refused.
\<close>

definition route :: "request \<Rightarrow> endpoint" where
  "route r =
    (if rMethod r = GET \<or> rMethod r = HEAD then
       if rPath r = ''/health'' then Health else if rPath r = ''/status'' then StatusPage else Dashboard
     else if rMethod r = POST then
       if rPath r = ''/bootstrap'' then Action RequestBootstrap
       else if rPath r = ''/bootstrap/confirm'' then Action ConfirmBootstrap
       else if rPath r = ''/bootstrap/cancel'' then Action CancelBootstrap
       else MethodNotAllowed
     else MethodNotAllowed)"

definition serve :: "'c server \<Rightarrow> request \<Rightarrow> 'c \<Rightarrow> response \<times> 'c" where
  "serve S r s =
    (case route r of
       Dashboard \<Rightarrow> (handleDashboard S s, s)
     | Health \<Rightarrow> (handleHealth, s)
     | StatusPage \<Rightarrow> (handleStatus S s, s)
     | Action a \<Rightarrow> handleAction S a s
     | MethodNotAllowed \<Rightarrow> (\<lparr>code = 405, location = None, rBody = PlainText ''Method Not Allowed''\<rparr>, s))"

context controller_contract
begin

lemma action_outcome:
  assumes "sController S = C" and "coherent s" and "handleAction S a s = (resp, s')"
  shows "code resp \<in> {303, 409, 500}
    \<and> (code resp = 303 \<longrightarrow> cState C s = state_string (action_before a) \<and> cState C s' = state_string (action_after a))
    \<and> (code resp \<noteq> 303 \<longrightarrow> cState C s' = cState C s)
    \<and> (cState C s \<noteq> state_string (action_before a) \<longrightarrow> s' = s \<and> (\<not> down S s \<longrightarrow> code resp = 409))"
proof (cases "down S s")
  case True
  then show ?thesis using assms by (auto simp: handleAction_def submitUserAction_def)
next
  case False
  obtain err s1 where act: "controller_action a C s = (err, s1)" by fastforce
  have s': "s' = s1" and code: "code resp = (case err of None \<Rightarrow> 303 | Some e \<Rightarrow> if is_conflict e then 409 else 500)"
    using assms False act by (auto simp: handleAction_def submitUserAction_def split: option.splits)
  show ?thesis
  proof (cases err)
    case None
    with success_moves [OF assms(2)] act s' code show ?thesis by auto
  next
    case (Some e)
    have "s1 = s \<and> is_conflict e" if "cState C s \<noteq> state_string (action_before a)"
      using wrong_state_refused [OF assms(2) that] act Some by auto
    with error_keeps_state [OF assms(2), of a e s1] act s' code Some False show ?thesis by auto
  qed
qed

end


definition demo_server :: "world \<Rightarrow> manager server" where
  "demo_server w = \<lparr>source = \<lambda>m. wSnapshot w (m_calls m), sController = manager_controller w,
    down = \<lambda>m. False, startedAt = 0, render = \<lambda>st. (''page'', None), show_time = \<lambda>t. '''', show_error = \<lambda>err. ''refused''\<rparr>"


subsection \<open>The status page\<close>

lemma Round_nonneg:
  assumes "0 < unit" and "0 \<le> d" and "d \<le> max_duration - unit"
  shows "Round d unit = (if 2 * (d mod unit) < unit then d div unit * unit else (d div unit + 1) * unit)"
proof -
  let ?q = "d div unit" and ?r = "d mod unit"
  have d: "d = ?q * unit + ?r" "0 \<le> ?r" "?r < unit" using assms(1) by simp_all
  have up: "(?q + 1) * unit = d - ?r + unit" "?q * unit = d - ?r" by (simp_all add: distrib_right minus_mod_eq_div_mult [symmetric])
  have "0 \<le> ?q" using assms by (simp add: pos_imp_zdiv_nonneg_iff)
  then have "0 \<le> d - ?r" using assms(1) by (simp add: minus_mod_eq_div_mult)
  then show ?thesis
    using assms d(2,3) unfolding up Round_def Let_def min_duration_def by (simp add: abs_if)
qed

text \<open>
  The status page shows the members and the state as they are; its two ages agree: the seconds
  count the whole seconds since the start and the rounded age is one of the two next to it, at most
  half a second off.
\<close>

theorem status_ages:
  assumes "0 \<le> CollectedAt snap - started" and "CollectedAt snap - started \<le> max_duration - second"
  shows "(let s = status snap st started; age = CollectedAt snap - started in
      Members s = Members snap \<and> sState s = st
      \<and> UptimeSeconds s * second \<le> age \<and> age < (UptimeSeconds s + 1) * second
      \<and> (Uptime s = UptimeSeconds s * second \<or> Uptime s = (UptimeSeconds s + 1) * second)
      \<and> 2 * \<bar>Uptime s - age\<bar> \<le> second)"
proof -
  let ?age = "CollectedAt snap - started"
  have sub: "time_sub (CollectedAt snap) started = ?age"
    using assms by (intro time_sub_exact) (simp_all add: min_duration_def second_def)
  have secs: "UptimeSeconds (status snap st started) = ?age div second"
    using assms(1) by (simp add: status_def whole_seconds_def sub sgn_if)
  have up: "Uptime (status snap st started) =
      (if 2 * (?age mod second) < second then ?age div second * second else (?age div second + 1) * second)"
    using Round_nonneg [OF _ assms] by (simp add: Uptime_def status_def sub second_def)
  obtain q r where qr: "?age div second = q" "?age mod second = r" by simp
  then have age: "?age = q * second + r" "0 \<le> r" "r < second"
    using div_mult_mod_eq [of ?age second] by (auto simp: second_def)
  show ?thesis unfolding Let_def secs up qr unfolding age(1) using age(2,3) by (simp add: status_def distrib_right)
qed

theorem status_ages_witness:
  "UptimeSeconds (status (\<lparr>CollectedAt = 3700000000, NodeName = ''n'', Available = True, Members = []\<rparr>) ''discovering'' 0) = 3
    \<and> Uptime (status (\<lparr>CollectedAt = 3700000000, NodeName = ''n'', Available = True, Members = []\<rparr>) ''discovering'' 0) = 4 * second"
proof -
  let ?snap = "\<lparr>CollectedAt = 3700000000, NodeName = ''n'', Available = True, Members = []\<rparr>"
  have "0 \<le> CollectedAt ?snap - 0" "CollectedAt ?snap - 0 \<le> max_duration - second"
    by (simp_all add: max_duration_def second_def)
  from status_ages [OF this, of "''discovering''"]
  have u: "UptimeSeconds (status ?snap ''discovering'' 0) * second \<le> 3700000000"
      "3700000000 < (UptimeSeconds (status ?snap ''discovering'' 0) + 1) * second"
    and v: "Uptime (status ?snap ''discovering'' 0) = UptimeSeconds (status ?snap ''discovering'' 0) * second
        \<or> Uptime (status ?snap ''discovering'' 0) = (UptimeSeconds (status ?snap ''discovering'' 0) + 1) * second"
      "2 * \<bar>Uptime (status ?snap ''discovering'' 0) - 3700000000\<bar> \<le> second"
    unfolding Let_def by simp_all
  have three: "UptimeSeconds (status ?snap ''discovering'' 0) = 3" using u by (simp add: second_def)
  with v show ?thesis by (auto simp: second_def)
qed

end
