(* ===== verification/Startup.thy ===== *)
theory Startup
  imports Single_Flight Background_Ops Discovery Log_Bridge Admin_Server
begin

text \<open>
  The start of the daemon: \<open>cmd/antsd/main.go\<close>, \<open>New\<close> and the beginning of \<open>Run\<close> of
  \<open>cluster/manager.go\<close>, \<open>Start\<close> of \<open>serfnode.go\<close>, \<open>Start\<close> and \<open>pollLoop\<close> of \<open>mdns.go\<close>, and of
  \<open>admin/server.go\<close> what can fail there. The libraries and the system are the record \<open>host\<close>.
\<close>

subsection \<open>Back ends\<close>

datatype backends =
    FakeBackends fake
  | ExecBackends exec_installer exec_control

text \<open>The clock and the tie of a simulation are those of the machine it runs on.\<close>

definition New_backends :: "time \<Rightarrow> bool \<Rightarrow> config \<Rightarrow> backends" where
  "New_backends t tie conf =
    (if K3sInstaller conf = InstallerFake then
       FakeBackends (NewFakeControlPlane (SetInstalledRole (role_of (K3sFakeInstalledRole conf)) (NewFakeInstaller t tie)))
     else ExecBackends (NewExecInstaller (K3sToken conf) (NodeNameC conf)) NewExecControlPlane)"

subsection \<open>The Serf agent\<close>

definition reconnectTimeout :: duration where
  "reconnectTimeout = 10 * 365 * 24 * hour"

text \<open>What \<open>Start\<close> sets in the library's configuration.\<close>

record serf_config =
  scNodeName :: string
  scBindAddr :: string
  scBindPort :: int
  scLogger :: log_writer
  scMemberlistLogger :: log_writer
  scReconnectTimeout :: duration
  scTags :: "(string \<times> string) list"

definition serf_config_of :: "config \<Rightarrow> serf_config" where
  "serf_config_of conf =
    \<lparr>scNodeName = NodeNameC conf, scBindAddr = SerfBindAddr conf, scBindPort = SerfBindPort conf,
     scLogger = NewQuietStdLogger ''SERF'', scMemberlistLogger = NewQuietStdLogger ''MEMBERLIST'',
     scReconnectTimeout = reconnectTimeout, scTags = [(stateTagKey, state_string StateStarting)]\<rparr>"

record mdns_service =
  msInstance :: string
  msService :: string
  msDomain :: string
  msHostName :: string
  msPort :: int
  msIPs :: "string list"
  msTXT :: "string list"

record 'l host =
  hCreate :: "serf_config \<Rightarrow> error + 'l"
  hLocalNode :: "'l \<Rightarrow> string \<times> string"
  hNewMDNSService :: "mdns_service \<Rightarrow> error option"
  hNewServer :: "mdns_service \<Rightarrow> error option"
  hParseTemplates :: "error option"
  hListen :: "string \<Rightarrow> error option"

subsection \<open>Discovery\<close>

definition mdns_service_of :: "discovery_config \<Rightarrow> mdns_service" where
  "mdns_service_of c =
    \<lparr>msInstance = dNodeName c, msService = serviceName (ClusterName c), msDomain = '''', msHostName = '''',
     msPort = BindPort c, msIPs = [BindIP c], msTXT = [''antsd'']\<rparr>"

definition Discoverer_Start :: "'l host \<Rightarrow> 'a discoverer \<Rightarrow> error option" where
  "Discoverer_Start h d =
    (let service = mdns_service_of (dConfig d) in
     case hNewMDNSService h service of
       Some err \<Rightarrow> Some (''failed to create mDNS service: '' @ err)
     | None \<Rightarrow>
       case hNewServer h service of
         Some err \<Rightarrow> Some (''failed to start mDNS server: '' @ err)
       | None \<Rightarrow> None)"

text \<open>
  The loop of the discovery, on what its \<open>select\<close> receives: a tick, with the entries its lookup
  gets, or the end of the context. The flag says whether the mDNS server was shut down.
\<close>

datatype poll_event = Tick "entry list" | CtxDone

fun pollLoop :: "poll_event list \<Rightarrow> 'a discoverer \<times> 'a \<Rightarrow> bool \<times> 'a discoverer \<times> 'a" where
  "pollLoop [] st = (False, st)"
| "pollLoop (CtxDone # es) st = (True, st)"
| "pollLoop (Tick found # es) st = pollLoop es (lookupOnce found st)"

subsection \<open>The start\<close>

definition Node_Start ::
  "'l host \<Rightarrow> 'l serflib \<Rightarrow> config \<Rightarrow> 'l serf_node \<Rightarrow> (error + 'l serf_node discoverer) \<times> 'l serf_node" where
  "Node_Start h lib conf nd =
    (case hCreate h (serf_config_of conf) of
       Inl err \<Rightarrow> (Inl err, nd)
     | Inr l \<Rightarrow>
       let nd = started_node (scNodeName (serf_config_of conf)) l nd;
           d = New_discoverer
             \<lparr>ClusterName = clusterName, dNodeName = fst (hLocalNode h l), BindIP = snd (hLocalNode h l),
              BindPort = SerfBindPort conf, QueryInterval = 5 * second\<rparr> (join_peer lib)
       in case Discoverer_Start h d of
            Some err \<Rightarrow> (Inl (''failed to start mdns discovery: '' @ err), nd)
          | None \<Rightarrow> (Inr d, nd))"

definition parseTemplates :: "'l host \<Rightarrow> error option" where
  "parseTemplates h = map_option (\<lambda>err. ''parse dashboard template: '' @ err) (hParseTemplates h)"

text \<open>The settings of the HTTP server that \<open>NewServer\<close> builds; its routes are \<open>Admin_Server.route\<close>.\<close>

record http_server =
  hsAddr :: string
  ReadHeaderTimeout :: duration
  ReadTimeout :: duration
  WriteTimeout :: duration
  IdleTimeout :: duration

definition admin_NewServer :: "'l host \<Rightarrow> int \<Rightarrow> error + http_server" where
  "admin_NewServer h port =
    (case parseTemplates h of
       Some err \<Rightarrow> Inl err
     | None \<Rightarrow> Inr \<lparr>hsAddr = '':'' @ Itoa port, ReadHeaderTimeout = 5 * second, ReadTimeout = 10 * second,
         WriteTimeout = 10 * second, IdleTimeout = 60 * second\<rparr>)"

text \<open>\<open>Start\<close> up to its two goroutines, which are part of theory \<open>Shutdown\<close>.\<close>

definition admin_Start :: "'l host \<Rightarrow> http_server \<Rightarrow> error option" where
  "admin_Start h srv = map_option (\<lambda>err. ''listen on '' @ hsAddr srv @ '': '' @ err) (hListen h (hsAddr srv))"

definition Run :: "'l host \<Rightarrow> 'l serflib \<Rightarrow> world \<Rightarrow> config \<Rightarrow> error + 'l serf_node discoverer \<times> 'l serf_node \<times> sys" where
  "Run h lib w conf =
    (case Node_Start h lib conf New_node of
       (Inl err, nd) \<Rightarrow> Inl err
     | (Inr d, nd) \<Rightarrow>
       case admin_NewServer h (HTTPPort conf) of
         Inl err \<Rightarrow> Inl err
       | Inr srv \<Rightarrow>
         case admin_Start h srv of
           Some err \<Rightarrow> Inl err
         | None \<Rightarrow> Inr (d, nd, Run_start w conf))"

text \<open>A process that exits, or one whose run loop is about to read its first event.\<close>

datatype 'l daemon =
    Exit int
  | Up config backends "'l serf_node discoverer" "'l serf_node" sys

definition main_start ::
  "platform \<Rightarrow> flags \<Rightarrow> time \<Rightarrow> bool \<Rightarrow> 'l host \<Rightarrow> 'l serflib \<Rightarrow> world \<Rightarrow> 'l daemon" where
  "main_start p f t tie h lib w =
    (case Load_config p f of
       Inl err \<Rightarrow> Exit 1
     | Inr conf \<Rightarrow>
       let b = New_backends t tie conf in
       case Run h lib w conf of
         Inl err \<Rightarrow> Exit 1
       | Inr (d, nd, s) \<Rightarrow> Up conf b d nd s)"

lemma Run_Inr:
  "Run h lib w conf = Inr (d, nd, s) \<Longrightarrow> Node_Start h lib conf New_node = (Inr d, nd) \<and> s = Run_start w conf"
  by (auto simp: Run_def split: prod.splits sum.splits option.splits)

lemma Node_Start_Inr:
  assumes "Node_Start h lib conf nd0 = (Inr d, nd)"
  obtains l where "hCreate h (serf_config_of conf) = Inr l" and "nd = started_node (NodeNameC conf) l nd0"
    and "d = New_discoverer
             \<lparr>ClusterName = clusterName, dNodeName = fst (hLocalNode h l), BindIP = snd (hLocalNode h l),
              BindPort = SerfBindPort conf, QueryInterval = 5 * second\<rparr> (join_peer lib)"
    and "Discoverer_Start h d = None"
  using assms that by (auto simp: Node_Start_def Let_def serf_config_of_def split: sum.splits option.splits)

lemma main_start_Up:
  assumes "main_start p f t tie h lib w = Up conf b d nd s"
  shows "Load_config p f = Inr conf" and "b = New_backends t tie conf" and "s = Run_start w conf"
    and "Node_Start h lib conf New_node = (Inr d, nd)"
  using assms by (auto simp: main_start_def Let_def dest: Run_Inr split: sum.splits prod.splits)

text \<open>What the choice of the first state has called, for each thing the disk can hold.\<close>

lemma initial_calls:
  "m_calls (sMgr (Run_start w conf)) =
    (case wLoad w [] of
       Inl LNotExist \<Rightarrow> [IoSetState StateDiscovering, IoLoad]
     | Inl _ \<Rightarrow> [IoSetState StateRejoinFailed, IoLoad]
     | Inr st \<Rightarrow>
       if NodeNameP st \<noteq> NodeNameC conf then [IoSetState StateRejoinFailed, IoLoad]
       else [IoStartOp 2 (OpRejoin (RoleP st)), IoSetState StateRejoinCluster, IoLoad])"
  by (simp add: Run_start_def chooseInitialState_def newManager_def startRejoin_def failRejoin_def call_defs
      Let_def split: sum.split load_error.split)

lemma initial_state:
  "m_state (sMgr (Run_start w conf)) =
    (case wLoad w [] of
       Inl LNotExist \<Rightarrow> StateDiscovering
     | Inl _ \<Rightarrow> StateRejoinFailed
     | Inr st \<Rightarrow> if NodeNameP st \<noteq> NodeNameC conf then StateRejoinFailed else StateRejoinCluster)"
  by (simp add: Run_start_def chooseInitialState_def newManager_def startRejoin_def failRejoin_def call_defs
      Let_def split: sum.split load_error.split)

text \<open>
  C31: a daemon that comes up runs a validated configuration, as a member whose only tag says that it
  is starting, and does one of three things according to the state file: without one it is a machine
  on its first boot and has started nothing; with the one of its own name it only checks the K3s it
  has in the persisted role; with an unreadable one or the one of another name it stops in a failed
  state. It has broadcast, saved and installed nothing. When anything of that fails the process
  exits with status 1.
\<close>

theorem daemon_start:
  "case main_start p f t tie h lib w of
     Exit c \<Rightarrow> c = 1 \<and> (\<forall>conf. Load_config p f = Inr conf \<longrightarrow> (\<exists>err. Run h lib w conf = Inl err))
   | Up conf b d nd s \<Rightarrow>
       Load_config p f = Inr conf \<and> reachable w conf s
       \<and> nName nd = NodeNameC conf \<and> scTags (serf_config_of conf) = [(''state'', ''starting'')]
       \<and> (m_state (sMgr s), ops (m_calls (sMgr s))) =
           (case wLoad w [] of
              Inl LNotExist \<Rightarrow> (StateDiscovering, [])
            | Inl _ \<Rightarrow> (StateRejoinFailed, [])
            | Inr st \<Rightarrow> if NodeNameP st = NodeNameC conf then (StateRejoinCluster, [(2, OpRejoin (RoleP st))])
                else (StateRejoinFailed, []))
       \<and> (\<forall>e \<in> set (m_calls (sMgr s)). e = IoLoad \<or> (\<exists>st. e = IoSetState st) \<or> (\<exists>r. e = IoStartOp 2 (OpRejoin r)))"
proof (cases "main_start p f t tie h lib w")
  case (Exit c)
  then show ?thesis by (auto simp: main_start_def Let_def split: sum.splits prod.splits)
next
  case (Up conf b d nd s)
  note up = main_start_Up [OF Up]
  obtain l where "nd = started_node (NodeNameC conf) l New_node" using Node_Start_Inr [OF up(4)] by blast
  then have "nName nd = NodeNameC conf" by (simp add: started_node_def)
  moreover have "reachable w conf s" unfolding up(3) by (rule reachable_by.start)
  moreover have "(m_state (sMgr s), ops (m_calls (sMgr s))) =
           (case wLoad w [] of
              Inl LNotExist \<Rightarrow> (StateDiscovering, [])
            | Inl _ \<Rightarrow> (StateRejoinFailed, [])
            | Inr st \<Rightarrow> if NodeNameP st = NodeNameC conf then (StateRejoinCluster, [(2, OpRejoin (RoleP st))])
                else (StateRejoinFailed, []))"
    unfolding up(3) initial_state initial_calls by (auto split: sum.split load_error.split)
  moreover have "\<forall>e \<in> set (m_calls (sMgr s)). e = IoLoad \<or> (\<exists>st. e = IoSetState st) \<or> (\<exists>r. e = IoStartOp 2 (OpRejoin r))"
    unfolding up(3) initial_calls by (auto split: sum.splits load_error.splits if_splits)
  ultimately show ?thesis using Up up(1) by (simp add: serf_config_of_def stateTagKey_def)
qed

definition demo_host :: "lib_member list host" where
  "demo_host = \<lparr>hCreate = \<lambda>c. Inr [\<lparr>lName = scNodeName c, lAddr = ''10.0.0.2'', lStatus = ''alive'', lTags = scTags c\<rparr>],
    hLocalNode = \<lambda>l. (lName (hd l), lAddr (hd l)), hNewMDNSService = \<lambda>s. None, hNewServer = \<lambda>s. None,
    hParseTemplates = None, hListen = \<lambda>a. if a = '':9001'' then None else Some ''address in use''\<rparr>"

lemma up_on_demo_host:
  assumes "Load_config p f = Inr conf" and "HTTPPort conf = 9001"
  shows "\<exists>d nd s. main_start p f t tie demo_host demo_lib w = Up conf (New_backends t tie conf) d nd s"
proof -
  have "'':'' @ Itoa 9001 = '':9001''" by (simp add: Itoa_def)
  then obtain d nd s where "Run demo_host demo_lib w conf = Inr (d, nd, s)"
    using assms(2) by (simp add: Run_def Node_Start_def Discoverer_Start_def admin_NewServer_def parseTemplates_def admin_Start_def demo_host_def Let_def)
  then show ?thesis by (simp add: main_start_def assms(1) Let_def)
qed

theorem daemon_start_witness:
  "\<exists>conf b d nd s. main_start demo_platform no_flags 0 False demo_host demo_lib joiner_world = Up conf b d nd s
    \<and> nName nd = ''ants-11000a'' \<and> m_state (sMgr s) = StateDiscovering \<and> ops (m_calls (sMgr s)) = []"
proof -
  have name: "case_sum (\<lambda>e. False) (\<lambda>c. NodeNameC c = ''ants-11000a'' \<and> HTTPPort c = 9001) (Load_config demo_platform no_flags)"
    by code_simp
  then obtain conf where conf: "Load_config demo_platform no_flags = Inr conf" "NodeNameC conf = ''ants-11000a''" "HTTPPort conf = 9001"
    by (cases "Load_config demo_platform no_flags") auto
  obtain b d nd s where up: "main_start demo_platform no_flags 0 False demo_host demo_lib joiner_world = Up conf b d nd s"
    using up_on_demo_host [OF conf(1,3)] by blast
  have "wLoad joiner_world [] = Inl LNotExist" by (simp add: joiner_world_def steady_world_def)
  with daemon_start [where p = demo_platform and f = no_flags and t = 0 and tie = False and h = demo_host
      and lib = demo_lib and w = joiner_world] up conf(2) show ?thesis by simp
qed

subsection \<open>Replaying a rejoin on the simulated installer\<close>

text \<open>
  The development option does what its comment says. A daemon that came up with the simulated
  installer and an installed role replays the rejoin of a machine with that role: the rejoin operation
  succeeds, after the simulated delay, exactly when the state file holds the role of the option, and
  without the option it always fails.
\<close>

theorem fake_role_replays_rejoin:
  assumes "main_start p f t tie h lib w = Up conf (FakeBackends machine) d nd s"
    and "RoleP st \<in> {RoleServer, RoleAgent}"
    and "run_op FakeInstaller FakeControlPlane (NodeNameC conf) rejoinTimeout (OpRejoin (RoleP st)) Background machine = (r, machine')"
  shows "(r = None) = (K3sFakeInstalledRole conf = role_string (RoleP st))
    \<and> fClock machine' = (if r = None then t + fakeInstallDelay else t)"
proof -
  note up = main_start_Up [OF assms(1)]
  have machine: "fInstalled machine = role_of (K3sFakeInstalledRole conf)" "fClock machine = t" "Delay machine = fakeInstallDelay"
    using up(2) by (auto simp: New_backends_def NewFakeControlPlane_def SetInstalledRole_def NewFakeInstaller_def split: if_splits)
  have wait: "wait_ready FakeInstaller role (WithTimeout Background rejoinTimeout t) machine = (None, machine\<lparr>fClock := t + fakeInstallDelay\<rparr>)" for role
    using machine by (simp add: wait_ready_def FakeInstaller_def fake_WaitServerReady_def fake_WaitAgentReady_def simulate_def
        wait_delay_def WithTimeout_def ctx_done_def Background_def Let_def fakeInstallDelay_def rejoinTimeout_def minute_def second_def)
  have check: "checkInstalledRole FakeInstaller role machine =
      (if fInstalled machine = noRole then Some (Wrap ''read the installed k3s role'' ErrNotInstalled)
       else if fInstalled machine \<noteq> role then Some (WrongRole (fInstalled machine) role) else None, machine)" for role
    by (simp add: checkInstalledRole_def FakeInstaller_def fake_InstalledRole_def)
  have clock: "iNow FakeInstaller machine = t" using machine(2) by (simp add: FakeInstaller_def)
  have role: "role_of x = role \<longleftrightarrow> x = role_string role" if "role \<in> {RoleServer, RoleAgent}" for x role
    using that by (auto simp: role_of_def)
  have "(r, machine') = (if fInstalled machine = RoleP st then (None, machine\<lparr>fClock := t + fakeInstallDelay\<rparr>)
      else (if fInstalled machine = noRole then Some (Wrap ''read the installed k3s role'' ErrNotInstalled)
         else Some (WrongRole (fInstalled machine) (RoleP st)), machine))"
    using assms(2,3) by (auto simp: rejoin_op_def Let_def clock check wait wrapping_def)
  then show ?thesis
    using machine(1,2) role [OF assms(2)] by (auto split: if_splits)
qed

text \<open>A developer's machine that claims to be an installed server.\<close>

definition dev_platform :: platform where
  "dev_platform = demo_platform\<lparr>getenv := \<lambda>k. if k = ''ANTSD_K3S_INSTALLER'' then ''fake''
    else if k = ''ANTSD_K3S_FAKE_INSTALLED_ROLE'' then ''server'' else getenv demo_platform k\<rparr>"

theorem fake_role_replays_rejoin_witness:
  "\<exists>conf machine d nd s r machine'. main_start dev_platform no_flags 0 False demo_host demo_lib joiner_world
      = Up conf (FakeBackends machine) d nd s
    \<and> run_op FakeInstaller FakeControlPlane (NodeNameC conf) rejoinTimeout (OpRejoin RoleServer) Background machine = (r, machine')
    \<and> r = None \<and> fClock machine' = 3 * second"
proof -
  have "case_sum (\<lambda>e. False) (\<lambda>c. K3sFakeInstalledRole c = ''server'' \<and> K3sInstaller c = InstallerFake \<and> HTTPPort c = 9001)
      (Load_config dev_platform no_flags)"
    by code_simp
  then obtain conf where conf: "Load_config dev_platform no_flags = Inr conf" "K3sFakeInstalledRole conf = ''server''"
      "K3sInstaller conf = InstallerFake" "HTTPPort conf = 9001"
    by (cases "Load_config dev_platform no_flags") auto
  obtain machine where "New_backends 0 False conf = FakeBackends machine" using conf(3) by (simp add: New_backends_def)
  then obtain d nd s where up: "main_start dev_platform no_flags 0 False demo_host demo_lib joiner_world
      = Up conf (FakeBackends machine) d nd s"
    using up_on_demo_host [OF conf(1,4)] by metis
  obtain r machine' where run: "run_op FakeInstaller FakeControlPlane (NodeNameC conf) rejoinTimeout
      (OpRejoin (RoleP server_state)) Background machine = (r, machine')" by fastforce
  have "RoleP server_state = RoleServer" by (simp add: server_state_def)
  with fake_role_replays_rejoin [OF up _ run] run up conf(2) show ?thesis
    by (auto simp: fakeInstallDelay_def)
qed

subsection \<open>Two nodes on a network\<close>

text \<open>The name under which the mDNS library announces a service; its default domain is \<open>local\<close>.\<close>

definition announced_name :: "mdns_service \<Rightarrow> string" where
  "announced_name s =
    msInstance s @ ''.'' @ msService s @ ''.'' @ (if msDomain s = '''' then ''local'' else msDomain s) @ ''.''"

lemma pollLoop_ticks: "pollLoop (map Tick rounds) st = (False, lookups rounds st)"
  by (induction rounds arbitrary: st) (simp_all add: lookups_def)

lemma handleEntry_new:
  assumes "suffix (instanceSuffix (ClusterName (dConfig d))) (entName e)" and "AddrV4 e \<noteq> ''''" and "seen d = []"
  shows "handleEntry e (d, s) = (d\<lparr>seen := [peer_addr e]\<rparr>, onFind d (peer_addr e) s)"
  using assms by (simp add: handleEntry_def Let_def)

text \<open>
  C36: two daemons started with the same defaults find each other. When the announcement of the one
  is the first entry the other gets, the other asks Serf to join exactly the address and port the
  first advertises, whatever the two nodes are called.
\<close>

theorem started_nodes_find_each_other:
  assumes "Node_Start h1 lib1 conf1 New_node = (Inr d1, nd1)"
    and "Node_Start h2 lib2 conf2 New_node = (Inr d2, nd2)"
    and "entName e = announced_name (mdns_service_of (dConfig d1))"
    and "msIPs (mdns_service_of (dConfig d1)) = [AddrV4 e]" and "msPort (mdns_service_of (dConfig d1)) = Port e"
    and "AddrV4 e \<noteq> ''''"
  shows "snd (snd (pollLoop [Tick [e]] (d2, nd2))) = snd (Node_Join lib2 [JoinHostPort (AddrV4 e) (Itoa (SerfBindPort conf1))] nd2)"
proof -
  obtain l1 where d1: "d1 = New_discoverer
             \<lparr>ClusterName = clusterName, dNodeName = fst (hLocalNode h1 l1), BindIP = snd (hLocalNode h1 l1),
              BindPort = SerfBindPort conf1, QueryInterval = 5 * second\<rparr> (join_peer lib1)"
    using Node_Start_Inr [OF assms(1)] by blast
  obtain l2 where d2: "d2 = New_discoverer
             \<lparr>ClusterName = clusterName, dNodeName = fst (hLocalNode h2 l2), BindIP = snd (hLocalNode h2 l2),
              BindPort = SerfBindPort conf2, QueryInterval = 5 * second\<rparr> (join_peer lib2)"
    using Node_Start_Inr [OF assms(2)] by blast
  have "suffix (instanceSuffix clusterName) (announced_name (mdns_service_of (dConfig d1)))"
    by (simp add: suffix_def d1 New_discoverer_def mdns_service_of_def announced_name_def instanceSuffix_def mdnsDomain_def)
  then have "suffix (instanceSuffix (ClusterName (dConfig d2))) (entName e)"
    by (simp add: assms(3) d2 New_discoverer_def)
  then have "handleEntry e (d2, nd2) = (d2\<lparr>seen := [peer_addr e]\<rparr>, onFind d2 (peer_addr e) nd2)"
    by (rule handleEntry_new [OF _ assms(6)]) (simp add: d2 New_discoverer_def)
  moreover have "peer_addr e = JoinHostPort (AddrV4 e) (Itoa (SerfBindPort conf1))"
    using assms(5) by (simp add: peer_addr_def d1 New_discoverer_def mdns_service_of_def)
  ultimately show ?thesis
    by (simp add: lookupOnce_def entriesBufferSize_def join_peer_def) (simp add: d2 New_discoverer_def join_peer_def)
qed

theorem started_nodes_find_each_other_witness:
  "\<exists>d nd. Node_Start demo_host demo_lib (demo_config ''ants02'') New_node = (Inr d, nd)
    \<and> snd (snd (pollLoop [Tick [\<lparr>entName = ''ants02._antsd-antsd-cluster._tcp.local.'', AddrV4 = ''10.0.0.2'', Port = 7946\<rparr>]] (d, nd)))
        = snd (Node_Join demo_lib [''10.0.0.2:7946''] nd)"
proof -
  let ?e = "\<lparr>entName = ''ants02._antsd-antsd-cluster._tcp.local.'', AddrV4 = ''10.0.0.2'', Port = 7946\<rparr>"
  obtain d nd where start: "Node_Start demo_host demo_lib (demo_config ''ants02'') New_node = (Inr d, nd)"
    by (simp add: Node_Start_def Discoverer_Start_def demo_host_def Let_def)
  have d: "dConfig d = \<lparr>ClusterName = clusterName, dNodeName = ''ants02'', BindIP = ''10.0.0.2'', BindPort = 7946, QueryInterval = 5 * second\<rparr>"
    using start by (auto simp: Node_Start_def Discoverer_Start_def demo_host_def New_discoverer_def serf_config_of_def
        demo_config_def Let_def)
  have "entName ?e = announced_name (mdns_service_of (dConfig d))" "msIPs (mdns_service_of (dConfig d)) = [AddrV4 ?e]"
      "msPort (mdns_service_of (dConfig d)) = Port ?e" "AddrV4 ?e \<noteq> ''''"
    by (simp_all add: d mdns_service_of_def announced_name_def serviceName_def clusterName_def)
  note join = started_nodes_find_each_other [OF start start this]
  have "JoinHostPort ''10.0.0.2'' (Itoa 7946) = ''10.0.0.2:7946''" by (simp add: Itoa_def JoinHostPort_def)
  with join start show ?thesis by (auto simp: demo_config_def)
qed

end
