(* ===== verification/Shutdown.thy ===== *)
theory Shutdown
  imports Startup
begin

text \<open>
  The end of the daemon: the signal that cancels the context of \<open>main\<close>, the run loop that returns, the two
  goroutines of \<open>Start\<close> in \<open>admin/server.go\<close>, and \<open>main\<close>, which returns after \<open>Run\<close>. A process that
  exits takes all its goroutines with it. \<open>http.Server\<close> is modelled by what the code relies on: \<open>Shutdown\<close>
  closes the listener, then returns when no request is being handled or when its context is done.
\<close>

definition shutdownTimeout :: duration where
  "shutdownTimeout = 5 * second"

text \<open>The goroutine that waits for the context and then calls \<open>Shutdown\<close>.\<close>

datatype drain = AwaitsDone | Draining time | Returned "ctx_error option"

record daemon_run =
  dSys :: sys
  dClock :: time
  dDone :: bool
  dListening :: bool
  dAccepted :: nat
  dAnswered :: nat
  dDrain :: drain
  dExited :: bool

abbreviation in_flight :: "daemon_run \<Rightarrow> nat" where
  "in_flight d \<equiv> dAccepted d - dAnswered d"

definition daemon_up :: "time \<Rightarrow> sys \<Rightarrow> daemon_run" where
  "daemon_up t s = \<lparr>dSys = s, dClock = t, dDone = False, dListening = True, dAccepted = 0, dAnswered = 0,
    dDrain = AwaitsDone, dExited = False\<rparr>"

text \<open>
  \<open>Loop Shutdown\<close> is the branch of the run loop that the context takes. A clock tick never passes the
  deadline of a \<open>Shutdown\<close> that is running.
\<close>

datatype daemon_act =
    Loop action
  | Signal
  | Pass nat
  | AcceptRequest
  | AnswerRequest
  | ServeFails
  | BeginShutdown
  | Drained
  | DrainExpires
  | MainReturns

fun daemon_enabled :: "daemon_run \<Rightarrow> daemon_act \<Rightarrow> bool" where
  "daemon_enabled d (Loop a) = (enabled (dSys d) a \<and> (a = Shutdown \<longrightarrow> dDone d))"
| "daemon_enabled d Signal = (\<not> dDone d)"
| "daemon_enabled d (Pass n) = (case dDrain d of Draining t \<Rightarrow> dClock d + int n \<le> t | _ \<Rightarrow> True)"
| "daemon_enabled d AcceptRequest = dListening d"
| "daemon_enabled d AnswerRequest = (0 < in_flight d)"
| "daemon_enabled d ServeFails = dListening d"
| "daemon_enabled d BeginShutdown = (dDone d \<and> dDrain d = AwaitsDone)"
| "daemon_enabled d Drained = (case dDrain d of Draining t \<Rightarrow> in_flight d = 0 | _ \<Rightarrow> False)"
| "daemon_enabled d DrainExpires = (case dDrain d of Draining t \<Rightarrow> t \<le> dClock d | _ \<Rightarrow> False)"
| "daemon_enabled d MainReturns = sDown (dSys d)"

fun daemon_perform :: "world \<Rightarrow> daemon_act \<Rightarrow> daemon_run \<Rightarrow> daemon_run" where
  "daemon_perform w (Loop a) d = d\<lparr>dSys := perform w a (dSys d)\<rparr>"
| "daemon_perform w Signal d = d\<lparr>dDone := True\<rparr>"
| "daemon_perform w (Pass n) d = d\<lparr>dClock := dClock d + int n\<rparr>"
| "daemon_perform w AcceptRequest d = d\<lparr>dAccepted := dAccepted d + 1\<rparr>"
| "daemon_perform w AnswerRequest d = d\<lparr>dAnswered := dAnswered d + 1\<rparr>"
| "daemon_perform w ServeFails d = d\<lparr>dListening := False\<rparr>"
| "daemon_perform w BeginShutdown d = d\<lparr>dListening := False, dDrain := Draining (dClock d + shutdownTimeout)\<rparr>"
| "daemon_perform w Drained d = d\<lparr>dDrain := Returned None\<rparr>"
| "daemon_perform w DrainExpires d = d\<lparr>dDrain := Returned (Some DeadlineExceeded)\<rparr>"
| "daemon_perform w MainReturns d = d\<lparr>dExited := True\<rparr>"

inductive daemon_reachable :: "world \<Rightarrow> daemon_run \<Rightarrow> daemon_run \<Rightarrow> bool"
  for w :: world and d0 :: daemon_run where
  up: "daemon_reachable w d0 d0"
| act: "daemon_reachable w d0 d \<Longrightarrow> \<not> dExited d \<Longrightarrow> daemon_enabled d a \<Longrightarrow> daemon_reachable w d0 (daemon_perform w a d)"

fun daemon_runs :: "world \<Rightarrow> daemon_act list \<Rightarrow> daemon_run \<Rightarrow> daemon_run option" where
  "daemon_runs w [] d = Some d"
| "daemon_runs w (a # as) d =
    (if \<not> dExited d \<and> daemon_enabled d a then daemon_runs w as (daemon_perform w a d) else None)"

lemma daemon_runs_reachable:
  "daemon_reachable w d0 d \<Longrightarrow> daemon_runs w as d = Some d' \<Longrightarrow> daemon_reachable w d0 d'"
  by (induction w as d rule: daemon_runs.induct) (auto split: if_splits intro: daemon_reachable.act)

subsection \<open>While the process lives\<close>

text \<open>
  \<open>Shutdown\<close> never outlives its deadline and takes no new request, and when it reports success every request
  was answered.
\<close>

lemma graceful_while_alive:
  assumes "daemon_reachable w (daemon_up t s) d"
  shows "dAnswered d \<le> dAccepted d \<and>
    (case dDrain d of
       AwaitsDone \<Rightarrow> True
     | Draining deadline \<Rightarrow> dDone d \<and> \<not> dListening d \<and> dClock d \<le> deadline
     | Returned r \<Rightarrow> dDone d \<and> \<not> dListening d \<and> (r = None \<longrightarrow> in_flight d = 0))"
  using assms
proof (induction rule: daemon_reachable.induct)
  case up
  show ?case by (simp add: daemon_up_def)
next
  case (act d a)
  then show ?case
    by (cases a; cases "dDrain d") (auto simp: shutdownTimeout_def second_def split: drain.splits)
qed

lemma exits_after_the_loop:
  assumes "daemon_reachable w (daemon_up t (Run_start w conf)) d"
  shows "(sDown (dSys d) \<longrightarrow> dDone d) \<and> (dExited d \<longrightarrow> sDown (dSys d))"
  using assms
proof (induction rule: daemon_reachable.induct)
  case up
  show ?case by (simp add: daemon_up_def Run_start_def)
next
  case (act d a)
  show ?case
  proof (cases a)
    case (Loop b)
    then show ?thesis using act by (cases b) auto
  qed (use act in auto)
qed

subsection \<open>The exit does not wait\<close>

text \<open>
  C38: nothing makes the process wait for its graceful shutdown. \<open>Run\<close> returns as soon as the loop takes
  the end of the context, and \<open>main\<close> returns after it: at the very instant of the signal the process can
  be gone with a request in flight, \<open>Shutdown\<close> having returned nothing and its five seconds unused.
\<close>

theorem exit_outruns_shutdown:
  "\<exists>d. daemon_reachable joiner_world (daemon_up t (Run_start joiner_world (demo_config ''ants02''))) d
    \<and> dExited d \<and> in_flight d = 1 \<and> dClock d = t \<and> dDrain d = Draining (t + 5 * second)"
proof -
  let ?d = "daemon_up t (Run_start joiner_world (demo_config ''ants02''))"
  let ?acts = "[AcceptRequest, Signal, BeginShutdown, Loop Shutdown, MainReturns]"
  obtain d where d: "daemon_runs joiner_world ?acts ?d = Some d" "dExited d" "in_flight d = 1" "dClock d = t"
      "dDrain d = Draining (t + 5 * second)"
    by (simp add: daemon_up_def Run_start_def shutdownTimeout_def)
  from daemon_runs_reachable [OF daemon_reachable.up d(1)] d show ?thesis by blast
qed

end
