(* ===== verification/Spec2Isabelle.thy ===== *)
theory Spec2Isabelle
  imports Rescale_Rounds Bootstrap_Order Round_Warrants First_Server Op_Timing Wire_Types Reboots Shutdown
begin

text \<open>
  A verification library for \<open>antsd\<close>, the daemon under \<open>src/antsd\<close> that turns a set of identical
  machines on one network into a highly available K3s cluster without any configuration.

  \<^bold>\<open>The program.\<close> Every machine runs one daemon. It finds its peers over mDNS
  (\<open>internal/discovery\<close>), shares a membership with them through the Serf library
  (\<open>internal/serfnode\<close>) and publishes its lifecycle state as a Serf tag. The manager
  (\<open>internal/cluster\<close>) is a single goroutine: it reads Serf events and commands from two channels
  and handles each with the state of the node, a snapshot of the membership, timers, user events
  broadcast to all, the state file (\<open>internal/node\<close>), and K3s operations that run in the background
  one at a time (\<open>internal/k3s\<close>). There is no leader: the ranks of the names decide who initialises
  the cluster, who becomes a server, and who may change the etcd membership. Users act through an
  HTTP server (\<open>internal/admin\<close>). Configuration (\<open>internal/config\<close>) and the log bridge
  (\<open>internal/logbridge\<close>) complete it.

  \<^bold>\<open>Theories, in the order of the imports.\<close>
  \<^item> \<open>Antsd_Prelude\<close>: Go's times and durations, the text functions of its library, what the theories
    share.
  \<^item> \<open>Node_State\<close>, \<open>Node_Role\<close> (\<open>node/state.go\<close>, \<open>role.go\<close>): lifecycle states and their tags, roles,
    ranks, the target number of servers.
  \<^item> \<open>Membership\<close>, \<open>Cluster_View\<close> (\<open>admin/server.go\<close>, \<open>cluster/view.go\<close>): members, snapshots and every
    reading of a view. \<open>Rebalancing\<close>: the conversions chosen from a view converge.
  \<^item> \<open>Node_Name\<close>, \<open>Config\<close> (\<open>config/\<close>): derived names, flags, variables, defaults, validation.
  \<^item> \<open>Payloads\<close>, \<open>Persist\<close>: the JSON of the user events and of the state file; \<open>Save\<close> as the sequence of
    the file system states it goes through.
  \<^item> \<open>Manager\<close>, \<open>Bootstrap\<close>, \<open>Joining\<close>, \<open>Rejoin\<close>, \<open>Rescale\<close>, \<open>Forget\<close>, \<open>Dispatch\<close>
    (\<open>cluster/*.go\<close>): the state of the manager and one definition per handler. A handler takes the
    manager and returns it; what it calls outside is appended to the history \<open>m_calls\<close>, and a
    \<open>world\<close> answers each call as a function of that history.
  \<^item> \<open>Lifecycle\<close>, \<open>Manager_Invariant\<close>: the abstract machine of the design documents (\<open>successors\<close>) and the
    invariant \<open>wf_manager\<close>, one preservation lemma per handler (\<open>wf_rules\<close>).
  \<^item> \<open>Run_Loop\<close>: the loop with its channels, timers, background operations, users and shutdown, as atomic
    actions; \<open>reachable\<close> is any interleaving. The locales \<open>run_invariant\<close> and \<open>loop_invariant\<close> reduce an
    invariant of all runs to the entry points of the loop. \<open>Scenario\<close>: concrete clusters and runs.
  \<^item> \<open>Single_Flight\<close>: operations and their answers. \<open>Bootstrap_Order\<close>, \<open>Rescale_Rounds\<close>,
    \<open>Round_Warrants\<close>, \<open>Wire_Types\<close>: the order of the first boot, the guards of the coordination rounds,
    why each round of a run was started, what is broadcast.
  \<^item> \<open>Cluster_Safety\<close>, \<open>Cluster_Runs\<close>: several nodes with interleaved actions. A node starts a round only in
    a turn that read a quiet membership, so on up-to-date snapshots (\<open>ideal_cluster\<close>) rounds exclude each
    other; an order in flight is outside that exclusion. \<open>First_Server\<close>: on such snapshots one node at most
    initialises a cluster, once; on a split network two do.
  \<^item> \<open>K3s_Installer\<close>, \<open>Machine\<close>, \<open>K3s_Exec\<close>, \<open>K3s_Control\<close> (\<open>k3s/*.go\<close>): the two interfaces as records of
    operations with their laws as locales, the simulated implementations, and the real ones over a
    machine with files, a clock, failing system calls, scripts and \<open>kubectl\<close> as parameters.
    \<open>K3s_Exec_Facts\<close>, \<open>K3s_Exec_Safety\<close>: the readiness poll ends; conversions and asset copies are safe.
  \<^item> \<open>Background_Ops\<close>: the closures the manager starts, over the interfaces; their effects follow from the
    laws for both implementations. \<open>Op_Timing\<close>: they end within their timeouts.
  \<^item> \<open>Serf_Node\<close>, \<open>Discovery\<close>, \<open>Log_Bridge\<close>, \<open>Admin_Server\<close>: the remaining packages, over the library
    they wrap as a parameter; the controller interface of the admin server is a locale
    interpreted on the handlers of the manager.
  \<^item> \<open>Startup\<close>: \<open>main\<close>, \<open>New\<close>, the two \<open>Start\<close> functions and the beginning of \<open>Run\<close>. \<open>Shutdown\<close>: the
    signal, the goroutines of the admin server and the return of \<open>main\<close>, as atomic actions.
  \<^item> \<open>Boot_Log\<close>, \<open>Reboots\<close>: what one boot may write and install, read off its history alone, and the life of a
    machine over any number of boots. A boot reads what the previous one left on disk and loses power at any
    call, also between two steps of a save.
  \<^item> This theory: what spans the manager, the loop and the disk.

  \<^bold>\<open>What is shown.\<close> Election and convergence (\<open>Node_Role\<close>, \<open>Rebalancing\<close>); every run refines the
  lifecycle machine, never dereferences a nil state, keeps disk and state in agreement and one
  operation in flight (here); initialisation and installation order (\<open>Bootstrap_Order\<close>); eviction only
  after continuous failure, rounds only under all guards, by one coordinator (\<open>Cluster_View\<close>,
  \<open>Rescale_Rounds\<close>, \<open>Round_Warrants\<close>), one initialisation (\<open>First_Server\<close>) and one round at a
  time (\<open>Cluster_Runs\<close>) in a cluster; over its boots a machine goes through its first boot once and keeps its
  identity, with a boot counter that never decreases (\<open>Reboots\<close>); nothing is installed over K3s, conversions and rounds touch
  only their targets and end in time (\<open>K3s_Exec_Safety\<close>, \<open>Background_Ops\<close>, \<open>Op_Timing\<close>); saving is atomic
  (\<open>Persist\<close>); discovery, events, HTTP requests, configuration and start (the last group). Six
  behaviours that are not what the comments intend are theorems too: \<open>stale_confirmation_skips_install\<close>,
  \<open>failed_erase_restarts_round\<close>, \<open>unknown_role_demotes_server\<close>, \<open>failed_join_not_retried\<close>,
  \<open>late_order_overlaps_round\<close> and \<open>exit_outruns_shutdown\<close>.

  \<^bold>\<open>Bounds and fuel.\<close> Times are integers of nanoseconds; durations saturate where Go's do, and interface
  flags are machine words. The channels hold 16 commands and 64 events, as in the code. The one loop that may
  not end, the readiness poll, takes fuel; \<open>K3s_Exec_Facts.readiness_wait_ends\<close> gives, for any context
  with a deadline, an amount that always suffices. Every other recursion is structural or a fold.

  \<^bold>\<open>Assumptions.\<close> Serf names its members, once each and not with the empty name (\<open>named_world\<close>);
  the snapshots of an ideal cluster show every other node alive in its current state (\<open>up_to_date\<close>);
  \<open>orderly\<close> runs exclude a stale confirmation during the check of a joiner, and
  \<open>stale_confirmation_skips_install\<close> shows why; commands stop when their context ends
  (\<open>obeying_env\<close>); \<open>kubectl\<close> behaves as documented (\<open>kubectl_documented\<close>); the RFC 3339 text of an
  instant reads back as that instant (\<open>reads_back\<close>), and the name of a temporary file, which has a random
  suffix, is not the name of the state file. The boot counter is a 64-bit \<open>int\<close> (\<open>wrap_int\<close>).

  \<^bold>\<open>Not modelled.\<close> Log messages; the Serf, memberlist and mDNS libraries, K3s and \<open>kubectl\<close> themselves
  (parameters); the handling of HTTP connections, whose timeouts are only values of \<open>http_server\<close>; the
  rendering of the embedded HTML template; the process
  exit of \<open>flag.Parse\<close> on a malformed command line; data races (the shared fields are behind
  locks or atomics, and each access is one atomic step of the model).
\<close>

section \<open>Properties of the run loop\<close>

subsection \<open>Runs of the scenarios\<close>

lemma joiner_stable:
  obtains s where "reachable_by orderly joiner_world (demo_config ''ants02'') s"
    and "m_state (sMgr s) = StateStableAgent" and "m_persistedState (sMgr s) \<noteq> None"
proof -
  have "map_option (\<lambda>s. (m_state (sMgr s), m_persistedState (sMgr s) = None))
      (run_by orderly joiner_world join_actions (Run_start joiner_world (demo_config ''ants02'')))
    = Some (StateStableAgent, False)"
    by code_simp
  from run_some [OF this] that show thesis by auto
qed

lemma joiner_installing:
  obtains s where "reachable_by orderly joiner_world (demo_config ''ants02'') s"
    and "m_state (sMgr s) = StateJoiningAgent" and "outstanding s = [(16, OpInstallAgent ''10.0.0.1'')]"
proof -
  have "map_option (\<lambda>s. (m_state (sMgr s), outstanding s))
      (run_by orderly joiner_world (take 10 join_actions) (Run_start joiner_world (demo_config ''ants02'')))
    = Some (StateJoiningAgent, [(16, OpInstallAgent ''10.0.0.1'')])"
    by code_simp
  from run_some [OF this] that show thesis by auto
qed

subsection \<open>The lifecycle\<close>

text \<open>
  C2: whatever Serf, the clock, the disk, the users and the K3s operations do, and however their
  events interleave, the states a node goes through are a path of the machine of the design
  documents, the state the admin interface shows is the state of the run loop, and no handler
  dereferences a nil persisted state.
\<close>

theorem lifecycle_refines:
  assumes "reachable w conf s" and "named_world w"
  shows "successively (\<lambda>before after. after \<in> set (successors before)) (rev (visited (m_calls (sMgr s))))
    \<and> hd (visited (m_calls (sMgr s))) = m_state (sMgr s)
    \<and> StateC (sMgr s) = state_string (m_state (sMgr s))
    \<and> IoPanic \<notin> set (m_calls (sMgr s))"
  using reachable_wf [OF assms] path_ok_successively path_ok_no_panic
  by (simp add: wf_manager_def StateC_def)

theorem lifecycle_refines_witness:
  "\<exists>s. reachable joiner_world (demo_config ''ants02'') s \<and> m_state (sMgr s) = StateStableAgent
    \<and> successively (\<lambda>before after. after \<in> set (successors before)) (rev (visited (m_calls (sMgr s))))
    \<and> StateC (sMgr s) = ''stable_agent'' \<and> IoPanic \<notin> set (m_calls (sMgr s))"
proof -
  obtain s where s: "reachable_by orderly joiner_world (demo_config ''ants02'') s"
      "m_state (sMgr s) = StateStableAgent"
    using joiner_stable by blast
  from lifecycle_refines [OF reachable_by_mono [OF s(1)] named_joiner] s show ?thesis
    by (intro exI [of _ s]) (simp add: reachable_by_mono)
qed





text \<open>
  C25: the restriction to orderly runs is needed. A joiner whose check of the local K3s is still running
  takes a confirmation of the forget-me protocol (one that an earlier boot of the machine asked for)
  as its own, starts the agent installation, and then takes the answer of the check for the answer
  of the installation: it persists itself as a stable agent while the installation is still running.
\<close>

theorem stale_confirmation_skips_install:
  "\<exists>s i j. reachable joiner_world (demo_config ''ants02'') s \<and> m_state (sMgr s) = StateStableAgent \<and>
    ops (m_calls (sMgr s)) = [(i, OpInstallAgent ''10.0.0.1''), (j, OpEnsureNotInstalled)] \<and>
    outstanding s = [(i, OpInstallAgent ''10.0.0.1'')] \<and> sResults s = [(j, None)]"
proof -
  have "map_option (\<lambda>s. (m_state (sMgr s), outstanding s, ops (m_calls (sMgr s)), sResults s))
      (run joiner_world stale_actions (Run_start joiner_world (demo_config ''ants02'')))
    = Some (StateStableAgent, [(13, OpInstallAgent ''10.0.0.1'')],
        [(13, OpInstallAgent ''10.0.0.1''), (9, OpEnsureNotInstalled)], [(9, None)])"
    by code_simp
  from run_some [OF this] obtain s where s: "reachable joiner_world (demo_config ''ants02'') s"
      "m_state (sMgr s) = StateStableAgent" "outstanding s = [(13, OpInstallAgent ''10.0.0.1'')]"
      "ops (m_calls (sMgr s)) = [(13, OpInstallAgent ''10.0.0.1''), (9, OpEnsureNotInstalled)]"
      "sResults s = [(9, None)]"
    by blast
  then show ?thesis by (intro exI [of _ s] exI [of _ 13] exI [of _ 9]) simp
qed

subsection \<open>Failure and disk\<close>

lemma terminal_suffix:
  "suffix h h' \<Longrightarrow> path_ok h' \<Longrightarrow> is_terminal (current h) \<Longrightarrow> current h' = current h"
proof (induction h' rule: path_ok.induct)
  case (2 s h')
  then show ?case by (auto simp: suffix_Cons terminal_no_successor)
qed (auto simp: suffix_Cons)

lemma terminal_handlers:
  assumes "is_terminal (m_state m)" and "named_world w"
  shows "idle_step m (handleSerfEvent w e m)" and "idle_step m (handleCommand w c m)"
    and "idle_step m (shutdown m)"
proof -
  show "idle_step m (handleSerfEvent w e m)"
    using assms(1) by (intro idle_handleSerfEvent) (auto simp: is_terminal_def)
  show "idle_step m (handleCommand w c m)"
  proof (cases "is_result c")
    case True
    then have "handleCommand w c m = m"
      using assms(1) by (cases c) (auto simp: is_terminal_def onK3sOperationSucceeded_def onK3sOperationFailed_def)
    then show ?thesis by simp
  qed (rule idle_handleCommand [OF assms(2)])
  show "idle_step m (shutdown m)" by (simp add: shutdown_def step_simps)
qed

lemma terminal_perform:
  assumes "wf_manager (sMgr s)" and "named_world w" and "is_terminal (m_state (sMgr s))"
  shows "m_state (sMgr (perform w a s)) = m_state (sMgr s)"
proof -
  have "idle_step (sMgr s) (sMgr (perform w a s))"
    using terminal_handlers [OF assms(3,2)] by (cases a) simp_all
  then have "suffix (m_calls (sMgr s)) (m_calls (sMgr (perform w a s)))"
    by (simp add: idle_step_def keeps_history_def)
  moreover have "wf_manager (sMgr (perform w a s))"
    using wf.inv_perform assms(1,2) by blast
  ultimately show ?thesis
    using terminal_suffix assms(1,3) by (metis wf_manager_def)
qed

text \<open>
  C27: a failed bootstrap, join, rejoin or conversion is final: until antsd restarts, no event, no
  command and no answer makes the node leave the state.
\<close>

theorem failures_are_terminal:
  assumes "reachable w conf s" and "named_world w" and "is_terminal (m_state (sMgr s))"
    and "run w acts s = Some s'"
  shows "m_state (sMgr s') = m_state (sMgr s)"
  using assms
proof (induction acts arbitrary: s)
  case (Cons a acts)
  then have "reachable w conf (perform w a s)" by (auto split: if_splits intro: reachable_by.act)
  moreover have "m_state (sMgr (perform w a s)) = m_state (sMgr s)"
    using Cons.prems reachable_wf terminal_perform by blast
  ultimately show ?case using Cons.IH [of "perform w a s"] Cons.prems by (auto split: if_splits)
qed simp

theorem failures_are_terminal_witness:
  "\<exists>s s'. reachable joiner_world (demo_config ''ants02'') s \<and> m_state (sMgr s) = StateJoiningFailed \<and>
    run joiner_world [Arrive forgotten_event, TakeEvent] s = Some s' \<and>
    m_state (sMgr s') = StateJoiningFailed"
proof -
  have "map_option (\<lambda>s. (m_state (sMgr s), sDown s, sEvents s))
      (run joiner_world failed_join_actions (Run_start joiner_world (demo_config ''ants02'')))
    = Some (StateJoiningFailed, False, [])"
    by code_simp
  from run_some [OF this] obtain s where s: "reachable joiner_world (demo_config ''ants02'') s"
      "m_state (sMgr s) = StateJoiningFailed" "\<not> sDown s" "sEvents s = []" by auto
  then obtain s' where s': "run joiner_world [Arrive forgotten_event, TakeEvent] s = Some s'"
    by (simp add: dispatch_def eventChCap_def)
  from failures_are_terminal [OF s(1) named_joiner _ s'] s s' show ?thesis
    by (auto simp: is_terminal_def intro!: exI [of _ s])
qed



end
